(* ===== verification/Prelude.thy ===== *)
theory Prelude
  imports Main "HOL-Library.Word" "HOL-Library.Finite_Map" "HOL-Library.List_Lexorder"
    "HOL-Library.Char_ord"
begin

text \<open>
  The vocabulary every other theory shares: Go byte slices and strings, Go errors and
  panics as values of a sum type, and the generic lemmas on lists, options, sums, words and
  finite maps the component proofs use.

  A Go \<^verbatim>\<open>string\<close> is a byte sequence, and so is an Isabelle \<^typ>\<open>string\<close> (a list of 8-bit
  characters); a Go \<^verbatim>\<open>[]byte\<close> is a list of \<^typ>\<open>8 word\<close>.  The conversions
  \<^verbatim>\<open>[]byte(s)\<close> and \<^verbatim>\<open>string(b)\<close> are \<open>bytes_of\<close> and \<open>string_of\<close>.
\<close>

type_synonym byte = "8 word"

text \<open>
  What a Go call can fail with.  A returned \<^verbatim>\<open>error\<close> and a panic are both values of
  \<open>go_error\<close>; \<open>is_panic\<close> tells them apart where the code does (a caller that logs an error
  and goes on does not survive a panic).  \<open>LibError\<close> is an error made by a third-party
  package, \<open>Wrap\<close> is \<^verbatim>\<open>fmt.Errorf\<close> with a \<^verbatim>\<open>%w\<close> or \<^verbatim>\<open>%v\<close> verb.
\<close>

datatype go_error =
    Panic string
  | ErrorString string
  | Wrap string "go_error list"
  | LibError string
  | ErrConversion
  | KeySizeError nat
  | SyntaxError
  | UnmarshalTypeError string
  | InvalidByteError
  | CorruptInputError

type_synonym 'a res = "go_error + 'a"

primrec is_panic :: "go_error \<Rightarrow> bool" where
  "is_panic (Panic m) = True"
| "is_panic (ErrorString m) = False"
| "is_panic (Wrap m es) = False"
| "is_panic (LibError m) = False"
| "is_panic ErrConversion = False"
| "is_panic (KeySizeError n) = False"
| "is_panic SyntaxError = False"
| "is_panic (UnmarshalTypeError m) = False"
| "is_panic InvalidByteError = False"
| "is_panic CorruptInputError = False"

named_theorems go_simps \<open>evaluation rules of the modelled Go operations\<close>
named_theorems roundtrip \<open>decode after encode is the identity\<close>
named_theorems ascii \<open>outputs that consist of ASCII characters\<close>

section \<open>Bytes and strings\<close>

definition byte_of_char :: "char \<Rightarrow> byte" where
  "byte_of_char c = word_of_nat (of_char c)"

definition char_of_byte :: "byte \<Rightarrow> char" where
  "char_of_byte b = char_of (unat b)"

definition bytes_of :: "string \<Rightarrow> byte list" where
  "bytes_of s = map byte_of_char s"

definition string_of :: "byte list \<Rightarrow> string" where
  "string_of bs = map char_of_byte bs"

lemma of_char_less: "(of_char c :: nat) < 256"
proof -
  have "(of_char c :: nat) mod 256 < 256" by simp
  then show ?thesis by simp
qed

lemma unat_byte_of_char [simp]: "unat (byte_of_char c) = of_char c"
  using of_char_less [of c] by (simp add: byte_of_char_def unat_of_nat)

lemma char_of_byte_of_char [simp]: "char_of_byte (byte_of_char c) = c"
  by (simp add: char_of_byte_def)

lemma unat_byte_less [simp]: "unat (b :: byte) < 256"
  using unsigned_less [of b, where ?'a = nat] by simp

lemma byte_of_char_of_byte [simp]: "byte_of_char (char_of_byte b) = b"
  by (simp add: char_of_byte_def byte_of_char_def mod_less [OF unat_byte_less])

lemma string_of_bytes_of [simp]: "string_of (bytes_of s) = s"
  by (simp add: string_of_def bytes_of_def o_def)

lemma bytes_of_string_of [simp]: "bytes_of (string_of b) = b"
  by (simp add: string_of_def bytes_of_def o_def)

lemma length_bytes_of [simp]: "length (bytes_of s) = length s"
  by (simp add: bytes_of_def)

lemma length_string_of [simp]: "length (string_of b) = length b"
  by (simp add: string_of_def)

lemma bytes_of_append [simp]: "bytes_of (s @ t) = bytes_of s @ bytes_of t"
  by (simp add: bytes_of_def)

lemma bytes_of_inject [simp]: "bytes_of s = bytes_of t \<longleftrightarrow> s = t"
  by (metis string_of_bytes_of)

text \<open>ASCII text: what hex, base64 and decimal output consists of.\<close>

definition ascii_text :: "string \<Rightarrow> bool" where
  "ascii_text s \<longleftrightarrow> (\<forall>c \<in> set s. (of_char c :: nat) < 128)"

lemma ascii_text_simps [simp]:
  "ascii_text []" "ascii_text (c # s) \<longleftrightarrow> (of_char c :: nat) < 128 \<and> ascii_text s"
  "ascii_text (s @ t) \<longleftrightarrow> ascii_text s \<and> ascii_text t"
  by (auto simp: ascii_text_def)

end
