(* ===== verification/GoStd.thy ===== *)
theory GoStd
  imports Prelude
begin

text \<open>
  The parts of the Go standard library the program calls on numbers and text:
  \<^verbatim>\<open>encoding/hex\<close>, the byte and decimal forms of \<^verbatim>\<open>math/big\<close> integers, and \<^verbatim>\<open>strconv\<close>'s
  decimal output.  Each encoder comes with the round trip of its decoder.
\<close>

section \<open>Digits\<close>

definition digit_char :: "nat \<Rightarrow> char" where
  "digit_char d = char_of (if d < 10 then 48 + d else 87 + d)"

definition digit_val :: "char \<Rightarrow> nat option" where
  "digit_val c =
     (let k = (of_char c :: nat) in
      if 48 \<le> k \<and> k \<le> 57 then Some (k - 48)
      else if 97 \<le> k \<and> k \<le> 122 then Some (k - 87)
      else if 65 \<le> k \<and> k \<le> 90 then Some (k - 55)
      else None)"

lemma of_char_digit_char [simp]:
  "d < 36 \<Longrightarrow> (of_char (digit_char d) :: nat) = (if d < 10 then 48 + d else 87 + d)"
  by (simp add: digit_char_def)

lemma digit_val_digit_char [simp]: "d < 36 \<Longrightarrow> digit_val (digit_char d) = Some d"
  by (auto simp: digit_val_def Let_def)

section \<open>encoding/hex\<close>

fun hex_EncodeToString :: "byte list \<Rightarrow> string" where
  "hex_EncodeToString [] = []"
| "hex_EncodeToString (b # bs) =
     digit_char (unat b div 16) # digit_char (unat b mod 16) # hex_EncodeToString bs"

definition hex_val :: "char \<Rightarrow> nat option" where
  "hex_val c = (case digit_val c of None \<Rightarrow> None | Some d \<Rightarrow> if d < 16 then Some d else None)"

fun hex_DecodeString :: "string \<Rightarrow> byte list res" where
  "hex_DecodeString [] = Inr []"
| "hex_DecodeString [c] =
     (case hex_val c of None \<Rightarrow> Inl InvalidByteError
      | Some _ \<Rightarrow> Inl (ErrorString ''encoding/hex: odd length hex string''))"
| "hex_DecodeString (c # d # s) =
     (case hex_val c of
        None \<Rightarrow> Inl InvalidByteError
      | Some h \<Rightarrow>
          (case hex_val d of
             None \<Rightarrow> Inl InvalidByteError
           | Some l \<Rightarrow>
               (case hex_DecodeString s of
                  Inl e \<Rightarrow> Inl e
                | Inr bs \<Rightarrow> Inr (word_of_nat (16 * h + l) # bs))))"

lemma hex_val_digit_char [simp]: "d < 16 \<Longrightarrow> hex_val (digit_char d) = Some d"
  by (simp add: hex_val_def)

lemma byte_div_mod [simp]: "(word_of_nat (16 * (unat b div 16) + unat b mod 16) :: byte) = b"
  by simp

lemma byte_div16_less [simp]: "unat (b :: byte) div 16 < 16"
  using unat_byte_less [of b] by linarith

lemma hex_decode_encode [roundtrip, simp]: "hex_DecodeString (hex_EncodeToString bs) = Inr bs"
  by (induction bs) (simp_all del: mult_div_mod_eq)

lemma length_hex [simp]: "length (hex_EncodeToString bs) = 2 * length bs"
  by (induction bs) simp_all

lemma hex_inject [simp]: "hex_EncodeToString a = hex_EncodeToString b \<longleftrightarrow> a = b"
  by (metis hex_decode_encode sum.inject(2))

lemma hex_append: "hex_EncodeToString (a @ b) = hex_EncodeToString a @ hex_EncodeToString b"
  by (induction a) simp_all

lemma digit_char_ascii: "d < 16 \<Longrightarrow> (of_char (digit_char d) :: nat) < 128"
  by simp

lemma hex_ascii [ascii, simp]: "ascii_text (hex_EncodeToString bs)"
  by (induction bs) (simp_all add: digit_char_ascii del: of_char_digit_char)

section \<open>math/big\<close>

fun nat_bytes :: "nat \<Rightarrow> byte list" where
  "nat_bytes n = (if n = 0 then [] else nat_bytes (n div 256) @ [word_of_nat (n mod 256)])"

declare nat_bytes.simps [simp del]

definition bytes_nat :: "byte list \<Rightarrow> nat" where
  "bytes_nat bs = foldl (\<lambda>a b. a * 256 + unat b) 0 bs"

definition big_Bytes :: "int \<Rightarrow> byte list" where
  "big_Bytes x = nat_bytes (nat \<bar>x\<bar>)"

definition big_SetBytes :: "byte list \<Rightarrow> int" where
  "big_SetBytes bs = int (bytes_nat bs)"

lemma bytes_nat_snoc [simp]: "bytes_nat (bs @ [b]) = bytes_nat bs * 256 + unat b"
  by (simp add: bytes_nat_def)

lemma bytes_nat_Nil [simp]: "bytes_nat [] = 0"
  by (simp add: bytes_nat_def)

lemma nat_bytes_0 [simp]: "nat_bytes 0 = []"
  by (simp add: nat_bytes.simps)

lemma bytes_nat_nat_bytes [roundtrip, simp]: "bytes_nat (nat_bytes n) = n"
proof (induction n rule: nat_bytes.induct)
  case (1 n)
  then show ?case
    by (cases "n = 0") (simp_all add: nat_bytes.simps [of n] unat_of_nat)
qed

lemma SetBytes_Bytes [roundtrip, simp]: "big_SetBytes (big_Bytes x) = \<bar>x\<bar>"
  by (simp add: big_SetBytes_def big_Bytes_def)

lemma big_SetBytes_nonneg [simp]: "0 \<le> big_SetBytes bs"
  by (simp add: big_SetBytes_def)

lemma horner_step_less: "(n :: nat) < p \<Longrightarrow> b < 256 \<Longrightarrow> n * 256 + b < p * 256"
  by linarith

lemma bytes_nat_less: "bytes_nat bs < 256 ^ length bs"
proof (induction bs rule: rev_induct)
  case (snoc b bs)
  then have "bytes_nat bs * 256 + unat b < 256 ^ length bs * 256"
    using horner_step_less unat_byte_less by blast
  then show ?case by (simp add: mult.commute)
qed simp

fun nat_text :: "nat \<Rightarrow> string" where
  "nat_text n = (if n < 10 then [digit_char n] else nat_text (n div 10) @ [digit_char (n mod 10)])"

declare nat_text.simps [simp del]

definition big_String :: "int \<Rightarrow> string" where
  "big_String x = (if x < 0 then CHR ''-'' # nat_text (nat (- x)) else nat_text (nat x))"

definition scan_digit :: "nat \<Rightarrow> nat option \<Rightarrow> char \<Rightarrow> nat option" where
  "scan_digit base acc c =
     (case acc of None \<Rightarrow> None
      | Some a \<Rightarrow> (case digit_val c of None \<Rightarrow> None
                  | Some d \<Rightarrow> if d < base then Some (a * base + d) else None))"

definition scan_nat :: "nat \<Rightarrow> string \<Rightarrow> nat option" where
  "scan_nat base s = (if s = [] then None else foldl (scan_digit base) (Some 0) s)"

definition big_SetString :: "string \<Rightarrow> nat \<Rightarrow> int option" where
  "big_SetString s base =
     (case s of
        [] \<Rightarrow> None
      | c # t \<Rightarrow>
          (if c = CHR ''-'' then map_option (\<lambda>n. - int n) (scan_nat base t)
           else if c = CHR ''+'' then map_option int (scan_nat base t)
           else map_option int (scan_nat base s)))"

lemma nat_text_nonempty [simp]: "nat_text n \<noteq> []"
  by (subst nat_text.simps) simp

lemma foldl_scan_nat_text: "foldl (scan_digit 10) (Some 0) (nat_text n) = Some n"
proof (induction n rule: nat_text.induct)
  case (1 n)
  then show ?case
    by (cases "n < 10") (simp_all add: nat_text.simps [of n] scan_digit_def)
qed

lemma scan_nat_text [roundtrip, simp]: "scan_nat 10 (nat_text n) = Some n"
  by (simp add: scan_nat_def foldl_scan_nat_text)

lemma nat_text_inject [simp]: "nat_text m = nat_text n \<longleftrightarrow> m = n"
  by (metis scan_nat_text option.inject)

lemma set_nat_text: "set (nat_text n) \<subseteq> digit_char ` {0..<10}"
proof (induction n rule: nat_text.induct)
  case (1 n)
  then show ?case
    by (cases "n < 10") (auto simp: nat_text.simps [of n])
qed

lemma nat_text_ascii [ascii, simp]: "ascii_text (nat_text n)"
  using set_nat_text [of n] by (auto simp: ascii_text_def)

lemma big_String_ascii [ascii, simp]: "ascii_text (big_String x)"
  by (simp add: big_String_def)

lemma nat_text_hd: "hd (nat_text n) \<in> digit_char ` {0..<10}"
  using set_nat_text [of n] hd_in_set [OF nat_text_nonempty [of n]] by blast

lemma digit_char_neq_sign: "d < 10 \<Longrightarrow> digit_char d \<noteq> CHR ''-'' \<and> digit_char d \<noteq> CHR ''+''"
  by (auto dest: arg_cong [where f = "of_char :: char \<Rightarrow> nat"])

lemma SetString_String [roundtrip, simp]: "big_SetString (big_String x) 10 = Some x"
proof (cases "x < 0")
  case True
  then show ?thesis by (simp add: big_String_def big_SetString_def)
next
  case False
  obtain c t where ct: "nat_text (nat x) = c # t"
    by (cases "nat_text (nat x)") auto
  then have "c \<noteq> CHR ''-'' \<and> c \<noteq> CHR ''+''"
    using nat_text_hd [of "nat x"] digit_char_neq_sign by auto
  moreover have "scan_nat 10 (c # t) = Some (nat x)"
    using scan_nat_text [of "nat x"] ct by simp
  ultimately show ?thesis
    using False ct by (simp add: big_String_def big_SetString_def)
qed

lemma big_String_inject [simp]: "big_String x = big_String y \<longleftrightarrow> x = y"
  by (metis SetString_String option.inject)

end
