(* ===== verification/Flags.thy ===== *)
theory Flags
  imports GoStd
begin

text \<open>
  The command line of \<^verbatim>\<open>main.go\<close>: the flags its \<^verbatim>\<open>init\<close> registers, and what \<^verbatim>\<open>flag.Parse\<close> of
  the standard library makes of the arguments, with \<^verbatim>\<open>strconv.ParseInt\<close> and
  \<^verbatim>\<open>strconv.ParseBool\<close> for the values.
\<close>

section \<open>strconv\<close>

text \<open>The digits of a number in a base; underscores are skipped.\<close>

fun parse_digits :: "nat \<Rightarrow> string \<Rightarrow> nat \<Rightarrow> nat option" where
  "parse_digits base [] n = Some n"
| "parse_digits base (c # s) n =
     (if c = CHR ''_'' then parse_digits base s n
      else
        (case digit_val c of
           None \<Rightarrow> None
         | Some d \<Rightarrow> if d < base then parse_digits base s (base * n + d) else None))"

text \<open>\<^verbatim>\<open>underscoreOK\<close>, from the first character after the sign and the base prefix; \<open>saw\<close> is the
  kind of character before: a digit, an underscore, or another.\<close>

datatype saw = SawStart | SawDigit | SawUnderscore | SawOther

fun underscores_ok :: "bool \<Rightarrow> saw \<Rightarrow> string \<Rightarrow> bool" where
  "underscores_ok hex saw [] = (saw \<noteq> SawUnderscore)"
| "underscores_ok hex saw (c # s) =
     (if (case digit_val c of None \<Rightarrow> False | Some d \<Rightarrow> d < (if hex then 16 else 10))
      then underscores_ok hex SawDigit s
      else if c = CHR ''_'' then saw = SawDigit \<and> underscores_ok hex SawUnderscore s
      else saw \<noteq> SawUnderscore \<and> underscores_ok hex SawOther s)"

text \<open>The base a prefix chooses, what follows the prefix, and what underscores may follow.\<close>

definition int_base :: "string \<Rightarrow> nat \<times> string \<times> bool" where
  "int_base s =
     (if 3 \<le> length s \<and> take 2 s \<in> {''0b'', ''0B''} then (2, drop 2 s, underscores_ok False SawDigit (drop 2 s))
      else if 3 \<le> length s \<and> take 2 s \<in> {''0o'', ''0O''} then (8, drop 2 s, underscores_ok False SawDigit (drop 2 s))
      else if 3 \<le> length s \<and> take 2 s \<in> {''0x'', ''0X''} then (16, drop 2 s, underscores_ok True SawDigit (drop 2 s))
      else if take 1 s = ''0'' then (8, drop 1 s, underscores_ok False SawStart s)
      else (10, s, underscores_ok False SawStart s))"

definition ParseInt :: "string \<Rightarrow> int res" where
  "ParseInt s0 =
     (let neg = (case s0 of c # _ \<Rightarrow> c = CHR ''-'' | [] \<Rightarrow> False);
          s = (case s0 of c # t \<Rightarrow> if c \<in> {CHR ''-'', CHR ''+''} then t else s0 | [] \<Rightarrow> []) in
      if s = [] then Inl SyntaxError
      else
        (let (base, t, ok) = int_base s in
         case parse_digits base t 0 of
           None \<Rightarrow> Inl SyntaxError
         | Some n \<Rightarrow>
             if \<not> ok then Inl SyntaxError
             else if neg then (if n \<le> 2 ^ 63 then Inr (- int n) else Inl (ErrorString ''value out of range''))
             else (if n < 2 ^ 63 then Inr (int n) else Inl (ErrorString ''value out of range''))))"

definition ParseBool :: "string \<Rightarrow> bool res" where
  "ParseBool s =
     (if s \<in> set [''1'', ''t'', ''T'', ''true'', ''TRUE'', ''True''] then Inr True
      else if s \<in> set [''0'', ''f'', ''F'', ''false'', ''FALSE'', ''False''] then Inr False
      else Inl SyntaxError)"

section \<open>The flags of main.go\<close>

record flags =
  fl_configFile :: string
  fl_keystoreFile :: string
  fl_password :: string
  fl_port :: int
  fl_selfHost :: bool

text \<open>The kinds of variables \<^verbatim>\<open>init\<close> registers; each carries the assignment to its variable.\<close>

datatype flag_value =
    StringVar "string \<Rightarrow> flags \<Rightarrow> flags"
  | IntVar "int \<Rightarrow> flags \<Rightarrow> flags"
  | BoolVar "bool \<Rightarrow> flags \<Rightarrow> flags"

definition init_formal :: "(string \<times> flag_value) list" where
  "init_formal =
     [(''config'', StringVar (\<lambda>v f. f\<lparr>fl_configFile := v\<rparr>)),
      (''keystore'', StringVar (\<lambda>v f. f\<lparr>fl_keystoreFile := v\<rparr>)),
      (''password'', StringVar (\<lambda>v f. f\<lparr>fl_password := v\<rparr>)),
      (''port'', IntVar (\<lambda>v f. f\<lparr>fl_port := v\<rparr>)),
      (''self-host'', BoolVar (\<lambda>v f. f\<lparr>fl_selfHost := v\<rparr>))]"

definition init_flags :: flags where
  "init_flags = \<lparr>fl_configFile = '''', fl_keystoreFile = '''', fl_password = '''', fl_port = 0, fl_selfHost = False\<rparr>"

section \<open>flag.Parse\<close>

text \<open>\<open>Set\<close> of the value behind a flag.\<close>

definition flag_Set :: "flag_value \<Rightarrow> string \<Rightarrow> flags \<Rightarrow> flags res" where
  "flag_Set fv value f =
     (case fv of
        StringVar put \<Rightarrow> Inr (put value f)
      | IntVar put \<Rightarrow> (case ParseInt value of Inl err \<Rightarrow> Inl err | Inr v \<Rightarrow> Inr (put v f))
      | BoolVar put \<Rightarrow> (case ParseBool value of Inl err \<Rightarrow> Inl err | Inr v \<Rightarrow> Inr (put v f)))"

text \<open>The name of an argument after its dashes, and the value behind an equals sign.\<close>

definition split_arg :: "string \<Rightarrow> string \<times> string option" where
  "split_arg name =
     (let key = hd name # takeWhile (\<lambda>c. c \<noteq> CHR ''='') (tl name) in
      (key, if length key < length name then Some (drop (Suc (length key)) name) else None))"

text \<open>One argument: the flags are at their end (\<open>None\<close>), or it is read, together with the
  argument after it if it needs a value.  The error of a help request is \<^verbatim>\<open>flag.ErrHelp\<close>.\<close>

definition parse_one :: "(string \<times> flag_value) list \<Rightarrow> string \<Rightarrow> string list \<Rightarrow> flags \<Rightarrow> (flags \<times> string list) option res" where
  "parse_one formal s args f =
     (if length s < 2 \<or> hd s \<noteq> CHR ''-'' \<or> s = ''--'' then Inr None
      else
        (let name = (if s ! 1 = CHR ''-'' then drop 2 s else drop 1 s) in
         if name = [] \<or> hd name \<in> {CHR ''-'', CHR ''=''} then Inl (ErrorString ''bad flag syntax'')
         else
           (case split_arg name of (key, value) \<Rightarrow>
              (case map_of formal key of
                 None \<Rightarrow>
                   if key \<in> {''help'', ''h''} then Inl (ErrorString ''flag: help requested'')
                   else Inl (ErrorString ''flag provided but not defined'')
               | Some (BoolVar put) \<Rightarrow>
                   (case flag_Set (BoolVar put) (case value of None \<Rightarrow> ''true'' | Some v \<Rightarrow> v) f of
                      Inl err \<Rightarrow> Inl (Wrap ''invalid boolean value'' [err])
                    | Inr f' \<Rightarrow> Inr (Some (f', args)))
               | Some fv \<Rightarrow>
                   (case (value, args) of
                      (None, []) \<Rightarrow> Inl (ErrorString ''flag needs an argument'')
                    | (None, v # rest) \<Rightarrow>
                        (case flag_Set fv v f of
                           Inl err \<Rightarrow> Inl (Wrap ''invalid value'' [err])
                         | Inr f' \<Rightarrow> Inr (Some (f', rest)))
                    | (Some v, _) \<Rightarrow>
                        (case flag_Set fv v f of
                           Inl err \<Rightarrow> Inl (Wrap ''invalid value'' [err])
                         | Inr f' \<Rightarrow> Inr (Some (f', args))))))))"

lemma parse_one_shorter:
  "parse_one formal s args f = Inr (Some (f', rest)) \<Longrightarrow> length rest \<le> length args"
  by (auto simp: parse_one_def Let_def split: if_splits sum.splits option.splits flag_value.splits list.splits prod.splits)

function flag_Parse :: "(string \<times> flag_value) list \<Rightarrow> string list \<Rightarrow> flags \<Rightarrow> flags res" where
  "flag_Parse formal [] f = Inr f"
| "flag_Parse formal (s # args) f =
     (case parse_one formal s args f of
        Inl err \<Rightarrow> Inl err
      | Inr None \<Rightarrow> Inr f
      | Inr (Some (f', rest)) \<Rightarrow> flag_Parse formal rest f')"
  by pat_completeness auto
termination
  by (relation "measure (\<lambda>(_, args, _). length args)") (auto dest: parse_one_shorter)

section \<open>Decimal values\<close>

text \<open>A number \<^verbatim>\<open>strconv.Itoa\<close> prints is read back: it has no leading zero and no underscore.\<close>

lemma parse_digits_append:
  "parse_digits base (s @ t) n = (case parse_digits base s n of None \<Rightarrow> None | Some m \<Rightarrow> parse_digits base t m)"
  by (induction s arbitrary: n) (auto split: option.splits)

lemma digit_char_neq:
  assumes "d < 10"
  shows "digit_char d \<noteq> CHR ''_''" and "digit_char d \<noteq> CHR ''-''" and "digit_char d \<noteq> CHR ''+''"
    and "digit_char d = CHR ''0'' \<longleftrightarrow> d = 0"
  using assms by (simp_all add: of_char_eq_iff [where ?'a = nat, symmetric])

lemma parse_digits_nat_text: "parse_digits 10 (nat_text n) 0 = Some n"
proof (induction n rule: nat_text.induct)
  case (1 n)
  show ?case
    by (cases "n < 10") (simp_all add: nat_text.simps [of n] parse_digits_append 1 digit_char_neq)
qed

lemma underscores_ok_digits:
  "set s \<subseteq> digit_char ` {0..<10} \<Longrightarrow> saw \<noteq> SawUnderscore \<Longrightarrow> underscores_ok False saw s"
  by (induction s arbitrary: saw) (auto simp: digit_char_neq)

lemma hd_nat_text: "0 < n \<Longrightarrow> hd (nat_text n) \<noteq> CHR ''0''"
proof (induction n rule: nat_text.induct)
  case (1 n)
  then show ?case
    by (cases "n < 10") (auto simp: nat_text.simps [of n] digit_char_neq)
qed

lemma int_base_nat_text:
  assumes "0 < n"
  shows "int_base (nat_text n) = (10, nat_text n, True)"
proof -
  obtain c t where ct: "nat_text n = c # t" by (cases "nat_text n") auto
  have "c \<noteq> CHR ''0''" using hd_nat_text [OF assms] ct by simp
  moreover have "underscores_ok False SawStart (nat_text n)"
    by (rule underscores_ok_digits [OF set_nat_text]) simp
  ultimately show ?thesis by (simp add: int_base_def ct del: underscores_ok.simps)
qed

text \<open>The port a flag is given is the port the program gets, for every 64-bit number.\<close>

lemma ParseInt_String [roundtrip]:
  assumes "- (2 ^ 63) \<le> x" and "x < 2 ^ 63"
  shows "ParseInt (big_String x) = Inr x"
proof (cases "x = 0")
  case True
  then show ?thesis by (simp add: ParseInt_def big_String_def nat_text.simps int_base_def digit_char_neq)
next
  case False
  define n where "n = nat \<bar>x\<bar>"
  obtain c t where ct: "nat_text n = c # t" by (cases "nat_text n") auto
  have "c \<in> digit_char ` {0..<10}" using nat_text_hd [of n] ct by simp
  then have c: "c \<noteq> CHR ''-''" "c \<noteq> CHR ''+''" by (auto simp: digit_char_neq)
  have base: "int_base (c # t) = (10, c # t, True)" and digits: "parse_digits 10 (c # t) 0 = Some n"
    using int_base_nat_text [of n] parse_digits_nat_text [of n] False ct by (simp_all add: n_def)
  have x: "x < 0 \<Longrightarrow> - int n = x" "\<not> x < 0 \<Longrightarrow> int n = x" and
    printed: "big_String x = (if x < 0 then CHR ''-'' # c # t else c # t)"
    using ct by (auto simp: n_def big_String_def)
  have bound: "x < 0 \<Longrightarrow> n \<le> 2 ^ 63" "\<not> x < 0 \<Longrightarrow> n < 2 ^ 63" using assms by (simp_all add: n_def)
  show ?thesis
    using base digits c bound x by (simp add: printed ParseInt_def del: parse_digits.simps)
qed

section \<open>The command lines of the README\<close>

lemma split_arg_whole:
  assumes "name \<noteq> []" and "CHR ''='' \<notin> set name"
  shows "split_arg name = (name, None)" and "hd name \<noteq> CHR ''=''"
proof -
  obtain c t where name: "name = c # t" using assms(1) by (cases name) auto
  have "takeWhile (\<lambda>c. c \<noteq> CHR ''='') t = t"
    unfolding takeWhile_eq_all_conv using name assms(2) by auto
  with name show "split_arg name = (name, None)" by (simp add: split_arg_def del: takeWhile_eq_all_conv)
  from name assms(2) show "hd name \<noteq> CHR ''=''" by auto
qed

lemma flag_Parse_string:
  assumes "map_of formal name = Some (StringVar put)" and "name \<noteq> []" and "CHR ''='' \<notin> set name" and "hd name \<noteq> CHR ''-''"
  shows "flag_Parse formal ((''--'' @ name) # v # args) f = flag_Parse formal args (put v f)"
proof -
  note split_arg_whole [OF assms(2,3)]
  then show ?thesis
    using assms by (simp add: parse_one_def Let_def flag_Set_def)
qed

lemma flag_Parse_int:
  assumes "map_of formal name = Some (IntVar put)" and "name \<noteq> []" and "CHR ''='' \<notin> set name" and "hd name \<noteq> CHR ''-''"
    and "ParseInt v = Inr n"
  shows "flag_Parse formal ((''--'' @ name) # v # args) f = flag_Parse formal args (put n f)"
proof -
  note split_arg_whole [OF assms(2,3)]
  then show ?thesis
    using assms by (simp add: parse_one_def Let_def flag_Set_def)
qed

lemma flag_Parse_readme:
  assumes "- (2 ^ 63) \<le> n" and "n < 2 ^ 63"
  shows "flag_Parse init_formal [''--config'', c, ''--keystore'', k, ''--password'', p, ''--port'', big_String n] init_flags =
    Inr \<lparr>fl_configFile = c, fl_keystoreFile = k, fl_password = p, fl_port = n, fl_selfHost = False\<rparr>"
  using flag_Parse_string [of init_formal "''config''"] flag_Parse_string [of init_formal "''keystore''"]
    flag_Parse_string [of init_formal "''password''"] flag_Parse_int [of init_formal "''port''", OF _ _ _ _ ParseInt_String [OF assms]]
  by (simp add: init_formal_def init_flags_def)

end
