(* ===== verification/Aes.thy ===== *)
theory Aes
  imports GoStd
begin

unbundle bit_operations_syntax

text \<open>
  The block cipher behind \<^verbatim>\<open>crypto/aes\<close> (FIPS 197), in the encryption direction, which is
  the only one cipher feedback mode runs: \<open>aes_encrypt key block\<close> is one call of the
  cipher's \<^verbatim>\<open>Encrypt\<close> on a 16-byte block.  State and round keys are byte lists in the
  order of the standard (column by column).
\<close>

fun xor_bytes :: "byte list \<Rightarrow> byte list \<Rightarrow> byte list" where
  "xor_bytes (a # as) (b # bs) = (a XOR b) # xor_bytes as bs"
| "xor_bytes _ _ = []"

definition xtime :: "byte \<Rightarrow> byte" where
  "xtime b = (if bit b 7 then push_bit 1 b XOR 0x1b else push_bit 1 b)"

definition aes_sbox :: "byte list" where
  "aes_sbox = [
    0x63, 0x7c, 0x77, 0x7b, 0xf2, 0x6b, 0x6f, 0xc5, 0x30, 0x01, 0x67, 0x2b, 0xfe, 0xd7, 0xab, 0x76,
    0xca, 0x82, 0xc9, 0x7d, 0xfa, 0x59, 0x47, 0xf0, 0xad, 0xd4, 0xa2, 0xaf, 0x9c, 0xa4, 0x72, 0xc0,
    0xb7, 0xfd, 0x93, 0x26, 0x36, 0x3f, 0xf7, 0xcc, 0x34, 0xa5, 0xe5, 0xf1, 0x71, 0xd8, 0x31, 0x15,
    0x04, 0xc7, 0x23, 0xc3, 0x18, 0x96, 0x05, 0x9a, 0x07, 0x12, 0x80, 0xe2, 0xeb, 0x27, 0xb2, 0x75,
    0x09, 0x83, 0x2c, 0x1a, 0x1b, 0x6e, 0x5a, 0xa0, 0x52, 0x3b, 0xd6, 0xb3, 0x29, 0xe3, 0x2f, 0x84,
    0x53, 0xd1, 0x00, 0xed, 0x20, 0xfc, 0xb1, 0x5b, 0x6a, 0xcb, 0xbe, 0x39, 0x4a, 0x4c, 0x58, 0xcf,
    0xd0, 0xef, 0xaa, 0xfb, 0x43, 0x4d, 0x33, 0x85, 0x45, 0xf9, 0x02, 0x7f, 0x50, 0x3c, 0x9f, 0xa8,
    0x51, 0xa3, 0x40, 0x8f, 0x92, 0x9d, 0x38, 0xf5, 0xbc, 0xb6, 0xda, 0x21, 0x10, 0xff, 0xf3, 0xd2,
    0xcd, 0x0c, 0x13, 0xec, 0x5f, 0x97, 0x44, 0x17, 0xc4, 0xa7, 0x7e, 0x3d, 0x64, 0x5d, 0x19, 0x73,
    0x60, 0x81, 0x4f, 0xdc, 0x22, 0x2a, 0x90, 0x88, 0x46, 0xee, 0xb8, 0x14, 0xde, 0x5e, 0x0b, 0xdb,
    0xe0, 0x32, 0x3a, 0x0a, 0x49, 0x06, 0x24, 0x5c, 0xc2, 0xd3, 0xac, 0x62, 0x91, 0x95, 0xe4, 0x79,
    0xe7, 0xc8, 0x37, 0x6d, 0x8d, 0xd5, 0x4e, 0xa9, 0x6c, 0x56, 0xf4, 0xea, 0x65, 0x7a, 0xae, 0x08,
    0xba, 0x78, 0x25, 0x2e, 0x1c, 0xa6, 0xb4, 0xc6, 0xe8, 0xdd, 0x74, 0x1f, 0x4b, 0xbd, 0x8b, 0x8a,
    0x70, 0x3e, 0xb5, 0x66, 0x48, 0x03, 0xf6, 0x0e, 0x61, 0x35, 0x57, 0xb9, 0x86, 0xc1, 0x1d, 0x9e,
    0xe1, 0xf8, 0x98, 0x11, 0x69, 0xd9, 0x8e, 0x94, 0x9b, 0x1e, 0x87, 0xe9, 0xce, 0x55, 0x28, 0xdf,
    0x8c, 0xa1, 0x89, 0x0d, 0xbf, 0xe6, 0x42, 0x68, 0x41, 0x99, 0x2d, 0x0f, 0xb0, 0x54, 0xbb, 0x16]"

definition sub_byte :: "byte \<Rightarrow> byte" where
  "sub_byte b = aes_sbox ! unat b"

fun shift_rows :: "byte list \<Rightarrow> byte list" where
  "shift_rows [s0, s1, s2, s3, s4, s5, s6, s7, s8, s9, s10, s11, s12, s13, s14, s15] =
     [s0, s5, s10, s15, s4, s9, s14, s3, s8, s13, s2, s7, s12, s1, s6, s11]"
| "shift_rows s = s"

fun mix_columns :: "byte list \<Rightarrow> byte list" where
  "mix_columns (a # b # c # d # s) =
     (xtime a XOR xtime b XOR b XOR c XOR d) #
     (a XOR xtime b XOR xtime c XOR c XOR d) #
     (a XOR b XOR xtime c XOR xtime d XOR d) #
     (xtime a XOR a XOR b XOR c XOR xtime d) # mix_columns s"
| "mix_columns s = []"

definition rot_word :: "byte list \<Rightarrow> byte list" where
  "rot_word w = rotate1 w"

primrec rcon :: "nat \<Rightarrow> byte" where
  "rcon 0 = 1"
| "rcon (Suc i) = xtime (rcon i)"

text \<open>Key expansion: \<open>ws\<close> holds the 4-byte words made so far, newest first; \<open>i\<close> is the
  index of the next word and \<open>nk\<close> the number of words of the key.\<close>

definition next_word :: "nat \<Rightarrow> nat \<Rightarrow> byte list list \<Rightarrow> byte list" where
  "next_word nk i ws =
     (let t = hd ws;
          t' = (if i mod nk = 0
                then xor_bytes (map sub_byte (rot_word t)) [rcon (i div nk - 1), 0, 0, 0]
                else if 6 < nk \<and> i mod nk = 4 then map sub_byte t
                else t)
      in xor_bytes (ws ! (nk - 1)) t')"

primrec expand_words :: "nat \<Rightarrow> nat \<Rightarrow> nat \<Rightarrow> byte list list \<Rightarrow> byte list list" where
  "expand_words 0 nk i ws = ws"
| "expand_words (Suc n) nk i ws = expand_words n nk (Suc i) (next_word nk i ws # ws)"

fun chunks4 :: "byte list \<Rightarrow> byte list list" where
  "chunks4 (a # b # c # d # s) = [a, b, c, d] # chunks4 s"
| "chunks4 s = []"

definition rounds :: "byte list \<Rightarrow> nat" where
  "rounds key = length key div 4 + 6"

definition key_words :: "byte list \<Rightarrow> byte list list" where
  "key_words key =
     (let nk = length key div 4
      in rev (expand_words (4 * (rounds key + 1) - nk) nk nk (rev (chunks4 key))))"

definition round_key :: "byte list list \<Rightarrow> nat \<Rightarrow> byte list" where
  "round_key ws r = concat (take 4 (drop (4 * r) ws))"

fun middle_rounds :: "byte list list \<Rightarrow> nat \<Rightarrow> nat \<Rightarrow> byte list \<Rightarrow> byte list" where
  "middle_rounds ws 0 r s = s"
| "middle_rounds ws (Suc n) r s =
     middle_rounds ws n (Suc r)
       (xor_bytes (mix_columns (shift_rows (map sub_byte s))) (round_key ws r))"

definition aes_encrypt :: "byte list \<Rightarrow> byte list \<Rightarrow> byte list" where
  "aes_encrypt key blk =
     (let ws = key_words key; nr = rounds key;
          s = middle_rounds ws (nr - 1) 1 (xor_bytes blk (round_key ws 0))
      in xor_bytes (shift_rows (map sub_byte s)) (round_key ws nr))"

lemma length_xor_bytes [simp]: "length (xor_bytes a b) = min (length a) (length b)"
  by (induction a b rule: xor_bytes.induct) simp_all

lemma length_shift_rows [simp]: "length (shift_rows s) = length s"
  by (cases s rule: shift_rows.cases) simp_all

lemma length_mix_columns: "length (mix_columns s) = 4 * (length s div 4)"
  by (induction s rule: mix_columns.induct) simp_all

lemma length_chunks4: "length (chunks4 s) = length s div 4"
  by (induction s rule: chunks4.induct) simp_all

lemma chunks4_width: "w \<in> set (chunks4 s) \<Longrightarrow> length w = 4"
  by (induction s rule: chunks4.induct) auto

lemma length_expand_words [simp]: "length (expand_words n nk i ws) = n + length ws"
  by (induction n arbitrary: i ws) simp_all

lemma length_next_word:
  assumes "\<forall>w \<in> set ws. length w = 4" and "0 < nk" and "nk \<le> length ws"
  shows "length (next_word nk i ws) = 4"
proof -
  have "ws \<noteq> []" using assms(2,3) by auto
  then have "hd ws \<in> set ws" by simp
  moreover have "ws ! (nk - 1) \<in> set ws" by (rule nth_mem) (use assms(2,3) in linarith)
  ultimately have "length (hd ws) = 4" and "length (ws ! (nk - 1)) = 4" using assms(1) by blast+
  then show ?thesis by (simp add: next_word_def Let_def rot_word_def)
qed

lemma expand_words_width:
  assumes "\<forall>w \<in> set ws. length w = 4" and "0 < nk" and "nk \<le> length ws"
  shows "\<forall>w \<in> set (expand_words n nk i ws). length w = 4"
  using assms
proof (induction n arbitrary: i ws)
  case (Suc n)
  from Suc.prems have "\<forall>w \<in> set (next_word nk i ws # ws). length w = 4"
    by (simp add: length_next_word)
  moreover have "nk \<le> length (next_word nk i ws # ws)" using Suc.prems(3) by simp
  ultimately have "\<forall>w \<in> set (expand_words n nk (Suc i) (next_word nk i ws # ws)). length w = 4"
    using Suc.prems(2) Suc.IH by blast
  then show ?case by simp
qed simp

definition aes_key :: "byte list \<Rightarrow> bool" where
  "aes_key key \<longleftrightarrow> length key \<in> {16, 24, 32}"

lemma aes_key_nk: "aes_key key \<Longrightarrow> 4 \<le> length key div 4"
  by (auto simp: aes_key_def)

lemma key_words_width:
  assumes "aes_key key"
  shows "\<forall>w \<in> set (key_words key). length w = 4"
proof -
  have "\<forall>w \<in> set (rev (chunks4 key)). length w = 4" by (simp add: chunks4_width)
  then have "\<forall>w \<in> set (expand_words n (length key div 4) i (rev (chunks4 key))). length w = 4" for n i
    using aes_key_nk [OF assms] by (intro expand_words_width) (simp_all add: length_chunks4)
  then show ?thesis unfolding key_words_def Let_def set_rev .
qed

lemma length_key_words: "length (key_words key) = 4 * (rounds key + 1)"
proof -
  have "length key div 4 \<le> 4 * (rounds key + 1)" by (simp add: rounds_def)
  then show ?thesis by (simp add: key_words_def Let_def length_chunks4)
qed

lemma length_concat_width: "\<forall>w \<in> set ws. length w = 4 \<Longrightarrow> length (concat ws) = 4 * length ws"
  by (induction ws) simp_all

lemma length_round_key:
  assumes "aes_key key" and "r \<le> rounds key"
  shows "length (round_key (key_words key) r) = 16"
proof -
  let ?ws = "take 4 (drop (4 * r) (key_words key))"
  have "\<forall>w \<in> set ?ws. length w = 4"
    using key_words_width [OF assms(1)] by (meson in_set_dropD in_set_takeD)
  then have "length (concat ?ws) = 4 * length ?ws" by (rule length_concat_width)
  moreover have "length ?ws = 4"
    using assms(2) by (simp add: length_key_words)
  ultimately show ?thesis by (simp add: round_key_def)
qed

lemma length_middle_rounds:
  assumes "aes_key key" and "length s = 16" and "n + r \<le> rounds key + 1"
  shows "length (middle_rounds (key_words key) n r s) = 16"
  using assms(2,3)
  by (induction n arbitrary: r s) (simp_all add: length_mix_columns length_round_key [OF assms(1)])

lemma length_aes_encrypt:
  assumes "aes_key key" and "length blk = 16"
  shows "length (aes_encrypt key blk) = 16"
proof -
  have "1 \<le> rounds key" by (simp add: rounds_def)
  with assms show ?thesis
    by (simp add: aes_encrypt_def Let_def length_middle_rounds length_round_key)
qed

end
