(* ===== verification/Encrypto.thy ===== *)
theory Encrypto
  imports Aes
begin

unbundle bit_operations_syntax

text \<open>
  \<^verbatim>\<open>utils/encrypto.go\<close>: AES in cipher feedback mode around \<^verbatim>\<open>encoding/base64\<close>, the
  encryption the store applies to key shares.  The mode is verified for every block cipher
  (the locale \<open>block_cipher\<close>) and AES is an interpretation of it.
\<close>

section \<open>encoding/base64, the standard alphabet with padding\<close>

definition b64_char :: "nat \<Rightarrow> char" where
  "b64_char n =
     char_of (if n < 26 then 65 + n else if n < 52 then 71 + n else if n < 62 then n - 4
              else if n = 62 then 43 else 47)"

definition b64_val :: "char \<Rightarrow> nat option" where
  "b64_val c =
     (let k = (of_char c :: nat) in
      if 65 \<le> k \<and> k \<le> 90 then Some (k - 65)
      else if 97 \<le> k \<and> k \<le> 122 then Some (k - 71)
      else if 48 \<le> k \<and> k \<le> 57 then Some (k + 4)
      else if k = 43 then Some 62
      else if k = 47 then Some 63
      else None)"

fun b64_encode :: "byte list \<Rightarrow> string" where
  "b64_encode [] = []"
| "b64_encode [a] =
     [b64_char (unat a div 4), b64_char (unat a mod 4 * 16), CHR ''='', CHR ''='']"
| "b64_encode [a, b] =
     [b64_char (unat a div 4), b64_char (unat a mod 4 * 16 + unat b div 16),
      b64_char (unat b mod 16 * 4), CHR ''='']"
| "b64_encode (a # b # c # s) =
     b64_char (unat a div 4) # b64_char (unat a mod 4 * 16 + unat b div 16) #
     b64_char (unat b mod 16 * 4 + unat c div 64) # b64_char (unat c mod 64) # b64_encode s"

fun b64_quads :: "string \<Rightarrow> byte list res" where
  "b64_quads [] = Inr []"
| "b64_quads (w # x # y # z # s) =
     (case (b64_val w, b64_val x) of
        (Some p, Some q) \<Rightarrow>
          (if y = CHR ''='' then
             (if z = CHR ''='' \<and> s = [] then Inr [word_of_nat (p * 4 + q div 16)]
              else Inl CorruptInputError)
           else
             (case b64_val y of
                None \<Rightarrow> Inl CorruptInputError
              | Some r \<Rightarrow>
                  (if z = CHR ''='' then
                     (if s = [] then Inr [word_of_nat (p * 4 + q div 16), word_of_nat (q mod 16 * 16 + r div 4)]
                      else Inl CorruptInputError)
                   else
                     (case b64_val z of
                        None \<Rightarrow> Inl CorruptInputError
                      | Some t \<Rightarrow>
                          (case b64_quads s of
                             Inl e \<Rightarrow> Inl e
                           | Inr bs \<Rightarrow>
                               Inr (word_of_nat (p * 4 + q div 16) # word_of_nat (q mod 16 * 16 + r div 4) #
                                    word_of_nat (r mod 4 * 64 + t) # bs))))))
      | _ \<Rightarrow> Inl CorruptInputError)"
| "b64_quads _ = Inl CorruptInputError"

text \<open>The decoder skips carriage returns and line feeds wherever they stand.\<close>

definition b64_decode :: "string \<Rightarrow> byte list res" where
  "b64_decode s = b64_quads (filter (\<lambda>c. c \<noteq> CHR 10 \<and> c \<noteq> CHR 13) s)"

lemma of_char_b64_char [simp]:
  "n < 64 \<Longrightarrow> (of_char (b64_char n) :: nat) =
     (if n < 26 then 65 + n else if n < 52 then 71 + n else if n < 62 then n - 4
      else if n = 62 then 43 else 47)"
  by (simp add: b64_char_def)

lemma b64_val_char [simp]: "n < 64 \<Longrightarrow> b64_val (b64_char n) = Some n"
  by (auto simp: b64_val_def Let_def)

lemma b64_char_neq:
  "n < 64 \<Longrightarrow> b64_char n \<noteq> CHR ''='' \<and> b64_char n \<noteq> CHR 10 \<and> b64_char n \<noteq> CHR 13"
  by (auto dest!: arg_cong [where f = "of_char :: char \<Rightarrow> nat"] split: if_splits)

lemma byte_bounds [simp]:
  "unat (a :: byte) div 4 < 64" "unat (a :: byte) div 16 < 16" "unat (a :: byte) div 64 < 4"
  using unat_byte_less [of a] by linarith+

lemma sextet_bounds [simp]:
  "unat (a :: byte) mod 4 * 16 + unat (b :: byte) div 16 < 64"
  "unat (b :: byte) mod 16 * 4 + unat (c :: byte) div 64 < 64"
  "unat (a :: byte) mod 4 * 16 < 64" "unat (b :: byte) mod 16 * 4 < 64"
proof -
  have "unat a mod 4 < 4" "unat b div 16 < 16" "unat b mod 16 < 16" "unat c div 64 < 4"
    by simp_all
  then show "unat a mod 4 * 16 + unat b div 16 < 64" "unat b mod 16 * 4 + unat c div 64 < 64"
    "unat a mod 4 * 16 < 64" "unat b mod 16 * 4 < 64"
    by linarith+
qed

lemma sextets_byte:
  "(word_of_nat (unat a div 4 * 4 + (unat a mod 4 * 16 + x) div 16) :: byte) = a" if "x < 16"
proof -
  have "(unat a mod 4 * 16 + x) div 16 = unat a mod 4" using that by simp
  then have "unat a div 4 * 4 + (unat a mod 4 * 16 + x) div 16 = unat a" by simp
  then show ?thesis by simp
qed

lemma sextets_byte2:
  "(word_of_nat ((m * 16 + unat b div 16) mod 16 * 16 + (unat b mod 16 * 4 + x) div 4) :: byte) = b"
  if "x < 4"
proof -
  have "(unat b mod 16 * 4 + x) div 4 = unat b mod 16" "(m * 16 + unat b div 16) mod 16 = unat b div 16"
    using that byte_bounds(2) [of b] by simp_all
  then have "(m * 16 + unat b div 16) mod 16 * 16 + (unat b mod 16 * 4 + x) div 4 = unat b" by simp
  then show ?thesis by simp
qed

lemma sextets_byte3:
  "(word_of_nat ((m * 4 + unat c div 64) mod 4 * 64 + unat c mod 64) :: byte) = c"
proof -
  have "(m * 4 + unat c div 64) mod 4 = unat c div 64"
    using byte_bounds(3) [of c] by simp
  then have "(m * 4 + unat c div 64) mod 4 * 64 + unat c mod 64 = unat c" by simp
  then show ?thesis by simp
qed

lemma b64_quads_encode: "b64_quads (b64_encode bs) = Inr bs"
proof (induction bs rule: b64_encode.induct)
  case (2 a)
  show ?case using sextets_byte [of 0 a] by (simp add: b64_char_neq)
next
  case (3 a b)
  show ?case using sextets_byte [of "unat b div 16" a] sextets_byte2 [of 0 "unat a mod 4" b]
    by (simp add: b64_char_neq)
next
  case (4 a b c s)
  then show ?case
    using sextets_byte [of "unat b div 16" a] sextets_byte2 [of "unat c div 64" "unat a mod 4" b]
      sextets_byte3 [of "unat b mod 16" c]
    by (simp add: b64_char_neq)
qed simp

lemma b64_encode_no_newline: "filter (\<lambda>c. c \<noteq> CHR 10 \<and> c \<noteq> CHR 13) (b64_encode bs) = b64_encode bs"
  by (induction bs rule: b64_encode.induct) (simp_all add: b64_char_neq)

lemma b64_decode_encode [roundtrip, simp]: "b64_decode (b64_encode bs) = Inr bs"
  by (simp add: b64_decode_def b64_encode_no_newline b64_quads_encode)

lemma b64_char_ascii: "n < 64 \<Longrightarrow> (of_char (b64_char n) :: nat) < 128"
  by (simp, linarith)

lemma b64_encode_ascii [ascii, simp]: "ascii_text (b64_encode bs)"
  by (induction bs rule: b64_encode.induct) (simp_all add: b64_char_ascii del: of_char_b64_char)

section \<open>crypto/cipher: cipher feedback mode\<close>

text \<open>
  One \<^verbatim>\<open>XORKeyStream\<close> call on a fresh stream.  \<open>E\<close> is the block cipher's \<^verbatim>\<open>Encrypt\<close>,
  \<open>nxt\<close> the feedback register \<^verbatim>\<open>x.next\<close>: the initialisation vector first, then the last
  ciphertext block.  Each turn of the loop consumes one block (the last may be shorter).
\<close>

function cfb_encrypt :: "(byte list \<Rightarrow> byte list) \<Rightarrow> byte list \<Rightarrow> byte list \<Rightarrow> byte list" where
  "cfb_encrypt E nxt src =
     (if src = [] then []
      else let dst = xor_bytes (take 16 src) (E nxt)
           in dst @ cfb_encrypt E dst (drop 16 src))"
  by pat_completeness auto
termination
  by (relation "measure (\<lambda>(E, nxt, src). length src)") auto

function cfb_decrypt :: "(byte list \<Rightarrow> byte list) \<Rightarrow> byte list \<Rightarrow> byte list \<Rightarrow> byte list" where
  "cfb_decrypt E nxt src =
     (if src = [] then []
      else xor_bytes (take 16 src) (E nxt) @ cfb_decrypt E (take 16 src) (drop 16 src))"
  by pat_completeness auto
termination
  by (relation "measure (\<lambda>(E, nxt, src). length src)") auto

declare cfb_encrypt.simps [simp del] cfb_decrypt.simps [simp del]

lemma cfb_Nil [simp]: "cfb_encrypt E nxt [] = []" "cfb_decrypt E nxt [] = []"
  by (simp_all add: cfb_encrypt.simps cfb_decrypt.simps)

lemma cfb_decrypt_block:
  assumes "length d = 16"
  shows "cfb_decrypt E nxt (d @ r) = xor_bytes d (E nxt) @ cfb_decrypt E d r"
proof -
  have "d \<noteq> []" using assms by auto
  then show ?thesis using assms by (simp add: cfb_decrypt.simps [of _ nxt "d @ r"])
qed

lemma cfb_decrypt_short: "length d \<le> 16 \<Longrightarrow> cfb_decrypt E nxt d = xor_bytes d (E nxt)"
  by (cases "d = []") (simp_all add: cfb_decrypt.simps [of _ nxt d])

lemma xor_bytes_cancel: "length a \<le> length b \<Longrightarrow> xor_bytes (xor_bytes a b) b = a"
  by (induction a b rule: xor_bytes.induct) (simp_all add: xor.assoc)

text \<open>What the mode needs of the cipher it runs: it maps 16-byte blocks to 16-byte blocks
  under every key it accepts.\<close>

locale block_cipher =
  fixes blk :: "byte list \<Rightarrow> byte list \<Rightarrow> byte list"
    and good_key :: "byte list \<Rightarrow> bool"
  assumes length_blk: "good_key k \<Longrightarrow> length b = 16 \<Longrightarrow> length (blk k b) = 16"
begin

lemma cfb_step:
  assumes "good_key k" and "length nxt = 16" and "src \<noteq> []"
  shows "cfb_encrypt (blk k) nxt src =
      xor_bytes (take 16 src) (blk k nxt) @
      cfb_encrypt (blk k) (xor_bytes (take 16 src) (blk k nxt)) (drop 16 src)"
    and "length (xor_bytes (take 16 src) (blk k nxt)) = min 16 (length src)"
  using assms length_blk [OF assms(1,2)] by (simp_all add: cfb_encrypt.simps [of _ _ src] Let_def)

lemma length_cfb_encrypt:
  assumes "good_key k" and "length nxt = 16"
  shows "length (cfb_encrypt (blk k) nxt src) = length src"
  using assms(2)
proof (induction "length src" arbitrary: nxt src rule: less_induct)
  case less
  show ?case
  proof (cases "length src \<le> 16")
    case True
    then show ?thesis
      using cfb_step [OF assms(1) less.prems, of src] by (cases "src = []") simp_all
  next
    case False
    let ?dst = "xor_bytes (take 16 src) (blk k nxt)"
    have ne: "src \<noteq> []" using False by auto
    have dst: "length ?dst = 16" using cfb_step(2) [OF assms(1) less.prems ne] False by simp
    have "length (cfb_encrypt (blk k) ?dst (drop 16 src)) = length (drop 16 src)"
      by (rule less.hyps [OF _ dst]) (use False in simp)
    then show ?thesis using cfb_step(1) [OF assms(1) less.prems ne] dst False by simp
  qed
qed

lemma cfb_roundtrip:
  assumes "good_key k" and "length nxt = 16"
  shows "cfb_decrypt (blk k) nxt (cfb_encrypt (blk k) nxt src) = src"
  using assms(2)
proof (induction "length src" arbitrary: nxt src rule: less_induct)
  case less
  show ?case
  proof (cases "src = []")
    case False
    let ?dst = "xor_bytes (take 16 src) (blk k nxt)"
    let ?rest = "cfb_encrypt (blk k) ?dst (drop 16 src)"
    have len: "length (blk k nxt) = 16" by (rule length_blk [OF assms(1) less.prems])
    have undo: "xor_bytes ?dst (blk k nxt) = take 16 src"
      by (rule xor_bytes_cancel) (simp add: len)
    have dst: "length ?dst = min 16 (length src)"
      by (rule cfb_step(2) [OF assms(1) less.prems False])
    have enc: "cfb_encrypt (blk k) nxt src = ?dst @ ?rest"
      by (rule cfb_step(1) [OF assms(1) less.prems False])
    show ?thesis
    proof (cases "length src \<le> 16")
      case True
      then have "cfb_encrypt (blk k) nxt src = ?dst" using enc by simp
      then show ?thesis using True dst undo by (simp add: cfb_decrypt_short)
    next
      case long: False
      then have dst16: "length ?dst = 16" using dst by simp
      have "cfb_decrypt (blk k) ?dst ?rest = drop 16 src"
        by (rule less.hyps [OF _ dst16]) (use False in simp)
      then show ?thesis unfolding enc cfb_decrypt_block [OF dst16] undo by simp
    qed
  qed simp
qed

text \<open>Two messages under one key and one initialisation vector: the first ciphertext block
  of the one masked with the other's is the mask of the plaintexts.\<close>

lemma xor_bytes_common:
  "length p = n \<Longrightarrow> length q = n \<Longrightarrow> length s = n \<Longrightarrow>
   xor_bytes (xor_bytes p s) (xor_bytes q s) = xor_bytes p q"
proof (induction n arbitrary: p q s)
  case (Suc n)
  then obtain a p' b q' c s' where "p = a # p'" "q = b # q'" "s = c # s'"
    by (metis length_Suc_conv)
  with Suc show ?case by (simp add: ac_simps)
qed simp

lemma cfb_same_iv_leaks:
  assumes "good_key k" and "length nxt = 16" and "16 \<le> length p" and "16 \<le> length q"
  shows "xor_bytes (take 16 (cfb_encrypt (blk k) nxt p)) (take 16 (cfb_encrypt (blk k) nxt q)) =
    xor_bytes (take 16 p) (take 16 q)"
proof -
  have len: "length (blk k nxt) = 16" by (rule length_blk [OF assms(1,2)])
  have "take 16 (cfb_encrypt (blk k) nxt m) = xor_bytes (take 16 m) (blk k nxt)" if "16 \<le> length m" for m
    using cfb_step [OF assms(1,2), of m] that by (cases "m = []") simp_all
  then show ?thesis using assms(3,4) len by (simp add: xor_bytes_common [of _ 16])
qed

end

interpretation aes: block_cipher aes_encrypt aes_key
  by unfold_locales (rule length_aes_encrypt)

section \<open>utils/encrypto.go\<close>

definition B64Encode :: "byte list \<Rightarrow> string" where
  "B64Encode b = b64_encode b"

definition B64Decode :: "string \<Rightarrow> byte list" where
  "B64Decode s = (case b64_decode s of Inl e \<Rightarrow> [] | Inr data \<Rightarrow> data)"

text \<open>\<^verbatim>\<open>aes.NewCipher\<close> accepts 16, 24 and 32 byte keys; the cipher is the block function.\<close>

definition aes_NewCipher :: "byte list \<Rightarrow> (byte list \<Rightarrow> byte list) res" where
  "aes_NewCipher secret =
     (if aes_key secret then Inr (aes_encrypt secret) else Inl (KeySizeError (length secret)))"

text \<open>
  \<^verbatim>\<open>[]byte(salt)[0:16]\<close>.  A slice expression on a slice is bounded by the capacity, not the
  length, and the capacity the conversion leaves is up to the implementation: \<open>cap n\<close> is the
  one it gives to an \<open>n\<close>-byte string (never less than \<open>n\<close>).  The bytes past the length
  are zero.
\<close>

definition iv_of_salt :: "(nat \<Rightarrow> nat) \<Rightarrow> string \<Rightarrow> byte list res" where
  "iv_of_salt cap salt =
     (if 16 \<le> max (length salt) (cap (length salt))
      then Inr (take 16 (bytes_of salt @ replicate 16 0))
      else Inl (Panic ''slice bounds out of range''))"

definition Encrypt :: "(nat \<Rightarrow> nat) \<Rightarrow> string \<Rightarrow> byte list \<Rightarrow> string \<Rightarrow> string res" where
  "Encrypt cap text secret salt =
     (case aes_NewCipher secret of
        Inl e \<Rightarrow> Inl e
      | Inr block \<Rightarrow>
          (let plainText = bytes_of text in
           case iv_of_salt cap salt of
             Inl e \<Rightarrow> Inl e
           | Inr iv \<Rightarrow> Inr (B64Encode (cfb_encrypt block iv plainText))))"

definition Decrypt :: "(nat \<Rightarrow> nat) \<Rightarrow> string \<Rightarrow> byte list \<Rightarrow> string \<Rightarrow> string res" where
  "Decrypt cap text secret salt =
     (case aes_NewCipher secret of
        Inl e \<Rightarrow> Inl e
      | Inr block \<Rightarrow>
          (let cipherText = B64Decode text in
           case iv_of_salt cap salt of
             Inl e \<Rightarrow> Inl e
           | Inr iv \<Rightarrow> Inr (string_of (cfb_decrypt block iv cipherText))))"

lemma B64Decode_Encode [roundtrip, simp]: "B64Decode (B64Encode b) = b"
  by (simp add: B64Decode_def B64Encode_def)

lemma iv_of_salt_long: "16 \<le> length salt \<Longrightarrow> iv_of_salt cap salt = Inr (take 16 (bytes_of salt))"
  by (simp add: iv_of_salt_def)

lemma length_iv_of_salt: "iv_of_salt cap salt = Inr iv \<Longrightarrow> length iv = 16"
  by (auto simp: iv_of_salt_def split: if_splits)

text \<open>Encryption succeeds exactly on an AES key and a long enough salt.\<close>

lemma Encrypt_ok:
  assumes "aes_key secret" and "16 \<le> length salt"
  shows "Encrypt cap text secret salt =
    Inr (B64Encode (cfb_encrypt (aes_encrypt secret) (take 16 (bytes_of salt)) (bytes_of text)))"
  using assms by (simp add: Encrypt_def aes_NewCipher_def iv_of_salt_long)

lemma Decrypt_Encrypt_gen:
  assumes "Encrypt cap text secret salt = Inr c"
  shows "Decrypt cap c secret salt = Inr text"
proof -
  from assms obtain iv where key: "aes_key secret" and iv: "iv_of_salt cap salt = Inr iv"
    and c: "c = B64Encode (cfb_encrypt (aes_encrypt secret) iv (bytes_of text))"
    by (auto simp: Encrypt_def aes_NewCipher_def split: sum.splits if_splits)
  have "cfb_decrypt (aes_encrypt secret) iv (cfb_encrypt (aes_encrypt secret) iv (bytes_of text)) = bytes_of text"
    by (rule aes.cfb_roundtrip [OF key length_iv_of_salt [OF iv]])
  then show ?thesis using key iv c by (simp add: Decrypt_def aes_NewCipher_def)
qed

section \<open>Properties\<close>

text \<open>C4: Under an AES key (16, 24 or 32 bytes) and a salt of at least 16 bytes, encryption of
  any text succeeds, the result is ASCII text that decodes to as many bytes as the text has, and
  decryption with the same key and salt gives the text back.\<close>

theorem Decrypt_Encrypt:
  assumes "aes_key secret" and "16 \<le> length salt"
  shows "\<exists>c. Encrypt cap text secret salt = Inr c \<and> ascii_text c \<and>
    length (B64Decode c) = length text \<and> Decrypt cap c secret salt = Inr text"
proof -
  let ?c = "cfb_encrypt (aes_encrypt secret) (take 16 (bytes_of salt)) (bytes_of text)"
  have enc: "Encrypt cap text secret salt = Inr (B64Encode ?c)"
    by (rule Encrypt_ok [OF assms])
  moreover have "length ?c = length text"
    using aes.length_cfb_encrypt [OF assms(1), of "take 16 (bytes_of salt)" "bytes_of text"] assms(2) by simp
  ultimately show ?thesis
    using Decrypt_Encrypt_gen [OF enc] by (simp add: B64Encode_def B64Decode_def)
qed

theorem Decrypt_Encrypt_witness:
  "\<exists>c. Encrypt id ''1f2e'' (replicate 32 7) ''02abcdefabcdefabcdef'' = Inr c \<and> ascii_text c \<and>
    length (B64Decode c) = length ''1f2e'' \<and> Decrypt id c (replicate 32 7) ''02abcdefabcdefabcdef'' = Inr ''1f2e''"
  by (rule Decrypt_Encrypt) (simp_all add: aes_key_def)

text \<open>Encryption and decryption fail on the same keys and salts, whatever the text, and the
  only failures are a key of the wrong size, reported as an error, and a salt too short to be
  sliced, which is a panic.\<close>

lemma Encrypt_fails_like_Decrypt:
  "(Encrypt cap text secret salt = Inl err \<longleftrightarrow> Decrypt cap cipher secret salt = Inl err) \<and>
   (Encrypt cap text secret salt = Inl err \<longleftrightarrow>
     (if aes_key secret then max (length salt) (cap (length salt)) < 16 \<and> err = Panic ''slice bounds out of range''
      else err = KeySizeError (length secret)))"
  by (auto simp: Encrypt_def Decrypt_def aes_NewCipher_def iv_of_salt_def)

text \<open>C38: The initialisation vector is the head of the salt, so two texts encrypted under one key
  and one salt give away how their first blocks differ: the ciphertext blocks differ exactly as
  the plaintext blocks do.\<close>

theorem Encrypt_same_salt_leaks:
  assumes "aes_key secret" and "16 \<le> length salt" and "16 \<le> length p" and "16 \<le> length q"
  shows "\<exists>c d. Encrypt cap p secret salt = Inr c \<and> Encrypt cap q secret salt = Inr d \<and>
    xor_bytes (take 16 (B64Decode c)) (take 16 (B64Decode d)) =
    xor_bytes (take 16 (bytes_of p)) (take 16 (bytes_of q))"
  using assms aes.cfb_same_iv_leaks [OF assms(1), of "take 16 (bytes_of salt)" "bytes_of p" "bytes_of q"]
  by (simp add: Encrypt_ok)

theorem Encrypt_same_salt_leaks_witness:
  "\<exists>c d. Encrypt id (replicate 16 CHR ''a'') (replicate 16 1) (replicate 16 CHR ''s'') = Inr c \<and>
    Encrypt id (replicate 16 CHR ''b'') (replicate 16 1) (replicate 16 CHR ''s'') = Inr d \<and>
    xor_bytes (take 16 (B64Decode c)) (take 16 (B64Decode d)) =
    xor_bytes (take 16 (bytes_of (replicate 16 CHR ''a''))) (take 16 (bytes_of (replicate 16 CHR ''b'')))"
  by (rule Encrypt_same_salt_leaks) (simp_all add: aes_key_def)

text \<open>A ciphertext that is not base64 is not reported: it decrypts to the empty text.\<close>

lemma Decrypt_swallows_corrupt_text:
  assumes "aes_key secret" and "16 \<le> length salt" and "b64_decode c = Inl err"
  shows "Decrypt cap c secret salt = Inr ''''"
  using assms by (simp add: Decrypt_def aes_NewCipher_def iv_of_salt_long B64Decode_def string_of_def)

end
