(* ===== verification/Json.thy ===== *)
theory Json
  imports GoStd
begin

text \<open>
  \<^verbatim>\<open>encoding/json\<close> as the program uses it: the text \<^verbatim>\<open>Marshal\<close> writes, the parser behind
  \<^verbatim>\<open>Unmarshal\<close>, the \<^verbatim>\<open>interface{}\<close> values it builds, and the matching of object keys to
  struct fields.  A value is a tree of type \<open>json\<close>; a number is kept as its literal (the
  program only ever writes decimal \<^verbatim>\<open>uint32\<close> values, which a trip through \<^verbatim>\<open>float64\<close> leaves
  unchanged); an object keeps its members in order.
\<close>

datatype json =
    JNull
  | JBool bool
  | JNum string
  | JStr string
  | JArr "json list"
  | JObj "(string \<times> json) list"

abbreviation code :: "char \<Rightarrow> nat" where
  "code c \<equiv> of_char c"

section \<open>UTF-8\<close>

definition cont :: "char \<Rightarrow> bool" where
  "cont c \<longleftrightarrow> 128 \<le> code c \<and> code c \<le> 191"

definition rune2 :: "char \<Rightarrow> char \<Rightarrow> bool" where
  "rune2 a b \<longleftrightarrow> 194 \<le> code a \<and> code a \<le> 223 \<and> cont b"

definition rune3 :: "char \<Rightarrow> char \<Rightarrow> char \<Rightarrow> bool" where
  "rune3 a b c \<longleftrightarrow>
     (code a = 224 \<and> 160 \<le> code b \<and> code b \<le> 191 \<or>
      225 \<le> code a \<and> code a \<le> 239 \<and> code a \<noteq> 237 \<and> cont b \<or>
      code a = 237 \<and> 128 \<le> code b \<and> code b \<le> 159) \<and> cont c"

definition rune4 :: "char \<Rightarrow> char \<Rightarrow> char \<Rightarrow> char \<Rightarrow> bool" where
  "rune4 a b c d \<longleftrightarrow>
     (code a = 240 \<and> 144 \<le> code b \<and> code b \<le> 191 \<or>
      241 \<le> code a \<and> code a \<le> 243 \<and> cont b \<or>
      code a = 244 \<and> 128 \<le> code b \<and> code b \<le> 143) \<and> cont c \<and> cont d"

text \<open>The length of the well-formed rune a string starts with, \<open>0\<close> if there is none
  (\<^verbatim>\<open>utf8.DecodeRuneInString\<close> then answers \<^verbatim>\<open>RuneError\<close> of width 1).\<close>

fun utf8_rune :: "string \<Rightarrow> nat" where
  "utf8_rune [] = 0"
| "utf8_rune (a # s) =
     (if code a < 128 then 1
      else (case s of [] \<Rightarrow> 0
            | b # s1 \<Rightarrow> if rune2 a b then 2
               else (case s1 of [] \<Rightarrow> 0
                     | c # s2 \<Rightarrow> if rune3 a b c then 3
                        else (case s2 of [] \<Rightarrow> 0
                              | d # s3 \<Rightarrow> if rune4 a b c d then 4 else 0))))"

abbreviation rune_error :: string where
  "rune_error \<equiv> [CHR 0xEF, CHR 0xBF, CHR 0xBD]"

text \<open>Malformed bytes are replaced by U+FFFD, in both directions.\<close>

fun utf8_coerce :: "string \<Rightarrow> string" where
  "utf8_coerce [] = []"
| "utf8_coerce (a # s) =
     (let n = utf8_rune (a # s) in
      if n = 0 then rune_error @ utf8_coerce s
      else take n (a # s) @ utf8_coerce (drop (n - 1) s))"

declare utf8_coerce.simps(2) [simp del]

fun utf8_encode :: "nat \<Rightarrow> string" where
  "utf8_encode n =
     (if n < 0x80 then [char_of n]
      else if n < 0x800 then [char_of (0xC0 + n div 64), char_of (0x80 + n mod 64)]
      else if n < 0x10000
        then [char_of (0xE0 + n div 4096), char_of (0x80 + n div 64 mod 64), char_of (0x80 + n mod 64)]
      else [char_of (0xF0 + n div 262144), char_of (0x80 + n div 4096 mod 64),
            char_of (0x80 + n div 64 mod 64), char_of (0x80 + n mod 64)])"

declare utf8_encode.simps [simp del]

lemma utf8_encode_ascii [simp]: "n < 128 \<Longrightarrow> utf8_encode n = [char_of n]"
  by (simp add: utf8_encode.simps)

lemma utf8_encode_consts [simp]:
  "utf8_encode 0xFFFD = rune_error"
  "utf8_encode 0x2028 = [CHR 0xE2, CHR 0x80, CHR 0xA8]"
  "utf8_encode 0x2029 = [CHR 0xE2, CHR 0x80, CHR 0xA9]"
  by (simp_all add: utf8_encode.simps char_of_def bit_0)

section \<open>Strings\<close>

definition escape_ascii :: "char \<Rightarrow> string" where
  "escape_ascii c =
     (if c = CHR 0x22 \<or> c = CHR 0x5C then [CHR 0x5C, c]
      else if c = CHR 8 then [CHR 0x5C, CHR ''b'']
      else if c = CHR 12 then [CHR 0x5C, CHR ''f'']
      else if c = CHR 10 then [CHR 0x5C, CHR ''n'']
      else if c = CHR 13 then [CHR 0x5C, CHR ''r'']
      else if c = CHR 9 then [CHR 0x5C, CHR ''t'']
      else if code c < 32 \<or> c = CHR ''<'' \<or> c = CHR ''>'' \<or> c = CHR 0x26
        then [CHR 0x5C, CHR ''u'', CHR ''0'', CHR ''0'',
              digit_char (code c div 16), digit_char (code c mod 16)]
      else [c])"

fun json_escape :: "string \<Rightarrow> string" where
  "json_escape [] = []"
| "json_escape (a # s) =
     (if code a < 128 then escape_ascii a @ json_escape s
      else (let n = utf8_rune (a # s); r = take n (a # s) in
            if n = 0 then [CHR 0x5C, CHR ''u'', CHR ''f'', CHR ''f'', CHR ''f'', CHR ''d''] @ json_escape s
            else if r = [CHR 0xE2, CHR 0x80, CHR 0xA8]
              then [CHR 0x5C, CHR ''u'', CHR ''2'', CHR ''0'', CHR ''2'', CHR ''8''] @ json_escape (drop (n - 1) s)
            else if r = [CHR 0xE2, CHR 0x80, CHR 0xA9]
              then [CHR 0x5C, CHR ''u'', CHR ''2'', CHR ''0'', CHR ''2'', CHR ''9''] @ json_escape (drop (n - 1) s)
            else r @ json_escape (drop (n - 1) s)))"

declare json_escape.simps(2) [simp del]

definition json_quote :: "string \<Rightarrow> string" where
  "json_quote s = CHR 0x22 # json_escape s @ [CHR 0x22]"

text \<open>Four hexadecimal digits, as after a backslash and \<^verbatim>\<open>u\<close>.\<close>

fun hex4 :: "string \<Rightarrow> (nat \<times> string) option" where
  "hex4 (a # b # c # d # s) =
     (case (hex_val a, hex_val b, hex_val c, hex_val d) of
        (Some w, Some x, Some y, Some z) \<Rightarrow> Some (((w * 16 + x) * 16 + y) * 16 + z, s)
      | _ \<Rightarrow> None)"
| "hex4 _ = None"

text \<open>One escape sequence, after its backslash: the bytes it stands for and what follows.  A
  surrogate counts only together with its partner; alone it is U+FFFD.\<close>

definition surrogate_pair :: "nat \<Rightarrow> nat \<Rightarrow> bool" where
  "surrogate_pair h l \<longleftrightarrow> 0xD800 \<le> h \<and> h < 0xDC00 \<and> 0xDC00 \<le> l \<and> l < 0xE000"

definition unescape_u :: "string \<Rightarrow> (string \<times> string) option" where
  "unescape_u s =
     (case hex4 s of
        None \<Rightarrow> None
      | Some (h, t) \<Rightarrow>
          (if 0xD800 \<le> h \<and> h < 0xE000 then
             (case t of
                x # y # t' \<Rightarrow>
                  (if x = CHR 0x5C \<and> y = CHR ''u'' then
                     (case hex4 t' of
                        Some (l, u) \<Rightarrow>
                          (if surrogate_pair h l
                           then Some (utf8_encode (0x10000 + (h - 0xD800) * 1024 + (l - 0xDC00)), u)
                           else Some (rune_error, t))
                      | None \<Rightarrow> Some (rune_error, t))
                   else Some (rune_error, t))
              | _ \<Rightarrow> Some (rune_error, t))
           else Some (utf8_encode h, t)))"

fun unescape_one :: "string \<Rightarrow> (string \<times> string) option" where
  "unescape_one [] = None"
| "unescape_one (c # s) =
     (if c = CHR 0x22 \<or> c = CHR 0x5C \<or> c = CHR ''/'' then Some ([c], s)
      else if c = CHR ''b'' then Some ([CHR 8], s)
      else if c = CHR ''f'' then Some ([CHR 12], s)
      else if c = CHR ''n'' then Some ([CHR 10], s)
      else if c = CHR ''r'' then Some ([CHR 13], s)
      else if c = CHR ''t'' then Some ([CHR 9], s)
      else if c = CHR ''u'' then unescape_u s
      else None)"

lemma hex4_shorter: "hex4 s = Some (h, t) \<Longrightarrow> length t < length s"
  by (cases s rule: hex4.cases) (auto split: option.splits)

lemma unescape_u_shorter: "unescape_u s = Some (v, t) \<Longrightarrow> length t < length s"
  by (auto simp: unescape_u_def split: option.splits if_splits list.splits dest!: hex4_shorter)

lemma unescape_one_shorter: "unescape_one s = Some (v, t) \<Longrightarrow> length t < length s"
  by (cases s) (auto split: if_splits dest: unescape_u_shorter)

text \<open>The body of a string literal up to its closing quote: the decoded bytes and the rest.\<close>

function json_unescape :: "string \<Rightarrow> (string \<times> string) option" where
  "json_unescape [] = None"
| "json_unescape (a # s) =
     (if a = CHR 0x22 then Some ([], s)
      else if a = CHR 0x5C then
        (case unescape_one s of
           None \<Rightarrow> None
         | Some (v, t) \<Rightarrow> map_option (apfst (append v)) (json_unescape t))
      else if code a < 32 then None
      else (let n = utf8_rune (a # s) in
            if n = 0 then map_option (apfst (append rune_error)) (json_unescape s)
            else map_option (apfst (append (take n (a # s)))) (json_unescape (drop (n - 1) s))))"
  by pat_completeness auto
termination
  by (relation "measure length") (auto dest: unescape_one_shorter)

declare json_unescape.simps(2) [simp del]

lemma utf8_rune_le: "utf8_rune s \<le> length s"
  by (cases s) (auto split: list.splits)

lemma utf8_rune_prefix:
  assumes "0 < utf8_rune s"
  shows "utf8_rune (take (utf8_rune s) s @ t) = utf8_rune s"
  using assms by (cases s) (auto split: list.splits if_splits)

lemma utf8_rune_ascii [simp]: "code a < 128 \<Longrightarrow> utf8_rune (a # s) = 1"
  by simp

lemma utf8_coerce_ascii [simp]: "ascii_text s \<Longrightarrow> utf8_coerce s = s"
  by (induction s) (simp_all add: utf8_coerce.simps(2))

lemma utf8_rune_head: "utf8_rune (a # s) \<noteq> 0 \<Longrightarrow> \<not> code a < 128 \<Longrightarrow> 194 \<le> code a"
  by (auto simp: rune2_def rune3_def rune4_def split: list.splits if_splits)

lemma json_unescape_ascii:
  assumes "code a < 128"
  shows "json_unescape (escape_ascii a @ t) = map_option (apfst (append [a])) (json_unescape t)"
proof -
  have hex: "hex4 (CHR ''0'' # CHR ''0'' # digit_char (code a div 16) # digit_char (code a mod 16) # t) =
      Some (code a, t)"
    using assms by (simp add: hex_val_def digit_val_def [of "CHR ''0''"] del: digit_val_digit_char)
       (simp add: hex_val_def)
  show ?thesis
    using assms hex
    by (auto simp: escape_ascii_def json_unescape.simps unescape_u_def)
qed

lemma json_unescape_rune:
  assumes "\<not> code a < 128" and n: "utf8_rune (a # s) = n" and "0 < n"
  shows "json_unescape (take n (a # s) @ t) =
    map_option (apfst (append (take n (a # s)))) (json_unescape t)"
proof -
  let ?r = "take n (a # s)"
  obtain r' where r': "?r = a # r'" using assms(3) by (cases n) auto
  have len: "length ?r = n" using utf8_rune_le [of "a # s"] n by simp
  have "utf8_rune (?r @ t) = n" using utf8_rune_prefix [of "a # s" t] n assms(3) by simp
  moreover have "a \<noteq> CHR 0x22" "a \<noteq> CHR 0x5C" "\<not> code a < 32" using assms(1) by auto
  moreover have n': "n = Suc (length r')" using len r' by simp
  ultimately have "json_unescape (a # r' @ t) = map_option (apfst (append (a # r'))) (json_unescape t)"
    using r' by (simp add: json_unescape.simps(2) Let_def del: utf8_rune.simps)
  then show ?thesis unfolding r' by simp
qed

lemma json_unescape_escape:
  "json_unescape (json_escape s @ CHR 0x22 # t) = Some (utf8_coerce s, t)"
proof (induction s rule: json_escape.induct)
  case 1
  show ?case by (simp add: json_unescape.simps(2))
next
  case (2 a s)
  let ?n = "utf8_rune (a # s)"
  show ?case
  proof (cases "code a < 128")
    case True
    then show ?thesis
      using 2(1) by (simp add: json_escape.simps(2) json_unescape_ascii utf8_coerce.simps(2))
  next
    case high: False
    let ?r = "take ?n (a # s)"
    show ?thesis
    proof (cases "?n = 0")
      case True
      with high 2 show ?thesis
        by (simp add: json_escape.simps(2) utf8_coerce.simps(2) json_unescape.simps(2) unescape_u_def
            hex_val_def digit_val_def del: utf8_rune.simps)
    next
      case False
      then have IH: "json_unescape (json_escape (drop (?n - 1) s) @ CHR 0x22 # t) =
          Some (utf8_coerce (drop (?n - 1) s), t)"
        using 2 high by (cases "?r = [CHR 0xE2, CHR 0x80, CHR 0xA8]";
            cases "?r = [CHR 0xE2, CHR 0x80, CHR 0xA9]") (simp_all del: utf8_rune.simps)
      have coerce: "utf8_coerce (a # s) = ?r @ utf8_coerce (drop (?n - 1) s)"
        using False by (simp add: utf8_coerce.simps(2) Let_def del: utf8_rune.simps)
      consider "?r = [CHR 0xE2, CHR 0x80, CHR 0xA8]" | "?r = [CHR 0xE2, CHR 0x80, CHR 0xA9]"
        | "?r \<noteq> [CHR 0xE2, CHR 0x80, CHR 0xA8]" "?r \<noteq> [CHR 0xE2, CHR 0x80, CHR 0xA9]"
        by blast
      then show ?thesis
      proof cases
        case 3
        then have "json_escape (a # s) = ?r @ json_escape (drop (?n - 1) s)"
          using high False by (simp add: json_escape.simps(2) Let_def del: utf8_rune.simps)
        then show ?thesis
          using json_unescape_rune [OF high refl] False IH coerce by simp
      qed (use high False IH coerce in \<open>simp_all add: json_escape.simps(2) json_unescape.simps(2)
            unescape_u_def hex_val_def digit_val_def del: utf8_rune.simps\<close>)
    qed
  qed
qed

section \<open>Values: the text Marshal writes\<close>

text \<open>Text put between a separator, as list elements and object members are.\<close>

fun sep_comma :: "string list \<Rightarrow> string" where
  "sep_comma [] = []"
| "sep_comma [x] = x"
| "sep_comma (x # y # xs) = x @ CHR '','' # sep_comma (y # xs)"

fun json_text :: "json \<Rightarrow> string" where
  "json_text JNull = ''null''"
| "json_text (JBool b) = (if b then ''true'' else ''false'')"
| "json_text (JNum lit) = lit"
| "json_text (JStr s) = json_quote s"
| "json_text (JArr xs) = CHR ''['' # sep_comma (map json_text xs) @ '']''"
| "json_text (JObj ms) =
     CHR ''{'' # sep_comma (map (\<lambda>(k, v). json_quote k @ CHR '':'' # json_text v) ms) @ ''}''"

section \<open>The parser behind Unmarshal\<close>

definition is_ws :: "char \<Rightarrow> bool" where
  "is_ws c \<longleftrightarrow> c = CHR '' '' \<or> c = CHR 9 \<or> c = CHR 10 \<or> c = CHR 13"

definition skip_ws :: "string \<Rightarrow> string" where
  "skip_ws s = dropWhile is_ws s"

definition is_digit :: "char \<Rightarrow> bool" where
  "is_digit c \<longleftrightarrow> 48 \<le> code c \<and> code c \<le> 57"

text \<open>A number literal: sign, integer part without a leading zero, fraction, exponent.\<close>

definition p_exponent :: "string \<Rightarrow> (string \<times> string) option" where
  "p_exponent s =
     (case s of
        [] \<Rightarrow> Some ([], s)
      | e # t \<Rightarrow>
          (if e = CHR ''e'' \<or> e = CHR ''E'' then
             (let sg = (case t of [] \<Rightarrow> [] | c # _ \<Rightarrow> if c = CHR ''+'' \<or> c = CHR ''-'' then [c] else []);
                  u = drop (length sg) t; ds = takeWhile is_digit u
              in if ds = [] then None else Some (e # sg @ ds, dropWhile is_digit u))
           else Some ([], s)))"

definition p_fraction :: "string \<Rightarrow> (string \<times> string) option" where
  "p_fraction s =
     (case s of
        [] \<Rightarrow> Some ([], s)
      | d # t \<Rightarrow>
          (if d = CHR ''.'' then
             (let ds = takeWhile is_digit t
              in if ds = [] then None else Some (d # ds, dropWhile is_digit t))
           else Some ([], s)))"

definition p_number :: "string \<Rightarrow> (json \<times> string) option" where
  "p_number s =
     (let sg = (case s of [] \<Rightarrow> [] | c # _ \<Rightarrow> if c = CHR ''-'' then [c] else []);
          t = drop (length sg) s; ds = takeWhile is_digit t
      in if ds = [] \<or> hd ds = CHR ''0'' \<and> 1 < length ds then None
         else (case p_fraction (dropWhile is_digit t) of
                 None \<Rightarrow> None
               | Some (f, u) \<Rightarrow>
                   (case p_exponent u of
                      None \<Rightarrow> None
                    | Some (x, v) \<Rightarrow> Some (JNum (sg @ ds @ f @ x), v))))"

definition p_literal :: "string \<Rightarrow> json \<Rightarrow> string \<Rightarrow> (json \<times> string) option" where
  "p_literal w v s = (if take (length w) s = w then Some (v, drop (length w) s) else None)"

text \<open>Each call spends one unit of fuel.  \<open>json_parse\<close> starts with more than twice as much
  as the text has characters; \<open>p_fuel\<close> below shows that no larger amount changes the
  result.\<close>

fun p_value :: "nat \<Rightarrow> string \<Rightarrow> (json \<times> string) option"
  and p_elems :: "nat \<Rightarrow> string \<Rightarrow> (json list \<times> string) option"
  and p_members :: "nat \<Rightarrow> string \<Rightarrow> ((string \<times> json) list \<times> string) option"
where
  "p_value 0 s = None"
| "p_value (Suc n) s =
     (case skip_ws s of
        [] \<Rightarrow> None
      | c # t \<Rightarrow>
          (if c = CHR ''{'' then
             (if take 1 (skip_ws t) = ''}'' then Some (JObj [], drop 1 (skip_ws t))
              else map_option (apfst JObj) (p_members n t))
           else if c = CHR ''['' then
             (if take 1 (skip_ws t) = '']'' then Some (JArr [], drop 1 (skip_ws t))
              else map_option (apfst JArr) (p_elems n t))
           else if c = CHR 0x22 then map_option (apfst JStr) (json_unescape t)
           else if c = CHR ''t'' then p_literal ''true'' (JBool True) (c # t)
           else if c = CHR ''f'' then p_literal ''false'' (JBool False) (c # t)
           else if c = CHR ''n'' then p_literal ''null'' JNull (c # t)
           else p_number (c # t)))"
| "p_elems 0 s = None"
| "p_elems (Suc n) s =
     (case p_value n s of
        None \<Rightarrow> None
      | Some (x, t) \<Rightarrow>
          (case skip_ws t of
             [] \<Rightarrow> None
           | c # u \<Rightarrow>
               (if c = CHR '','' then map_option (apfst (Cons x)) (p_elems n u)
                else if c = CHR '']'' then Some ([x], u)
                else None)))"
| "p_members 0 s = None"
| "p_members (Suc n) s =
     (case skip_ws s of
        [] \<Rightarrow> None
      | q # t \<Rightarrow>
          (if q = CHR 0x22 then
             (case json_unescape t of
                None \<Rightarrow> None
              | Some (k, u) \<Rightarrow>
                  (case skip_ws u of
                     [] \<Rightarrow> None
                   | d # v \<Rightarrow>
                       (if d = CHR '':'' then
                          (case p_value n v of
                             None \<Rightarrow> None
                           | Some (x, w) \<Rightarrow>
                               (case skip_ws w of
                                  [] \<Rightarrow> None
                                | c # y \<Rightarrow>
                                    (if c = CHR '','' then map_option (apfst (Cons (k, x))) (p_members n y)
                                     else if c = CHR ''}'' then Some ([(k, x)], y)
                                     else None)))
                        else None)))
           else None))"

definition json_parse :: "string \<Rightarrow> json res" where
  "json_parse s =
     (case p_value (Suc (2 * length s)) s of
        None \<Rightarrow> Inl SyntaxError
      | Some (j, t) \<Rightarrow> if skip_ws t = [] then Inr j else Inl SyntaxError)"

section \<open>Parsing what was printed\<close>

text \<open>A literal the number scanner takes as a whole.\<close>

definition number_ok :: "string \<Rightarrow> bool" where
  "number_ok lit \<longleftrightarrow> p_number lit = Some (JNum lit, [])"

fun json_ok :: "json \<Rightarrow> bool" where
  "json_ok (JNum lit) = number_ok lit"
| "json_ok (JArr xs) = (\<forall>x \<in> set xs. json_ok x)"
| "json_ok (JObj ms) = (\<forall>m \<in> set ms. json_ok (snd m))"
| "json_ok _ = True"

fun json_utf8 :: "json \<Rightarrow> json" where
  "json_utf8 (JStr s) = JStr (utf8_coerce s)"
| "json_utf8 (JArr xs) = JArr (map json_utf8 xs)"
| "json_utf8 (JObj ms) = JObj (map (\<lambda>(k, v). (utf8_coerce k, json_utf8 v)) ms)"
| "json_utf8 j = j"

definition follow :: "string \<Rightarrow> bool" where
  "follow r \<longleftrightarrow> (case r of [] \<Rightarrow> True | c # _ \<Rightarrow> c = CHR '','' \<or> c = CHR '']'' \<or> c = CHR ''}'')"

lemma follow_simps [simp]:
  "follow []" "follow (CHR '','' # r)" "follow (CHR '']'' # r)" "follow (CHR ''}'' # r)"
  by (simp_all add: follow_def)

lemma follow_digits:
  assumes "follow r"
  shows "takeWhile is_digit (t @ r) = takeWhile is_digit t"
    and "dropWhile is_digit (t @ r) = dropWhile is_digit t @ r"
proof -
  have r: "takeWhile is_digit r = [] \<and> dropWhile is_digit r = r"
    using assms by (auto simp: follow_def is_digit_def split: list.splits)
  show "takeWhile is_digit (t @ r) = takeWhile is_digit t"
    by (induction t) (simp_all add: r)
  show "dropWhile is_digit (t @ r) = dropWhile is_digit t @ r"
    by (induction t) (simp_all add: r)
qed

lemma follow_fraction:
  "p_fraction d = Some (f, u) \<Longrightarrow> follow r \<Longrightarrow> p_fraction (d @ r) = Some (f, u @ r)"
  by (cases d) (auto simp: p_fraction_def follow_digits Let_def follow_def
      split: list.splits if_splits)

lemma follow_exponent:
  "p_exponent d = Some (x, u) \<Longrightarrow> follow r \<Longrightarrow> p_exponent (d @ r) = Some (x, u @ r)"
proof (cases d)
  case (Cons e t)
  assume "p_exponent d = Some (x, u)" "follow r"
  with Cons show ?thesis
    by (cases t) (auto simp: p_exponent_def follow_digits Let_def follow_def is_digit_def
        split: list.splits if_splits)
qed (auto simp: p_exponent_def follow_def split: list.splits)

lemma number_head:
  assumes "number_ok lit"
  obtains c s where "lit = c # s" and "c = CHR ''-'' \<or> is_digit c"
proof (cases lit)
  case Nil
  with assms show ?thesis by (simp add: number_ok_def p_number_def)
next
  case (Cons c s)
  with assms have "c = CHR ''-'' \<or> is_digit c"
    by (auto simp: number_ok_def p_number_def Let_def split: if_splits)
  with Cons that show ?thesis by blast
qed

lemma follow_number:
  assumes "number_ok lit" and "follow r"
  shows "p_number (lit @ r) = Some (JNum lit, r)"
proof -
  obtain c s where lit: "lit = c # s" using number_head [OF assms(1)] by blast
  define sg where "sg = (if c = CHR ''-'' then [c] else [])"
  define t where "t = drop (length sg) lit"
  have t: "drop (length sg) (lit @ r) = t @ r" by (simp add: t_def sg_def lit)
  from assms(1) obtain f u x where
    ds: "\<not> (takeWhile is_digit t = [] \<or> hd (takeWhile is_digit t) = CHR ''0'' \<and> 1 < length (takeWhile is_digit t))"
    and f: "p_fraction (dropWhile is_digit t) = Some (f, u)" and x: "p_exponent u = Some (x, [])"
    and l: "lit = sg @ takeWhile is_digit t @ f @ x"
    by (auto simp: number_ok_def p_number_def Let_def lit sg_def t_def split: if_splits option.splits)
  have "p_number (lit @ r) = Some (JNum (sg @ takeWhile is_digit t @ f @ x), r)"
    using ds follow_fraction [OF f assms(2)] follow_exponent [OF x assms(2)] t
    unfolding p_number_def by (simp add: lit follow_digits [OF assms(2)] Let_def flip: sg_def)
  then show ?thesis using l by simp
qed

lemma skip_ws_simps [simp]: "skip_ws [] = []" "\<not> is_ws c \<Longrightarrow> skip_ws (c # s) = c # s"
  by (simp_all add: skip_ws_def)

lemma is_ws_punct [simp]:
  "\<not> is_ws (CHR '','')" "\<not> is_ws (CHR '':'')" "\<not> is_ws (CHR ''{'')" "\<not> is_ws (CHR ''}'')"
  "\<not> is_ws (CHR ''['')" "\<not> is_ws (CHR '']'')" "\<not> is_ws (CHR 0x22)" "\<not> is_ws (CHR ''n'')"
  "\<not> is_ws (CHR ''t'')" "\<not> is_ws (CHR ''f'')" "\<not> is_ws (CHR ''-'')"
  by (simp_all add: is_ws_def)

lemma is_digit_not_ws: "is_digit c \<Longrightarrow> \<not> is_ws c"
  by (auto simp: is_digit_def is_ws_def)

lemma json_text_head:
  assumes "json_ok j"
  obtains c s where "json_text j = c # s" and "\<not> is_ws c" and "c \<noteq> CHR '']''" and "c \<noteq> CHR ''}''"
proof (cases j)
  case (JNum lit)
  with assms obtain c s where "lit = c # s" and "c = CHR ''-'' \<or> is_digit c"
    using number_head by auto
  moreover from this(2) have "\<not> is_ws c" "c \<noteq> CHR '']''" "c \<noteq> CHR ''}''"
    by (auto simp: is_digit_not_ws) (auto simp: is_digit_def)
  ultimately show ?thesis using that JNum by simp
next
  case (JBool b)
  then show ?thesis using that by (cases b) simp_all
qed (use that in \<open>auto simp: json_quote_def\<close>)

lemma p_value_number:
  assumes "number_ok lit" and "follow r"
  shows "p_value (Suc n) (lit @ r) = Some (JNum lit, r)"
proof -
  obtain c s where lit: "lit = c # s" and c: "c = CHR ''-'' \<or> is_digit c"
    using number_head [OF assms(1)] by blast
  then have "\<not> is_ws c" "c \<notin> {CHR ''{'', CHR ''['', CHR 0x22, CHR ''t'', CHR ''f'', CHR ''n''}"
    by (auto simp: is_digit_not_ws) (auto simp: is_digit_def)
  then show ?thesis using follow_number [OF assms] lit by simp
qed

lemma sep_comma_Cons: "xs \<noteq> [] \<Longrightarrow> sep_comma (x # xs) = x @ CHR '','' # sep_comma xs"
  by (cases xs) simp_all

lemma p_elems_text:
  assumes "\<And>x n r. x \<in> set xs \<Longrightarrow> follow r \<Longrightarrow> length (json_text x) < n \<Longrightarrow>
      p_value n (json_text x @ r) = Some (json_utf8 x, r)"
    and "xs \<noteq> []" and "Suc (length (sep_comma (map json_text xs))) < n"
  shows "p_elems n (sep_comma (map json_text xs) @ CHR '']'' # r) = Some (map json_utf8 xs, r)"
  using assms
proof (induction xs arbitrary: n)
  case (Cons x xs)
  then obtain m where n: "n = Suc m" by (cases n) auto
  show ?case
  proof (cases "xs = []")
    case True
    then show ?thesis using Cons.prems n by simp
  next
    case False
    then have "length (json_text x) < m" "Suc (length (sep_comma (map json_text xs))) < m"
      using Cons.prems(3) n by (simp_all add: sep_comma_Cons)
    then show ?thesis using Cons.IH [of m] Cons.prems(1) False n by (simp add: sep_comma_Cons)
  qed
qed simp

abbreviation member_text :: "string \<times> json \<Rightarrow> string" where
  "member_text \<equiv> \<lambda>(k, v). json_quote k @ CHR '':'' # json_text v"

lemma p_members_text:
  assumes "\<And>k v n r. (k, v) \<in> set ms \<Longrightarrow> follow r \<Longrightarrow> length (json_text v) < n \<Longrightarrow>
      p_value n (json_text v @ r) = Some (json_utf8 v, r)"
    and "ms \<noteq> []" and "Suc (length (sep_comma (map member_text ms))) < n"
  shows "p_members n (sep_comma (map member_text ms) @ CHR ''}'' # r) =
    Some (map (\<lambda>(k, v). (utf8_coerce k, json_utf8 v)) ms, r)"
  using assms
proof (induction ms arbitrary: n)
  case (Cons m ms)
  obtain k v where m: "m = (k, v)" by (cases m)
  from Cons.prems obtain f where n: "n = Suc f" by (cases n) auto
  show ?case
  proof (cases "ms = []")
    case True
    then show ?thesis
      using Cons.prems n m by (simp add: json_quote_def json_unescape_escape)
  next
    case False
    then have len: "length (json_text v) < f" "Suc (length (sep_comma (map member_text ms))) < f"
      using Cons.prems(3) n m by (simp_all add: sep_comma_Cons)
    then have "p_value f (json_text v @ CHR '','' # u) = Some (json_utf8 v, CHR '','' # u)" for u
      using Cons.prems(1) [of k v "CHR '','' # u" f] m by simp
    moreover have "p_members f (sep_comma (map member_text ms) @ CHR ''}'' # r) =
        Some (map (\<lambda>(k, v). (utf8_coerce k, json_utf8 v)) ms, r)"
      by (rule Cons.IH) (use Cons.prems(1) False len in auto)
    ultimately show ?thesis using False n m
      by (simp add: sep_comma_Cons json_quote_def [of k] json_unescape_escape)
  qed
qed simp

lemma p_value_text:
  "json_ok j \<Longrightarrow> follow r \<Longrightarrow> length (json_text j) < n \<Longrightarrow>
   p_value n (json_text j @ r) = Some (json_utf8 j, r)"
proof (induction j arbitrary: n r rule: json_text.induct)
  case (3 lit)
  then show ?case by (cases n) (simp_all add: p_value_number del: p_value.simps)
next
  case (4 s)
  then show ?case by (cases n) (simp_all add: json_quote_def json_unescape_escape)
next
  case (5 xs)
  then obtain m where n: "n = Suc m" by (cases n) auto
  show ?case
  proof (cases xs)
    case Nil
    then show ?thesis using n by simp
  next
    case (Cons x xs')
    then have "json_ok x" using 5 by simp
    then obtain c s where hd: "json_text x = c # s" "\<not> is_ws c" "c \<noteq> CHR '']''"
      using json_text_head by blast
    have "p_elems m (sep_comma (map json_text xs) @ CHR '']'' # r) = Some (map json_utf8 xs, r)"
      by (rule p_elems_text) (use 5 Cons n in auto)
    moreover obtain w where "sep_comma (map json_text xs) = c # w"
      using Cons hd by (cases xs') simp_all
    ultimately show ?thesis using n hd by simp
  qed
next
  case (6 ms)
  then obtain f where n: "n = Suc f" by (cases n) auto
  show ?case
  proof (cases ms)
    case Nil
    then show ?thesis using n by simp
  next
    case (Cons m ms')
    have IH: "p_value n (json_text v @ r) = Some (json_utf8 v, r)"
      if "(k, v) \<in> set ms" "follow r" "length (json_text v) < n" for k v n r
      using 6(1) [OF that(1) refl _ that(2,3)] 6(2) that(1) by force
    have "p_members f (sep_comma (map member_text ms) @ CHR ''}'' # r) =
        Some (map (\<lambda>(k, v). (utf8_coerce k, json_utf8 v)) ms, r)"
      by (rule p_members_text) (use IH 6 Cons n in auto)
    moreover obtain w where "sep_comma (map member_text ms) = CHR 0x22 # w"
      using Cons by (cases ms'; cases m) (simp_all add: json_quote_def)
    ultimately show ?thesis using n by simp
  qed
qed (case_tac n; simp add: p_literal_def)+

lemma json_parse_text [roundtrip]: "json_ok j \<Longrightarrow> json_parse (json_text j) = Inr (json_utf8 j)"
  using p_value_text [of j "[]" "Suc (2 * length (json_text j))"] by (simp add: json_parse_def)

section \<open>The fuel is enough\<close>

lemma length_skip_ws: "length (skip_ws s) \<le> length s"
  by (simp add: skip_ws_def length_dropWhile_le)

lemma json_unescape_shorter: "json_unescape s = Some (v, t) \<Longrightarrow> length t < length s"
proof (induction s arbitrary: v t rule: json_unescape.induct)
  case (2 a s)
  then show ?case
    by (auto simp: json_unescape.simps(2) Let_def dest!: unescape_one_shorter
        split: if_splits option.splits prod.splits simp del: utf8_rune.simps) force+
qed simp

lemma skip_ws_Cons: "skip_ws s = c # t \<Longrightarrow> length t < length s"
  using length_skip_ws [of s] by simp

lemma p_fraction_shorter: "p_fraction s = Some (f, u) \<Longrightarrow> length u \<le> length s"
  by (auto simp: p_fraction_def Let_def le_Suc_eq length_dropWhile_le split: list.splits if_splits)

lemma p_exponent_shorter: "p_exponent s = Some (f, u) \<Longrightarrow> length u \<le> length s"
  by (auto simp: p_exponent_def Let_def intro: le_SucI length_dropWhile_le
      split: list.splits if_splits)

lemma p_number_shorter: "p_number s = Some (j, t) \<Longrightarrow> length t < length s"
proof -
  have short: "length (dropWhile is_digit (drop k s)) < length s" if "takeWhile is_digit (drop k s) \<noteq> []" for k
  proof -
    have "length (takeWhile is_digit (drop k s)) + length (dropWhile is_digit (drop k s)) \<le> length s"
      by (metis diff_le_self length_append length_drop takeWhile_dropWhile_id)
    then show ?thesis using that by (cases "takeWhile is_digit (drop k s)") simp_all
  qed
  assume "p_number s = Some (j, t)"
  then show ?thesis
    by (auto simp: p_number_def Let_def dest!: p_fraction_shorter p_exponent_shorter short
        split: if_splits option.splits)
qed

lemma p_literal_shorter: "p_literal w v s = Some (j, t) \<Longrightarrow> w \<noteq> [] \<Longrightarrow> length t < length s"
  by (cases s; cases w) (auto simp: p_literal_def split: if_splits)

lemmas shorter_rules = json_unescape_shorter p_number_shorter p_literal_shorter skip_ws_Cons

lemma p_shorter:
  "p_value n s = Some (j, t) \<Longrightarrow> length t < length s"
  "p_elems n s = Some (js, t) \<Longrightarrow> length t < length s"
  "p_members n s = Some (ms, t) \<Longrightarrow> length t < length s"
proof (induction n s and n s and n s arbitrary: j t and js t and ms t
    rule: p_value_p_elems_p_members.induct)
  case (2 n s)
  then obtain c u where cu: "skip_ws s = c # u" by (auto split: list.splits)
  then have "length u < length s" by (rule skip_ws_Cons)
  moreover have "length t < Suc (length u)"
  proof (cases "c = CHR ''{'' \<or> c = CHR ''[''")
    case True
    with 2 cu show ?thesis
      using length_skip_ws [of u] by (auto split: if_splits intro: less_SucI)
  next
    case False
    with 2(3) cu have "p_number (c # u) = Some (j, t) \<or> (\<exists>w v. w \<noteq> [] \<and> p_literal w v (c # u) = Some (j, t)) \<or>
        (\<exists>v. json_unescape u = Some (v, t))"
      by (auto split: if_splits)
    then show ?thesis
      using p_number_shorter [of "c # u"] p_literal_shorter [of _ _ "c # u"] json_unescape_shorter [of u]
      by fastforce
  qed
  ultimately show ?case by linarith
next
  case (4 n s)
  then show ?case
    by (auto dest!: skip_ws_Cons split: option.splits list.splits if_splits) fastforce+
next
  case (6 n s)
  from 6(3) obtain u k v w x y c z where
    "skip_ws s = CHR 0x22 # u" "json_unescape u = Some (k, v)" "skip_ws v = CHR '':'' # w"
    and pv: "p_value n w = Some (x, y)" and "skip_ws y = c # z"
    and last: "z = t \<or> c = CHR '','' \<and> (\<exists>ms'. p_members n z = Some (ms', t))"
    by (auto split: option.splits list.splits if_splits)
  moreover have "length y < length w" using 6(1) calculation by auto
  moreover have "length t \<le> length z" using 6(2) calculation by (auto intro: less_imp_le)
  moreover have "length u < length s" "length v < length u" "length w < length v" "length z < length y"
    using calculation by (auto dest: skip_ws_Cons json_unescape_shorter)
  ultimately show ?case by linarith
qed simp_all

lemma p_fuel:
  "2 * length s < n \<Longrightarrow> 2 * length s < m \<Longrightarrow> p_value n s = p_value m s"
  "Suc (2 * length s) < n \<Longrightarrow> Suc (2 * length s) < m \<Longrightarrow> p_elems n s = p_elems m s"
  "Suc (2 * length s) < n \<Longrightarrow> Suc (2 * length s) < m \<Longrightarrow> p_members n s = p_members m s"
proof (induction n s and n s and n s arbitrary: m and m and m rule: p_value_p_elems_p_members.induct)
  case (2 n s)
  from 2(4) obtain m' where m: "m = Suc m'" by (cases m) auto
  show ?case
  proof (cases "skip_ws s")
    case (Cons c t)
    then have "Suc (2 * length t) < n" "Suc (2 * length t) < m'"
      using skip_ws_Cons [OF Cons] 2(3,4) m by linarith+
    then have "c = CHR ''{'' \<Longrightarrow> take 1 (skip_ws t) \<noteq> ''}'' \<Longrightarrow> p_members n t = p_members m' t"
      and "c = CHR ''['' \<Longrightarrow> take 1 (skip_ws t) \<noteq> '']'' \<Longrightarrow> p_elems n t = p_elems m' t"
      using 2(1) [OF Cons] 2(2) [OF Cons] by blast+
    then show ?thesis unfolding m by (simp add: Cons)
  qed (use m in simp)
next
  case (4 n s)
  from 4(4) obtain m' where m: "m = Suc m'" by (cases m) auto
  have v: "p_value n s = p_value m' s" by (rule 4(1)) (use 4(3,4) m in simp_all)
  show ?case
  proof (cases "p_value n s")
    case (Some a)
    obtain x t where a: "a = (x, t)" by (cases a)
    have "p_elems n u = p_elems m' u" if "skip_ws t = CHR '','' # u" for u
      by (rule 4(2) [OF Some a [symmetric] that refl])
        (use p_shorter(1) [of n s x t] skip_ws_Cons [OF that] Some a m 4(3,4) in simp_all)
    moreover have "p_value n s = Some (x, t)" "p_value m' s = Some (x, t)" using Some a v by simp_all
    ultimately show ?thesis unfolding m by (auto split: list.splits)
  qed (use v m in simp)
next
  case (6 n s)
  from 6(4) obtain m' where m: "m = Suc m'" by (cases m) auto
  have v: "p_value n w = p_value m' w"
    if "skip_ws s = CHR 0x22 # t" "json_unescape t = Some (k, u)" "skip_ws u = CHR '':'' # w" for t k u w
    by (rule 6(1) [OF that(1) refl that(2) refl that(3) refl]) (use skip_ws_Cons [OF that(1)]
      json_unescape_shorter [OF that(2)] skip_ws_Cons [OF that(3)] 6(3,4) m in simp_all)
  have e: "p_members n z = p_members m' z"
    if "skip_ws s = CHR 0x22 # t" "json_unescape t = Some (k, u)" "skip_ws u = CHR '':'' # w"
      "p_value n w = Some (x, y)" "skip_ws y = CHR '','' # z" for t k u w x y z
    by (rule 6(2) [OF that(1) refl that(2) refl that(3) refl that(4) refl that(5) refl])
      (use skip_ws_Cons [OF that(1)] json_unescape_shorter [OF that(2)] skip_ws_Cons [OF that(3)]
        p_shorter(1) [OF that(4)] skip_ws_Cons [OF that(5)] 6(3,4) m in simp_all)
  show ?case
  proof (cases "skip_ws s")
    case s: (Cons q t)
    show ?thesis
    proof (cases "q = CHR 0x22 \<and> json_unescape t \<noteq> None")
      case True
      then obtain k u where u: "json_unescape t = Some (k, u)" by auto
      show ?thesis
      proof (cases "skip_ws u")
        case d: (Cons d w)
        show ?thesis
        proof (cases "d = CHR '':''")
          case d': True
          have v': "p_value m' w = p_value n w" using v s u d d' True by simp
          show ?thesis using e v' s u d d' True m
            by (auto split: option.splits list.splits)
        qed (use s u d True m in simp)
      qed (use s u True m in simp)
    qed (use s m in \<open>auto split: option.splits\<close>)
  qed (use m in simp)
qed simp_all

text \<open>Decimal literals are numbers the scanner accepts.\<close>

lemma is_digit_digit_char: "d < 10 \<Longrightarrow> is_digit (digit_char d)"
  by (simp add: is_digit_def)

lemma takeWhile_nat_text [simp]:
  "takeWhile is_digit (nat_text n) = nat_text n" "dropWhile is_digit (nat_text n) = []"
  using set_nat_text [of n] is_digit_digit_char by (auto simp: takeWhile_eq_all_conv)

lemma nat_text_no_zero: "hd (nat_text n) = CHR ''0'' \<Longrightarrow> length (nat_text n) = 1"
proof (induction n rule: nat_text.induct)
  case (1 n)
  show ?case
  proof (cases "n < 10")
    case False
    then have eq: "nat_text n = nat_text (n div 10) @ [digit_char (n mod 10)]"
      by (simp add: nat_text.simps [of n])
    with 1(2) have "hd (nat_text (n div 10)) = CHR ''0''" by simp
    with 1(1) False have "length (nat_text (n div 10)) = 1" by simp
    then obtain c where c: "nat_text (n div 10) = [c]" by (auto simp: length_Suc_conv)
    then have "c = CHR ''0''" using \<open>hd (nat_text (n div 10)) = CHR ''0''\<close> by simp
    then have "scan_nat 10 (nat_text (n div 10)) = Some 0"
      using c by (simp add: scan_nat_def scan_digit_def digit_val_def)
    then show ?thesis using False by simp
  qed (simp add: nat_text.simps [of n])
qed

lemma number_ok_nat_text [simp]: "number_ok (nat_text n)"
proof -
  obtain c t where ct: "nat_text n = c # t" by (cases "nat_text n") auto
  then have c: "c \<noteq> CHR ''-''"
    using nat_text_hd [of n] digit_char_neq_sign by auto
  show ?thesis
    using nat_text_no_zero [of n] takeWhile_nat_text [of n] c
    by (auto simp: number_ok_def p_number_def Let_def ct p_fraction_def p_exponent_def)
qed

section \<open>interface{} values\<close>

text \<open>
  Decoding into an \<^verbatim>\<open>interface{}\<close> turns an object into a \<^verbatim>\<open>map[string]interface{}\<close>: of two
  members with one key the later counts, and \<^verbatim>\<open>Marshal\<close> writes the keys in ascending order.
  The map is represented by its sorted list of entries.
\<close>

definition canon :: "(string \<times> 'a) list \<Rightarrow> (string \<times> 'a) list" where
  "canon ms = map (\<lambda>k. (k, the (map_of (rev ms) k))) (sort (remdups (map fst ms)))"

fun json_any :: "json \<Rightarrow> json" where
  "json_any (JArr xs) = JArr (map json_any xs)"
| "json_any (JObj ms) = JObj (canon (map (\<lambda>(k, v). (k, json_any v)) ms))"
| "json_any j = j"

definition Unmarshal_any :: "string \<Rightarrow> json res" where
  "Unmarshal_any s = (case json_parse s of Inl e \<Rightarrow> Inl e | Inr j \<Rightarrow> Inr (json_any j))"

lemma canon_subset: "m \<in> set (canon ms) \<Longrightarrow> m \<in> set ms"
proof -
  assume "m \<in> set (canon ms)"
  then obtain k where k: "k \<in> fst ` set (rev ms)" "m = (k, the (map_of (rev ms) k))"
    by (auto simp: canon_def)
  then obtain v where "map_of (rev ms) k = Some v"
    by (metis map_of_eq_None_iff not_Some_eq)
  then show ?thesis using k(2) map_of_SomeD by fastforce
qed

text \<open>Values all of whose strings are well-formed UTF-8 pass through unchanged.\<close>

fun json_valid :: "json \<Rightarrow> bool" where
  "json_valid (JStr s) = (utf8_coerce s = s)"
| "json_valid (JArr xs) = (\<forall>x \<in> set xs. json_valid x)"
| "json_valid (JObj ms) = (\<forall>m \<in> set ms. utf8_coerce (fst m) = fst m \<and> json_valid (snd m))"
| "json_valid _ = True"

lemma json_utf8_valid [simp]: "json_valid j \<Longrightarrow> json_utf8 j = j"
  by (induction j rule: json_utf8.induct) (auto intro!: map_idI)

lemma json_ok_any [simp]: "json_ok j \<Longrightarrow> json_ok (json_any j)"
  by (induction j rule: json_any.induct) (fastforce dest!: canon_subset)+

lemma json_valid_any [simp]: "json_valid j \<Longrightarrow> json_valid (json_any j)"
  by (induction j rule: json_any.induct) (fastforce dest!: canon_subset)+

section \<open>Struct fields\<close>

text \<open>
  A key names the field it equals, or else the first field it equals up to case folding.
  Field names are ASCII, so folding matters for ASCII letters and for the two other runes
  that fold to one (the Kelvin sign and the long s).
\<close>

fun fold_name :: "string \<Rightarrow> string" where
  "fold_name [] = []"
| "fold_name (c # s) =
     (if c = CHR 0xE2 \<and> take 2 s = [CHR 0x84, CHR 0xAA] then CHR ''K'' # fold_name (drop 2 s)
      else if c = CHR 0xC5 \<and> take 1 s = [CHR 0xBF] then CHR ''S'' # fold_name (drop 1 s)
      else if 97 \<le> code c \<and> code c \<le> 122 then char_of (code c - 32) # fold_name s
      else c # fold_name s)"

definition find_field :: "(string \<times> 'f) list \<Rightarrow> string \<Rightarrow> 'f option" where
  "find_field fs k =
     (case map_of fs k of
        Some f \<Rightarrow> Some f
      | None \<Rightarrow> map_of (map (\<lambda>(n, f). (fold_name n, f)) fs) (fold_name k))"

type_synonym 'a setter = "json \<Rightarrow> 'a \<Rightarrow> 'a res"

fun decode_members :: "(string \<times> 'a setter) list \<Rightarrow> (string \<times> json) list \<Rightarrow> 'a \<Rightarrow> 'a res" where
  "decode_members fs [] a = Inr a"
| "decode_members fs ((k, v) # ms) a =
     (case find_field fs k of
        None \<Rightarrow> decode_members fs ms a
      | Some set_f \<Rightarrow>
          (case set_f v a of Inl e \<Rightarrow> Inl e | Inr a' \<Rightarrow> decode_members fs ms a'))"

fun decode_struct :: "string \<Rightarrow> (string \<times> 'a setter) list \<Rightarrow> json \<Rightarrow> 'a \<Rightarrow> 'a res" where
  "decode_struct ty fs JNull a = Inr a"
| "decode_struct ty fs (JObj ms) a = decode_members fs ms a"
| "decode_struct ty fs _ a = Inl (UnmarshalTypeError ty)"

fun decode_string :: "(string \<Rightarrow> 'a \<Rightarrow> 'a) \<Rightarrow> 'a setter" where
  "decode_string upd JNull a = Inr a"
| "decode_string upd (JStr s) a = Inr (upd s a)"
| "decode_string upd _ a = Inl (UnmarshalTypeError ''string'')"

fun decode_uint32 :: "(32 word \<Rightarrow> 'a \<Rightarrow> 'a) \<Rightarrow> 'a setter" where
  "decode_uint32 upd JNull a = Inr a"
| "decode_uint32 upd (JNum lit) a =
     (case scan_nat 10 lit of
        Some n \<Rightarrow> if n < 2 ^ 32 then Inr (upd (word_of_nat n) a) else Inl (UnmarshalTypeError ''uint32'')
      | None \<Rightarrow> Inl (UnmarshalTypeError ''uint32''))"
| "decode_uint32 upd _ a = Inl (UnmarshalTypeError ''uint32'')"

text \<open>A \<^verbatim>\<open>map[string]T\<close>: nil or a finite map.  Decoding adds to the map there is.\<close>

type_synonym 'v gomap = "(string, 'v) fmap option"

fun decode_entries :: "(json \<Rightarrow> 'v res) \<Rightarrow> (string \<times> json) list \<Rightarrow> (string, 'v) fmap \<Rightarrow> (string, 'v) fmap res" where
  "decode_entries dec [] m = Inr m"
| "decode_entries dec ((k, v) # ms) m =
     (case dec v of Inl e \<Rightarrow> Inl e | Inr x \<Rightarrow> decode_entries dec ms (fmupd k x m))"

fun decode_map :: "(json \<Rightarrow> 'v res) \<Rightarrow> json \<Rightarrow> 'v gomap \<Rightarrow> 'v gomap res" where
  "decode_map dec JNull m = Inr None"
| "decode_map dec (JObj ms) m =
     (case decode_entries dec ms (case m of None \<Rightarrow> fmempty | Some x \<Rightarrow> x) of
        Inl e \<Rightarrow> Inl e | Inr x \<Rightarrow> Inr (Some x))"
| "decode_map dec _ m = Inl (UnmarshalTypeError ''map'')"

definition encode_map :: "('v \<Rightarrow> json) \<Rightarrow> 'v gomap \<Rightarrow> json" where
  "encode_map enc m =
     (case m of None \<Rightarrow> JNull | Some x \<Rightarrow> JObj (map (\<lambda>(k, v). (k, enc v)) (sorted_list_of_fmap x)))"

lemma canon_sorted:
  assumes "sorted (map fst ms)" and "distinct (map fst ms)"
  shows "canon ms = ms"
proof -
  have "the (map_of (rev ms) k) = v" if "(k, v) \<in> set ms" for k v
    using that assms(2) by (simp add: map_of_is_SomeI rev_map distinct_rev flip: rev_map)
  then have "map (\<lambda>k. (k, the (map_of (rev ms) k))) (map fst ms) = ms"
    by (auto intro!: map_idI simp: o_def)
  then show ?thesis using assms by (simp add: canon_def sorted_sort_id distinct_remdups_id)
qed

lemma keys_sorted_list_of_fmap:
  "sorted (map fst (sorted_list_of_fmap m))" "distinct (map fst (sorted_list_of_fmap m))"
  by (simp_all add: sorted_list_of_fmap_def o_def sorted_list_of_fset.rep_eq)

lemma decode_entries_map:
  assumes "\<And>k v. (k, v) \<in> set es \<Longrightarrow> dec (enc v) = Inr v"
  shows "decode_entries dec (map (\<lambda>(k, v). (k, enc v)) es) m = Inr (fold (\<lambda>(k, v). fmupd k v) es m)"
  using assms by (induction es arbitrary: m) force+

lemma fold_fmupd_lookup:
  "distinct (map fst es) \<Longrightarrow>
   fmlookup (fold (\<lambda>(k, v). fmupd k v) es m) x = (case map_of es x of None \<Rightarrow> fmlookup m x | Some v \<Rightarrow> Some v)"
proof (induction es arbitrary: m)
  case (Cons e es)
  obtain k v where e: "e = (k, v)" by (cases e)
  then have "map_of es k = None" using Cons.prems by (simp add: map_of_eq_None_iff)
  with Cons e show ?case by (auto split: option.splits)
qed simp

lemma fold_fmupd_sorted_list: "fold (\<lambda>(k, v). fmupd k v) (sorted_list_of_fmap m) fmempty = m"
  by (rule fmap_ext) (simp add: fold_fmupd_lookup keys_sorted_list_of_fmap split: option.splits)

lemma set_sorted_list_of_fmap [simp]:
  "(k, v) \<in> set (sorted_list_of_fmap x) \<longleftrightarrow> fmlookup x k = Some v"
  by (metis keys_sorted_list_of_fmap(2) map_of_eq_Some_iff map_of_sorted_list)

lemma decode_map_encode:
  assumes "\<And>v. v \<in> fmran' x \<Longrightarrow> dec (enc v) = Inr v"
  shows "decode_map dec (encode_map enc (Some x)) None = Inr (Some x)"
proof -
  have "dec (enc v) = Inr v" if "(k, v) \<in> set (sorted_list_of_fmap x)" for k v
    by (rule assms) (use that in \<open>auto intro: fmran'I\<close>)
  then have "decode_entries dec (map (\<lambda>(k, v). (k, enc v)) (sorted_list_of_fmap x)) fmempty = Inr x"
    using decode_entries_map [of "sorted_list_of_fmap x" dec enc fmempty]
    by (simp add: fold_fmupd_sorted_list)
  then show ?thesis by (simp add: encode_map_def)
qed

lemma encode_map_ok:
  assumes "\<And>k v. fmlookup x k = Some v \<Longrightarrow> json_ok (enc v)"
  shows "json_ok (encode_map enc (Some x))"
  using assms by (auto simp: encode_map_def)

lemma encode_map_valid:
  assumes "\<And>k v. fmlookup x k = Some v \<Longrightarrow> utf8_coerce k = k \<and> json_valid (enc v)"
  shows "json_valid (encode_map enc (Some x))"
  using assms by (auto simp: encode_map_def)

end
