(* ===== verification/Lib.thy ===== *)
theory Lib
  imports Encrypto Json
begin

text \<open>
  The packages the program calls and does not contain.  Each is a record of functions, an
  argument of every definition that uses it; \<open>eth_laws\<close> and \<open>alice_laws\<close> state the documented
  behaviour the program relies on, and are hypotheses of the properties that need them.
\<close>

section \<open>crypto/ecdsa keys\<close>

datatype curve = S256 | P256

record PublicKey =
  pk_Curve :: "curve option"
  pk_X :: int
  pk_Y :: int

record PrivateKey =
  sk_PublicKey :: PublicKey
  sk_D :: int

section \<open>go-ethereum\<close>

text \<open>
  \<^verbatim>\<open>go-ethereum/crypto\<close> and \<^verbatim>\<open>go-ethereum/common\<close>.  \<open>slice_cap\<close> is not theirs but the Go
  runtime's: the capacity of the slice \<^verbatim>\<open>[]byte(s)\<close> makes of an \<open>n\<close>-byte string.
\<close>

record eth =
  Keccak256 :: "byte list \<Rightarrow> byte list"
  CompressPubkey :: "PublicKey \<Rightarrow> byte list"
  DecompressPubkey :: "byte list \<Rightarrow> PublicKey res"
  PubkeyToAddress :: "PublicKey \<Rightarrow> byte list"
  FromECDSA :: "PrivateKey \<Rightarrow> byte list"
  FromHex :: "string \<Rightarrow> byte list"
  Bytes2Hex :: "byte list \<Rightarrow> string"
  Hex2Bytes :: "string \<Rightarrow> byte list"
  Address_MarshalText :: "byte list \<Rightarrow> string"
  Address_UnmarshalJSON :: "json \<Rightarrow> byte list res"
  Address_String :: "byte list \<Rightarrow> string"
  slice_cap :: "nat \<Rightarrow> nat"

definition eth_laws :: "eth \<Rightarrow> bool" where
  "eth_laws e \<longleftrightarrow>
     (\<forall>b. length (Keccak256 e b) = 32) \<and>
     (\<forall>pk. length (CompressPubkey e pk) = 33) \<and>
     (\<forall>pk c. CompressPubkey e (pk\<lparr>pk_Curve := c\<rparr>) = CompressPubkey e pk) \<and>
     (\<forall>pk. length (PubkeyToAddress e pk) = 20) \<and>
     (\<forall>k. length (FromECDSA e k) = 32) \<and>
     (\<forall>b. Bytes2Hex e b = hex_EncodeToString b) \<and>
     (\<forall>b. FromHex e (hex_EncodeToString b) = b) \<and>
     (\<forall>b. Hex2Bytes e (hex_EncodeToString b) = b) \<and>
     (\<forall>a. length a = 20 \<longrightarrow> Address_UnmarshalJSON e (JStr (Address_MarshalText e a)) = Inr a) \<and>
     (\<forall>a. utf8_coerce (Address_MarshalText e a) = Address_MarshalText e a)"

lemma eth_lawsD:
  assumes "eth_laws e"
  shows "length (Keccak256 e b) = 32"
    and "length (CompressPubkey e pk) = 33"
    and "CompressPubkey e (pk\<lparr>pk_Curve := c\<rparr>) = CompressPubkey e pk"
    and "length (PubkeyToAddress e pk) = 20"
    and "length (FromECDSA e k) = 32"
    and "Bytes2Hex e b = hex_EncodeToString b"
    and "FromHex e (hex_EncodeToString b) = b"
    and "Hex2Bytes e (hex_EncodeToString b) = b"
    and "length a = 20 \<Longrightarrow> Address_UnmarshalJSON e (JStr (Address_MarshalText e a)) = Inr a"
    and "utf8_coerce (Address_MarshalText e a) = Address_MarshalText e a"
  using assms unfolding eth_laws_def by blast+

text \<open>A public key is compressed by its coordinates alone, whatever curve the struct names.\<close>

lemma CompressPubkey_coords:
  assumes "eth_laws e" and "pk_X p = pk_X q" and "pk_Y p = pk_Y q"
  shows "CompressPubkey e p = CompressPubkey e q"
proof -
  have "p\<lparr>pk_Curve := pk_Curve q\<rparr> = q" using assms(2,3) by simp
  then show ?thesis using eth_lawsD(3) [OF assms(1), where pk = p and c = "pk_Curve q"] by simp
qed

section \<open>alice\<close>

text \<open>
  \<^verbatim>\<open>getamis/alice\<close>: curve points (\<^verbatim>\<open>ecpointgrouplaw\<close>) of type \<open>'pt\<close> and Birkhoff parameters
  (\<^verbatim>\<open>birkhoffinterpolation\<close>) of type \<open>'bk\<close>, with the accessors the program calls, and the
  result structs of its protocols.
\<close>

record ('pt, 'bk) alice =
  GetX :: "'pt \<Rightarrow> int"
  GetY :: "'pt \<Rightarrow> int"
  ToPubKey :: "'pt \<Rightarrow> PublicKey"
  NewECPoint :: "curve \<Rightarrow> int \<Rightarrow> int \<Rightarrow> 'pt res"
  BkGetX :: "'bk \<Rightarrow> int"
  BkGetRank :: "'bk \<Rightarrow> 32 word"
  NewBkParameter :: "int \<Rightarrow> 32 word \<Rightarrow> 'bk"

definition alice_laws :: "('pt, 'bk) alice \<Rightarrow> bool" where
  "alice_laws A \<longleftrightarrow>
     (\<forall>p. pk_X (ToPubKey A p) = GetX A p \<and> pk_Y (ToPubKey A p) = GetY A p) \<and>
     (\<forall>p. 0 \<le> GetX A p \<and> 0 \<le> GetY A p) \<and>
     (\<forall>b. NewBkParameter A (BkGetX A b) (BkGetRank A b) = b)"

lemma alice_lawsD:
  assumes "alice_laws A"
  shows "pk_X (ToPubKey A p) = GetX A p" and "pk_Y (ToPubKey A p) = GetY A p"
    and "0 \<le> GetX A p" and "0 \<le> GetY A p"
    and "NewBkParameter A (BkGetX A b) (BkGetRank A b) = b"
  using assms unfolding alice_laws_def by blast+

record ('pt, 'bk) dkg_Result =
  r_PublicKey :: 'pt
  r_Share :: int
  r_Bks :: "(string, 'bk) fmap"

record reshare_Result =
  rr_Share :: int

record signer_Result =
  sr_R :: int
  sr_S :: int

section \<open>badger\<close>

text \<open>
  \<open>bdg_Get\<close> is \<^verbatim>\<open>txn.Get\<close> (the outer result) followed by \<^verbatim>\<open>item.Value\<close> (the inner one);
  \<open>bdg_Set\<close> and \<open>bdg_Delete\<close> are the error of \<^verbatim>\<open>txn.Set\<close> and \<^verbatim>\<open>txn.Delete\<close> in a fresh
  transaction, \<open>bdg_Commit_Set\<close> and \<open>bdg_Commit_Delete\<close> the commit of that transaction.
\<close>

record 'db badger =
  bdg_Open :: "string \<Rightarrow> 'db res"
  bdg_Close :: "'db \<Rightarrow> 'db \<times> go_error option"
  bdg_Get :: "'db \<Rightarrow> string \<Rightarrow> (string res) res"
  bdg_Set :: "'db \<Rightarrow> string \<Rightarrow> string \<Rightarrow> go_error option"
  bdg_Commit_Set :: "'db \<Rightarrow> string \<Rightarrow> string \<Rightarrow> 'db \<times> go_error option"
  bdg_Delete :: "'db \<Rightarrow> string \<Rightarrow> go_error option"
  bdg_Commit_Delete :: "'db \<Rightarrow> string \<Rightarrow> 'db \<times> go_error option"

text \<open>Transactions are atomic: a commit that succeeds changes its key, one that fails nothing.\<close>

definition badger_laws :: "'db badger \<Rightarrow> bool" where
  "badger_laws B \<longleftrightarrow>
     (\<forall>db k v db' x. bdg_Commit_Set B db k v = (db', None) \<longrightarrow>
        bdg_Get B db' x = (if x = k then Inr (Inr v) else bdg_Get B db x)) \<and>
     (\<forall>db k v db' err x. bdg_Commit_Set B db k v = (db', Some err) \<longrightarrow>
        bdg_Get B db' x = bdg_Get B db x) \<and>
     (\<forall>db k db' x. bdg_Commit_Delete B db k = (db', None) \<longrightarrow>
        bdg_Get B db' x = (if x = k then Inl (LibError ''Key not found'') else bdg_Get B db x)) \<and>
     (\<forall>db k db' err x. bdg_Commit_Delete B db k = (db', Some err) \<longrightarrow>
        bdg_Get B db' x = bdg_Get B db x)"

lemma badger_lawsD:
  assumes "badger_laws B"
  shows "bdg_Commit_Set B db k v = (db', None) \<Longrightarrow>
      bdg_Get B db' x = (if x = k then Inr (Inr v) else bdg_Get B db x)"
    and "bdg_Commit_Set B db k v = (db', Some err) \<Longrightarrow> bdg_Get B db' x = bdg_Get B db x"
    and "bdg_Commit_Delete B db k = (db', None) \<Longrightarrow>
      bdg_Get B db' x = (if x = k then Inl (LibError ''Key not found'') else bdg_Get B db x)"
    and "bdg_Commit_Delete B db k = (db', Some err) \<Longrightarrow> bdg_Get B db' x = bdg_Get B db x"
  using assms unfolding badger_laws_def by (simp, blast, simp, blast)

end
