(* ===== verification/Types.thy ===== *)
theory Types
  imports Lib
begin

text \<open>
  The structs of \<^verbatim>\<open>types/\<close> and the protobuf messages of \<^verbatim>\<open>pb/tss.pb.go\<close>, with what
  \<^verbatim>\<open>encoding/json\<close> writes for them and reads into them.
\<close>

type_synonym u32 = "32 word"

section \<open>types/app.go\<close>

type_synonym StoreType = string

definition StoreTypeMock :: StoreType where
  "StoreTypeMock = ''mock''"

definition StoreTypeBadger :: StoreType where
  "StoreTypeBadger = ''badger''"

record StoreConfig =
  store_Type :: StoreType
  store_Path :: string

record AppConfig =
  app_Port :: int
  app_RPC :: int
  app_Store :: StoreConfig

section \<open>types/tss.go\<close>

record Pubkey =
  Pubkey_X :: string
  Pubkey_Y :: string

record BK =
  BK_X :: string
  BK_Rank :: u32

record SignerConfig =
  sc_Share :: string
  sc_Pubkey :: Pubkey
  sc_BKs :: "BK gomap"

record DKGConfig =
  dc_Rank :: u32
  dc_Threshold :: u32

record DKGResult =
  dr_Share :: string
  dr_Pubkey :: Pubkey
  dr_PublicKey :: string
  dr_Address :: "byte list"
  dr_BKs :: "BK gomap"

record ReshareConfig =
  rc_Threshold :: u32
  rc_Share :: string
  rc_Pubkey :: Pubkey
  rc_BKs :: "BK gomap"

record RVSignature =
  rv_R :: string
  rv_S :: string
  rv_Hash :: string

section \<open>pb/tss.pb.go\<close>

record SignRequest =
  sreq_Hash :: string
  sreq_Pubkey :: string
  sreq_Message :: string

record ReshareRequest =
  rreq_Hash :: string
  rreq_Pubkey :: string

record CheckSignatureByPubkeyRequest =
  creq_Message :: string
  creq_Pubkey :: string

record DkgReply =
  dk_X :: string
  dk_Y :: string
  dk_Pubkey :: string
  dk_Address :: string
  dk_Hash :: string

section \<open>Zero values\<close>

definition zero_Pubkey :: Pubkey where
  "zero_Pubkey = \<lparr>Pubkey_X = '''', Pubkey_Y = ''''\<rparr>"

definition zero_BK :: BK where
  "zero_BK = \<lparr>BK_X = '''', BK_Rank = 0\<rparr>"

definition zero_DKGResult :: DKGResult where
  "zero_DKGResult =
     \<lparr>dr_Share = '''', dr_Pubkey = zero_Pubkey, dr_PublicKey = '''',
      dr_Address = replicate 20 0, dr_BKs = None\<rparr>"

definition zero_RVSignature :: RVSignature where
  "zero_RVSignature = \<lparr>rv_R = '''', rv_S = '''', rv_Hash = ''''\<rparr>"

section \<open>Marshal\<close>

definition json_Pubkey :: "Pubkey \<Rightarrow> json" where
  "json_Pubkey p = JObj [(''X'', JStr (Pubkey_X p)), (''Y'', JStr (Pubkey_Y p))]"

definition json_BK :: "BK \<Rightarrow> json" where
  "json_BK b = JObj [(''X'', JStr (BK_X b)), (''Rank'', JNum (nat_text (unat (BK_Rank b))))]"

definition json_DKGResult :: "eth \<Rightarrow> DKGResult \<Rightarrow> json" where
  "json_DKGResult e d =
     JObj [(''share'', JStr (dr_Share d)),
           (''pubkey'', json_Pubkey (dr_Pubkey d)),
           (''publicKey'', JStr (dr_PublicKey d)),
           (''address'', JStr (Address_MarshalText e (dr_Address d))),
           (''bks'', encode_map json_BK (dr_BKs d))]"

definition json_RVSignature :: "RVSignature \<Rightarrow> json" where
  "json_RVSignature v =
     JObj [(''r'', JStr (rv_R v)), (''s'', JStr (rv_S v)), (''hash'', JStr (rv_Hash v))]"

section \<open>Unmarshal\<close>

definition Pubkey_fields :: "(string \<times> Pubkey setter) list" where
  "Pubkey_fields =
     [(''X'', decode_string (\<lambda>s. Pubkey_X_update (\<lambda>_. s))),
      (''Y'', decode_string (\<lambda>s. Pubkey_Y_update (\<lambda>_. s)))]"

definition BK_fields :: "(string \<times> BK setter) list" where
  "BK_fields =
     [(''X'', decode_string (\<lambda>s. BK_X_update (\<lambda>_. s))),
      (''Rank'', decode_uint32 (\<lambda>n. BK_Rank_update (\<lambda>_. n)))]"

definition decode_BK :: "json \<Rightarrow> BK res" where
  "decode_BK j = decode_struct ''BK'' BK_fields j zero_BK"

definition DKGResult_fields :: "eth \<Rightarrow> (string \<times> DKGResult setter) list" where
  "DKGResult_fields e =
     [(''share'', decode_string (\<lambda>s. dr_Share_update (\<lambda>_. s))),
      (''pubkey'', \<lambda>j d. (case decode_struct ''Pubkey'' Pubkey_fields j (dr_Pubkey d) of
          Inl x \<Rightarrow> Inl x | Inr p \<Rightarrow> Inr (d\<lparr>dr_Pubkey := p\<rparr>))),
      (''publicKey'', decode_string (\<lambda>s. dr_PublicKey_update (\<lambda>_. s))),
      (''address'', \<lambda>j d. (case Address_UnmarshalJSON e j of
          Inl x \<Rightarrow> Inl x | Inr a \<Rightarrow> Inr (d\<lparr>dr_Address := a\<rparr>))),
      (''bks'', \<lambda>j d. (case decode_map decode_BK j (dr_BKs d) of
          Inl x \<Rightarrow> Inl x | Inr m \<Rightarrow> Inr (d\<lparr>dr_BKs := m\<rparr>)))]"

definition decode_DKGResult :: "eth \<Rightarrow> json \<Rightarrow> DKGResult res" where
  "decode_DKGResult e j = decode_struct ''DKGResult'' (DKGResult_fields e) j zero_DKGResult"

definition RVSignature_fields :: "(string \<times> RVSignature setter) list" where
  "RVSignature_fields =
     [(''r'', decode_string (\<lambda>s. rv_R_update (\<lambda>_. s))),
      (''s'', decode_string (\<lambda>s. rv_S_update (\<lambda>_. s))),
      (''hash'', decode_string (\<lambda>s. rv_Hash_update (\<lambda>_. s)))]"

definition decode_RVSignature :: "json \<Rightarrow> RVSignature res" where
  "decode_RVSignature j = decode_struct ''RVSignature'' RVSignature_fields j zero_RVSignature"

definition SignRequest_fields :: "(string \<times> SignRequest setter) list" where
  "SignRequest_fields =
     [(''hash'', decode_string (\<lambda>s. sreq_Hash_update (\<lambda>_. s))),
      (''pubkey'', decode_string (\<lambda>s. sreq_Pubkey_update (\<lambda>_. s))),
      (''message'', decode_string (\<lambda>s. sreq_Message_update (\<lambda>_. s)))]"

definition decode_SignRequest :: "json \<Rightarrow> SignRequest res" where
  "decode_SignRequest j =
     decode_struct ''SignRequest'' SignRequest_fields j \<lparr>sreq_Hash = '''', sreq_Pubkey = '''', sreq_Message = ''''\<rparr>"

definition ReshareRequest_fields :: "(string \<times> ReshareRequest setter) list" where
  "ReshareRequest_fields =
     [(''hash'', decode_string (\<lambda>s. rreq_Hash_update (\<lambda>_. s))),
      (''pubkey'', decode_string (\<lambda>s. rreq_Pubkey_update (\<lambda>_. s)))]"

definition decode_ReshareRequest :: "json \<Rightarrow> ReshareRequest res" where
  "decode_ReshareRequest j =
     decode_struct ''ReshareRequest'' ReshareRequest_fields j \<lparr>rreq_Hash = '''', rreq_Pubkey = ''''\<rparr>"

definition CheckSignature_fields :: "(string \<times> CheckSignatureByPubkeyRequest setter) list" where
  "CheckSignature_fields =
     [(''message'', decode_string (\<lambda>s. creq_Message_update (\<lambda>_. s))),
      (''pubkey'', decode_string (\<lambda>s. creq_Pubkey_update (\<lambda>_. s)))]"

definition decode_CheckSignature :: "json \<Rightarrow> CheckSignatureByPubkeyRequest res" where
  "decode_CheckSignature j =
     decode_struct ''CheckSignatureByPubkeyRequest'' CheckSignature_fields j \<lparr>creq_Message = '''', creq_Pubkey = ''''\<rparr>"

section \<open>A struct read back from its JSON\<close>

lemma json_any_encode_map:
  "json_any (encode_map enc m) = encode_map (\<lambda>v. json_any (enc v)) m"
proof (cases m)
  case (Some x)
  have "canon (map (\<lambda>(k, v). (k, json_any (enc v))) (sorted_list_of_fmap x)) =
      map (\<lambda>(k, v). (k, json_any (enc v))) (sorted_list_of_fmap x)"
    using keys_sorted_list_of_fmap [of x]
    by (intro canon_sorted) (simp_all add: o_def case_prod_unfold)
  with Some show ?thesis by (simp add: encode_map_def o_def case_prod_unfold)
qed (simp add: encode_map_def)

lemma decode_BK_any [roundtrip, simp]: "decode_BK (json_any (json_BK b)) = Inr b"
proof -
  have "unat (BK_Rank b) < 4294967296"
    using unsigned_less [of "BK_Rank b", where ?'a = nat] by simp
  then show ?thesis
    by (simp add: json_BK_def canon_def decode_BK_def BK_fields_def find_field_def zero_BK_def)
qed

lemma decode_DKGResult_any [roundtrip]:
  assumes "eth_laws e" and "length (dr_Address d) = 20"
  shows "decode_DKGResult e (json_any (json_DKGResult e d)) = Inr d"
proof -
  have bks: "decode_map decode_BK (json_any (encode_map json_BK (dr_BKs d))) None = Inr (dr_BKs d)"
    unfolding json_any_encode_map
    by (cases "dr_BKs d") (simp_all add: decode_map_encode, simp add: encode_map_def)
  show ?thesis
    using assms bks
    by (simp add: json_DKGResult_def json_Pubkey_def canon_def decode_DKGResult_def DKGResult_fields_def
        Pubkey_fields_def find_field_def zero_DKGResult_def zero_Pubkey_def eth_lawsD)
qed

end
