(* ===== verification/Instance.thy ===== *)
theory Instance
  imports Lib
begin

text \<open>
  One concrete value for each third-party package: a small but complete implementation on
  which the laws of \<open>Lib\<close> hold.  They show that the hypotheses of the properties
  can be met; no property depends on them.
\<close>

section \<open>go-ethereum\<close>

text \<open>The last 32 bytes of a number, padded with zeros on the left.\<close>

definition pad32 :: "byte list \<Rightarrow> byte list" where
  "pad32 b = drop (length b) (replicate 32 0 @ b)"

definition unhex :: "string \<Rightarrow> byte list" where
  "unhex s = (case hex_DecodeString s of Inl e \<Rightarrow> [] | Inr b \<Rightarrow> b)"

definition eth0_address :: "json \<Rightarrow> byte list res" where
  "eth0_address j = (case j of JStr s \<Rightarrow> hex_DecodeString (drop 2 s) | _ \<Rightarrow> Inl (UnmarshalTypeError ''Address''))"

definition eth0 :: eth where
  "eth0 =
     \<lparr>Keccak256 = pad32,
      CompressPubkey = (\<lambda>pk. (if even (pk_Y pk) then 2 else 3) # pad32 (big_Bytes (pk_X pk))),
      DecompressPubkey = (\<lambda>b. if length b = 33
         then Inr \<lparr>pk_Curve = Some S256, pk_X = big_SetBytes (tl b), pk_Y = 0\<rparr>
         else Inl (LibError ''invalid public key'')),
      PubkeyToAddress = (\<lambda>pk. drop 12 (pad32 (big_Bytes (pk_X pk)))),
      FromECDSA = (\<lambda>k. pad32 (big_Bytes (sk_D k))),
      FromHex = unhex,
      Bytes2Hex = hex_EncodeToString,
      Hex2Bytes = unhex,
      Address_MarshalText = (\<lambda>a. ''0x'' @ hex_EncodeToString a),
      Address_UnmarshalJSON = eth0_address,
      Address_String = (\<lambda>a. ''0x'' @ hex_EncodeToString a),
      slice_cap = max 32\<rparr>"

lemma length_pad32 [simp]: "length (pad32 b) = 32"
  by (simp add: pad32_def)

lemma eth0_laws [simp]: "eth_laws eth0"
  by (simp add: eth_laws_def eth0_def unhex_def eth0_address_def)

section \<open>alice\<close>

text \<open>A point is its pair of coordinates, taken as non-negative; no curve equation is checked.\<close>

type_synonym pt0 = "nat \<times> nat"
type_synonym bk0 = "int \<times> 32 word"

definition alice0 :: "(pt0, bk0) alice" where
  "alice0 =
     \<lparr>GetX = (\<lambda>p. int (fst p)), GetY = (\<lambda>p. int (snd p)),
      ToPubKey = (\<lambda>p. \<lparr>pk_Curve = Some S256, pk_X = int (fst p), pk_Y = int (snd p)\<rparr>),
      NewECPoint = (\<lambda>c x y. if 0 \<le> x \<and> 0 \<le> y then Inr (nat x, nat y) else Inl (LibError ''invalid point'')),
      BkGetX = fst, BkGetRank = snd, NewBkParameter = Pair\<rparr>"

lemma alice0_laws [simp]: "alice_laws alice0"
  by (simp add: alice_laws_def alice0_def)

definition result0 :: "(pt0, bk0) dkg_Result" where
  "result0 = \<lparr>r_PublicKey = (7, 12), r_Share = 0x1234567890abcdef,
     r_Bks = fmupd ''QmA'' (1, 0) (fmupd ''QmB'' (2, 0) fmempty)\<rparr>"

definition key0 :: PrivateKey where
  "key0 = \<lparr>sk_PublicKey = \<lparr>pk_Curve = Some S256, pk_X = 1, pk_Y = 2\<rparr>, sk_D = 0xabcdef\<rparr>"

section \<open>badger\<close>

text \<open>The database as the list of its entries, newest first; every transaction commits.\<close>

type_synonym db0 = "(string \<times> string) list"

definition badger0 :: "db0 badger" where
  "badger0 =
     \<lparr>bdg_Open = (\<lambda>path. Inr []),
      bdg_Close = (\<lambda>db. (db, None)),
      bdg_Get = (\<lambda>db k. case map_of db k of
         None \<Rightarrow> Inl (LibError ''Key not found'') | Some v \<Rightarrow> Inr (Inr v)),
      bdg_Set = (\<lambda>db k v. if k = '''' then Some (LibError ''Key cannot be empty'') else None),
      bdg_Commit_Set = (\<lambda>db k v. ((k, v) # db, None)),
      bdg_Delete = (\<lambda>db k. if k = '''' then Some (LibError ''Key cannot be empty'') else None),
      bdg_Commit_Delete = (\<lambda>db k. (filter (\<lambda>e. fst e \<noteq> k) db, None))\<rparr>"

lemma map_of_filter_fst: "map_of (filter (\<lambda>e. fst e \<noteq> k) db) x = (if x = k then None else map_of db x)"
  by (induction db) auto

lemma badger0_laws [simp]: "badger_laws badger0"
  by (auto simp: badger_laws_def badger0_def map_of_filter_fst)

lemma badger0_sel [simp]:
  "bdg_Open badger0 path = Inr []"
  "bdg_Get badger0 db k = (case map_of db k of None \<Rightarrow> Inl (LibError ''Key not found'') | Some v \<Rightarrow> Inr (Inr v))"
  "bdg_Set badger0 db k v = (if k = '''' then Some (LibError ''Key cannot be empty'') else None)"
  "bdg_Commit_Set badger0 db k v = ((k, v) # db, None)"
  "bdg_Delete badger0 db k = (if k = '''' then Some (LibError ''Key cannot be empty'') else None)"
  "bdg_Commit_Delete badger0 db k = (filter (\<lambda>e. fst e \<noteq> k) db, None)"
  by (simp_all add: badger0_def)

end
