(* ===== verification/Fsm.thy ===== *)
theory Fsm
  imports Types Instance
begin

text \<open>
  \<^verbatim>\<open>store/badger_fsm.go\<close>: JSON values under string keys in a badger database.  The database
  is the third-party package of \<open>Lib\<close>: a state of type \<open>'db\<close> and the record of operations the
  code calls, each in a transaction of its own.
\<close>

section \<open>The FSM\<close>

record 'db FSM =
  fsm_db :: 'db
  fsm_privateKey :: PrivateKey

definition NewBadgerFSM :: "'db \<Rightarrow> PrivateKey \<Rightarrow> 'db FSM" where
  "NewBadgerFSM db key = \<lparr>fsm_db = db, fsm_privateKey = key\<rparr>"

text \<open>\<^verbatim>\<open>json.Marshal\<close> of a value whose tree is given never fails.\<close>

definition json_Marshal :: "json \<Rightarrow> string res" where
  "json_Marshal j = Inr (json_text j)"

definition FSM_Get :: "'db badger \<Rightarrow> 'db FSM \<Rightarrow> string \<Rightarrow> json \<times> go_error option" where
  "FSM_Get B fsm key =
     (case bdg_Get B (fsm_db fsm) key of
        Inl err \<Rightarrow> (JObj [], Some err)
      | Inr item \<Rightarrow>
          (case item of
             Inl err \<Rightarrow> (JObj [], Some err)
           | Inr value \<Rightarrow>
               (if 0 < length value
                then (case Unmarshal_any value of
                        Inl err \<Rightarrow> (JObj [], Some err)
                      | Inr data \<Rightarrow> (data, None))
                else (JNull, None))))"

definition FSM_commit :: "'db badger \<Rightarrow> 'db FSM \<Rightarrow> string \<Rightarrow> string \<Rightarrow> 'db FSM \<times> go_error option" where
  "FSM_commit B fsm key data =
     (case bdg_Set B (fsm_db fsm) key data of
        Some err \<Rightarrow> (fsm, Some err)
      | None \<Rightarrow>
          (let (db', err) = bdg_Commit_Set B (fsm_db fsm) key data
           in (fsm\<lparr>fsm_db := db'\<rparr>, err)))"

definition FSM_Set :: "'db badger \<Rightarrow> 'db FSM \<Rightarrow> string \<Rightarrow> json \<Rightarrow> 'db FSM \<times> go_error option" where
  "FSM_Set B fsm key value =
     (case json_Marshal value of
        Inl err \<Rightarrow> (fsm, Some err)
      | Inr data \<Rightarrow> if length data = 0 then (fsm, None) else FSM_commit B fsm key data)"

definition FSM_SetArr :: "'db badger \<Rightarrow> 'db FSM \<Rightarrow> string \<Rightarrow> json \<Rightarrow> 'db FSM \<times> go_error option" where
  "FSM_SetArr B fsm key value =
     (case json_Marshal (JArr [value]) of
        Inl err \<Rightarrow> (fsm, Some err)
      | Inr data \<Rightarrow>
          (if length data = 0 then (fsm, None)
           else
             (let (existValue, err) = FSM_Get B fsm key in
              if existValue \<noteq> JNull \<and> err = None then
                (case existValue of
                   JArr xs \<Rightarrow>
                     (case json_Marshal (JArr (xs @ [value])) of
                        Inl err' \<Rightarrow> (fsm, Some err')
                      | Inr data' \<Rightarrow> FSM_commit B fsm key data')
                 | _ \<Rightarrow> (fsm, Some (Panic ''interface conversion'')))
              else FSM_commit B fsm key data)))"

definition FSM_Delete :: "'db badger \<Rightarrow> 'db FSM \<Rightarrow> string \<Rightarrow> 'db FSM \<times> go_error option" where
  "FSM_Delete B fsm key =
     (case bdg_Delete B (fsm_db fsm) key of
        Some err \<Rightarrow> (fsm, Some err)
      | None \<Rightarrow>
          (let (db', err) = bdg_Commit_Delete B (fsm_db fsm) key
           in (fsm\<lparr>fsm_db := db'\<rparr>, err)))"

section \<open>What the operations do to the stored values\<close>

text \<open>The raw text under a key, if there is one.\<close>

definition fsm_text :: "'db badger \<Rightarrow> 'db FSM \<Rightarrow> string \<Rightarrow> (string res) res" where
  "fsm_text B fsm key = bdg_Get B (fsm_db fsm) key"

lemma FSM_Get_text: "fsm_text B f k = fsm_text B g k \<Longrightarrow> FSM_Get B f k = FSM_Get B g k"
  by (simp add: FSM_Get_def fsm_text_def)

lemma json_text_nonempty: "json_ok j \<Longrightarrow> json_text j \<noteq> []"
  using json_text_head by (metis list.distinct(1))

lemma FSM_commit_ok:
  assumes "badger_laws B" and "FSM_commit B f k d = (f', None)"
  shows "fsm_text B f' x = (if x = k then Inr (Inr d) else fsm_text B f x)"
    and "fsm_privateKey f' = fsm_privateKey f"
  using assms badger_lawsD(1) [OF assms(1), of "fsm_db f" k d]
  by (auto simp: FSM_commit_def fsm_text_def split: option.splits prod.splits)

lemma FSM_commit_err:
  assumes "badger_laws B" and "FSM_commit B f k d = (f', Some err)"
  shows "fsm_text B f' x = fsm_text B f x" and "fsm_privateKey f' = fsm_privateKey f"
  using assms badger_lawsD(2) [OF assms(1), of "fsm_db f" k d]
  by (auto simp: FSM_commit_def fsm_text_def split: option.splits prod.splits)

lemma FSM_Set_commit: "json_ok j \<Longrightarrow> FSM_Set B f k j = FSM_commit B f k (json_text j)"
  by (simp add: FSM_Set_def json_Marshal_def json_text_nonempty)

text \<open>A value written under a key is the value read from it, as an \<^verbatim>\<open>interface{}\<close>.\<close>

lemma FSM_Get_stored:
  assumes "fsm_text B f k = Inr (Inr (json_text j))" and "json_ok j"
  shows "FSM_Get B f k = (json_any (json_utf8 j), None)"
  using assms json_text_nonempty [OF assms(2)]
  by (simp add: FSM_Get_def fsm_text_def Unmarshal_any_def json_parse_text)

lemma FSM_Set_Get:
  assumes "badger_laws B" and "json_ok j" and "FSM_Set B f k j = (f', None)"
  shows "FSM_Get B f' k = (json_any (json_utf8 j), None)"
    and "x \<noteq> k \<Longrightarrow> FSM_Get B f' x = FSM_Get B f x"
proof -
  have commit: "FSM_commit B f k (json_text j) = (f', None)"
    using assms(2,3) by (simp add: FSM_Set_commit)
  note stored = FSM_commit_ok(1) [OF assms(1) commit]
  show "FSM_Get B f' k = (json_any (json_utf8 j), None)"
    by (rule FSM_Get_stored) (simp_all add: stored assms(2))
  show "x \<noteq> k \<Longrightarrow> FSM_Get B f' x = FSM_Get B f x"
    by (rule FSM_Get_text) (simp add: stored)
qed

lemma FSM_Set_err:
  assumes "badger_laws B" and "json_ok j" and "FSM_Set B f k j = (f', Some err)"
  shows "fsm_text B f' x = fsm_text B f x"
  using FSM_commit_err(1) [OF assms(1)] assms(2,3) by (simp add: FSM_Set_commit)

lemma FSM_SetArr_commit:
  "FSM_SetArr B f k v =
     (case FSM_Get B f k of
        (JArr xs, None) \<Rightarrow> FSM_commit B f k (json_text (JArr (xs @ [v])))
      | (JNull, None) \<Rightarrow> FSM_commit B f k (json_text (JArr [v]))
      | (x, None) \<Rightarrow> (f, Some (Panic ''interface conversion''))
      | (x, Some err) \<Rightarrow> FSM_commit B f k (json_text (JArr [v])))"
  by (auto simp: FSM_SetArr_def json_Marshal_def Let_def split: prod.splits json.splits option.splits)

lemma FSM_commit_Get:
  assumes "badger_laws B" and "json_ok j" and "FSM_commit B f k (json_text j) = (f', None)"
  shows "FSM_Get B f' k = (json_any (json_utf8 j), None)"
    and "x \<noteq> k \<Longrightarrow> FSM_Get B f' x = FSM_Get B f x"
  using FSM_Set_Get [OF assms(1,2), of f k f'] assms(3) by (simp_all add: FSM_Set_commit [OF assms(2)])

text \<open>What was decoded as an \<^verbatim>\<open>interface{}\<close> is decoded to itself.\<close>

lemma canon_keys: "sorted (map fst (canon ms)) \<and> distinct (map fst (canon ms))"
  by (simp add: canon_def o_def)

lemma canon_canon [simp]: "canon (canon ms) = canon ms"
  by (rule canon_sorted) (simp_all add: canon_keys)

lemma json_any_idem [simp]: "json_any (json_any j) = json_any j"
proof (induction j rule: json_any.induct)
  case (2 ms)
  let ?ms = "canon (map (\<lambda>(k, v). (k, json_any v)) ms)"
  have "(\<lambda>(k, v). (k, json_any v)) m = m" if "m \<in> set ?ms" for m
    using canon_subset [OF that] 2 by force
  then have "map (\<lambda>(k, v). (k, json_any v)) ?ms = ?ms" by (rule map_idI)
  then show ?case by simp
qed simp_all

text \<open>\<^verbatim>\<open>SetArr\<close> of one value after the other, until one fails.\<close>

primrec push_all :: "'db badger \<Rightarrow> string \<Rightarrow> json list \<Rightarrow> 'db FSM \<Rightarrow> 'db FSM \<times> go_error option" where
  "push_all B k [] f = (f, None)"
| "push_all B k (v # vs) f =
     (let (f', err) = FSM_SetArr B f k v in if err = None then push_all B k vs f' else (f', err))"

lemma push_all_array:
  assumes "badger_laws B" and "\<forall>v \<in> set (xs @ vs). json_ok v \<and> json_valid v"
    and "FSM_Get B f k = (JArr (map json_any xs), None)" and "push_all B k vs f = (f', None)"
  shows "FSM_Get B f' k = (JArr (map json_any (xs @ vs)), None)"
  using assms(2-4)
proof (induction vs arbitrary: xs f)
  case (Cons v vs)
  let ?j = "JArr (map json_any xs @ [v])"
  obtain g where g: "FSM_SetArr B f k v = (g, None)" and rest: "push_all B k vs g = (f', None)"
    using Cons.prems(3) by (auto simp: Let_def split: prod.splits if_splits)
  have "FSM_commit B f k (json_text ?j) = (g, None)"
    using g Cons.prems(2) by (simp add: FSM_SetArr_commit)
  moreover have "json_ok ?j" and valid: "json_valid ?j" using Cons.prems(1) by auto
  ultimately have "FSM_Get B g k = (json_any ?j, None)"
    using FSM_commit_Get(1) [OF assms(1)] by (metis json_utf8_valid)
  then show ?case
    using Cons.IH [of "xs @ [v]" g] rest Cons.prems(1) by (simp add: o_def)
qed simp

section \<open>Properties\<close>

text \<open>A fresh database for the witnesses.\<close>

definition fsm0 :: "db0 FSM" where
  "fsm0 = NewBadgerFSM [] key0"

text \<open>A successful \<^verbatim>\<open>Set\<close> stores the value: the next \<^verbatim>\<open>Get\<close> of its key returns it as an
  \<^verbatim>\<open>interface{}\<close> with no error, and every other key reads as before.\<close>

lemma FSM_Set_then_Get:
  assumes "badger_laws B" and "json_ok j" and "FSM_Set B f k j = (f', None)"
  shows "FSM_Get B f' k = (json_any (json_utf8 j), None) \<and> (\<forall>x. x \<noteq> k \<longrightarrow> FSM_Get B f' x = FSM_Get B f x)"
  using FSM_Set_Get [OF assms] by simp

text \<open>An operation of the state machine that fails leaves every key as it was.\<close>

lemma FSM_failed_keeps:
  assumes "badger_laws B"
    and "FSM_Set B f k v = (f', Some err) \<or> FSM_SetArr B f k v = (f', Some err) \<or> FSM_Delete B f k = (f', Some err)"
  shows "FSM_Get B f' x = FSM_Get B f x \<and> fsm_privateKey f' = fsm_privateKey f"
proof -
  have commit: "fsm_text B f' x = fsm_text B f x \<and> fsm_privateKey f' = fsm_privateKey f"
    if "FSM_commit B f k d = (f', Some err)" for d
    using FSM_commit_err [OF assms(1) that] by simp
  have "fsm_text B f' x = fsm_text B f x \<and> fsm_privateKey f' = fsm_privateKey f"
    using assms(2) commit badger_lawsD(4) [OF assms(1), of "fsm_db f" k]
    by (auto simp: FSM_Set_def FSM_SetArr_commit FSM_Delete_def json_Marshal_def fsm_text_def
        split: if_splits option.splits prod.splits json.splits)
  then show ?thesis using FSM_Get_text by blast
qed

text \<open>Values appended with \<^verbatim>\<open>SetArr\<close> under a fresh key are read back as one array, in order.\<close>

lemma FSM_SetArr_appends:
  assumes "badger_laws B" and "FSM_Get B f k = (j, Some err)" and "vs \<noteq> []"
    and "\<forall>v \<in> set vs. json_ok v \<and> json_valid v" and "push_all B k vs f = (f', None)"
  shows "FSM_Get B f' k = (JArr (map json_any vs), None)"
proof -
  obtain v ws where vs: "vs = v # ws" using assms(3) by (cases vs) simp_all
  obtain g where g: "FSM_SetArr B f k v = (g, None)" and rest: "push_all B k ws g = (f', None)"
    using assms(5) vs by (auto simp: Let_def split: prod.splits if_splits)
  have "FSM_commit B f k (json_text (JArr [v])) = (g, None)"
    using g assms(2) by (auto simp: FSM_SetArr_commit split: json.splits)
  moreover have "json_ok (JArr [v])" "json_valid (JArr [v])" using assms(4) vs by simp_all
  ultimately have "FSM_Get B g k = (JArr (map json_any [v]), None)"
    using FSM_commit_Get(1) [OF assms(1), of "JArr [v]"] by simp
  then show ?thesis
    using push_all_array [OF assms(1) _ _ rest, of "[v]"] assms(4) vs by simp
qed

text \<open>A deleted key reads as badger's missing key, and no other key changes.\<close>

lemma FSM_Delete_then_Get:
  assumes "badger_laws B" and "FSM_Delete B f k = (f', None)"
  shows "FSM_Get B f' x = (if x = k then (JObj [], Some (LibError ''Key not found'')) else FSM_Get B f x)"
  using assms badger_lawsD(3) [OF assms(1), of "fsm_db f" k]
  by (auto simp: FSM_Delete_def FSM_Get_def split: option.splits prod.splits)

end
