(* ===== verification/Handler.thy ===== *)
theory Handler
  imports Types
begin

text \<open>
  \<^verbatim>\<open>store/store.go\<close>: the interface \<^verbatim>\<open>HandlerData\<close> every service stores through.  Its contract
  is a locale: an abstract store maps a hash to a DKG result, and \<open>repr s h r\<close> says that the
  concrete store \<open>s\<close> holds \<open>r\<close> under \<open>h\<close>.
\<close>

section \<open>What is stored for a DKG result\<close>

definition bks_of :: "('pt, 'bk) alice \<Rightarrow> (string, 'bk) fmap \<Rightarrow> (string, BK) fmap" where
  "bks_of A m = fmmap (\<lambda>p. \<lparr>BK_X = big_String (BkGetX A p), BK_Rank = BkGetRank A p\<rparr>) m"

definition pubkey_text :: "eth \<Rightarrow> ('pt, 'bk) alice \<Rightarrow> ('pt, 'bk) dkg_Result \<Rightarrow> string" where
  "pubkey_text e A r = hex_EncodeToString (CompressPubkey e (ToPubKey A (r_PublicKey r)))"

text \<open>The signing configuration a result stands for: share and coordinates in decimal.\<close>

definition config_of :: "('pt, 'bk) alice \<Rightarrow> ('pt, 'bk) dkg_Result \<Rightarrow> SignerConfig" where
  "config_of A r =
     \<lparr>sc_Share = big_String \<bar>r_Share r\<bar>,
      sc_Pubkey = \<lparr>Pubkey_X = big_String \<bar>GetX A (r_PublicKey r)\<bar>, Pubkey_Y = big_String \<bar>GetY A (r_PublicKey r)\<bar>\<rparr>,
      sc_BKs = Some (bks_of A (r_Bks r))\<rparr>"

section \<open>The contract of a store\<close>

datatype ('pt, 'bk) store_op =
    SaveDKG string "('pt, 'bk) dkg_Result"
  | UpdateDKG string reshare_Result
  | SaveSigner string RVSignature

primrec op_key :: "('pt, 'bk) store_op \<Rightarrow> string" where
  "op_key (SaveDKG h r) = h"
| "op_key (UpdateDKG h u) = h"
| "op_key (SaveSigner h v) = h"

text \<open>
  The abstract store.  A saved result replaces what its key held, a reshare replaces the
  share of the result its key holds, and a signature saved under the key of a result
  destroys it.
\<close>

type_synonym ('pt, 'bk) abs_store = "string \<rightharpoonup> ('pt, 'bk) dkg_Result"

primrec abs_op :: "('pt, 'bk) store_op \<Rightarrow> ('pt, 'bk) abs_store \<Rightarrow> ('pt, 'bk) abs_store" where
  "abs_op (SaveDKG h r) a = a(h \<mapsto> r)"
| "abs_op (UpdateDKG h u) a = a(h := map_option (r_Share_update (\<lambda>_. rr_Share u)) (a h))"
| "abs_op (SaveSigner h v) a = a(h := None)"

section \<open>The interface\<close>

text \<open>A value of the Go interface is its table of methods, here on a store of type \<open>'s\<close>.\<close>

record ('s, 'pt, 'bk) HandlerData =
  SaveDKGResultData :: "string \<Rightarrow> ('pt, 'bk) dkg_Result \<Rightarrow> 's \<Rightarrow> 's \<times> go_error option"
  GetSignerConfig :: "string \<Rightarrow> string \<Rightarrow> 's \<Rightarrow> SignerConfig res"
  UpdateDKGResultData :: "string \<Rightarrow> reshare_Result \<Rightarrow> 's \<Rightarrow> 's \<times> go_error option"
  SaveSignerResultData :: "string \<Rightarrow> RVSignature \<Rightarrow> 's \<Rightarrow> 's \<times> go_error option"
  GetDKGResultData :: "string \<Rightarrow> 's \<Rightarrow> DKGResult option res"
  Defer :: "'s \<Rightarrow> 's"

primrec run_op :: "('s, 'pt, 'bk) HandlerData \<Rightarrow> ('pt, 'bk) store_op \<Rightarrow> 's \<Rightarrow> 's \<times> go_error option" where
  "run_op H (SaveDKG h r) s = SaveDKGResultData H h r s"
| "run_op H (UpdateDKG h u) s = UpdateDKGResultData H h u s"
| "run_op H (SaveSigner h v) s = SaveSignerResultData H h v s"

text \<open>The concrete and the abstract store side by side; an operation that fails is no step
  of the abstract one.\<close>

definition step_both ::
  "('s, 'pt, 'bk) HandlerData \<Rightarrow> ('pt, 'bk) store_op \<Rightarrow> 's \<times> ('pt, 'bk) abs_store \<Rightarrow> 's \<times> ('pt, 'bk) abs_store"
where
  "step_both H p sa =
     (let (s', err) = run_op H p (fst sa)
      in (s', if err = None then abs_op p (snd sa) else snd sa))"

definition run_both ::
  "('s, 'pt, 'bk) HandlerData \<Rightarrow> ('pt, 'bk) store_op list \<Rightarrow> 's \<times> ('pt, 'bk) abs_store \<Rightarrow> 's \<times> ('pt, 'bk) abs_store"
where
  "run_both H ps sa = fold (step_both H) ps sa"

primrec op_result_ok :: "(('pt, 'bk) dkg_Result \<Rightarrow> bool) \<Rightarrow> ('pt, 'bk) store_op \<Rightarrow> bool" where
  "op_result_ok good (SaveDKG h r) = good r"
| "op_result_ok good (UpdateDKG h u) = True"
| "op_result_ok good (SaveSigner h v) = True"

section \<open>Its contract\<close>

text \<open>
  \<open>env\<close> is what the implementation assumes of the packages it calls, \<open>good r\<close> that \<open>r\<close> can be
  stored, \<open>pub r\<close> the public key text under which \<open>r\<close> is asked for and \<open>cfg r\<close> the answer.
\<close>

locale store_handler =
  fixes H :: "('s, 'pt, 'bk) HandlerData"
    and env :: bool
    and good :: "('pt, 'bk) dkg_Result \<Rightarrow> bool"
    and pub :: "('pt, 'bk) dkg_Result \<Rightarrow> string"
    and cfg :: "('pt, 'bk) dkg_Result \<Rightarrow> SignerConfig"
    and repr :: "'s \<Rightarrow> string \<Rightarrow> ('pt, 'bk) dkg_Result \<Rightarrow> bool"
  assumes save_repr: "env \<Longrightarrow> good r \<Longrightarrow> SaveDKGResultData H h r s = (s', None) \<Longrightarrow> repr s' h r"
    and get_repr: "env \<Longrightarrow> repr s h r \<Longrightarrow> GetSignerConfig H h (pub r) s = Inr (cfg r)"
    and frame: "env \<Longrightarrow> repr s h r \<Longrightarrow> run_op H p s = (s', err) \<Longrightarrow> op_key p \<noteq> h \<or> err \<noteq> None \<Longrightarrow>
      repr s' h r"
begin

lemma ops_frame:
  assumes env and "repr s h r" and "\<forall>p \<in> set ps. op_key p \<noteq> h"
  shows "repr (fst (run_both H ps (s, a))) h r"
  using assms(2,3)
proof (induction ps arbitrary: s a)
  case (Cons p ps)
  obtain s' err where p: "run_op H p s = (s', err)" by (cases "run_op H p s")
  then have "repr s' h r" using frame [OF assms(1) Cons.prems(1) p] Cons.prems(2) by simp
  then have "repr (fst (run_both H ps (s', b))) h r" for b
    using Cons.IH Cons.prems(2) by simp
  then show ?case using p by (simp add: run_both_def step_both_def)
qed (simp add: run_both_def)

lemma config_after_save:
  assumes env and "good r" and "SaveDKGResultData H h r s = (s', None)" and "\<forall>p \<in> set ps. op_key p \<noteq> h"
  shows "GetSignerConfig H h (pub r) (fst (run_both H ps (s', a))) = Inr (cfg r)"
  by (rule get_repr [OF assms(1) ops_frame [OF assms(1) save_repr [OF assms(1-3)] assms(4)]])

end

text \<open>A store that in addition applies a reshare and answers only under the right public key
  refines the abstract store step by step.\<close>

locale refining_store = store_handler +
  assumes update_repr: "env \<Longrightarrow> repr s h r \<Longrightarrow> UpdateDKGResultData H h u s = (s', None) \<Longrightarrow>
      repr s' h (r\<lparr>r_Share := rr_Share u\<rparr>)"
    and wrong_pub: "env \<Longrightarrow> repr s h r \<Longrightarrow> p \<noteq> pub r \<Longrightarrow>
      GetSignerConfig H h p s = Inl (ErrorString ''pubkey not match'')"
begin

definition simulates where
  "simulates s a \<longleftrightarrow> (\<forall>h r. a h = Some r \<longrightarrow> repr s h r)"

lemma step_simulates:
  assumes env and "simulates s a" and "op_result_ok good p" and "run_op H p s = (s', err)"
  shows "simulates s' (if err = None then abs_op p a else a)"
  unfolding simulates_def
proof (intro allI impI)
  fix h r assume r: "(if err = None then abs_op p a else a) h = Some r"
  show "repr s' h r"
  proof (cases "err = None \<and> op_key p = h")
    case False
    then have "a h = Some r" using r by (cases p) (auto split: if_splits)
    then have "repr s h r" using assms(2) by (simp add: simulates_def)
    then show ?thesis using frame [OF assms(1) _ assms(4)] False by blast
  next
    case True
    then show ?thesis
    proof (cases p)
      case (SaveDKG k q)
      then show ?thesis using True r assms(3,4) save_repr [OF assms(1)] by simp
    next
      case (UpdateDKG k u)
      then obtain q where "a h = Some q" "r = q\<lparr>r_Share := rr_Share u\<rparr>" using True r by auto
      moreover from this(1) have "repr s h q" using assms(2) by (simp add: simulates_def)
      ultimately show ?thesis
        using UpdateDKG True assms(4) update_repr [OF assms(1) \<open>repr s h q\<close>] by simp
    qed (use r in auto)
  qed
qed

lemma run_simulates:
  assumes env and "simulates s a" and "\<forall>p \<in> set ps. op_result_ok good p"
  shows "simulates (fst (run_both H ps (s, a))) (snd (run_both H ps (s, a)))"
  using assms(2,3)
proof (induction ps arbitrary: s a)
  case (Cons p ps)
  obtain s' err where p: "run_op H p s = (s', err)" by (cases "run_op H p s")
  define a' where "a' = (if err = None then abs_op p a else a)"
  have step: "run_both H (p # ps) (s, a) = run_both H ps (s', a')"
    using p by (simp add: run_both_def step_both_def a'_def)
  have "simulates s' a'"
    using step_simulates [OF assms(1) Cons.prems(1) _ p] Cons.prems(2) by (simp add: a'_def)
  then show ?case unfolding step using Cons.IH Cons.prems(2) by simp
qed (simp add: run_both_def)

lemma history:
  assumes env and "\<forall>p \<in> set ps. op_result_ok good p"
    and "run_both H ps (s, \<lambda>_. None) = (s', a)" and "a h = Some r"
  shows "GetSignerConfig H h (pub r) s' = Inr (cfg r)"
    and "p \<noteq> pub r \<Longrightarrow> GetSignerConfig H h p s' = Inl (ErrorString ''pubkey not match'')"
proof -
  have "simulates s (\<lambda>_. None)" by (simp add: simulates_def)
  then have "simulates s' a" using run_simulates [OF assms(1) _ assms(2)] assms(3) by fastforce
  then have "repr s' h r" using assms(4) by (simp add: simulates_def)
  then show "GetSignerConfig H h (pub r) s' = Inr (cfg r)"
    and "p \<noteq> pub r \<Longrightarrow> GetSignerConfig H h p s' = Inl (ErrorString ''pubkey not match'')"
    using get_repr wrong_pub assms(1) by blast+
qed

end

end
