(* ===== verification/Badger_Handler.thy ===== *)
theory Badger_Handler
  imports Fsm Handler
begin

text \<open>
  \<^verbatim>\<open>store/badger_handler.go\<close>: DKG results as JSON in badger, the share encrypted under the
  node's private key with the compressed public key as salt.  The interpretation at the end
  shows that it refines the abstract store.
\<close>

definition badger_SaveDKGResultData ::
  "eth \<Rightarrow> ('pt, 'bk) alice \<Rightarrow> 'db badger \<Rightarrow> string \<Rightarrow> ('pt, 'bk) dkg_Result \<Rightarrow> 'db FSM \<Rightarrow> 'db FSM \<times> go_error option"
where
  "badger_SaveDKGResultData e A B hash result d =
     (let pubkey = CompressPubkey e (ToPubKey A (r_PublicKey result)) in
      case Encrypt (slice_cap e) (Bytes2Hex e (big_Bytes (r_Share result)))
             (FromECDSA e (fsm_privateKey d)) (hex_EncodeToString pubkey) of
        Inl err \<Rightarrow> (d, Some err)
      | Inr encryptedShare \<Rightarrow>
          (let data =
             \<lparr>dr_Share = encryptedShare,
              dr_Pubkey = \<lparr>Pubkey_X = hex_EncodeToString (big_Bytes (GetX A (r_PublicKey result))),
                           Pubkey_Y = hex_EncodeToString (big_Bytes (GetY A (r_PublicKey result)))\<rparr>,
              dr_PublicKey = hex_EncodeToString pubkey,
              dr_Address = PubkeyToAddress e (ToPubKey A (r_PublicKey result)),
              dr_BKs = Some (bks_of A (r_Bks result))\<rparr>
           in FSM_Set B d hash (json_DKGResult e data)))"

definition badger_GetDKGResultData :: "eth \<Rightarrow> 'db badger \<Rightarrow> string \<Rightarrow> 'db FSM \<Rightarrow> DKGResult res" where
  "badger_GetDKGResultData e B hash d =
     (let (data, err) = FSM_Get B d hash in
      case err of
        Some x \<Rightarrow> Inl x
      | None \<Rightarrow>
          (case json_Marshal data of
             Inl x \<Rightarrow> Inl x
           | Inr byteData \<Rightarrow>
               (case json_parse byteData of
                  Inl x \<Rightarrow> Inl x
                | Inr j \<Rightarrow> decode_DKGResult e j)))"

definition badger_UpdateDKGResultData ::
  "eth \<Rightarrow> 'db badger \<Rightarrow> string \<Rightarrow> reshare_Result \<Rightarrow> 'db FSM \<Rightarrow> 'db FSM \<times> go_error option"
where
  "badger_UpdateDKGResultData e B hash result d =
     (case badger_GetDKGResultData e B hash d of
        Inl err \<Rightarrow> (d, Some err)
      | Inr oldDkg \<Rightarrow>
          (case Encrypt (slice_cap e) (Bytes2Hex e (big_Bytes (rr_Share result)))
                  (FromECDSA e (fsm_privateKey d)) (dr_PublicKey oldDkg) of
             Inl err \<Rightarrow> (d, Some err)
           | Inr encryptedShare \<Rightarrow>
               FSM_Set B d hash (json_DKGResult e (oldDkg\<lparr>dr_Share := encryptedShare\<rparr>))))"

definition badger_SaveSignerResultData ::
  "'db badger \<Rightarrow> string \<Rightarrow> RVSignature \<Rightarrow> 'db FSM \<Rightarrow> 'db FSM \<times> go_error option"
where
  "badger_SaveSignerResultData B hash result d = FSM_Set B d hash (json_RVSignature result)"

definition badger_GetSignerConfig ::
  "eth \<Rightarrow> 'db badger \<Rightarrow> string \<Rightarrow> string \<Rightarrow> 'db FSM \<Rightarrow> SignerConfig res"
where
  "badger_GetSignerConfig e B hash pubkey d =
     (case badger_GetDKGResultData e B hash d of
        Inl err \<Rightarrow> Inl err
      | Inr resultDKG \<Rightarrow>
          (let publicKey =
             \<lparr>pk_Curve = None,
              pk_X = big_SetBytes (FromHex e (Pubkey_X (dr_Pubkey resultDKG))),
              pk_Y = big_SetBytes (FromHex e (Pubkey_Y (dr_Pubkey resultDKG)))\<rparr> in
           if hex_EncodeToString (CompressPubkey e publicKey) \<noteq> pubkey
           then Inl (ErrorString ''pubkey not match'')
           else
             (case Decrypt (slice_cap e) (dr_Share resultDKG) (FromECDSA e (fsm_privateKey d)) pubkey of
                Inl err \<Rightarrow> Inl err
              | Inr share \<Rightarrow>
                  Inr \<lparr>sc_Share = big_String (big_SetBytes (FromHex e share)),
                       sc_Pubkey =
                         \<lparr>Pubkey_X = big_String (big_SetBytes (FromHex e (Pubkey_X (dr_Pubkey resultDKG)))),
                          Pubkey_Y = big_String (big_SetBytes (FromHex e (Pubkey_Y (dr_Pubkey resultDKG))))\<rparr>,
                       sc_BKs = dr_BKs resultDKG\<rparr>)))"

definition badger_Defer :: "'db badger \<Rightarrow> 'db FSM \<Rightarrow> 'db FSM" where
  "badger_Defer B d = d\<lparr>fsm_db := fst (bdg_Close B (fsm_db d))\<rparr>"

definition NewBadgerDB :: "'db badger \<Rightarrow> string \<Rightarrow> PrivateKey \<Rightarrow> 'db FSM res" where
  "NewBadgerDB B badgerDir privateKey =
     (case bdg_Open B badgerDir of
        Inl err \<Rightarrow> Inl (Panic ''badger.Open'')
      | Inr db \<Rightarrow> Inr (NewBadgerFSM db privateKey))"

definition badger_handler :: "eth \<Rightarrow> ('pt, 'bk) alice \<Rightarrow> 'db badger \<Rightarrow> ('db FSM, 'pt, 'bk) HandlerData" where
  "badger_handler e A B =
     \<lparr>SaveDKGResultData = badger_SaveDKGResultData e A B,
      GetSignerConfig = badger_GetSignerConfig e B,
      UpdateDKGResultData = badger_UpdateDKGResultData e B,
      SaveSignerResultData = badger_SaveSignerResultData B,
      GetDKGResultData = (\<lambda>h d. map_sum id Some (badger_GetDKGResultData e B h d)),
      Defer = badger_Defer B\<rparr>"

section \<open>The stored record\<close>

definition storable :: "('pt, 'bk) dkg_Result \<Rightarrow> bool" where
  "storable r \<longleftrightarrow> (\<forall>k \<in> fmdom' (r_Bks r). utf8_coerce k = k)"

definition dkg_record :: "eth \<Rightarrow> ('pt, 'bk) alice \<Rightarrow> ('pt, 'bk) dkg_Result \<Rightarrow> string \<Rightarrow> DKGResult" where
  "dkg_record e A r c =
     \<lparr>dr_Share = c,
      dr_Pubkey = \<lparr>Pubkey_X = hex_EncodeToString (big_Bytes (GetX A (r_PublicKey r))),
                   Pubkey_Y = hex_EncodeToString (big_Bytes (GetY A (r_PublicKey r)))\<rparr>,
      dr_PublicKey = pubkey_text e A r,
      dr_Address = PubkeyToAddress e (ToPubKey A (r_PublicKey r)),
      dr_BKs = Some (bks_of A (r_Bks r))\<rparr>"

definition sealed_share :: "eth \<Rightarrow> ('pt, 'bk) alice \<Rightarrow> PrivateKey \<Rightarrow> ('pt, 'bk) dkg_Result \<Rightarrow> string res" where
  "sealed_share e A key r =
     Encrypt (slice_cap e) (hex_EncodeToString (big_Bytes (r_Share r))) (FromECDSA e key) (pubkey_text e A r)"

definition badger_repr :: "eth \<Rightarrow> ('pt, 'bk) alice \<Rightarrow> 'db badger \<Rightarrow> 'db FSM \<Rightarrow> string \<Rightarrow> ('pt, 'bk) dkg_Result \<Rightarrow> bool" where
  "badger_repr e A B d h r \<longleftrightarrow>
     storable r \<and>
     (\<exists>c. sealed_share e A (fsm_privateKey d) r = Inr c \<and>
          fsm_text B d h = Inr (Inr (json_text (json_DKGResult e (dkg_record e A r c)))))"

lemma json_ok_DKGResult [simp]: "json_ok (json_DKGResult e d)"
  by (cases "dr_BKs d") (auto simp: json_DKGResult_def json_Pubkey_def json_BK_def encode_map_def)

lemma json_ok_RVSignature [simp]: "json_ok (json_RVSignature v)"
  by (simp add: json_RVSignature_def)

lemma sealed_share_ascii: "sealed_share e A key r = Inr c \<Longrightarrow> ascii_text c"
  by (auto simp: sealed_share_def Encrypt_def B64Encode_def split: sum.splits)

lemma bks_of_lookup:
  "fmlookup (bks_of A m) k = Some v \<Longrightarrow> k \<in> fmdom' m \<and> ascii_text (BK_X v)"
  by (auto simp: bks_of_def fmdom'I)

lemma json_valid_record:
  assumes "eth_laws e" and "storable r" and "ascii_text c"
  shows "json_valid (json_DKGResult e (dkg_record e A r c))"
proof -
  have "json_valid (encode_map json_BK (Some (bks_of A (r_Bks r))))"
    using assms(2) by (intro encode_map_valid) (auto simp: storable_def json_BK_def dest: bks_of_lookup)
  then show ?thesis
    using assms(1,3) by (simp add: json_DKGResult_def dkg_record_def json_Pubkey_def pubkey_text_def eth_lawsD)
qed

text \<open>Reading a stored record back gives the record: the trip through JSON text, \<^verbatim>\<open>interface{}\<close>,
  JSON text again and the struct decoder.\<close>

lemma GetDKGResultData_repr:
  assumes "eth_laws e" and "storable r" and "ascii_text c"
    and "fsm_text B d h = Inr (Inr (json_text (json_DKGResult e (dkg_record e A r c))))"
  shows "badger_GetDKGResultData e B h d = Inr (dkg_record e A r c)"
proof -
  let ?J = "json_DKGResult e (dkg_record e A r c)"
  have valid: "json_valid ?J" by (rule json_valid_record [OF assms(1-3)])
  have "FSM_Get B d h = (json_any ?J, None)"
    using FSM_Get_stored [OF assms(4)] valid by simp
  moreover have "json_parse (json_text (json_any ?J)) = Inr (json_any ?J)"
    using json_parse_text [of "json_any ?J"] valid by simp
  moreover have "decode_DKGResult e (json_any ?J) = Inr (dkg_record e A r c)"
    by (rule decode_DKGResult_any [OF assms(1)]) (simp add: dkg_record_def eth_lawsD [OF assms(1)])
  ultimately show ?thesis
    by (simp add: badger_GetDKGResultData_def json_Marshal_def)
qed

lemma SaveDKGResultData_sealed:
  assumes "eth_laws e"
  shows "badger_SaveDKGResultData e A B h r d =
    (case sealed_share e A (fsm_privateKey d) r of
       Inl err \<Rightarrow> (d, Some err)
     | Inr c \<Rightarrow> FSM_commit B d h (json_text (json_DKGResult e (dkg_record e A r c))))"
  by (simp add: badger_SaveDKGResultData_def sealed_share_def pubkey_text_def dkg_record_def Let_def
      FSM_Set_commit eth_lawsD [OF assms] split: sum.splits)

text \<open>The share can always be sealed: the key has 32 bytes and the salt 66 characters.\<close>

lemma sealed_share_ok: "eth_laws e \<Longrightarrow> \<exists>c. sealed_share e A key r = Inr c"
  by (simp add: sealed_share_def pubkey_text_def Encrypt_ok aes_key_def eth_lawsD)

lemma pubkey_text_coords:
  assumes "eth_laws e" and "alice_laws A"
  shows "hex_EncodeToString (CompressPubkey e
      \<lparr>pk_Curve = None, pk_X = \<bar>GetX A (r_PublicKey r)\<bar>, pk_Y = \<bar>GetY A (r_PublicKey r)\<bar>\<rparr>) = pubkey_text e A r"
  unfolding pubkey_text_def
  by (subst CompressPubkey_coords [OF assms(1), of _ "ToPubKey A (r_PublicKey r)"])
    (simp_all add: alice_lawsD [OF assms(2)])

lemma GetSignerConfig_repr:
  assumes "eth_laws e" and "alice_laws A" and "badger_repr e A B d h r"
  shows "badger_GetSignerConfig e B h p d =
    (if p = pubkey_text e A r then Inr (config_of A r) else Inl (ErrorString ''pubkey not match''))"
proof -
  from assms(3) obtain c where r: "storable r" and c: "sealed_share e A (fsm_privateKey d) r = Inr c"
    and at_h: "fsm_text B d h = Inr (Inr (json_text (json_DKGResult e (dkg_record e A r c))))"
    by (auto simp: badger_repr_def)
  have get: "badger_GetDKGResultData e B h d = Inr (dkg_record e A r c)"
    by (rule GetDKGResultData_repr [OF assms(1) r sealed_share_ascii [OF c] at_h])
  have dec: "Decrypt (slice_cap e) c (FromECDSA e (fsm_privateKey d)) (pubkey_text e A r) =
      Inr (hex_EncodeToString (big_Bytes (r_Share r)))"
    using c unfolding sealed_share_def by (rule Decrypt_Encrypt_gen)
  show ?thesis
    using get dec pubkey_text_coords [OF assms(1,2), of r]
    by (auto simp: badger_GetSignerConfig_def dkg_record_def config_of_def Let_def eth_lawsD [OF assms(1)])
qed

lemma badger_save_repr:
  assumes "eth_laws e" and "badger_laws B" and "storable r"
    and "badger_SaveDKGResultData e A B h r d = (d', None)"
  shows "badger_repr e A B d' h r"
proof -
  from assms(4) obtain c where c: "sealed_share e A (fsm_privateKey d) r = Inr c"
    and com: "FSM_commit B d h (json_text (json_DKGResult e (dkg_record e A r c))) = (d', None)"
    by (auto simp: SaveDKGResultData_sealed [OF assms(1)] split: sum.splits)
  show ?thesis
    using FSM_commit_ok [OF assms(2) com] c assms(3) by (auto simp: badger_repr_def)
qed

text \<open>A reshare seals the new share under the salt of the old one.\<close>

lemma UpdateDKGResultData_sealed:
  assumes "eth_laws e" and "badger_repr e A B d h r"
  shows "badger_UpdateDKGResultData e B h u d =
    (case sealed_share e A (fsm_privateKey d) (r\<lparr>r_Share := rr_Share u\<rparr>) of
       Inl err \<Rightarrow> (d, Some err)
     | Inr c \<Rightarrow> FSM_commit B d h (json_text (json_DKGResult e (dkg_record e A (r\<lparr>r_Share := rr_Share u\<rparr>) c))))"
proof -
  let ?r = "r\<lparr>r_Share := rr_Share u\<rparr>"
  from assms(2) obtain c where r: "storable r" and c: "sealed_share e A (fsm_privateKey d) r = Inr c"
    and at_h: "fsm_text B d h = Inr (Inr (json_text (json_DKGResult e (dkg_record e A r c))))"
    by (auto simp: badger_repr_def)
  have get: "badger_GetDKGResultData e B h d = Inr (dkg_record e A r c)"
    by (rule GetDKGResultData_repr [OF assms(1) r sealed_share_ascii [OF c] at_h])
  have rec: "dr_PublicKey (dkg_record e A r c) = pubkey_text e A ?r"
    "(dkg_record e A r c)\<lparr>dr_Share := x\<rparr> = dkg_record e A ?r x" for x
    by (simp_all add: dkg_record_def pubkey_text_def)
  show ?thesis
    using get by (auto simp: badger_UpdateDKGResultData_def rec sealed_share_def FSM_Set_commit
        eth_lawsD [OF assms(1)] split: sum.splits)
qed

lemma badger_update_repr:
  assumes "eth_laws e" and "badger_laws B" and "badger_repr e A B d h r"
    and "badger_UpdateDKGResultData e B h u d = (d', None)"
  shows "badger_repr e A B d' h (r\<lparr>r_Share := rr_Share u\<rparr>)"
proof -
  let ?r = "r\<lparr>r_Share := rr_Share u\<rparr>"
  from assms(4) obtain c where c: "sealed_share e A (fsm_privateKey d) ?r = Inr c"
    and com: "FSM_commit B d h (json_text (json_DKGResult e (dkg_record e A ?r c))) = (d', None)"
    by (auto simp: UpdateDKGResultData_sealed [OF assms(1,3)] split: sum.splits)
  have "storable ?r" using assms(3) by (simp add: badger_repr_def storable_def)
  then show ?thesis using FSM_commit_ok [OF assms(2) com] c by (auto simp: badger_repr_def)
qed

text \<open>Every operation is at most one commit under its key.\<close>

lemma badger_op_commit:
  assumes "eth_laws e" and "run_op (badger_handler e A B) p d = (d', err)"
  shows "(d' = d \<and> err \<noteq> None) \<or> (\<exists>t. FSM_commit B d (op_key p) t = (d', err))"
proof (cases p)
  case (SaveDKG h r)
  then show ?thesis
    using assms(2) by (auto simp: badger_handler_def SaveDKGResultData_sealed [OF assms(1)] split: sum.splits)
next
  case (UpdateDKG h u)
  then show ?thesis
    using assms(2) by (auto simp: badger_handler_def badger_UpdateDKGResultData_def FSM_Set_commit split: sum.splits)
next
  case (SaveSigner h v)
  then show ?thesis
    using assms(2) by (auto simp: badger_handler_def badger_SaveSignerResultData_def FSM_Set_commit)
qed

lemma badger_frame:
  assumes "eth_laws e" and "badger_laws B" and "badger_repr e A B d h r"
    and "run_op (badger_handler e A B) p d = (d', err)" and "op_key p \<noteq> h \<or> err \<noteq> None"
  shows "badger_repr e A B d' h r"
proof -
  have "fsm_text B d' h = fsm_text B d h \<and> fsm_privateKey d' = fsm_privateKey d"
    using badger_op_commit [OF assms(1,4)] assms(5) FSM_commit_ok [OF assms(2)] FSM_commit_err [OF assms(2)]
    by (cases err) fastforce+
  then show ?thesis using assms(3) by (simp add: badger_repr_def)
qed

interpretation badger: refining_store "badger_handler e A B"
    "eth_laws e \<and> alice_laws A \<and> badger_laws B" storable "pubkey_text e A" "config_of A" "badger_repr e A B"
  for e A B
proof unfold_locales
  show "eth_laws e \<and> alice_laws A \<and> badger_laws B \<Longrightarrow> storable r \<Longrightarrow>
      SaveDKGResultData (badger_handler e A B) h r s = (s', None) \<Longrightarrow> badger_repr e A B s' h r" for h r s s'
    using badger_save_repr by (auto simp: badger_handler_def)
qed (auto simp: badger_handler_def GetSignerConfig_repr intro: badger_update_repr badger_frame)

section \<open>Properties\<close>

text \<open>Saving and resharing commit on the example database.\<close>

lemma badger0_commit: "h \<noteq> '''' \<Longrightarrow> \<exists>d'. FSM_commit badger0 d h t = (d', None)"
  by (simp add: FSM_commit_def)

lemma badger0_save: "h \<noteq> '''' \<Longrightarrow> \<exists>d'. badger_SaveDKGResultData eth0 A badger0 h r d = (d', None)"
  using sealed_share_ok [OF eth0_laws, of A "fsm_privateKey d" r] badger0_commit
  by (auto simp: SaveDKGResultData_sealed [OF eth0_laws])

lemma badger0_update:
  "h \<noteq> '''' \<Longrightarrow> badger_repr eth0 A badger0 d h r \<Longrightarrow>
   \<exists>d'. badger_UpdateDKGResultData eth0 badger0 h u d = (d', None)"
  using sealed_share_ok [OF eth0_laws, of A "fsm_privateKey d" "r\<lparr>r_Share := rr_Share u\<rparr>"] badger0_commit
  by (auto simp: UpdateDKGResultData_sealed [OF eth0_laws])

lemma length_pubkey_text: "eth_laws e \<Longrightarrow> length (pubkey_text e A r) = 66"
  by (simp add: pubkey_text_def eth_lawsD)

lemma storable_result0 [simp]: "storable result0"
  by (simp add: storable_def result0_def fmdom'_alt_def)

text \<open>C2: The badger store refines the abstract store.  After any sequence of saves, reshares and
  stored signatures, whichever of them failed, a key to which the abstract store assigns a result
  answers the configuration of exactly that result (the last one saved, with the share of the last
  reshare) under the result's public key, and an error under any other public key.\<close>

theorem badger_refines_abstract_store:
  assumes "eth_laws e" and "alice_laws A" and "badger_laws B"
    and "\<forall>p \<in> set ps. op_result_ok storable p"
    and "run_both (badger_handler e A B) ps (NewBadgerFSM db key, \<lambda>_. None) = (d, a)" and "a h = Some r"
  shows "badger_GetSignerConfig e B h p d =
    (if p = pubkey_text e A r then Inr (config_of A r) else Inl (ErrorString ''pubkey not match''))"
  using badger.history [OF _ assms(4-6)] assms(1-3) by (auto simp: badger_handler_def)

theorem badger_refines_abstract_store_witness:
  "\<exists>d. run_both (badger_handler eth0 alice0 badger0)
        [SaveDKG ''0xaa'' result0, UpdateDKG ''0xaa'' \<lparr>rr_Share = 99\<rparr>] (NewBadgerFSM [] key0, \<lambda>_. None) =
        (d, [''0xaa'' \<mapsto> result0\<lparr>r_Share := 99\<rparr>]) \<and>
      badger_GetSignerConfig eth0 badger0 ''0xaa'' (pubkey_text eth0 alice0 result0) d =
        Inr (config_of alice0 (result0\<lparr>r_Share := 99\<rparr>)) \<and>
      badger_GetSignerConfig eth0 badger0 ''0xaa'' ''02'' d = Inl (ErrorString ''pubkey not match'')"
proof -
  let ?ps = "[SaveDKG ''0xaa'' result0, UpdateDKG ''0xaa'' \<lparr>rr_Share = 99\<rparr>]"
  obtain d1 where d1: "badger_SaveDKGResultData eth0 alice0 badger0 ''0xaa'' result0 (NewBadgerFSM [] key0) = (d1, None)"
    using badger0_save [of "''0xaa''"] by blast
  then have "badger_repr eth0 alice0 badger0 d1 ''0xaa'' result0"
    by (intro badger_save_repr) simp_all
  then obtain d where d: "badger_UpdateDKGResultData eth0 badger0 ''0xaa'' \<lparr>rr_Share = 99\<rparr> d1 = (d, None)"
    using badger0_update [of "''0xaa''"] by blast
  have run: "run_both (badger_handler eth0 alice0 badger0) ?ps (NewBadgerFSM [] key0, \<lambda>_. None) =
      (d, [''0xaa'' \<mapsto> result0\<lparr>r_Share := 99\<rparr>])"
    using d1 d by (simp add: run_both_def step_both_def badger_handler_def)
  have pub: "pubkey_text eth0 alice0 (result0\<lparr>r_Share := 99\<rparr>) = pubkey_text eth0 alice0 result0"
    by (simp add: pubkey_text_def)
  have other: "pubkey_text eth0 alice0 result0 \<noteq> ''02''"
    using length_pubkey_text [OF eth0_laws, of alice0 result0] by auto
  show ?thesis
    using run pub other badger_refines_abstract_store [OF eth0_laws alice0_laws badger0_laws _ run, of "''0xaa''"]
    by (intro exI [of _ d]) auto
qed

text \<open>Saving a DKG result is one write to badger and nothing else: the sealing of the share
  cannot fail (the key has 32 bytes, the salt 66 characters), so the only errors are badger's.\<close>

lemma badger_Save_is_one_commit:
  assumes "eth_laws e"
  shows "\<exists>t. badger_SaveDKGResultData e A B h r d = FSM_commit B d h t"
  using sealed_share_ok [OF assms, of A "fsm_privateKey d" r]
  by (auto simp: SaveDKGResultData_sealed [OF assms])

text \<open>A reshare or a lookup under a key badger does not hold reports badger's error, and the
  reshare changes nothing.\<close>

lemma badger_missing_key:
  assumes "bdg_Get B (fsm_db d) h = Inl err"
  shows "badger_UpdateDKGResultData e B h u d = (d, Some err) \<and> badger_GetSignerConfig e B h p d = Inl err"
  using assms by (simp add: badger_UpdateDKGResultData_def badger_GetSignerConfig_def
      badger_GetDKGResultData_def FSM_Get_def)

text \<open>Reading back through \<^verbatim>\<open>GetDKGResultData\<close> what \<^verbatim>\<open>SaveSignerResultData\<close> stored gives the
  zero DKG result: none of the three fields of a signature is a field of a DKG result, and no error
  says so.\<close>

lemma signature_read_as_DKGResult:
  assumes "badger_laws B" and "badger_SaveSignerResultData B h v d = (d', None)"
  shows "badger_GetDKGResultData e B h d' = Inr zero_DKGResult"
proof -
  have com: "FSM_commit B d h (json_text (json_RVSignature v)) = (d', None)"
    using assms(2) by (simp add: badger_SaveSignerResultData_def FSM_Set_commit)
  let ?f = "utf8_coerce"
  have get: "FSM_Get B d' h = (JObj [(''hash'', JStr (?f (rv_Hash v))), (''r'', JStr (?f (rv_R v))), (''s'', JStr (?f (rv_S v)))], None)"
    using FSM_commit_Get(1) [OF assms(1) json_ok_RVSignature com]
    by (simp add: json_RVSignature_def canon_def)
  have "json_parse (json_text (fst (FSM_Get B d' h))) =
      Inr (JObj [(''hash'', JStr (?f (?f (rv_Hash v)))), (''r'', JStr (?f (?f (rv_R v)))), (''s'', JStr (?f (?f (rv_S v))))])"
    unfolding get fst_conv by (subst json_parse_text) simp_all
  then show ?thesis
    using get by (simp add: badger_GetDKGResultData_def json_Marshal_def decode_DKGResult_def
        DKGResult_fields_def find_field_def)
qed

end
