(* ===== verification/Mock_Handler.thy ===== *)
theory Mock_Handler
  imports Handler Instance
begin

text \<open>
  \<^verbatim>\<open>store/mock.go\<close>: the in-memory store.  Its state is the two package variables, maps that
  are nil until \<^verbatim>\<open>NewMockDB\<close> runs; writing to a nil map panics.
\<close>

record mock =
  dkgResults :: "DKGResult gomap"
  signerConfigs :: "SignerConfig gomap"

definition NewMockDB :: mock where
  "NewMockDB = \<lparr>dkgResults = Some fmempty, signerConfigs = Some fmempty\<rparr>"

definition go_lookup :: "'v gomap \<Rightarrow> string \<Rightarrow> 'v option" where
  "go_lookup m k = (case m of None \<Rightarrow> None | Some x \<Rightarrow> fmlookup x k)"

definition mock_SaveDKGResultData ::
  "eth \<Rightarrow> ('pt, 'bk) alice \<Rightarrow> string \<Rightarrow> ('pt, 'bk) dkg_Result \<Rightarrow> mock \<Rightarrow> mock \<times> go_error option"
where
  "mock_SaveDKGResultData e A hash result s =
     (let pubkey = CompressPubkey e (ToPubKey A (r_PublicKey result));
          data =
            \<lparr>dr_Share = Bytes2Hex e (big_Bytes (r_Share result)),
             dr_Pubkey = \<lparr>Pubkey_X = hex_EncodeToString (big_Bytes (GetX A (r_PublicKey result))),
                          Pubkey_Y = hex_EncodeToString (big_Bytes (GetY A (r_PublicKey result)))\<rparr>,
             dr_PublicKey = hex_EncodeToString pubkey,
             dr_Address = PubkeyToAddress e (ToPubKey A (r_PublicKey result)),
             dr_BKs = Some (bks_of A (r_Bks result))\<rparr>;
          signerCfg =
            \<lparr>sc_Share = big_String (big_SetBytes (big_Bytes (r_Share result))),
             sc_Pubkey =
               \<lparr>Pubkey_X = big_String (big_SetBytes (big_Bytes (GetX A (r_PublicKey result)))),
                Pubkey_Y = big_String (big_SetBytes (big_Bytes (GetY A (r_PublicKey result))))\<rparr>,
             sc_BKs = Some (bks_of A (r_Bks result))\<rparr> in
      case dkgResults s of
        None \<Rightarrow> (s, Some (Panic ''assignment to entry in nil map''))
      | Some ds \<Rightarrow>
          (let s1 = s\<lparr>dkgResults := Some (fmupd hash data ds)\<rparr> in
           case signerConfigs s1 of
             None \<Rightarrow> (s1, Some (Panic ''assignment to entry in nil map''))
           | Some cs \<Rightarrow> (s1\<lparr>signerConfigs := Some (fmupd hash signerCfg cs)\<rparr>, None)))"

definition mock_GetSignerConfig :: "string \<Rightarrow> string \<Rightarrow> mock \<Rightarrow> SignerConfig res" where
  "mock_GetSignerConfig hash pubkey s =
     (case go_lookup (signerConfigs s) hash of
        None \<Rightarrow> Inl (ErrorString ''signer config not found'')
      | Some signerConfig \<Rightarrow> Inr signerConfig)"

definition mock_UpdateDKGResultData :: "string \<Rightarrow> reshare_Result \<Rightarrow> mock \<Rightarrow> mock \<times> go_error option" where
  "mock_UpdateDKGResultData hash result s = (s, None)"

definition mock_SaveSignerResultData :: "string \<Rightarrow> RVSignature \<Rightarrow> mock \<Rightarrow> mock \<times> go_error option" where
  "mock_SaveSignerResultData hash result s = (s, None)"

definition mock_GetDKGResultData :: "string \<Rightarrow> mock \<Rightarrow> DKGResult option res" where
  "mock_GetDKGResultData hash s = Inr (go_lookup (dkgResults s) hash)"

definition mock_Defer :: "mock \<Rightarrow> mock" where
  "mock_Defer s = s"

definition mock_handler :: "eth \<Rightarrow> ('pt, 'bk) alice \<Rightarrow> (mock, 'pt, 'bk) HandlerData" where
  "mock_handler e A =
     \<lparr>SaveDKGResultData = mock_SaveDKGResultData e A,
      GetSignerConfig = mock_GetSignerConfig,
      UpdateDKGResultData = mock_UpdateDKGResultData,
      SaveSignerResultData = mock_SaveSignerResultData,
      GetDKGResultData = mock_GetDKGResultData,
      Defer = mock_Defer\<rparr>"

section \<open>It keeps the contract of a store\<close>

definition mock_repr :: "('pt, 'bk) alice \<Rightarrow> mock \<Rightarrow> string \<Rightarrow> ('pt, 'bk) dkg_Result \<Rightarrow> bool" where
  "mock_repr A s h r \<longleftrightarrow> go_lookup (signerConfigs s) h = Some (config_of A r)"

lemma mock_save_configs:
  assumes "mock_SaveDKGResultData e A h r s = (s', err)"
  shows "err = None \<Longrightarrow> go_lookup (signerConfigs s') x =
      (if x = h then Some (config_of A r) else go_lookup (signerConfigs s) x)"
    and "err \<noteq> None \<Longrightarrow> signerConfigs s' = signerConfigs s"
  using assms
  by (auto simp: mock_SaveDKGResultData_def Let_def config_of_def go_lookup_def split: option.splits)

lemma mock_frame:
  assumes "mock_repr A s h r" and "run_op (mock_handler e A) p s = (s', err)" and "op_key p \<noteq> h \<or> err \<noteq> None"
  shows "mock_repr A s' h r"
proof (cases p)
  case (SaveDKG k q)
  then have "mock_SaveDKGResultData e A k q s = (s', err)"
    using assms(2) by (simp add: mock_handler_def)
  then show ?thesis
    using mock_save_configs [of e A k q s s' err] assms(1,3) SaveDKG by (cases err) (auto simp: mock_repr_def)
qed (use assms in \<open>auto simp: mock_handler_def mock_UpdateDKGResultData_def mock_SaveSignerResultData_def\<close>)

interpretation mock: store_handler "mock_handler e A" True "\<lambda>_. True" "pubkey_text e A" "config_of A" "mock_repr A"
  for e A
proof unfold_locales
  show "SaveDKGResultData (mock_handler e A) h r s = (s', None) \<Longrightarrow> mock_repr A s' h r" for h r s s'
    using mock_save_configs(1) [of e A h r s s' None] by (simp add: mock_handler_def mock_repr_def)
  show "mock_repr A s h r \<Longrightarrow> GetSignerConfig (mock_handler e A) h (pubkey_text e A r) s = Inr (config_of A r)"
    for s h r
    by (simp add: mock_handler_def mock_GetSignerConfig_def mock_repr_def)
qed (rule mock_frame)

section \<open>Properties\<close>

text \<open>Once made, the maps stay made.\<close>

definition mock_made :: "mock \<Rightarrow> bool" where
  "mock_made s \<longleftrightarrow> dkgResults s \<noteq> None \<and> signerConfigs s \<noteq> None"

lemma mock_op_made:
  "mock_made s \<Longrightarrow> \<exists>s'. run_op (mock_handler e A) p s = (s', None) \<and> mock_made s'"
  by (cases p) (auto simp: mock_made_def mock_handler_def mock_SaveDKGResultData_def Let_def
      mock_UpdateDKGResultData_def mock_SaveSignerResultData_def)

lemma mock_run_made: "mock_made s \<Longrightarrow> mock_made (fst (run_both (mock_handler e A) ps (s, a)))"
proof (induction ps arbitrary: s a)
  case (Cons p ps)
  obtain s' where s': "run_op (mock_handler e A) p s = (s', None)" "mock_made s'"
    using mock_op_made [OF Cons.prems] by blast
  then show ?case using Cons.IH [OF s'(2)] by (simp add: run_both_def step_both_def)
qed (simp add: run_both_def)

text \<open>From the store \<^verbatim>\<open>NewMockDB\<close> makes, no sequence of operations ever fails: in particular
  none writes to a nil map.\<close>

lemma mock_never_fails:
  "snd (run_op (mock_handler e A) p (fst (run_both (mock_handler e A) ps (NewMockDB, a)))) = None"
proof -
  have "mock_made NewMockDB" by (simp add: mock_made_def NewMockDB_def)
  from mock_op_made [OF mock_run_made [OF this]] show ?thesis by (metis snd_conv)
qed

text \<open>The in-memory store does not look at the public key and ignores reshares: after a save
  and a reshare, every public key is answered with the configuration saved first.\<close>

lemma mock_ignores_reshare_and_pubkey:
  assumes "mock_SaveDKGResultData e A h r s = (s1, None)" and "mock_UpdateDKGResultData h u s1 = (s2, err)"
  shows "mock_GetSignerConfig h p s2 = Inr (config_of A r)"
  using assms mock_save_configs(1) [OF assms(1), of h]
  by (simp add: mock_UpdateDKGResultData_def mock_GetSignerConfig_def)

end
