(* ===== verification/Utils.thy ===== *)
theory Utils
  imports Handler Instance
begin

text \<open>
  \<^verbatim>\<open>utils/utils.go\<close> and \<^verbatim>\<open>utils/ecdsa.go\<close>: hashes as hexadecimal text, the conversion of a
  stored configuration back to a DKG result, private keys on P-256, signature checks.
\<close>

section \<open>Hashes\<close>

definition ToHex :: "byte list \<Rightarrow> string" where
  "ToHex b = ''0x'' @ hex_EncodeToString b"

definition ToHexHash :: "eth \<Rightarrow> byte list \<Rightarrow> string" where
  "ToHexHash e b = ToHex (Keccak256 e b)"

definition EthSignMessage :: "eth \<Rightarrow> byte list \<Rightarrow> byte list" where
  "EthSignMessage e data =
     Keccak256 e (bytes_of (CHR 0x19 # ''Ethereum Signed Message:'' @ CHR 10 # nat_text (length data))
       @ data)"

text \<open>\<open>now\<close> is the text of the current time, \<open>rnd\<close> what \<^verbatim>\<open>crypto/rand\<close> answers for eight bytes,
  \<open>fallback\<close> a number below 1000000.\<close>

definition RandomHash :: "eth \<Rightarrow> string \<Rightarrow> byte list res \<Rightarrow> nat \<Rightarrow> string" where
  "RandomHash e now rnd fallback =
     (case rnd of
        Inl err \<Rightarrow> ToHexHash e (bytes_of (now @ nat_text fallback))
      | Inr randBytes \<Rightarrow> ToHexHash e (bytes_of now @ randBytes))"

lemma ToHex_inject [simp]: "ToHex a = ToHex b \<longleftrightarrow> a = b"
  by (simp add: ToHex_def)

lemma length_ToHex [simp]: "length (ToHex b) = 2 * length b + 2"
  by (simp add: ToHex_def)

lemma length_ToHexHash: "eth_laws e \<Longrightarrow> length (ToHexHash e b) = 66"
  by (simp add: ToHexHash_def eth_lawsD)

text \<open>Hashes are hexadecimal text: no hash contains the dash that separates node suffixes.\<close>

lemma dash_notin_hex: "CHR ''-'' \<notin> set (hex_EncodeToString b)"
proof (induction b)
  case (Cons x xs)
  have "digit_char d \<noteq> CHR ''-''" if "d < 16" for d
    using that by (auto dest!: arg_cong [where f = "of_char :: char \<Rightarrow> nat"] split: if_splits)
  with Cons show ?case by (simp add: eq_commute [of "CHR ''-''"])
qed simp

lemma dash_notin_ToHex: "CHR ''-'' \<notin> set (ToHex b)"
  by (simp add: ToHex_def dash_notin_hex)

lemma dash_notin_RandomHash: "CHR ''-'' \<notin> set (RandomHash e now rnd fallback)"
  by (simp add: RandomHash_def ToHexHash_def dash_notin_ToHex split: sum.splits)

section \<open>Keystore\<close>

text \<open>A key of \<^verbatim>\<open>go-ethereum/accounts/keystore\<close>, as far as the program reads it; \<open>ReadFile\<close> is that
  of the operating system and \<open>DecryptKey\<close> that of the package.\<close>

record keystore_Key =
  key_Address :: "byte list"
  key_PrivateKey :: PrivateKey

definition GetPrivateKeyFromKeystore ::
  "(string \<Rightarrow> byte list res) \<Rightarrow> (byte list \<Rightarrow> string \<Rightarrow> keystore_Key res) \<Rightarrow> string \<Rightarrow> string \<Rightarrow> PrivateKey res"
where
  "GetPrivateKeyFromKeystore ReadFile DecryptKey keyFile pass =
     (case ReadFile keyFile of
        Inl err \<Rightarrow> Inl err
      | Inr keyJson \<Rightarrow>
          (case DecryptKey keyJson pass of
             Inl err \<Rightarrow> Inl err
           | Inr keyWrapper \<Rightarrow> Inr (key_PrivateKey keyWrapper)))"

section \<open>ConvertDKGResult\<close>

definition GetCurve :: curve where
  "GetCurve = S256"

text \<open>The loop over the Birkhoff parameters, in the order \<open>es\<close> in which the map's entries come.\<close>

fun convert_bks :: "('pt, 'bk) alice \<Rightarrow> (string \<times> BK) list \<Rightarrow> (string, 'bk) fmap \<Rightarrow> (string, 'bk) fmap res" where
  "convert_bks A [] bks = Inr bks"
| "convert_bks A ((peerID, bk) # es) bks =
     (case big_SetString (BK_X bk) 10 of
        None \<Rightarrow> Inl ErrConversion
      | Some x \<Rightarrow> convert_bks A es (fmupd peerID (NewBkParameter A x (BK_Rank bk)) bks))"

definition map_entries :: "'v gomap \<Rightarrow> (string \<times> 'v) list" where
  "map_entries m = (case m of None \<Rightarrow> [] | Some x \<Rightarrow> sorted_list_of_fmap x)"

definition ConvertDKGResult ::
  "('pt, 'bk) alice \<Rightarrow> Pubkey \<Rightarrow> string \<Rightarrow> BK gomap \<Rightarrow> ('pt, 'bk) dkg_Result res"
where
  "ConvertDKGResult A cfgPubkey cfgShare cfgBKs =
     (case big_SetString (Pubkey_X cfgPubkey) 10 of
        None \<Rightarrow> Inl ErrConversion
      | Some x \<Rightarrow>
          (case big_SetString (Pubkey_Y cfgPubkey) 10 of
             None \<Rightarrow> Inl ErrConversion
           | Some y \<Rightarrow>
               (case NewECPoint A GetCurve x y of
                  Inl err \<Rightarrow> Inl err
                | Inr pubkey \<Rightarrow>
                    (case big_SetString cfgShare 10 of
                       None \<Rightarrow> Inl ErrConversion
                     | Some share \<Rightarrow>
                         (case convert_bks A (map_entries cfgBKs) fmempty of
                            Inl err \<Rightarrow> Inl err
                          | Inr bks \<Rightarrow> Inr \<lparr>r_PublicKey = pubkey, r_Share = share, r_Bks = bks\<rparr>)))))"

text \<open>Go ranges over a map in no particular order; the result of the loop does not depend on it.\<close>

lemma convert_bks_fail:
  "convert_bks A es bks = Inl err \<longleftrightarrow>
     err = ErrConversion \<and> (\<exists>(k, bk) \<in> set es. big_SetString (BK_X bk) 10 = None)"
  by (induction es arbitrary: bks) (fastforce split: option.splits)+

lemma convert_bks_dom:
  "convert_bks A es bks = Inr m \<Longrightarrow> fmdom' m = fst ` set es \<union> fmdom' bks"
proof (induction es arbitrary: bks)
  case (Cons e es)
  obtain k bk x where e: "e = (k, bk)" and x: "big_SetString (BK_X bk) 10 = Some x"
    using Cons.prems by (cases e) (auto split: option.splits)
  have "fmdom' m = fst ` set es \<union> fmdom' (fmupd k (NewBkParameter A x (BK_Rank bk)) bks)"
    by (rule Cons.IH) (use Cons.prems e x in simp)
  then show ?case using e by auto
qed simp

lemma convert_bks_ok:
  assumes "\<forall>(k, bk) \<in> set es. big_SetString (BK_X bk) 10 \<noteq> None"
  shows "convert_bks A es bks =
    Inr (fold (\<lambda>(k, bk). fmupd k (NewBkParameter A (the (big_SetString (BK_X bk) 10)) (BK_Rank bk))) es bks)"
  using assms by (induction es arbitrary: bks) auto

lemma fold_fmupd_map:
  "fold (\<lambda>(k, v). fmupd k (f v)) es m = fold (\<lambda>(k, v). fmupd k v) (map (apsnd f) es) m"
  by (induction es arbitrary: m) auto

lemma fold_fmupd_perm:
  assumes "distinct (map fst es)" and "distinct (map fst es')" and "set es = set es'"
  shows "fold (\<lambda>(k, v). fmupd k v) es m = fold (\<lambda>(k, v). fmupd k v) es' m"
proof (rule fmap_ext)
  have "map_of es = map_of es'" by (rule map_of_inject_set [THEN iffD2, OF assms])
  then show "fmlookup (fold (\<lambda>(k, v). fmupd k v) es m) x = fmlookup (fold (\<lambda>(k, v). fmupd k v) es' m) x" for x
    using assms by (simp add: fold_fmupd_lookup)
qed

lemma convert_bks_any_order:
  assumes "distinct (map fst es)" and "set es = set (sorted_list_of_fmap m)"
  shows "convert_bks A es bks = convert_bks A (sorted_list_of_fmap m) bks"
proof (cases "\<forall>(k, bk) \<in> set es. big_SetString (BK_X bk) 10 \<noteq> None")
  case True
  let ?f = "\<lambda>bk. NewBkParameter A (the (big_SetString (BK_X bk) 10)) (BK_Rank bk)"
  have "fold (\<lambda>(k, v). fmupd k v) (map (apsnd ?f) es) bks =
      fold (\<lambda>(k, v). fmupd k v) (map (apsnd ?f) (sorted_list_of_fmap m)) bks"
    by (rule fold_fmupd_perm) (use assms keys_sorted_list_of_fmap(2) [of m] in \<open>simp_all add: o_def\<close>)
  moreover have "\<forall>(k, bk) \<in> set (sorted_list_of_fmap m). big_SetString (BK_X bk) 10 \<noteq> None"
    using True assms(2) by simp
  ultimately show ?thesis using True by (simp only: convert_bks_ok fold_fmupd_map [of ?f])
next
  case False
  then have "convert_bks A es bks = Inl ErrConversion" "convert_bks A (sorted_list_of_fmap m) bks = Inl ErrConversion"
    using assms(2) by (auto simp: convert_bks_fail)
  then show ?thesis by simp
qed

lemma convert_bks_of:
  assumes "alice_laws A"
  shows "convert_bks A (map_entries (Some (bks_of A m))) fmempty = Inr m"
proof -
  let ?g = "\<lambda>bk. NewBkParameter A (the (big_SetString (BK_X bk) 10)) (BK_Rank bk)"
  let ?es = "sorted_list_of_fmap (bks_of A m)"
  have ok: "\<forall>(k, bk) \<in> set ?es. big_SetString (BK_X bk) 10 \<noteq> None"
    by (auto simp: bks_of_def)
  have keys: "distinct (map fst (map (apsnd ?g) ?es))"
    using keys_sorted_list_of_fmap(2) [of "bks_of A m"] by (simp add: o_def)
  have "fold (\<lambda>(k, v). fmupd k v) (map (apsnd ?g) ?es) fmempty = m"
  proof (rule fmap_ext)
    fix x
    have "map_of (map (apsnd ?g) ?es) x = map_option ?g (fmlookup (bks_of A m) x)"
      using map_of_map [of ?g ?es] by (simp add: apsnd_def map_prod_def id_def case_prod_unfold)
    also have "\<dots> = fmlookup m x"
      by (cases "fmlookup m x") (simp_all add: bks_of_def alice_lawsD [OF assms])
    finally show "fmlookup (fold (\<lambda>(k, v). fmupd k v) (map (apsnd ?g) ?es) fmempty) x = fmlookup m x"
      by (simp add: fold_fmupd_lookup [OF keys] split: option.splits)
  qed
  then show ?thesis
    using ok by (simp add: map_entries_def convert_bks_ok fold_fmupd_map [of ?g])
qed

lemma Convert_config:
  assumes "alice_laws A" and "0 \<le> r_Share r"
    and "NewECPoint A S256 (GetX A (r_PublicKey r)) (GetY A (r_PublicKey r)) = Inr (r_PublicKey r)"
  shows "ConvertDKGResult A (sc_Pubkey (config_of A r)) (sc_Share (config_of A r)) (sc_BKs (config_of A r)) = Inr r"
  using assms convert_bks_of [OF assms(1), of "r_Bks r"]
  by (simp add: ConvertDKGResult_def config_of_def GetCurve_def alice_lawsD [OF assms(1)])

section \<open>Private keys on P-256\<close>

definition secp256k1N :: int where
  "secp256k1N = the (big_SetString ''fffffffffffffffffffffffffffffffebaaedce6af48a03bbfd25e8cd0364141'' 16)"

text \<open>\<open>base_mult\<close> is \<^verbatim>\<open>ScalarBaseMult\<close> of \<^verbatim>\<open>elliptic.P256()\<close>; \<open>None\<close> stands for nil coordinates.\<close>

definition ToEcdsaP256 :: "(byte list \<Rightarrow> (int \<times> int) option) \<Rightarrow> byte list \<Rightarrow> bool \<Rightarrow> PrivateKey res" where
  "ToEcdsaP256 base_mult d strict =
     (if strict \<and> 8 * length d \<noteq> 256 then Inl (ErrorString ''invalid length, need 256 bits'')
      else
        (let D = big_SetBytes d in
         if secp256k1N \<le> D then Inl (ErrorString ''invalid private key, >=N'')
         else if D \<le> 0 then Inl (ErrorString ''invalid private key, zero or negative'')
         else
           (case base_mult d of
              None \<Rightarrow> Inl (ErrorString ''invalid private key'')
            | Some (x, y) \<Rightarrow>
                Inr \<lparr>sk_PublicKey = \<lparr>pk_Curve = Some P256, pk_X = x, pk_Y = y\<rparr>, sk_D = D\<rparr>)))"

lemma secp256k1N_value:
  "secp256k1N = 0xfffffffffffffffffffffffffffffffebaaedce6af48a03bbfd25e8cd0364141"
  by (simp add: secp256k1N_def big_SetString_def scan_nat_def scan_digit_def digit_val_def)

section \<open>Signature checks\<close>

record ResponseCheckSignature =
  IsValid :: bool
  resp_Message :: string
  HashMessage :: string
  resp_Address :: string

text \<open>\<^verbatim>\<open>ecdsa.Verify\<close> rejects a non-positive \<open>r\<close> or \<open>s\<close> before it computes on the curve; the
  computation is the argument \<open>on_curve\<close>.\<close>

definition ecdsa_Verify :: "(PublicKey \<Rightarrow> byte list \<Rightarrow> int \<Rightarrow> int \<Rightarrow> bool) \<Rightarrow> PublicKey \<Rightarrow> byte list \<Rightarrow> int \<Rightarrow> int \<Rightarrow> bool" where
  "ecdsa_Verify on_curve pk hash r s =
     (if r \<le> 0 \<or> s \<le> 0 then False else on_curve pk hash r s)"

definition CheckSignatureECDSA ::
  "eth \<Rightarrow> (PublicKey \<Rightarrow> byte list \<Rightarrow> int \<Rightarrow> int \<Rightarrow> bool) \<Rightarrow> string \<Rightarrow> RVSignature \<Rightarrow> string \<Rightarrow> ResponseCheckSignature res"
where
  "CheckSignatureECDSA e on_curve msg signature pubkey =
     (let rBig = big_SetBytes (FromHex e (rv_R signature));
          sBig = big_SetBytes (FromHex e (rv_S signature)) in
      case hex_DecodeString pubkey of
        Inl err \<Rightarrow> Inl err
      | Inr pubkeyBytes \<Rightarrow>
          (case DecompressPubkey e pubkeyBytes of
             Inl err \<Rightarrow> Inl err
           | Inr publicKey \<Rightarrow>
               Inr \<lparr>IsValid = ecdsa_Verify on_curve publicKey (bytes_of msg) rBig sBig,
                    resp_Message = msg,
                    HashMessage = hex_EncodeToString (bytes_of msg),
                    resp_Address = Address_String e (PubkeyToAddress e publicKey)\<rparr>))"

section \<open>Properties\<close>

text \<open>A hash is the text of 32 bytes: 66 characters, starting with 0x, none of them a dash; and
  two inputs have the same hash text exactly when they have the same Keccak hash.\<close>

lemma ToHexHash_format:
  assumes "eth_laws e"
  shows "length (ToHexHash e b) = 66 \<and> take 2 (ToHexHash e b) = ''0x'' \<and> CHR ''-'' \<notin> set (ToHexHash e b) \<and>
    hex_DecodeString (drop 2 (ToHexHash e b)) = Inr (Keccak256 e b) \<and>
    (ToHexHash e b = ToHexHash e c \<longleftrightarrow> Keccak256 e b = Keccak256 e c)"
  using length_ToHexHash [OF assms, of b] dash_notin_ToHex
  by (simp add: ToHexHash_def) (simp add: ToHex_def)

text \<open>C39: Go ranges over a map in no fixed order; \<^verbatim>\<open>ConvertDKGResult\<close>'s loop over the Birkhoff
  parameters gives the same result, or the same error, for every order of the entries.\<close>

theorem ConvertDKGResult_any_order:
  assumes "distinct (map fst es)" and "set es = set (sorted_list_of_fmap m)"
  shows "convert_bks A es fmempty = convert_bks A (map_entries (Some m)) fmempty"
  using convert_bks_any_order [OF assms] by (simp add: map_entries_def)

theorem ConvertDKGResult_any_order_witness:
  "convert_bks alice0 [(''b'', \<lparr>BK_X = ''2'', BK_Rank = 0\<rparr>), (''a'', \<lparr>BK_X = ''1'', BK_Rank = 0\<rparr>)] fmempty =
   convert_bks alice0 (map_entries (Some (fmap_of_list
     [(''a'', \<lparr>BK_X = ''1'', BK_Rank = 0\<rparr>), (''b'', \<lparr>BK_X = ''2'', BK_Rank = 0\<rparr>)]))) fmempty"
  by (rule ConvertDKGResult_any_order) (auto simp: fmlookup_of_list split: if_splits)

text \<open>The conversion fails exactly when a number is not decimal text (the conversion error) or
  the coordinates are not a point (the library's error); otherwise it keeps the share and has one
  parameter per peer of the configuration.\<close>

lemma ConvertDKGResult_outcome:
  "case ConvertDKGResult A pk share bks of
     Inl err \<Rightarrow>
       (err = ErrConversion \<and>
         (big_SetString (Pubkey_X pk) 10 = None \<or> big_SetString (Pubkey_Y pk) 10 = None \<or>
          big_SetString share 10 = None \<or> (\<exists>(k, bk) \<in> set (map_entries bks). big_SetString (BK_X bk) 10 = None))) \<or>
       (\<exists>x y. NewECPoint A S256 x y = Inl err)
   | Inr r \<Rightarrow>
       big_SetString share 10 = Some (r_Share r) \<and>
       NewECPoint A S256 (the (big_SetString (Pubkey_X pk) 10)) (the (big_SetString (Pubkey_Y pk) 10)) = Inr (r_PublicKey r) \<and>
       fmdom' (r_Bks r) = fst ` set (map_entries bks)"
proof (cases "convert_bks A (map_entries bks) fmempty")
  case (Inl err)
  then show ?thesis
    using convert_bks_fail [of A "map_entries bks" fmempty err]
    by (auto simp: ConvertDKGResult_def GetCurve_def split: option.splits sum.splits)
next
  case (Inr m)
  have "fmdom' m = fst ` set (map_entries bks)"
    using convert_bks_dom [OF Inr] by simp
  with Inr show ?thesis
    by (auto simp: ConvertDKGResult_def GetCurve_def split: option.splits sum.splits)
qed

text \<open>A key is accepted only if it is positive and below the secp256k1 order (and has 32 bytes,
  in strict mode); the accepted key is the number the bytes stand for, on P-256.\<close>

lemma ToEcdsaP256_accepts:
  assumes "\<And>d. base_mult d \<noteq> None"
  shows "(\<exists>k. ToEcdsaP256 base_mult d strict = Inr k \<and> sk_D k = big_SetBytes d \<and>
      pk_Curve (sk_PublicKey k) = Some P256) \<longleftrightarrow>
    0 < big_SetBytes d \<and> big_SetBytes d < 0xfffffffffffffffffffffffffffffffebaaedce6af48a03bbfd25e8cd0364141 \<and>
    (if strict then length d = 32 else True)"
  using assms [of d] by (auto simp: ToEcdsaP256_def Let_def secp256k1N_value)


end
