(* ===== verification/Store.thy ===== *)
theory Store
  imports Badger_Handler Mock_Handler Utils
begin

text \<open>
  \<^verbatim>\<open>store/store.go\<close>: which store a configuration gets, and the interface value it becomes.
\<close>

datatype 'db store_state = BadgerStore "'db FSM" | MockStore mock

definition NewStoreHandler :: "'db badger \<Rightarrow> StoreConfig \<Rightarrow> PrivateKey option \<Rightarrow> 'db store_state res" where
  "NewStoreHandler B config privateKey =
     (if store_Type config = StoreTypeMock then Inr (MockStore NewMockDB)
      else if store_Type config = StoreTypeBadger then
        (if store_Path config = '''' then Inl (ErrorString ''badger path is empty'')
         else
           (case privateKey of
              None \<Rightarrow> Inl (ErrorString ''badger private key is nil'')
            | Some key \<Rightarrow>
                (case NewBadgerDB B (store_Path config) key of
                   Inl err \<Rightarrow> Inl err
                 | Inr d \<Rightarrow> Inr (BadgerStore d))))
      else Inr (MockStore NewMockDB))"

text \<open>A method call on the interface value goes to the store behind it.\<close>

definition dispatch_step ::
  "('db FSM \<Rightarrow> 'db FSM \<times> go_error option) \<Rightarrow> (mock \<Rightarrow> mock \<times> go_error option) \<Rightarrow>
   'db store_state \<Rightarrow> 'db store_state \<times> go_error option"
where
  "dispatch_step f g s =
     (case s of BadgerStore d \<Rightarrow> map_prod BadgerStore id (f d) | MockStore m \<Rightarrow> map_prod MockStore id (g m))"

definition dispatch_get :: "('db FSM \<Rightarrow> 'r) \<Rightarrow> (mock \<Rightarrow> 'r) \<Rightarrow> 'db store_state \<Rightarrow> 'r" where
  "dispatch_get f g s = (case s of BadgerStore d \<Rightarrow> f d | MockStore m \<Rightarrow> g m)"

definition store_db :: "eth \<Rightarrow> ('pt, 'bk) alice \<Rightarrow> 'db badger \<Rightarrow> ('db store_state, 'pt, 'bk) HandlerData" where
  "store_db e A B =
     (let b = badger_handler e A B; m = mock_handler e A in
      \<lparr>SaveDKGResultData = (\<lambda>h r. dispatch_step (SaveDKGResultData b h r) (SaveDKGResultData m h r)),
       GetSignerConfig = (\<lambda>h p. dispatch_get (GetSignerConfig b h p) (GetSignerConfig m h p)),
       UpdateDKGResultData = (\<lambda>h u. dispatch_step (UpdateDKGResultData b h u) (UpdateDKGResultData m h u)),
       SaveSignerResultData = (\<lambda>h v. dispatch_step (SaveSignerResultData b h v) (SaveSignerResultData m h v)),
       GetDKGResultData = (\<lambda>h. dispatch_get (GetDKGResultData b h) (GetDKGResultData m h)),
       Defer = (\<lambda>s. case s of BadgerStore d \<Rightarrow> BadgerStore (Defer b d) | MockStore x \<Rightarrow> MockStore (Defer m x))\<rparr>)"

definition store_repr :: "eth \<Rightarrow> ('pt, 'bk) alice \<Rightarrow> 'db badger \<Rightarrow> 'db store_state \<Rightarrow> string \<Rightarrow> ('pt, 'bk) dkg_Result \<Rightarrow> bool" where
  "store_repr e A B s h r = (case s of BadgerStore d \<Rightarrow> badger_repr e A B d h r | MockStore m \<Rightarrow> mock_repr A m h r)"

lemma dispatch_step_eq:
  "dispatch_step f g (BadgerStore d) = (s', err) \<longleftrightarrow> (\<exists>d'. s' = BadgerStore d' \<and> f d = (d', err))"
  "dispatch_step f g (MockStore m) = (s', err) \<longleftrightarrow> (\<exists>m'. s' = MockStore m' \<and> g m = (m', err))"
  by (auto simp: dispatch_step_def map_prod_def split: prod.splits)

lemma store_db_run_op:
  "run_op (store_db e A B) p s = dispatch_step (run_op (badger_handler e A B) p) (run_op (mock_handler e A) p) s"
  by (cases p; cases s) (simp_all add: store_db_def Let_def dispatch_step_def)

interpretation store: store_handler "store_db e A B"
    "eth_laws e \<and> alice_laws A \<and> badger_laws B" storable "pubkey_text e A" "config_of A" "store_repr e A B"
  for e A B
proof unfold_locales
  fix h r s s'
  assume env: "eth_laws e \<and> alice_laws A \<and> badger_laws B" and "storable r"
    and "SaveDKGResultData (store_db e A B) h r s = (s', None)"
  then show "store_repr e A B s' h r"
    using badger.save_repr [OF env] mock.save_repr
    by (cases s) (auto simp: store_db_def Let_def dispatch_step_eq store_repr_def)
next
  fix s h r
  assume env: "eth_laws e \<and> alice_laws A \<and> badger_laws B" and "store_repr e A B s h r"
  then show "GetSignerConfig (store_db e A B) h (pubkey_text e A r) s = Inr (config_of A r)"
    using badger.get_repr [OF env] mock.get_repr
    by (cases s) (auto simp: store_db_def Let_def dispatch_get_def store_repr_def)
next
  fix s h r p s' err
  assume env: "eth_laws e \<and> alice_laws A \<and> badger_laws B" and "store_repr e A B s h r"
    and "run_op (store_db e A B) p s = (s', err)" and "op_key p \<noteq> h \<or> err \<noteq> None"
  then show "store_repr e A B s' h r"
    using badger.frame [OF env, of _ h r p _ err] mock_frame [of A _ h r e p _ err]
    by (cases s) (force simp: store_db_run_op dispatch_step_eq store_repr_def)+
qed

end
