(* ===== verification/Retry.thy ===== *)
theory Retry
  imports Prelude
begin

text \<open>
  The retry loops of the program: try, and on an error sleep and try again, for ever.
  \<open>outcome n\<close> is what the \<open>n\<close>-th attempt gives.  The loop is a partial function: \<open>None\<close> is
  a loop that never returns.
\<close>

partial_function (option) retry :: "(nat \<Rightarrow> 'a res) \<Rightarrow> nat \<Rightarrow> (nat \<times> 'a) option" where
  "retry outcome n =
     (case outcome n of
        Inl err \<Rightarrow> retry outcome (Suc n)
      | Inr reply \<Rightarrow> Some (n, reply))"

lemma retry_stop: "outcome n = Inr a \<Longrightarrow> retry outcome n = Some (n, a)"
  by (subst retry.simps) simp

lemma retry_again: "outcome n = Inl err \<Longrightarrow> retry outcome n = retry outcome (Suc n)"
  by (subst retry.simps) simp

text \<open>What it returns is the first attempt that succeeded.\<close>

lemma retry_Some:
  assumes "retry outcome n = Some (k, a)"
  shows "n \<le> k \<and> outcome k = Inr a \<and> (\<forall>i. n \<le> i \<and> i < k \<longrightarrow> isl (outcome i))"
proof -
  have "retry outcome n = Some r \<Longrightarrow>
      n \<le> fst r \<and> outcome (fst r) = Inr (snd r) \<and> (\<forall>i. n \<le> i \<and> i < fst r \<longrightarrow> isl (outcome i))" for r
  proof (induction rule: retry.raw_induct [rotated, consumes 1])
    case (1 retry outcome n r)
    show ?case
    proof (cases "outcome n")
      case (Inl err)
      then have "retry outcome (Suc n) = Some r" using 1(2) by simp
      note IH = 1(1) [OF this]
      have "isl (outcome i)" if "n \<le> i" "i < fst r" for i
        using IH Inl that by (cases "i = n") auto
      then show ?thesis using IH by auto
    next
      case (Inr a)
      then show ?thesis using 1(2) by auto
    qed
  qed
  from this [OF assms] show ?thesis by simp
qed

text \<open>It returns as soon as one attempt succeeds.\<close>

lemma retry_reaches:
  assumes "outcome k = Inr a" and "n \<le> k" and "\<forall>i. n \<le> i \<and> i < k \<longrightarrow> isl (outcome i)"
  shows "retry outcome n = Some (k, a)"
  using assms(2,3)
proof (induction n rule: inc_induct)
  case base
  then show ?case using assms(1) by (simp add: retry_stop)
next
  case (step n)
  then have "isl (outcome n)" by simp
  then obtain err where "outcome n = Inl err" by (cases "outcome n") simp_all
  with step show ?case by (simp add: retry_again)
qed

lemma retry_returns_iff: "(\<exists>r. retry outcome n = Some r) \<longleftrightarrow> (\<exists>k \<ge> n. \<not> isl (outcome k))"
proof
  assume "\<exists>r. retry outcome n = Some r"
  then obtain k a where "retry outcome n = Some (k, a)" by auto
  from retry_Some [OF this] show "\<exists>k \<ge> n. \<not> isl (outcome k)" by (intro exI [of _ k]) simp
next
  assume "\<exists>k \<ge> n. \<not> isl (outcome k)"
  define k where "k = (LEAST k. n \<le> k \<and> \<not> isl (outcome k))"
  have k: "n \<le> k \<and> \<not> isl (outcome k)"
    unfolding k_def by (rule LeastI_ex) (use \<open>\<exists>k \<ge> n. \<not> isl (outcome k)\<close> in blast)
  then obtain a where "outcome k = Inr a" by (cases "outcome k") simp_all
  moreover have "isl (outcome i)" if "n \<le> i" "i < k" for i
    using not_less_Least [OF that(2) [unfolded k_def]] that(1) by blast
  ultimately show "\<exists>r. retry outcome n = Some r" using retry_reaches [of outcome k a n] k by blast
qed

lemma retry_never: "\<forall>k \<ge> n. isl (outcome k) \<Longrightarrow> retry outcome n = None"
  using retry_returns_iff [of outcome n] by (cases "retry outcome n") auto

end
