(* ===== verification/Peer.thy ===== *)
theory Peer
  imports Retry Utils
begin

text \<open>
  \<^verbatim>\<open>peer/\<close>: the table of known peers, discovery, and sending.  A \<^verbatim>\<open>P2PManager\<close> is copied by
  \<^verbatim>\<open>ClonePeerManager\<close>, but the copy has the same peer map: managers hold a location of a heap
  of maps.  What the network answers (streams, connections) is an argument of the operations.
\<close>

section \<open>peer/pm.go\<close>

type_synonym peer_heap = "(string, string) fmap list"

record P2PManager =
  pm_id :: string
  pm_Host :: string
  pm_protocol :: string
  pm_peers :: nat

definition NewPeerManager :: "string \<Rightarrow> string \<Rightarrow> string \<Rightarrow> peer_heap \<Rightarrow> peer_heap \<times> P2PManager" where
  "NewPeerManager peerID host protocol hp =
     (hp @ [fmempty], \<lparr>pm_id = peerID, pm_Host = host, pm_protocol = protocol, pm_peers = length hp\<rparr>)"

definition SetProtocol :: "string \<Rightarrow> P2PManager \<Rightarrow> P2PManager" where
  "SetProtocol protocol p = p\<lparr>pm_protocol := protocol\<rparr>"

definition ClonePeerManager :: "P2PManager \<Rightarrow> string \<Rightarrow> P2PManager" where
  "ClonePeerManager p protocol = (let pm = p in SetProtocol protocol pm)"

definition Peers :: "peer_heap \<Rightarrow> P2PManager \<Rightarrow> (string, string) fmap" where
  "Peers hp p = (if pm_peers p < length hp then hp ! pm_peers p else fmempty)"

definition NumPeers :: "peer_heap \<Rightarrow> P2PManager \<Rightarrow> 32 word" where
  "NumPeers hp p = word_of_nat (fcard (fmdom (Peers hp p)))"

definition SelfID :: "P2PManager \<Rightarrow> string" where
  "SelfID p = pm_id p"

text \<open>Go lists the keys in no fixed order; the model lists them in ascending order.\<close>

definition PeerIDs :: "peer_heap \<Rightarrow> P2PManager \<Rightarrow> string list" where
  "PeerIDs hp p = map fst (sorted_list_of_fmap (Peers hp p))"

definition AddPeerID :: "peer_heap \<Rightarrow> P2PManager \<Rightarrow> string \<Rightarrow> string \<Rightarrow> peer_heap" where
  "AddPeerID hp p peerID addr =
     (let peerAddr = addr @ ''/p2p/'' @ peerID
      in hp[pm_peers p := fmupd peerID peerAddr (Peers hp p)])"

section \<open>peer/discovery.go\<close>

definition ProtocolId :: string where
  "ProtocolId = ''/p2p/1.0.0''"

definition GetProtocol :: "string \<Rightarrow> string" where
  "GetProtocol name = ''/'' @ name @ ''/1.0.0''"

record AddrInfo =
  ai_ID :: string
  ai_Addrs :: "string list"

text \<open>\<open>connected\<close> is the error of \<^verbatim>\<open>Host.Connect\<close>.  A peer without an address panics.\<close>

definition HandlePeerFound :: "peer_heap \<Rightarrow> P2PManager \<Rightarrow> AddrInfo \<Rightarrow> go_error option \<Rightarrow> peer_heap \<times> go_error option" where
  "HandlePeerFound hp pm pi connected =
     (if ai_ID pi = pm_Host pm then (hp, None)
      else
        (case connected of
           Some err \<Rightarrow> (hp, None)
         | None \<Rightarrow>
             (case ai_Addrs pi of
                [] \<Rightarrow> (hp, Some (Panic ''index out of range''))
              | a # _ \<Rightarrow> (AddPeerID hp pm (ai_ID pi) a, None))))"

text \<open>The notifee of an mDNS service.  \<open>mdns_Start\<close> is the error of \<^verbatim>\<open>Start\<close> of the mDNS package for
  the service of a host, a tag and a notifee; what it finds reaches \<^verbatim>\<open>HandlePeerFound\<close>.\<close>

record discovery =
  disc_pm :: P2PManager

definition DiscoveryServiceTag :: string where
  "DiscoveryServiceTag = ''discovery-node-dkg''"

definition SetupDiscovery :: "(string \<Rightarrow> string \<Rightarrow> discovery \<Rightarrow> go_error option) \<Rightarrow> P2PManager \<Rightarrow> go_error option" where
  "SetupDiscovery mdns_Start pm = mdns_Start (pm_Host pm) DiscoveryServiceTag \<lparr>disc_pm = pm\<rparr>"

section \<open>peer/node.go: connecting and sending\<close>

text \<open>
  \<^verbatim>\<open>go-multiaddr\<close>, \<^verbatim>\<open>libp2p/core\<close> and \<^verbatim>\<open>protobuf\<close>: parsing of addresses, and keys and hosts
  of types \<open>'k\<close> and \<open>'h\<close>.
\<close>

record ('ma, 'k, 'h) libp2p =
  NewMultiaddr :: "string \<Rightarrow> 'ma res"
  AddrInfoFromP2pAddr :: "'ma \<Rightarrow> AddrInfo res"
  ECDSAKeyPairFromKey :: "PrivateKey option \<Rightarrow> 'k res"
  GenerateKeyPairFromSeed :: "int \<Rightarrow> 'k res"
  IDFromPrivateKey :: "'k \<Rightarrow> string res"
  libp2p_New :: "'ma \<Rightarrow> 'k \<Rightarrow> 'h res"

record stream =
  st_Write :: "byte list \<Rightarrow> go_error option"
  st_Close :: "go_error option"

text \<open>What is sent: a protobuf message, which \<^verbatim>\<open>proto.Marshal\<close> turns into bytes or an error, or
  any other value, sent as JSON.\<close>

datatype payload = ProtoMsg "byte list res" | OtherMsg json

primrec payload_bytes :: "payload \<Rightarrow> byte list res" where
  "payload_bytes (ProtoMsg m) = m"
| "payload_bytes (OtherMsg j) = Inr (bytes_of (json_text j))"

definition timeRetryCreateStream :: nat where
  "timeRetryCreateStream = 10"

text \<open>The attempts \<open>i, \<dots>, 9\<close>; \<open>s\<close> and \<open>err\<close> are the variables the loop assigns, and \<open>opened\<close>
  the streams it has got so far.\<close>

function create_stream ::
  "(nat \<Rightarrow> stream res) \<Rightarrow> nat \<Rightarrow> stream option \<Rightarrow> go_error option \<Rightarrow> stream list \<Rightarrow>
   stream option \<times> go_error option \<times> stream list"
where
  "create_stream new_stream i s err opened =
     (if i < timeRetryCreateStream then
        (case new_stream i of
           Inl e \<Rightarrow> create_stream new_stream (Suc i) None (Some e) opened
         | Inr st \<Rightarrow> create_stream new_stream (Suc i) (Some st) None (opened @ [st]))
      else (s, err, opened))"
  by pat_completeness auto
termination
  by (relation "measure (\<lambda>(_, i, _). timeRetryCreateStream - i)") auto

declare create_stream.simps [simp del]

text \<open>What a call leaves behind: the streams it opened, the bytes it wrote to the last of them,
  whether that one was closed, and the error it returned.\<close>

record send_result =
  snd_opened :: "stream list"
  snd_wrote :: "byte list option"
  snd_closed :: bool
  snd_err :: "go_error option"

definition send :: "('ma, 'k, 'h) libp2p \<Rightarrow> string \<Rightarrow> payload \<Rightarrow> (nat \<Rightarrow> stream res) \<Rightarrow> send_result" where
  "send L target data new_stream =
     (let fail = (\<lambda>os err. \<lparr>snd_opened = os, snd_wrote = None, snd_closed = False, snd_err = err\<rparr>) in
      case NewMultiaddr L target of
        Inl err \<Rightarrow> fail [] (Some err)
      | Inr maddr \<Rightarrow>
          (case AddrInfoFromP2pAddr L maddr of
             Inl err \<Rightarrow> fail [] (Some err)
           | Inr info \<Rightarrow>
               (case create_stream new_stream 0 None None [] of
                  (None, err, os) \<Rightarrow> fail os err
                | (Some s, _, os) \<Rightarrow>
                    (case payload_bytes data of
                       Inl err \<Rightarrow> fail os (Some err)
                     | Inr bs \<Rightarrow>
                         (case st_Write s bs of
                            Some err \<Rightarrow> fail os (Some err)
                          | None \<Rightarrow>
                              \<lparr>snd_opened = os, snd_wrote = Some bs, snd_closed = True, snd_err = st_Close s\<rparr>)))))"

definition connect :: "('ma, 'k, 'h) libp2p \<Rightarrow> string \<Rightarrow> (AddrInfo \<Rightarrow> go_error option) \<Rightarrow> go_error option" where
  "connect L target host_Connect =
     (case NewMultiaddr L target of
        Inl err \<Rightarrow> Some err
      | Inr maddr \<Rightarrow>
          (case AddrInfoFromP2pAddr L maddr of
             Inl err \<Rightarrow> Some err
           | Inr info \<Rightarrow> host_Connect info))"

text \<open>\<^verbatim>\<open>MustSend\<close> reports nothing to its caller; a peer that is not in the table has the empty address.\<close>

definition MustSend :: "('ma, 'k, 'h) libp2p \<Rightarrow> peer_heap \<Rightarrow> P2PManager \<Rightarrow> string \<Rightarrow> payload \<Rightarrow> (nat \<Rightarrow> stream res) \<Rightarrow> send_result" where
  "MustSend L hp p peerID message new_stream =
     (let target = (case fmlookup (Peers hp p) peerID of None \<Rightarrow> '''' | Some a \<Rightarrow> a)
      in (send L target message new_stream)\<lparr>snd_err := None\<rparr>)"

definition connectToPeer :: "('ma, 'k, 'h) libp2p \<Rightarrow> string \<Rightarrow> (nat \<Rightarrow> AddrInfo \<Rightarrow> go_error option) \<Rightarrow> nat option" where
  "connectToPeer L peerAddr host_Connect =
     map_option fst (retry (\<lambda>n. case connect L peerAddr (host_Connect n) of Some err \<Rightarrow> Inl err | None \<Rightarrow> Inr ()) 0)"

text \<open>One goroutine per address; the call returns when all have.\<close>

definition EnsureAllConnected ::
  "('ma, 'k, 'h) libp2p \<Rightarrow> peer_heap \<Rightarrow> P2PManager \<Rightarrow> (string \<Rightarrow> nat \<Rightarrow> AddrInfo \<Rightarrow> go_error option) \<Rightarrow> nat list option"
where
  "EnsureAllConnected L hp p host_Connect =
     those (map (\<lambda>(_, peerAddr). connectToPeer L peerAddr (host_Connect peerAddr)) (sorted_list_of_fmap (Peers hp p)))"

section \<open>peer/node.go: hosts\<close>

definition generateIdentity :: "('ma, 'k, 'h) libp2p \<Rightarrow> int \<Rightarrow> 'k res" where
  "generateIdentity L port = GenerateKeyPairFromSeed L port"

text \<open>Both constructors drop the error of the key and go on with a nil key, which the next call
  dereferences.\<close>

definition host_of_key :: "('ma, 'k, 'h) libp2p \<Rightarrow> 'ma \<Rightarrow> 'k res \<Rightarrow> ('h \<times> string) res" where
  "host_of_key L sourceMultiAddr cryptoPriv =
     (case cryptoPriv of
        Inl _ \<Rightarrow> Inl (Panic ''invalid memory address or nil pointer dereference'')
      | Inr key \<Rightarrow>
          (case IDFromPrivateKey L key of
             Inl err \<Rightarrow> Inl err
           | Inr pid \<Rightarrow>
               (case libp2p_New L sourceMultiAddr key of
                  Inl err \<Rightarrow> Inl err
                | Inr basicHost \<Rightarrow> Inr (basicHost, pid))))"

definition MakeBasicHost ::
  "('ma, 'k, 'h) libp2p \<Rightarrow> (byte list \<Rightarrow> (int \<times> int) option) \<Rightarrow> int \<Rightarrow> PrivateKey \<Rightarrow> ('h \<times> string) res"
where
  "MakeBasicHost L base_mult port privateKey =
     (case NewMultiaddr L (''/ip4/127.0.0.1/tcp/'' @ big_String port) of
        Inl err \<Rightarrow> Inl err
      | Inr sourceMultiAddr \<Rightarrow>
          (let privP256 = (case ToEcdsaP256 base_mult (big_Bytes (sk_D privateKey)) False of
                 Inl _ \<Rightarrow> None | Inr k \<Rightarrow> Some k)
           in host_of_key L sourceMultiAddr (ECDSAKeyPairFromKey L privP256)))"

definition MakeBasicHostByID :: "('ma, 'k, 'h) libp2p \<Rightarrow> int \<Rightarrow> ('h \<times> string) res" where
  "MakeBasicHostByID L port =
     (case NewMultiaddr L (''/ip4/127.0.0.1/tcp/'' @ big_String port) of
        Inl err \<Rightarrow> Inl err
      | Inr sourceMultiAddr \<Rightarrow> host_of_key L sourceMultiAddr (generateIdentity L port))"

section \<open>The peer table\<close>

lemma Peers_AddPeerID:
  "pm_peers q < length hp \<Longrightarrow>
   Peers (AddPeerID hp p k a) q =
     (if pm_peers q = pm_peers p then fmupd k (a @ ''/p2p/'' @ k) (Peers hp q) else Peers hp q)"
  by (auto simp: Peers_def AddPeerID_def Let_def)

lemma length_AddPeerID [simp]: "length (AddPeerID hp p k a) = length hp"
  by (simp add: AddPeerID_def Let_def)

lemma Clone_sel [simp]:
  "pm_peers (ClonePeerManager p protocol) = pm_peers p" "pm_Host (ClonePeerManager p protocol) = pm_Host p"
  "pm_id (ClonePeerManager p protocol) = pm_id p" "pm_protocol (ClonePeerManager p protocol) = protocol"
  by (simp_all add: ClonePeerManager_def SetProtocol_def)

lemma Peers_Clone [simp]: "Peers hp (ClonePeerManager p protocol) = Peers hp p"
  by (simp add: Peers_def)

text \<open>Discovery at work: any number of peers found, each reported to the manager or to one of
  its clones.\<close>

inductive discovered :: "P2PManager \<Rightarrow> peer_heap \<Rightarrow> peer_heap \<Rightarrow> bool" for pm where
  nothing: "discovered pm hp hp"
| found: "discovered pm hp hp1 \<Longrightarrow>
    HandlePeerFound hp1 (ClonePeerManager pm protocol) pi connected = (hp2, None) \<Longrightarrow>
    discovered pm hp hp2"

text \<open>Every entry is the address of its key, and no entry is the host itself.\<close>

definition peers_ok :: "string \<Rightarrow> (string, string) fmap \<Rightarrow> bool" where
  "peers_ok self m \<longleftrightarrow>
     (\<forall>k a. fmlookup m k = Some a \<longrightarrow> k \<noteq> self \<and> (\<exists>addr. a = addr @ ''/p2p/'' @ k))"

lemma HandlePeerFound_cases:
  assumes "HandlePeerFound hp pm pi connected = (hp', None)"
  shows "hp' = hp \<or> (ai_ID pi \<noteq> pm_Host pm \<and> (\<exists>a. hp' = AddPeerID hp pm (ai_ID pi) a))"
  using assms by (auto simp: HandlePeerFound_def split: if_splits option.splits list.splits)

lemma discovered_invariant:
  assumes "discovered pm hp hp'" and "pm_peers pm < length hp" and "peers_ok (pm_Host pm) (Peers hp pm)"
  shows "length hp' = length hp \<and> peers_ok (pm_Host pm) (Peers hp' pm) \<and>
    (\<forall>q. pm_peers q < length hp \<and> pm_peers q \<noteq> pm_peers pm \<longrightarrow> Peers hp' q = Peers hp q)"
  using assms
proof (induction rule: discovered.induct)
  case (found hp hp1 protocol pi connected hp2)
  note IH = found.IH [OF found.prems]
  from HandlePeerFound_cases [OF found.hyps(2)] show ?case
  proof
    assume "hp2 = hp1"
    then show ?thesis using IH by simp
  next
    assume "ai_ID pi \<noteq> pm_Host (ClonePeerManager pm protocol) \<and>
      (\<exists>a. hp2 = AddPeerID hp1 (ClonePeerManager pm protocol) (ai_ID pi) a)"
    then obtain a where a: "hp2 = AddPeerID hp1 (ClonePeerManager pm protocol) (ai_ID pi) a"
      and other: "ai_ID pi \<noteq> pm_Host pm" by auto
    have "Peers hp2 pm = fmupd (ai_ID pi) (a @ ''/p2p/'' @ ai_ID pi) (Peers hp1 pm)"
      using a IH found.prems(1) by (simp add: Peers_AddPeerID)
    moreover have "Peers hp2 q = Peers hp1 q" if "pm_peers q < length hp" "pm_peers q \<noteq> pm_peers pm" for q
      using a IH that by (simp add: Peers_AddPeerID)
    ultimately show ?thesis
      using IH a other by (auto simp: peers_ok_def)
  qed
qed simp

section \<open>The ten attempts\<close>

definition opened_streams :: "(nat \<Rightarrow> stream res) \<Rightarrow> nat list \<Rightarrow> stream list" where
  "opened_streams new_stream is = concat (map (\<lambda>i. case new_stream i of Inl e \<Rightarrow> [] | Inr st \<Rightarrow> [st]) is)"

lemma create_stream_last:
  assumes "i < 10"
  shows "create_stream ns i s err os =
    (case ns 9 of Inl e \<Rightarrow> (None, Some e, os @ opened_streams ns [i..<10])
     | Inr st \<Rightarrow> (Some st, None, os @ opened_streams ns [i..<10]))"
  using assms
proof (induction "9 - i" arbitrary: i s err os)
  case 0
  then have "i = 9" by simp
  then show ?case
    by (simp add: create_stream.simps [of _ 9] create_stream.simps [of _ 10] timeRetryCreateStream_def
        opened_streams_def upt_rec [of 9] split: sum.splits)
next
  case (Suc n)
  then have i: "i < 10" "Suc i < 10" "n = 9 - Suc i" by simp_all
  have rest: "opened_streams ns [i..<10] =
      (case ns i of Inl e \<Rightarrow> [] | Inr st \<Rightarrow> [st]) @ opened_streams ns [Suc i..<10]"
    using i(1) by (simp add: opened_streams_def upt_rec [of i])
  have step: "create_stream ns i s err os =
      (case ns i of Inl e \<Rightarrow> create_stream ns (Suc i) None (Some e) os
       | Inr st \<Rightarrow> create_stream ns (Suc i) (Some st) None (os @ [st]))"
    using i(1) by (simp add: create_stream.simps [of _ i] timeRetryCreateStream_def)
  show ?case
    unfolding step rest using Suc.hyps(1) [OF i(3,2)] by (simp split: sum.splits)
qed

section \<open>Properties\<close>

text \<open>An example of the network packages: addresses are texts that start with a slash, and a
  key is the number it was made from.\<close>

definition libp2p0 :: "(string, int, string) libp2p" where
  "libp2p0 =
     \<lparr>NewMultiaddr = (\<lambda>s. if take 1 s = ''/'' then Inr s else Inl (LibError ''must begin with /'')),
      AddrInfoFromP2pAddr = (\<lambda>m. Inr \<lparr>ai_ID = rev (takeWhile (\<lambda>c. c \<noteq> CHR ''/'') (rev m)), ai_Addrs = [m]\<rparr>),
      ECDSAKeyPairFromKey = (\<lambda>k. case k of None \<Rightarrow> Inl (LibError ''private key is nil'') | Some x \<Rightarrow> Inr (sk_D x)),
      GenerateKeyPairFromSeed = Inr,
      IDFromPrivateKey = (\<lambda>k. Inr (big_String k)),
      libp2p_New = (\<lambda>m k. Inr m)\<rparr>"

definition pm0 :: P2PManager where
  "pm0 = \<lparr>pm_id = ''QmA'', pm_Host = ''QmA'', pm_protocol = ProtocolId, pm_peers = 0\<rparr>"

text \<open>C17: The table of a new peer manager, however many peers are discovered through it or its
  clones, never contains the host itself, maps every peer to an address of that peer, and leaves
  the tables of the managers made before it alone.\<close>

theorem discovery_keeps_peer_table:
  assumes "NewPeerManager self host protocol hp0 = (hp, pm)" and "discovered pm hp hp'"
  shows "peers_ok host (Peers hp' (ClonePeerManager pm protocol')) \<and>
    (pm_peers q < length hp0 \<longrightarrow> Peers hp' q = Peers hp0 q)"
proof -
  have pm: "pm_peers pm = length hp0" "pm_Host pm = host" "hp = hp0 @ [fmempty]"
    using assms(1) by (auto simp: NewPeerManager_def)
  then have "pm_peers pm < length hp" "peers_ok (pm_Host pm) (Peers hp pm)"
    by (simp_all add: Peers_def peers_ok_def)
  from discovered_invariant [OF assms(2) this] show ?thesis
    using pm by (auto simp: Peers_def nth_append)
qed

theorem discovery_keeps_peer_table_witness:
  "peers_ok ''QmA'' (Peers (fst (HandlePeerFound (fst (NewPeerManager ''QmA'' ''QmA'' ProtocolId []))
      (snd (NewPeerManager ''QmA'' ''QmA'' ProtocolId [])) \<lparr>ai_ID = ''QmB'', ai_Addrs = [''/ip4/1'']\<rparr> None)) pm0)"
proof -
  let ?hp = "[fmempty] :: peer_heap" and ?pi = "\<lparr>ai_ID = ''QmB'', ai_Addrs = [''/ip4/1'']\<rparr>"
  have new: "NewPeerManager ''QmA'' ''QmA'' ProtocolId [] = (?hp, pm0)"
    by (simp add: NewPeerManager_def pm0_def)
  have clone: "ClonePeerManager pm0 ProtocolId = pm0"
    by (simp add: ClonePeerManager_def SetProtocol_def pm0_def)
  have "HandlePeerFound ?hp (ClonePeerManager pm0 ProtocolId) ?pi None = (fst (HandlePeerFound ?hp pm0 ?pi None), None)"
    unfolding clone by (simp add: HandlePeerFound_def pm0_def)
  from discovered.found [OF discovered.nothing this]
  have "discovered pm0 ?hp (fst (HandlePeerFound ?hp pm0 ?pi None))" .
  from discovery_keeps_peer_table [OF new this, of ProtocolId pm0] show ?thesis
    by (simp add: new clone)
qed

text \<open>A clone shares the peer table with its original and nothing else: a peer added through
  either is a peer of both, while the protocol of the clone is its own.\<close>

lemma clone_shares_peer_table:
  assumes "pm_peers p < length hp"
  shows "Peers (AddPeerID hp (ClonePeerManager p protocol) k a) p = fmupd k (a @ ''/p2p/'' @ k) (Peers hp p) \<and>
    Peers (AddPeerID hp p k a) (ClonePeerManager p protocol) = fmupd k (a @ ''/p2p/'' @ k) (Peers hp p) \<and>
    pm_protocol (ClonePeerManager p protocol) = protocol \<and>
    NumPeers (AddPeerID hp p k a) (ClonePeerManager p protocol) =
      (if k |\<in>| fmdom (Peers hp p) then NumPeers hp p else NumPeers hp p + 1)"
proof -
  have "NumPeers (AddPeerID hp p k a) p = (if k |\<in>| fmdom (Peers hp p) then NumPeers hp p else NumPeers hp p + 1)"
    using assms by (simp add: NumPeers_def Peers_AddPeerID finsert_absorb fcard_finsert_if)
  then show ?thesis using assms by (simp add: Peers_AddPeerID NumPeers_def)
qed

text \<open>Stream protocols are told apart by their names, and the name of the RPC protocol is
  \<open>p2p\<close>: a hash text never gets the RPC protocol.\<close>

lemma GetProtocol_names:
  "(GetProtocol a = GetProtocol b \<longleftrightarrow> a = b) \<and> (GetProtocol a = ProtocolId \<longleftrightarrow> a = ''p2p'') \<and>
   GetProtocol (ToHexHash e m) \<noteq> ProtocolId"
proof -
  have rpc: "ProtocolId = GetProtocol ''p2p''" by (simp add: ProtocolId_def GetProtocol_def)
  have "ToHexHash e m \<noteq> ''p2p''" by (simp add: ToHexHash_def ToHex_def)
  then show ?thesis unfolding rpc by (auto simp: GetProtocol_def)
qed



text \<open>Connecting to a peer returns exactly when its address parses and some attempt succeeds,
  and then at the first such attempt; an address that does not parse is retried for ever, and with
  it \<^verbatim>\<open>EnsureAllConnected\<close>.\<close>

lemma connectToPeer_returns:
  "(\<exists>n. connectToPeer L addr hc = Some n) \<longleftrightarrow>
     (\<exists>maddr info n. NewMultiaddr L addr = Inr maddr \<and> AddrInfoFromP2pAddr L maddr = Inr info \<and> hc n info = None)"
proof -
  let ?o = "\<lambda>n. case connect L addr (hc n) of Some err \<Rightarrow> Inl err | None \<Rightarrow> Inr ()"
  have "(\<exists>n. connectToPeer L addr hc = Some n) \<longleftrightarrow> (\<exists>r. retry ?o 0 = Some r)"
    by (auto simp: connectToPeer_def)
  also have "\<dots> \<longleftrightarrow> (\<exists>k. connect L addr (hc k) = None)"
    unfolding retry_returns_iff by (auto split: option.splits)
  also have "\<dots> \<longleftrightarrow> (\<exists>maddr info n. NewMultiaddr L addr = Inr maddr \<and> AddrInfoFromP2pAddr L maddr = Inr info \<and> hc n info = None)"
  proof (cases "NewMultiaddr L addr")
    case (Inr m)
    then show ?thesis by (cases "AddrInfoFromP2pAddr L m") (auto simp: connect_def)
  qed (simp add: connect_def)
  finally show ?thesis .
qed

text \<open>The host constructor ignores that the key was rejected: a key outside the range of
  \<^verbatim>\<open>ToEcdsaP256\<close> ends in a nil dereference instead of an error.\<close>

lemma MakeBasicHost_rejected_key_panics:
  assumes "ToEcdsaP256 base_mult (big_Bytes (sk_D privateKey)) False = Inl err"
    and "ECDSAKeyPairFromKey L None = Inl err'"
    and "NewMultiaddr L (''/ip4/127.0.0.1/tcp/'' @ big_String port) = Inr maddr"
  shows "\<exists>msg. MakeBasicHost L base_mult port privateKey = Inl (Panic msg)"
  using assms by (simp add: MakeBasicHost_def host_of_key_def)

end
