(* ===== verification/Service.thy ===== *)
theory Service
  imports Store Peer
begin

text \<open>
  \<^verbatim>\<open>service/\<close>: the three protocol services.  Each is created for one run of an \<^verbatim>\<open>alice\<close>
  protocol, registers a stream handler for the run's messages, waits on its \<^verbatim>\<open>done\<close> channel,
  and stores the result when the protocol reports that it is done.  The contract the three
  share is the locale \<open>listener\<close>; the interleaving of the waiting goroutine with the protocol's
  is the step relation \<open>svc_step\<close>.
\<close>

section \<open>What the services share\<close>

text \<open>A node: the peer tables, the stream handlers registered on its host, and its store.  A
  handler is that of the RPC server or the \<^verbatim>\<open>Handle\<close> method of the service with the given hash.\<close>

datatype svc_ref = RpcHandle | DkgHandle string | SignerHandle string | ReshareHandle string

record 's world =
  w_peers :: peer_heap
  w_handlers :: "(string, svc_ref) fmap"
  w_store :: 's

definition SetStreamHandler :: "string \<Rightarrow> svc_ref \<Rightarrow> 's world \<Rightarrow> 's world" where
  "SetStreamHandler protocol h w = w\<lparr>w_handlers := fmupd protocol h (w_handlers w)\<rparr>"

definition RemoveStreamHandler :: "string \<Rightarrow> 's world \<Rightarrow> 's world" where
  "RemoveStreamHandler protocol w = w\<lparr>w_handlers := fmdrop protocol (w_handlers w)\<rparr>"

text \<open>\<^verbatim>\<open>close\<close> of a channel: \<open>True\<close> is a closed channel.\<close>

definition chan_close :: "bool \<Rightarrow> bool res" where
  "chan_close closed = (if closed then Inl (Panic ''close of closed channel'') else Inr True)"

text \<open>A returned error is logged; a panic is not caught.\<close>

definition panic_of :: "go_error option \<Rightarrow> go_error option" where
  "panic_of err = (case err of Some x \<Rightarrow> if is_panic x then Some x else None | None \<Rightarrow> None)"

text \<open>\<^verbatim>\<open>alice\<close>: the constructors of its protocols, which read the peer manager, and the states
  they report.\<close>

record ('pt, 'bk, 'dkg, 'pai, 'signer, 'reshare) protocols =
  NewDKG :: "curve \<Rightarrow> peer_heap \<times> P2PManager \<Rightarrow> u32 \<Rightarrow> u32 \<Rightarrow> 'dkg res"
  NewPaillier :: "nat \<Rightarrow> 'pai res"
  NewSigner :: "peer_heap \<times> P2PManager \<Rightarrow> 'pt \<Rightarrow> 'pai \<Rightarrow> int \<Rightarrow> (string, 'bk) fmap \<Rightarrow> byte list \<Rightarrow> 'signer res"
  NewReshare :: "peer_heap \<times> P2PManager \<Rightarrow> u32 \<Rightarrow> 'pt \<Rightarrow> int \<Rightarrow> (string, 'bk) fmap \<Rightarrow> 'reshare res"

datatype MainState = StateInit | StateDone | StateFailed

section \<open>service/dkg.go\<close>

record 'dkg Dkg =
  dkg_config :: DKGConfig
  dkg_pm :: P2PManager
  dkg_done :: bool
  dkg_dkg :: 'dkg
  dkg_hash :: string

text \<open>The last five characters of the host's first address; \<open>addrs\<close> is \<^verbatim>\<open>Host.Addrs()\<close>.\<close>

definition getPort :: "string list \<Rightarrow> string res" where
  "getPort addrs =
     (case addrs of
        [] \<Rightarrow> Inl (Panic ''index out of range'')
      | addr # _ \<Rightarrow>
          if length addr < 5 then Inl (Panic ''slice bounds out of range'')
          else Inr (drop (length addr - 5) addr))"

text \<open>\<^verbatim>\<open>strings.Split(hash, "-")[0]\<close>.\<close>

definition before_dash :: "string \<Rightarrow> string" where
  "before_dash hash = takeWhile (\<lambda>c. c \<noteq> CHR ''-'') hash"

definition NewDkgService ::
  "('pt, 'bk, 'dkg, 'pai, 'signer, 'reshare) protocols \<Rightarrow> DKGConfig \<Rightarrow> P2PManager \<Rightarrow> string list \<Rightarrow> string \<Rightarrow>
   's world \<Rightarrow> 's world \<times> 'dkg Dkg res"
where
  "NewDkgService P config pm addrs hash w =
     (case getPort addrs of
        Inl err \<Rightarrow> (w, Inl err)
      | Inr _ \<Rightarrow>
          (case NewDKG P GetCurve (w_peers w, pm) (dc_Threshold config) (dc_Rank config) of
             Inl err \<Rightarrow> (w, Inl err)
           | Inr dkg \<Rightarrow>
               (let streamHandlerProtocol =
                  (if CHR ''-'' \<in> set hash then GetProtocol (before_dash hash) else GetProtocol hash)
                in (SetStreamHandler streamHandlerProtocol (DkgHandle hash) w,
                    Inr \<lparr>dkg_config = config, dkg_pm = pm, dkg_done = False, dkg_dkg = dkg, dkg_hash = hash\<rparr>))))"

text \<open>A message from a peer: \<open>buf\<close> is what reading the stream gives, \<open>unmarshal\<close> is
  \<^verbatim>\<open>proto.Unmarshal\<close>, \<open>add\<close> is the protocol's \<^verbatim>\<open>AddMessage\<close>.\<close>

definition Dkg_Handle ::
  "byte list res \<Rightarrow> (byte list \<Rightarrow> 'msg res) \<Rightarrow> ('msg \<Rightarrow> 'dkg \<Rightarrow> 'dkg \<times> go_error option) \<Rightarrow> 'dkg Dkg \<Rightarrow> 'dkg Dkg"
where
  "Dkg_Handle buf unmarshal add p =
     (case buf of
        Inl err \<Rightarrow> p
      | Inr b \<Rightarrow>
          (case unmarshal b of
             Inl err \<Rightarrow> p
           | Inr data \<Rightarrow> p\<lparr>dkg_dkg := fst (add data (dkg_dkg p))\<rparr>))"

text \<open>\<^verbatim>\<open>close(p.done)\<close>, as \<^verbatim>\<open>OnStateChanged\<close> calls it, and \<^verbatim>\<open>closeDone\<close>, which nothing calls.\<close>

definition Dkg_close :: "'dkg Dkg \<times> 's world \<Rightarrow> ('dkg Dkg \<times> 's world) res" where
  "Dkg_close st = (case st of (p, w) \<Rightarrow>
     (case chan_close (dkg_done p) of Inl err \<Rightarrow> Inl err | Inr c \<Rightarrow> Inr (p\<lparr>dkg_done := c\<rparr>, w)))"

definition Dkg_closeDone :: "'dkg Dkg \<times> 's world \<Rightarrow> ('dkg Dkg \<times> 's world) res" where
  "Dkg_closeDone st = (case Dkg_close st of
     Inl err \<Rightarrow> Inl err
   | Inr (p, w) \<Rightarrow> Inr (p, RemoveStreamHandler (GetProtocol (dkg_hash p)) w))"

definition Dkg_save ::
  "('s, 'pt, 'bk) HandlerData \<Rightarrow> ('pt, 'bk) dkg_Result \<Rightarrow> 'dkg Dkg \<times> 's world \<Rightarrow> ('dkg Dkg \<times> 's world) \<times> go_error option"
where
  "Dkg_save H result st = (case st of (p, w) \<Rightarrow>
     (let (s, err) = SaveDKGResultData H (dkg_hash p) result (w_store w)
      in ((p, w\<lparr>w_store := s\<rparr>), panic_of err)))"

definition Dkg_OnStateChanged ::
  "('s, 'pt, 'bk) HandlerData \<Rightarrow> ('pt, 'bk) dkg_Result res \<Rightarrow> MainState \<Rightarrow> 'dkg Dkg \<times> 's world \<Rightarrow>
   ('dkg Dkg \<times> 's world) \<times> go_error option"
where
  "Dkg_OnStateChanged H getResult newState st =
     (if newState = StateFailed then
        (case Dkg_close st of Inl x \<Rightarrow> (st, Some x) | Inr st' \<Rightarrow> (st', None))
      else if newState = StateDone then
        (case Dkg_close st of
           Inl x \<Rightarrow> (st, Some x)
         | Inr st' \<Rightarrow>
             (case getResult of
                Inr result \<Rightarrow> Dkg_save H result st'
              | Inl err \<Rightarrow> (st', None)))
      else (st, None))"

section \<open>service/signer.go\<close>

record 'signer Signer =
  sg_config :: SignerConfig
  sg_pm :: P2PManager
  sg_done :: bool
  sg_signer :: "'signer option"
  sg_hash :: string

text \<open>The message is signed as the bytes its text is the hexadecimal form of.\<close>

definition createSigner ::
  "eth \<Rightarrow> ('pt, 'bk) alice \<Rightarrow> ('pt, 'bk, 'dkg, 'pai, 'signer, 'reshare) protocols \<Rightarrow> SignerConfig \<Rightarrow>
   peer_heap \<times> P2PManager \<Rightarrow> string \<Rightarrow> 'signer res"
where
  "createSigner e A P config pm msg =
     (case NewPaillier P 2048 of
        Inl err \<Rightarrow> Inl err
      | Inr newPaillier \<Rightarrow>
          (case ConvertDKGResult A (sc_Pubkey config) (sc_Share config) (sc_BKs config) of
             Inl err \<Rightarrow> Inl err
           | Inr dkgResult \<Rightarrow>
               (let byteMessage = Hex2Bytes e msg
                in NewSigner P pm (r_PublicKey dkgResult) newPaillier (r_Share dkgResult) (r_Bks dkgResult) byteMessage)))"

definition NewSignerService ::
  "eth \<Rightarrow> ('pt, 'bk) alice \<Rightarrow> ('pt, 'bk, 'dkg, 'pai, 'signer, 'reshare) protocols \<Rightarrow> SignerConfig \<Rightarrow>
   P2PManager \<Rightarrow> string \<Rightarrow> 's world \<Rightarrow> 's world \<times> 'signer Signer res"
where
  "NewSignerService e A P config pm msg w =
     (case createSigner e A P config (w_peers w, pm) msg of
        Inl err \<Rightarrow> (w, Inl err)
      | Inr signer \<Rightarrow>
          (let hash = ToHexHash e (bytes_of msg)
           in (SetStreamHandler (GetProtocol hash) (SignerHandle hash) w,
               Inr \<lparr>sg_config = config, sg_pm = pm, sg_done = False, sg_signer = Some signer, sg_hash = hash\<rparr>)))"

definition Signer_Handle ::
  "byte list res \<Rightarrow> (byte list \<Rightarrow> 'msg res) \<Rightarrow> ('msg \<Rightarrow> 'signer \<Rightarrow> 'signer \<times> go_error option) \<Rightarrow> 'signer Signer \<Rightarrow> 'signer Signer"
where
  "Signer_Handle buf unmarshal add p =
     (case sg_signer p of
        None \<Rightarrow> p
      | Some signer \<Rightarrow>
          (case buf of
             Inl err \<Rightarrow> p
           | Inr b \<Rightarrow>
               (case unmarshal b of
                  Inl err \<Rightarrow> p
                | Inr data \<Rightarrow> p\<lparr>sg_signer := Some (fst (add data signer))\<rparr>)))"

definition Signer_closeDone :: "'signer Signer \<times> 's world \<Rightarrow> ('signer Signer \<times> 's world) res" where
  "Signer_closeDone st = (case st of (p, w) \<Rightarrow>
     (case chan_close (sg_done p) of
        Inl err \<Rightarrow> Inl err
      | Inr c \<Rightarrow> Inr (p\<lparr>sg_done := c\<rparr>, RemoveStreamHandler (GetProtocol (sg_hash p)) w)))"

definition signature_of :: "string \<Rightarrow> signer_Result \<Rightarrow> RVSignature" where
  "signature_of hash result =
     \<lparr>rv_R = hex_EncodeToString (big_Bytes (sr_R result)),
      rv_S = hex_EncodeToString (big_Bytes (sr_S result)),
      rv_Hash = hash\<rparr>"

definition Signer_save ::
  "('s, 'pt, 'bk) HandlerData \<Rightarrow> signer_Result \<Rightarrow> 'signer Signer \<times> 's world \<Rightarrow> ('signer Signer \<times> 's world) \<times> go_error option"
where
  "Signer_save H result st = (case st of (p, w) \<Rightarrow>
     (let (s, err) = SaveSignerResultData H (sg_hash p) (signature_of (sg_hash p) result) (w_store w)
      in ((p, w\<lparr>w_store := s\<rparr>), panic_of err)))"

definition Signer_OnStateChanged ::
  "('s, 'pt, 'bk) HandlerData \<Rightarrow> signer_Result res \<Rightarrow> MainState \<Rightarrow> 'signer Signer \<times> 's world \<Rightarrow>
   ('signer Signer \<times> 's world) \<times> go_error option"
where
  "Signer_OnStateChanged H getResult newState st =
     (if newState = StateFailed then
        (case Signer_closeDone st of Inl x \<Rightarrow> (st, Some x) | Inr st' \<Rightarrow> (st', None))
      else if newState = StateDone then
        (case Signer_closeDone st of
           Inl x \<Rightarrow> (st, Some x)
         | Inr st' \<Rightarrow>
             (case getResult of
                Inr result \<Rightarrow> Signer_save H result st'
              | Inl err \<Rightarrow> (st', None)))
      else (st, None))"

section \<open>service/reshare.go\<close>

record 'reshare Reshare =
  rs_config :: ReshareConfig
  rs_pm :: P2PManager
  rs_done :: bool
  rs_reshare :: 'reshare
  rs_hash :: string

definition NewReshareService ::
  "('pt, 'bk) alice \<Rightarrow> ('pt, 'bk, 'dkg, 'pai, 'signer, 'reshare) protocols \<Rightarrow> ReshareConfig \<Rightarrow>
   P2PManager \<Rightarrow> string \<Rightarrow> 's world \<Rightarrow> 's world \<times> 'reshare Reshare res"
where
  "NewReshareService A P config pm hash w =
     (case ConvertDKGResult A (rc_Pubkey config) (rc_Share config) (rc_BKs config) of
        Inl err \<Rightarrow> (w, Inl err)
      | Inr dkgResult \<Rightarrow>
          (case NewReshare P (w_peers w, pm) (rc_Threshold config) (r_PublicKey dkgResult) (r_Share dkgResult) (r_Bks dkgResult) of
             Inl err \<Rightarrow> (w, Inl err)
           | Inr reshare \<Rightarrow>
               (SetStreamHandler (GetProtocol hash) (ReshareHandle hash) w,
                Inr \<lparr>rs_config = config, rs_pm = pm, rs_done = False, rs_reshare = reshare, rs_hash = hash\<rparr>)))"

definition Reshare_Handle ::
  "byte list res \<Rightarrow> (byte list \<Rightarrow> 'msg res) \<Rightarrow> ('msg \<Rightarrow> 'reshare \<Rightarrow> 'reshare \<times> go_error option) \<Rightarrow> 'reshare Reshare \<Rightarrow> 'reshare Reshare"
where
  "Reshare_Handle buf unmarshal add p =
     (case buf of
        Inl err \<Rightarrow> p
      | Inr b \<Rightarrow>
          (case unmarshal b of
             Inl err \<Rightarrow> p
           | Inr data \<Rightarrow> p\<lparr>rs_reshare := fst (add data (rs_reshare p))\<rparr>))"

definition Reshare_closeDone :: "'reshare Reshare \<times> 's world \<Rightarrow> ('reshare Reshare \<times> 's world) res" where
  "Reshare_closeDone st = (case st of (p, w) \<Rightarrow>
     (case chan_close (rs_done p) of
        Inl err \<Rightarrow> Inl err
      | Inr c \<Rightarrow> Inr (p\<lparr>rs_done := c\<rparr>, RemoveStreamHandler (GetProtocol (rs_hash p)) w)))"

definition Reshare_save ::
  "('s, 'pt, 'bk) HandlerData \<Rightarrow> reshare_Result \<Rightarrow> 'reshare Reshare \<times> 's world \<Rightarrow> ('reshare Reshare \<times> 's world) \<times> go_error option"
where
  "Reshare_save H result st = (case st of (p, w) \<Rightarrow>
     (let (s, err) = UpdateDKGResultData H (rs_hash p) result (w_store w)
      in ((p, w\<lparr>w_store := s\<rparr>), panic_of err)))"

definition Reshare_OnStateChanged ::
  "('s, 'pt, 'bk) HandlerData \<Rightarrow> reshare_Result res \<Rightarrow> MainState \<Rightarrow> 'reshare Reshare \<times> 's world \<Rightarrow>
   ('reshare Reshare \<times> 's world) \<times> go_error option"
where
  "Reshare_OnStateChanged H getResult newState st =
     (if newState = StateFailed then
        (case Reshare_closeDone st of Inl x \<Rightarrow> (st, Some x) | Inr st' \<Rightarrow> (st', None))
      else if newState = StateDone then
        (case Reshare_closeDone st of
           Inl x \<Rightarrow> (st, Some x)
         | Inr st' \<Rightarrow>
             (case getResult of
                Inr result \<Rightarrow> Reshare_save H result st'
              | Inl err \<Rightarrow> (st', None)))
      else (st, None))"

end
