(* ===== verification/Service_Run.thy ===== *)
theory Service_Run
  imports Service
begin

text \<open>
  A service at run time.  Two goroutines work on it: the caller's, in \<^verbatim>\<open>Process\<close> (start the
  protocol, wait on \<^verbatim>\<open>done\<close>, stop the protocol), and the protocol's, which calls
  \<^verbatim>\<open>OnStateChanged\<close> (get the result, close \<^verbatim>\<open>done\<close>, save the result).  \<open>svc_step\<close> is one
  step of either; the locale \<open>listener\<close> proves once for all services what every interleaving
  of them does.
\<close>

datatype proc_pc = NotStarted | Waiting | Returned

datatype lis_pc = Idle | GotResult | Closed | Finished MainState

record 'st run =
  run_st :: 'st
  run_proc :: proc_pc
  run_lis :: lis_pc
  run_running :: bool

definition run_init :: "'st \<Rightarrow> 'st run" where
  "run_init st = \<lparr>run_st = st, run_proc = NotStarted, run_lis = Idle, run_running = False\<rparr>"

inductive svc_step ::
  "('st \<Rightarrow> 'st res) \<Rightarrow> ('st \<Rightarrow> bool) \<Rightarrow> ('r \<Rightarrow> 'st \<Rightarrow> 'st \<times> go_error option) \<Rightarrow> 'r res \<Rightarrow> 'st run \<Rightarrow> 'st run \<Rightarrow> bool"
  for close is_done save result
where
  p_start: "run_proc c = NotStarted \<Longrightarrow>
    svc_step close is_done save result c (c\<lparr>run_proc := Waiting, run_running := True\<rparr>)"
| p_return: "run_proc c = Waiting \<Longrightarrow> is_done (run_st c) \<Longrightarrow>
    svc_step close is_done save result c (c\<lparr>run_proc := Returned, run_running := False\<rparr>)"
| l_failed: "run_lis c = Idle \<Longrightarrow> run_running c \<Longrightarrow> close (run_st c) = Inr st \<Longrightarrow>
    svc_step close is_done save result c (c\<lparr>run_lis := Finished StateFailed, run_st := st\<rparr>)"
| l_result: "run_lis c = Idle \<Longrightarrow> run_running c \<Longrightarrow>
    svc_step close is_done save result c (c\<lparr>run_lis := GotResult\<rparr>)"
| l_close: "run_lis c = GotResult \<Longrightarrow> close (run_st c) = Inr st \<Longrightarrow>
    svc_step close is_done save result c (c\<lparr>run_lis := Closed, run_st := st\<rparr>)"
| l_save: "run_lis c = Closed \<Longrightarrow> result = Inr r \<Longrightarrow>
    svc_step close is_done save result c (c\<lparr>run_lis := Finished StateDone, run_st := fst (save r (run_st c))\<rparr>)"
| l_no_result: "run_lis c = Closed \<Longrightarrow> result = Inl err \<Longrightarrow>
    svc_step close is_done save result c (c\<lparr>run_lis := Finished StateDone\<rparr>)"

inductive_cases svc_stepE: "svc_step close is_done save result c c'"

abbreviation svc_reachable where
  "svc_reachable close is_done save result st \<equiv> (svc_step close is_done save result)\<^sup>*\<^sup>* (run_init st)"

text \<open>The steps of each service.\<close>

abbreviation Dkg_Process where
  "Dkg_Process H \<equiv> svc_step Dkg_close (\<lambda>st. dkg_done (fst st)) (Dkg_save H)"

abbreviation Signer_Process where
  "Signer_Process H \<equiv> svc_step Signer_closeDone (\<lambda>st. sg_done (fst st)) (Signer_save H)"

abbreviation Reshare_Process where
  "Reshare_Process H \<equiv> svc_step Reshare_closeDone (\<lambda>st. rs_done (fst st)) (Reshare_save H)"

text \<open>How far a run is: no run takes more than five steps.\<close>

primrec proc_rank :: "proc_pc \<Rightarrow> nat" where
  "proc_rank NotStarted = 0"
| "proc_rank Waiting = 1"
| "proc_rank Returned = 2"

primrec lis_rank :: "lis_pc \<Rightarrow> nat" where
  "lis_rank Idle = 0"
| "lis_rank GotResult = 1"
| "lis_rank Closed = 2"
| "lis_rank (Finished s) = 3"

definition run_rank :: "'st run \<Rightarrow> nat" where
  "run_rank c = proc_rank (run_proc c) + lis_rank (run_lis c)"

lemma step_rank: "svc_step close is_done save result c c' \<Longrightarrow> run_rank c < run_rank c'"
  by (induction rule: svc_step.induct) (simp_all add: run_rank_def)

lemma run_rank_le: "run_rank c \<le> 5"
  by (cases "run_proc c"; cases "run_lis c") (simp_all add: run_rank_def)

lemma steps_rank: "(svc_step close is_done save result ^^ n) c c' \<Longrightarrow> run_rank c + n \<le> run_rank c'"
proof (induction n arbitrary: c')
  case (Suc n)
  from Suc.prems obtain d where "(svc_step close is_done save result ^^ n) c d" "svc_step close is_done save result d c'"
    by auto
  then show ?case using Suc.IH step_rank by fastforce
qed simp

lemma over_stuck:
  "run_proc c = Returned \<Longrightarrow> run_lis c = Finished ns \<Longrightarrow> \<nexists>c'. svc_step close is_done save result c c'"
  by (auto elim: svc_stepE)

section \<open>The contract of a state listener\<close>

text \<open>
  \<open>is_done\<close> tells whether the \<^verbatim>\<open>done\<close> channel is closed; \<open>close\<close> and \<open>save\<close> are the two
  effects of \<open>on_change\<close>, the service's \<^verbatim>\<open>OnStateChanged\<close>.
\<close>

locale listener =
  fixes close :: "'st \<Rightarrow> 'st res"
    and is_done :: "'st \<Rightarrow> bool"
    and save :: "'r \<Rightarrow> 'st \<Rightarrow> 'st \<times> go_error option"
    and on_change :: "'r res \<Rightarrow> MainState \<Rightarrow> 'st \<Rightarrow> 'st \<times> go_error option"
  assumes close_open: "\<not> is_done st \<Longrightarrow> \<exists>st'. close st = Inr st' \<and> is_done st'"
    and close_closed: "is_done st \<Longrightarrow> close st = Inl (Panic ''close of closed channel'')"
    and save_done: "is_done (fst (save r st)) \<longleftrightarrow> is_done st"
    and on_init: "on_change res StateInit st = (st, None)"
    and on_failed: "on_change res StateFailed st =
      (case close st of Inl x \<Rightarrow> (st, Some x) | Inr st' \<Rightarrow> (st', None))"
    and on_done: "on_change res StateDone st =
      (case close st of Inl x \<Rightarrow> (st, Some x)
       | Inr st' \<Rightarrow> (case res of Inr r \<Rightarrow> save r st' | Inl err \<Rightarrow> (st', None)))"
begin

lemma close_is_done: "close st = Inr st' \<Longrightarrow> is_done st'"
  using close_open close_closed by (metis Inl_Inr_False sum.inject(2))

text \<open>What holds at every point of every interleaving.\<close>

definition run_inv where
  "run_inv res st0 c \<longleftrightarrow>
     (case run_lis c of
        Idle \<Rightarrow> run_st c = st0
      | GotResult \<Rightarrow> run_st c = st0
      | Closed \<Rightarrow> close st0 = Inr (run_st c)
      | Finished ns \<Rightarrow> ns \<noteq> StateInit \<and> is_done (run_st c) \<and> run_st c = fst (on_change res ns st0)) \<and>
     (run_proc c = NotStarted \<longrightarrow> run_lis c = Idle) \<and>
     (run_proc c = Waiting \<longrightarrow> run_running c) \<and>
     (run_proc c = Returned \<longrightarrow> is_done (run_st c)) \<and>
     (run_running c \<longrightarrow> run_proc c = Waiting)"

lemma step_inv:
  assumes "svc_step close is_done save res c c'" and "\<not> is_done st0" and "run_inv res st0 c"
  shows "run_inv res st0 c'"
  using assms
proof (induction rule: svc_step.induct)
  case (l_failed c st)
  then show ?case using close_is_done [of st0 st] by (simp add: run_inv_def on_failed)
next
  case (l_close c st)
  then show ?case using close_is_done [of st0 st] by (auto simp: run_inv_def)
next
  case (l_save c r)
  then show ?case using close_is_done [of st0 "run_st c"] save_done [of r "run_st c"]
    by (auto simp: run_inv_def on_done)
next
  case (l_no_result c err)
  then show ?case using close_is_done [of st0 "run_st c"] by (auto simp: run_inv_def on_done)
qed (auto simp: run_inv_def split: lis_pc.splits)

lemma reachable_inv:
  assumes "svc_reachable close is_done save res st0 c" and "\<not> is_done st0"
  shows "run_inv res st0 c"
  using assms(1)
proof (induction rule: rtranclp_induct)
  case base
  then show ?case by (simp add: run_inv_def run_init_def)
qed (rule step_inv [OF _ assms(2)])

text \<open>A run that cannot go on is over: the caller is back, the listener has finished, and the
  effect is that of one sequential call of \<open>on_change\<close>.\<close>

lemma stuck_is_over:
  assumes "svc_reachable close is_done save res st0 c" and "\<not> is_done st0"
    and "\<nexists>c'. svc_step close is_done save res c c'"
  shows "run_proc c = Returned \<and>
    (\<exists>ns. ns \<noteq> StateInit \<and> run_lis c = Finished ns \<and> run_st c = fst (on_change res ns st0))"
proof -
  have inv: "run_inv res st0 c" by (rule reachable_inv [OF assms(1,2)])
  obtain st where st: "close st0 = Inr st" using close_open [OF assms(2)] by blast
  note stuck = assms(3)
  have p: "run_proc c \<noteq> NotStarted" using stuck svc_step.p_start by metis
  have "run_lis c \<noteq> Closed"
    using stuck svc_step.l_save svc_step.l_no_result by (metis sum.exhaust)
  moreover have "run_lis c \<noteq> GotResult"
    using stuck svc_step.l_close [of c close st is_done save res] inv st by (auto simp: run_inv_def)
  moreover have "run_lis c \<noteq> Idle"
  proof
    assume idle: "run_lis c = Idle"
    then have "run_proc c = Waiting"
      using p inv assms(2) by (cases "run_proc c") (auto simp: run_inv_def)
    then show False using stuck svc_step.l_result idle inv unfolding run_inv_def by metis
  qed
  ultimately obtain ns where ns: "run_lis c = Finished ns" by (cases "run_lis c") auto
  then have "is_done (run_st c)" using inv by (auto simp: run_inv_def)
  then have "run_proc c = Returned" using p stuck svc_step.p_return by (metis proc_pc.exhaust)
  then show ?thesis using ns inv by (auto simp: run_inv_def)
qed

lemma returned_after_close:
  assumes "svc_reachable close is_done save res st0 c" and "\<not> is_done st0" and "run_proc c = Returned"
  shows "is_done (run_st c)"
  using reachable_inv [OF assms(1,2)] assms(3) by (simp add: run_inv_def)

text \<open>The caller can be back before the result is saved.\<close>

lemma returned_before_save:
  assumes "close st0 = Inr st"
  shows "svc_reachable close is_done save res st0
    \<lparr>run_st = st, run_proc = Returned, run_lis = Closed, run_running = False\<rparr>"
proof -
  let ?R = "svc_step close is_done save res"
  let ?c = "\<lambda>s p l b. \<lparr>run_st = s, run_proc = p, run_lis = l, run_running = b\<rparr>"
  have "?R (?c st0 NotStarted Idle False) (?c st0 Waiting Idle True)"
    using svc_step.p_start [of "?c st0 NotStarted Idle False"] by simp
  moreover have "?R (?c st0 Waiting Idle True) (?c st0 Waiting GotResult True)"
    using svc_step.l_result [of "?c st0 Waiting Idle True"] by simp
  moreover have "?R (?c st0 Waiting GotResult True) (?c st Waiting Closed True)"
    using svc_step.l_close [of "?c st0 Waiting GotResult True" close st] assms by simp
  moreover have "?R (?c st Waiting Closed True) (?c st Returned Closed False)"
    using svc_step.p_return [of "?c st Waiting Closed True" is_done] close_is_done [OF assms] by simp
  ultimately show ?thesis
    unfolding run_init_def by (meson converse_rtranclp_into_rtranclp rtranclp.rtrancl_refl)
qed

lemma failed_run:
  assumes "close st0 = Inr st"
  shows "svc_reachable close is_done save res st0
    \<lparr>run_st = st, run_proc = Returned, run_lis = Finished StateFailed, run_running = False\<rparr>"
proof -
  let ?R = "svc_step close is_done save res"
  let ?c = "\<lambda>s p l b. \<lparr>run_st = s, run_proc = p, run_lis = l, run_running = b\<rparr>"
  have "?R (?c st0 NotStarted Idle False) (?c st0 Waiting Idle True)"
    using svc_step.p_start [of "?c st0 NotStarted Idle False"] by simp
  moreover have "?R (?c st0 Waiting Idle True) (?c st Waiting (Finished StateFailed) True)"
    using svc_step.l_failed [of "?c st0 Waiting Idle True" close st] assms by simp
  moreover have "?R (?c st Waiting (Finished StateFailed) True) (?c st Returned (Finished StateFailed) False)"
    using svc_step.p_return [of "?c st Waiting (Finished StateFailed) True" is_done] close_is_done [OF assms] by simp
  ultimately show ?thesis
    unfolding run_init_def by (meson converse_rtranclp_into_rtranclp rtranclp.rtrancl_refl)
qed

text \<open>A second terminal state closes a closed channel.\<close>

lemma second_terminal_panics:
  assumes "\<not> is_done st" and "on_change res ns st = (st', err)" and "ns \<noteq> StateInit" and "ms \<noteq> StateInit"
  shows "on_change res' ms st' = (st', Some (Panic ''close of closed channel''))"
proof -
  obtain st1 where st1: "close st = Inr st1" "is_done st1" using close_open [OF assms(1)] by blast
  have "is_done st'"
    using assms(2,3) st1 save_done [of _ st1]
    by (cases ns; cases res) (auto simp: on_failed on_done, metis fst_conv)
  then show ?thesis using assms(4) close_closed by (cases ms) (simp_all add: on_failed on_done)
qed

end

interpretation dkg: listener Dkg_close "\<lambda>st. dkg_done (fst st)" "Dkg_save H" "Dkg_OnStateChanged H"
  for H
  by unfold_locales
    (auto simp: Dkg_close_def Dkg_save_def Dkg_OnStateChanged_def chan_close_def Let_def split: prod.splits)

interpretation signer: listener Signer_closeDone "\<lambda>st. sg_done (fst st)" "Signer_save H" "Signer_OnStateChanged H"
  for H
  by unfold_locales
    (auto simp: Signer_closeDone_def Signer_save_def Signer_OnStateChanged_def chan_close_def Let_def split: prod.splits)

interpretation reshare: listener Reshare_closeDone "\<lambda>st. rs_done (fst st)" "Reshare_save H" "Reshare_OnStateChanged H"
  for H
  by unfold_locales
    (auto simp: Reshare_closeDone_def Reshare_save_def Reshare_OnStateChanged_def chan_close_def Let_def split: prod.splits)

section \<open>Properties\<close>

text \<open>Example services on the in-memory store.\<close>

definition protocols0 :: "(pt0, bk0, unit, unit, unit, unit) protocols" where
  "protocols0 =
     \<lparr>NewDKG = (\<lambda>c pm t r. Inr ()), NewPaillier = (\<lambda>n. Inr ()),
      NewSigner = (\<lambda>pm pk pai share bks msg. Inr ()), NewReshare = (\<lambda>pm t pk share bks. Inr ())\<rparr>"

definition world0 :: "mock world" where
  "world0 = \<lparr>w_peers = [fmempty], w_handlers = fmempty, w_store = NewMockDB\<rparr>"

definition dkg0 :: "unit Dkg" where
  "dkg0 = \<lparr>dkg_config = \<lparr>dc_Rank = 0, dc_Threshold = 2\<rparr>, dkg_pm = pm0, dkg_done = False, dkg_dkg = (), dkg_hash = ''0xaa''\<rparr>"

definition reshare0 :: "unit Reshare" where
  "reshare0 = \<lparr>rs_config = \<lparr>rc_Threshold = 2, rc_Share = '''', rc_Pubkey = zero_Pubkey, rc_BKs = None\<rparr>,
     rs_pm = pm0, rs_done = False, rs_reshare = (), rs_hash = ''0xaa''\<rparr>"

text \<open>C5: However the waiting goroutine and the key generation's interleave, a run of a DKG service
  that cannot go on has ended: \<^verbatim>\<open>Process\<close> has returned, and node and service are in the state that
  one sequential call of \<^verbatim>\<open>OnStateChanged\<close> with a terminal state leaves.\<close>

theorem dkg_run_ends_as_sequential:
  assumes "\<not> dkg_done p"
    and "(Dkg_Process H res)\<^sup>*\<^sup>* (run_init (p, w)) c"
    and "\<nexists>c'. Dkg_Process H res c c'"
  shows "run_proc c = Returned \<and>
    (\<exists>ns. ns \<noteq> StateInit \<and> run_lis c = Finished ns \<and> run_st c = fst (Dkg_OnStateChanged H res ns (p, w)))"
  by (rule dkg.stuck_is_over [OF assms(2) _ assms(3)]) (simp add: assms(1))

theorem dkg_run_ends_as_sequential_witness:
  "\<exists>c. (Dkg_Process (mock_handler eth0 alice0) (Inr result0))\<^sup>*\<^sup>* (run_init (dkg0, world0)) c \<and>
     run_proc c = Returned \<and>
     (\<exists>ns. ns \<noteq> StateInit \<and> run_lis c = Finished ns \<and>
       run_st c = fst (Dkg_OnStateChanged (mock_handler eth0 alice0) (Inr result0) ns (dkg0, world0)))"
proof -
  have "Dkg_close (dkg0, world0) = Inr (dkg0\<lparr>dkg_done := True\<rparr>, world0)"
    by (simp add: Dkg_close_def dkg0_def chan_close_def)
  note ran = dkg.failed_run [OF this, of "mock_handler eth0 alice0" "Inr result0"]
  have "\<not> dkg_done dkg0" by (simp add: dkg0_def)
  from ran dkg_run_ends_as_sequential [OF this ran over_stuck [OF run.select_convs(2,3)]]
  show ?thesis by blast
qed

text \<open>The same for a signing service: when the run is over, the signature has been stored and
  the stream handler removed exactly as one sequential call of \<^verbatim>\<open>OnStateChanged\<close> does.\<close>

lemma signer_run_ends_as_sequential:
  assumes "\<not> sg_done p"
    and "(Signer_Process H res)\<^sup>*\<^sup>* (run_init (p, w)) c"
    and "\<nexists>c'. Signer_Process H res c c'"
  shows "run_proc c = Returned \<and>
    (\<exists>ns. ns \<noteq> StateInit \<and> run_lis c = Finished ns \<and> run_st c = fst (Signer_OnStateChanged H res ns (p, w)))"
  by (rule signer.stuck_is_over [OF assms(2) _ assms(3)]) (simp add: assms(1))

text \<open>The same for a resharing service.\<close>

lemma reshare_run_ends_as_sequential:
  assumes "\<not> rs_done p"
    and "(Reshare_Process H res)\<^sup>*\<^sup>* (run_init (p, w)) c"
    and "\<nexists>c'. Reshare_Process H res c c'"
  shows "run_proc c = Returned \<and>
    (\<exists>ns. ns \<noteq> StateInit \<and> run_lis c = Finished ns \<and> run_st c = fst (Reshare_OnStateChanged H res ns (p, w)))"
  by (rule reshare.stuck_is_over [OF assms(2) _ assms(3)]) (simp add: assms(1))




text \<open>None of the services survives a second terminal state: whichever the two are, the second
  call of \<^verbatim>\<open>OnStateChanged\<close> closes a closed channel.\<close>

lemma second_terminal_state_panics:
  assumes "ns \<noteq> StateInit" and "ms \<noteq> StateInit" and "\<not> dkg_done d" and "\<not> sg_done s" and "\<not> rs_done r"
  shows "snd (Dkg_OnStateChanged H dr ms (fst (Dkg_OnStateChanged H dr ns (d, w)))) = Some (Panic ''close of closed channel'') \<and>
    snd (Signer_OnStateChanged H sr ms (fst (Signer_OnStateChanged H sr ns (s, w)))) = Some (Panic ''close of closed channel'') \<and>
    snd (Reshare_OnStateChanged H rr ms (fst (Reshare_OnStateChanged H rr ns (r, w)))) = Some (Panic ''close of closed channel'')"
  using dkg.second_terminal_panics [OF _ surjective_pairing assms(1,2), of "(d, w)" H dr dr]
    signer.second_terminal_panics [OF _ surjective_pairing assms(1,2), of "(s, w)" H sr sr]
    reshare.second_terminal_panics [OF _ surjective_pairing assms(1,2), of "(r, w)" H rr rr] assms(3-5)
  by simp

text \<open>A signing service listens on the protocol named by the hash of its message from its
  creation to its terminal state, and only there: afterwards the handlers of the host are what they
  were, without that protocol.\<close>

lemma signer_handler_lifecycle:
  assumes "NewSignerService e A P config pm msg w = (w1, Inr p)" and "ns \<noteq> StateInit"
    and "Signer_OnStateChanged H res ns (p, w1) = ((p', w2), err)"
  shows "w_handlers w1 = fmupd (GetProtocol (ToHexHash e (bytes_of msg))) (SignerHandle (ToHexHash e (bytes_of msg))) (w_handlers w) \<and>
    w_handlers w2 = fmdrop (GetProtocol (ToHexHash e (bytes_of msg))) (w_handlers w)"
proof -
  let ?h = "ToHexHash e (bytes_of msg)"
  have p: "\<not> sg_done p" "sg_hash p = ?h"
    and w1: "w1 = SetStreamHandler (GetProtocol ?h) (SignerHandle ?h) w"
    using assms(1) by (auto simp: NewSignerService_def Let_def split: sum.splits)
  have close: "Signer_closeDone (p, w1) = Inr (p\<lparr>sg_done := True\<rparr>, RemoveStreamHandler (GetProtocol ?h) w1)"
    using p by (simp add: Signer_closeDone_def chan_close_def)
  have "w_handlers w2 = w_handlers (RemoveStreamHandler (GetProtocol ?h) w1)"
    using assms(2,3) close
    by (cases ns; cases res) (auto simp: signer.on_failed signer.on_done Signer_save_def Let_def split: prod.splits)
  moreover have "fmdrop k (fmupd k v m) = fmdrop k m" for k and v :: svc_ref and m
    by (rule fmap_ext) simp
  ultimately show ?thesis
    using w1 by (simp add: SetStreamHandler_def RemoveStreamHandler_def)
qed

text \<open>A DKG service never removes its stream handler: after any state change the handlers of the
  host are those its creation left, the handler for its protocol among them.  For a hash with a
  node suffix that protocol is the one of the part before the dash.\<close>

lemma dkg_handler_stays:
  assumes "NewDkgService P config pm addrs hash w = (w1, Inr p)"
    and "Dkg_OnStateChanged H res ns (p, w1) = ((p', w2), err)"
  shows "w_handlers w2 = fmupd (GetProtocol (before_dash hash)) (DkgHandle hash) (w_handlers w)"
proof -
  have "before_dash hash = hash" if "CHR ''-'' \<notin> set hash"
    using that by (simp add: before_dash_def takeWhile_eq_all_conv) metis
  then have w1: "w_handlers w1 = fmupd (GetProtocol (before_dash hash)) (DkgHandle hash) (w_handlers w)"
    using assms(1) by (auto simp: NewDkgService_def SetStreamHandler_def Let_def split: sum.splits if_splits)
  have "w_handlers w2 = w_handlers w1"
    using assms(2) by (auto simp: Dkg_OnStateChanged_def Dkg_close_def Dkg_save_def Let_def
        split: if_splits sum.splits prod.splits)
  with w1 show ?thesis by simp
qed

end
