(* ===== verification/Tss.thy ===== *)
theory Tss
  imports Service_Run
begin

text \<open>
  \<^verbatim>\<open>server/tss.go\<close>, \<^verbatim>\<open>server/utils.go\<close> and \<^verbatim>\<open>server/rpc_peer.go\<close>: starting a protocol on this
  node and, through RPC, on its peers.  What the network answers is an argument; a call that
  does not return is \<open>None\<close> or \<open>Blocked\<close>.
\<close>

section \<open>server/utils.go: requests\<close>

text \<open>A request is JSON or, failing that, protobuf; \<open>decode\<close> fills the request struct from JSON,
  \<open>proto_Unmarshal\<close> is that of the protobuf package, which resets the struct first.\<close>

definition UnmarshalRequest :: "(json \<Rightarrow> 'a res) \<Rightarrow> (byte list \<Rightarrow> 'a res) \<Rightarrow> byte list \<Rightarrow> 'a res" where
  "UnmarshalRequest decode proto_Unmarshal data =
     (case (case json_parse (string_of data) of Inl err \<Rightarrow> Inl err | Inr j \<Rightarrow> decode j) of
        Inr request \<Rightarrow> Inr request
      | Inl err \<Rightarrow>
          (case proto_Unmarshal data of
             Inl errProto \<Rightarrow> Inl (ErrorString ''invalid message, cannot unmarshal'')
           | Inr request \<Rightarrow> Inr request))"

section \<open>server/rpc_peer.go: calling a peer\<close>

record PeerArgs =
  PeerAddrTarget :: string
  SvcName :: string
  SvcMethod :: string
  args_Data :: "byte list"

text \<open>What the network answers to the \<open>n\<close>-th attempt to connect and to call.\<close>

record network =
  net_Connect :: "nat \<Rightarrow> AddrInfo \<Rightarrow> go_error option"
  net_Call :: "nat \<Rightarrow> string \<Rightarrow> PeerArgs \<Rightarrow> go_error option"

definition MsgToPeer :: "('ma, 'k, 'h) libp2p \<Rightarrow> network \<Rightarrow> PeerArgs \<Rightarrow> nat \<Rightarrow> unit res" where
  "MsgToPeer L net data n =
     (case NewMultiaddr L (PeerAddrTarget data) of
        Inl err \<Rightarrow> Inl err
      | Inr ma \<Rightarrow>
          (case AddrInfoFromP2pAddr L ma of
             Inl err \<Rightarrow> Inl err
           | Inr peerInfo \<Rightarrow>
               (case net_Connect net n peerInfo of
                  Some err \<Rightarrow> Inl err
                | None \<Rightarrow>
                    (case net_Call net n (ai_ID peerInfo) data of
                       Some err \<Rightarrow> Inl err
                     | None \<Rightarrow> Inr ()))))"

definition SendToPeer :: "('ma, 'k, 'h) libp2p \<Rightarrow> network \<Rightarrow> PeerArgs \<Rightarrow> unit res option" where
  "SendToPeer L net data = map_option (\<lambda>(n, reply). Inr reply) (retry (MsgToPeer L net data) 0)"

text \<open>The loop over the peers; the result is what was delivered and the error returned.\<close>

fun rpc_peers ::
  "('ma, 'k, 'h) libp2p \<Rightarrow> network \<Rightarrow> (string, string) fmap \<Rightarrow> string \<Rightarrow> string \<Rightarrow> byte list \<Rightarrow> string list \<Rightarrow>
   (PeerArgs list \<times> go_error option) option"
where
  "rpc_peers L net peers svcName svcMethod data [] = Some ([], None)"
| "rpc_peers L net peers svcName svcMethod data (peerId # ids) =
     (let peerAddrTarget = (case fmlookup peers peerId of None \<Rightarrow> '''' | Some a \<Rightarrow> a);
          args = \<lparr>PeerAddrTarget = peerAddrTarget, SvcName = svcName, SvcMethod = svcMethod, args_Data = data\<rparr> in
      case SendToPeer L net args of
        None \<Rightarrow> None
      | Some (Inl err) \<Rightarrow> Some ([], Some err)
      | Some (Inr reply) \<Rightarrow> map_option (apfst (Cons args)) (rpc_peers L net peers svcName svcMethod data ids))"

definition RpcToPeer ::
  "('ma, 'k, 'h) libp2p \<Rightarrow> network \<Rightarrow> peer_heap \<Rightarrow> P2PManager \<Rightarrow> string \<Rightarrow> string \<Rightarrow> byte list \<Rightarrow>
   (PeerArgs list \<times> go_error option) option"
where
  "RpcToPeer L net hp pm svcName svcMethod data =
     rpc_peers L net (Peers hp pm) svcName svcMethod data (PeerIDs hp pm)"

section \<open>server/tss.go\<close>

text \<open>What a call gives its caller.\<close>

datatype 'a outcome = Blocked | Gives "'a res"

text \<open>
  \<open>call2peer\<close> is nil or a function; of the function only what calling it gives matters: it
  does not return (\<open>None\<close>) or returns an error or nil.  \<open>proc\<close> is what \<^verbatim>\<open>GetResult\<close> gives once
  \<^verbatim>\<open>Process\<close> is back, \<open>None\<close> if it never is.  The list in the result holds the services whose
  \<^verbatim>\<open>Process\<close> was entered, in this goroutine or a new one; from there \<open>Service_Run\<close> takes
  over, and the node returned is the one at that moment.
\<close>

type_synonym call2peer = "go_error option option option"

definition TssCaller_SignMessage ::
  "eth \<Rightarrow> ('pt, 'bk) alice \<Rightarrow> ('pt, 'bk, 'dkg, 'pai, 'signer, 'reshare) protocols \<Rightarrow> ('s, 'pt, 'bk) HandlerData \<Rightarrow>
   P2PManager \<Rightarrow> SignRequest \<Rightarrow> call2peer \<Rightarrow> ('signer Signer \<Rightarrow> signer_Result res option) \<Rightarrow> 's world \<Rightarrow>
   's world \<times> 'signer Signer list \<times> signer_Result option outcome"
where
  "TssCaller_SignMessage e A P H pm signRequest call2peer proc w =
     (case GetSignerConfig H (sreq_Hash signRequest) (sreq_Pubkey signRequest) (w_store w) of
        Inl err \<Rightarrow> (w, [], Gives (Inl err))
      | Inr signerCfg \<Rightarrow>
          (case NewSignerService e A P signerCfg pm (sreq_Message signRequest) w of
             (w', Inl err) \<Rightarrow> (w', [], Gives (Inl err))
           | (w', Inr service) \<Rightarrow>
               (case call2peer of
                  Some call \<Rightarrow>
                    (case call of
                       None \<Rightarrow> (w', [], Blocked)
                     | Some (Some err) \<Rightarrow> (w', [], Gives (Inl err))
                     | Some None \<Rightarrow>
                         (w', [service],
                          case proc service of
                            None \<Rightarrow> Blocked
                          | Some (Inl err) \<Rightarrow> Gives (Inl err)
                          | Some (Inr result) \<Rightarrow> Gives (Inr (Some result))))
                | None \<Rightarrow> (w', [service], Gives (Inr None)))))"

definition TssCaller_GetSignerConfig ::
  "('s, 'pt, 'bk) HandlerData \<Rightarrow> SignRequest \<Rightarrow> 's world \<Rightarrow> SignerConfig res"
where
  "TssCaller_GetSignerConfig H signRequest w =
     (case GetSignerConfig H (sreq_Hash signRequest) (sreq_Pubkey signRequest) (w_store w) of
        Inl err \<Rightarrow> Inl err
      | Inr signerCfg \<Rightarrow> Inr signerCfg)"

definition reshare_config :: "SignerConfig \<Rightarrow> ReshareConfig" where
  "reshare_config signerCfg =
     \<lparr>rc_Threshold = 2, rc_Share = sc_Share signerCfg, rc_Pubkey = sc_Pubkey signerCfg, rc_BKs = sc_BKs signerCfg\<rparr>"

definition TssCaller_Reshare ::
  "('pt, 'bk) alice \<Rightarrow> ('pt, 'bk, 'dkg, 'pai, 'signer, 'reshare) protocols \<Rightarrow> ('s, 'pt, 'bk) HandlerData \<Rightarrow>
   P2PManager \<Rightarrow> ReshareRequest \<Rightarrow> call2peer \<Rightarrow> 's world \<Rightarrow>
   's world \<times> 'reshare Reshare list \<times> unit outcome"
where
  "TssCaller_Reshare A P H pm reshareRequest call2peer w =
     (case GetSignerConfig H (rreq_Hash reshareRequest) (rreq_Pubkey reshareRequest) (w_store w) of
        Inl err \<Rightarrow> (w, [], Gives (Inl err))
      | Inr signerCfg \<Rightarrow>
          (case NewReshareService A P (reshare_config signerCfg) pm (rreq_Hash reshareRequest) w of
             (w', Inl err) \<Rightarrow> (w', [], Gives (Inl err))
           | (w', Inr service) \<Rightarrow>
               (case call2peer of
                  Some None \<Rightarrow> (w', [], Blocked)
                | Some (Some (Some err)) \<Rightarrow> (w', [], Gives (Inl err))
                | _ \<Rightarrow> (w', [service], Gives (Inr ())))))"

definition TssCaller_RegisterDKG ::
  "('pt, 'bk, 'dkg, 'pai, 'signer, 'reshare) protocols \<Rightarrow> P2PManager \<Rightarrow> string list \<Rightarrow> string \<Rightarrow> call2peer \<Rightarrow>
   ('dkg Dkg \<Rightarrow> ('pt, 'bk) dkg_Result res option) \<Rightarrow> 's world \<Rightarrow>
   's world \<times> 'dkg Dkg list \<times> ('pt, 'bk) dkg_Result option outcome"
where
  "TssCaller_RegisterDKG P pm addrs hash call2peer proc w =
     (let cfg = \<lparr>dc_Rank = 0, dc_Threshold = NumPeers (w_peers w) pm\<rparr> in
      case NewDkgService P cfg pm addrs hash w of
        (w', Inl err) \<Rightarrow> (w', [], Gives (Inl err))
      | (w', Inr service) \<Rightarrow>
          (case call2peer of
             Some call \<Rightarrow>
               (case call of
                  None \<Rightarrow> (w', [], Blocked)
                | Some (Some err) \<Rightarrow> (w', [], Gives (Inl err))
                | Some None \<Rightarrow>
                    (w', [service],
                     case proc service of
                       None \<Rightarrow> Blocked
                     | Some (Inl err) \<Rightarrow> Gives (Inl err)
                     | Some (Inr result) \<Rightarrow> Gives (Inr (Some result))))
           | None \<Rightarrow> (w', [service], Gives (Inr None))))"

section \<open>server/rpc_peer.go: being called\<close>

text \<open>A call without \<open>call2peer\<close> returns at once, so its process argument does not matter.\<close>

definition TssPeerService_SignMessage ::
  "eth \<Rightarrow> ('pt, 'bk) alice \<Rightarrow> ('pt, 'bk, 'dkg, 'pai, 'signer, 'reshare) protocols \<Rightarrow> ('s, 'pt, 'bk) HandlerData \<Rightarrow>
   (byte list \<Rightarrow> SignRequest res) \<Rightarrow> P2PManager \<Rightarrow> byte list \<Rightarrow> 's world \<Rightarrow>
   's world \<times> 'signer Signer list \<times> unit outcome"
where
  "TssPeerService_SignMessage e A P H proto_Unmarshal tPm data w =
     (case UnmarshalRequest decode_SignRequest proto_Unmarshal data of
        Inl err \<Rightarrow> (w, [], Gives (Inl (ErrorString ''invalid message, cannot unmarshal'')))
      | Inr signRequest \<Rightarrow>
          (let hash = ToHexHash e (bytes_of (sreq_Message signRequest));
               pm = ClonePeerManager tPm (GetProtocol hash);
               (w', started, r) = TssCaller_SignMessage e A P H pm signRequest None (\<lambda>_. None) w
           in (w', started, case r of Blocked \<Rightarrow> Blocked | Gives (Inl err) \<Rightarrow> Gives (Inl err) | Gives (Inr _) \<Rightarrow> Gives (Inr ()))))"

definition TssPeerService_Reshare ::
  "('pt, 'bk) alice \<Rightarrow> ('pt, 'bk, 'dkg, 'pai, 'signer, 'reshare) protocols \<Rightarrow> ('s, 'pt, 'bk) HandlerData \<Rightarrow>
   (byte list \<Rightarrow> ReshareRequest res) \<Rightarrow> P2PManager \<Rightarrow> byte list \<Rightarrow> 's world \<Rightarrow>
   's world \<times> 'reshare Reshare list \<times> unit outcome"
where
  "TssPeerService_Reshare A P H proto_Unmarshal tPm data w =
     (case UnmarshalRequest decode_ReshareRequest proto_Unmarshal data of
        Inl err \<Rightarrow> (w, [], Gives (Inl (ErrorString ''invalid message, cannot unmarshal'')))
      | Inr reshareRequest \<Rightarrow>
          (case GetSignerConfig H (rreq_Hash reshareRequest) (rreq_Pubkey reshareRequest) (w_store w) of
             Inl err \<Rightarrow> (w, [], Gives (Inl err))
           | Inr signerCfg \<Rightarrow>
               (let pm = ClonePeerManager tPm (GetProtocol (rreq_Hash reshareRequest)) in
                case NewReshareService A P (reshare_config signerCfg) pm (rreq_Hash reshareRequest) w of
                  (w', Inl err) \<Rightarrow> (w', [], Gives (Inl err))
                | (w', Inr reshare) \<Rightarrow> (w', [reshare], Gives (Inr ())))))"

definition TssPeerService_RegisterDKG ::
  "('pt, 'bk, 'dkg, 'pai, 'signer, 'reshare) protocols \<Rightarrow> P2PManager \<Rightarrow> string list \<Rightarrow> byte list \<Rightarrow> 's world \<Rightarrow>
   's world \<times> 'dkg Dkg list \<times> unit outcome"
where
  "TssPeerService_RegisterDKG P tPm addrs data w =
     (let pm = ClonePeerManager tPm (GetProtocol (string_of data));
          (w', started, r) = TssCaller_RegisterDKG P pm addrs (string_of data) None (\<lambda>_. None) w
      in (w', started, case r of Blocked \<Rightarrow> Blocked | Gives (Inl err) \<Rightarrow> Gives (Inl err) | Gives (Inr _) \<Rightarrow> Gives (Inr ())))"

section \<open>Calling every peer\<close>

definition peer_args :: "string \<Rightarrow> string \<Rightarrow> byte list \<Rightarrow> string \<Rightarrow> PeerArgs" where
  "peer_args svcName svcMethod data a =
     \<lparr>PeerAddrTarget = a, SvcName = svcName, SvcMethod = svcMethod, args_Data = data\<rparr>"

lemma SendToPeer_cases:
  "SendToPeer L net m = (if \<exists>n. \<not> isl (MsgToPeer L net m n) then Some (Inr ()) else None)"
proof (cases "\<exists>n. \<not> isl (MsgToPeer L net m n)")
  case True
  then obtain r where "retry (MsgToPeer L net m) 0 = Some r"
    using retry_returns_iff [of "MsgToPeer L net m" 0] by blast
  then show ?thesis using True by (simp add: SendToPeer_def split: prod.splits)
next
  case False
  then show ?thesis using retry_never [of 0 "MsgToPeer L net m"] by (simp add: SendToPeer_def)
qed

lemma rpc_peers_all:
  assumes "\<forall>(k, a) \<in> set es. fmlookup peers k = Some a"
  shows "rpc_peers L net peers svc meth data (map fst es) =
    (if \<forall>(k, a) \<in> set es. \<exists>n. \<not> isl (MsgToPeer L net (peer_args svc meth data a) n)
     then Some (map (\<lambda>(k, a). peer_args svc meth data a) es, None) else None)"
  using assms
proof (induction es)
  case (Cons e es)
  obtain k a where e: "e = (k, a)" by (cases e)
  with Cons show ?case
    by (simp add: SendToPeer_cases peer_args_def [symmetric] Let_def)
qed simp

lemma RpcToPeer_eq:
  "RpcToPeer L net hp pm svc meth data =
    (if \<forall>(k, a) \<in> set (sorted_list_of_fmap (Peers hp pm)). \<exists>n. \<not> isl (MsgToPeer L net (peer_args svc meth data a) n)
     then Some (map (\<lambda>(k, a). peer_args svc meth data a) (sorted_list_of_fmap (Peers hp pm)), None) else None)"
  unfolding RpcToPeer_def PeerIDs_def by (rule rpc_peers_all) auto

section \<open>Properties\<close>


text \<open>A key generation is started with the number of peers as threshold and rank 0, a resharing
  always with threshold 2, whatever the threshold of the key.\<close>

lemma started_thresholds:
  assumes "TssCaller_RegisterDKG P pm addrs h call proc w = (w1, [d], o1)"
    and "TssCaller_Reshare A P H pm req call' w' = (w2, [r], o2)"
  shows "dkg_config d = \<lparr>dc_Rank = 0, dc_Threshold = NumPeers (w_peers w) pm\<rparr> \<and> dkg_hash d = h \<and>
    rc_Threshold (rs_config r) = 2 \<and> rs_hash r = rreq_Hash req"
proof -
  have "dkg_config d = \<lparr>dc_Rank = 0, dc_Threshold = NumPeers (w_peers w) pm\<rparr> \<and> dkg_hash d = h"
    using assms(1) by (auto simp: TssCaller_RegisterDKG_def NewDkgService_def Let_def
        split: sum.splits option.splits)
  moreover have "rc_Threshold (rs_config r) = 2 \<and> rs_hash r = rreq_Hash req"
    using assms(2) by (auto simp: TssCaller_Reshare_def NewReshareService_def reshare_config_def Let_def
        split: sum.splits option.splits)
  ultimately show ?thesis by simp
qed

lemma Convert_result0: "ConvertDKGResult alice0 (sc_Pubkey (config_of alice0 result0)) (sc_Share (config_of alice0 result0))
    (sc_BKs (config_of alice0 result0)) = Inr result0"
  by (rule Convert_config) (simp_all add: result0_def alice0_def alice0_laws [unfolded alice0_def])

text \<open>A node whose in-memory store holds the example result.\<close>

definition world1 :: "mock world" where
  "world1 = world0\<lparr>w_store := fst (mock_SaveDKGResultData eth0 alice0 ''0xaa'' result0 NewMockDB)\<rparr>"

lemma world1_config: "GetSignerConfig (mock_handler eth0 alice0) ''0xaa'' p (w_store world1) = Inr (config_of alice0 result0)"
proof -
  have "mock_SaveDKGResultData eth0 alice0 ''0xaa'' result0 NewMockDB =
      (fst (mock_SaveDKGResultData eth0 alice0 ''0xaa'' result0 NewMockDB), None)"
    by (simp add: mock_SaveDKGResultData_def Let_def NewMockDB_def)
  from mock_save_configs(1) [OF this, of "''0xaa''"] show ?thesis
    by (simp add: mock_handler_def mock_GetSignerConfig_def world1_def)
qed

lemmas started0_defs = TssCaller_RegisterDKG_def NewDkgService_def getPort_def protocols0_def
  TssCaller_Reshare_def NewReshareService_def reshare_config_def Let_def

text \<open>When telling the peers fails, the signing service has been created but is abandoned: the
  call returns the error, no \<^verbatim>\<open>Process\<close> is entered, and the stream handler stays registered.\<close>

lemma failed_call2peer_leaves_handler:
  assumes "GetSignerConfig H (sreq_Hash req) (sreq_Pubkey req) (w_store w) = Inr cfg"
    and "NewSignerService e A P cfg pm (sreq_Message req) w = (w', Inr service)"
  shows "TssCaller_SignMessage e A P H pm req (Some (Some (Some err))) proc w = (w', [], Gives (Inl err)) \<and>
    fmlookup (w_handlers w') (GetProtocol (ToHexHash e (bytes_of (sreq_Message req)))) =
      Some (SignerHandle (ToHexHash e (bytes_of (sreq_Message req))))"
  using assms by (auto simp: TssCaller_SignMessage_def NewSignerService_def SetStreamHandler_def Let_def split: sum.splits)

text \<open>A peer that asks for a key generation chooses its name, and the name \<open>p2p\<close> is that of the
  RPC protocol: the node then answers RPC streams with the DKG handler.\<close>

lemma peer_can_replace_rpc_handler:
  assumes "addrs = a # as" and "5 \<le> length a"
    and "NewDKG P S256 (w_peers w, ClonePeerManager pm ProtocolId) (NumPeers (w_peers w) pm) 0 = Inr dkg"
  shows "fmlookup (w_handlers (fst (TssPeerService_RegisterDKG P pm addrs (bytes_of ''p2p'') w))) ProtocolId =
    Some (DkgHandle ''p2p'')"
proof -
  have rpc: "GetProtocol ''p2p'' = ProtocolId" by (simp add: GetProtocol_def ProtocolId_def)
  have "NumPeers (w_peers w) (ClonePeerManager pm ProtocolId) = NumPeers (w_peers w) pm"
    by (simp add: NumPeers_def)
  then show ?thesis
    using assms rpc by (simp add: TssPeerService_RegisterDKG_def TssCaller_RegisterDKG_def NewDkgService_def
        getPort_def GetCurve_def SetStreamHandler_def Let_def)
qed

end
