(* ===== verification/Self_Service.thy ===== *)
theory Self_Service
  imports Tss
begin

text \<open>
  \<^verbatim>\<open>server/self_service.go\<close>: three nodes in one process, each with its own host, all with the
  store of the process.
\<close>

section \<open>Hosts\<close>

record 'h SelfService =
  ss_hosts :: "'h option list"
  ss_peerIDs :: "string list"

definition numNodes :: nat where
  "numNodes = 3"

definition self_ports :: "int list" where
  "self_ports = [11111, 11112, 11113]"

text \<open>The loop over the ports.  The first component is the list of the hosts that were closed
  again; a panic closes none.\<close>

fun make_hosts ::
  "('ma, 'k, 'h) libp2p \<Rightarrow> nat \<Rightarrow> int list \<Rightarrow> 'h list \<Rightarrow> string list \<Rightarrow> 'h list \<times> ('h list \<times> string list) res"
where
  "make_hosts L i [] hosts ids = ([], Inr (hosts, ids))"
| "make_hosts L i (port # ports) hosts ids =
     (case MakeBasicHostByID L port of
        Inl err \<Rightarrow>
          if is_panic err then ([], Inl err)
          else (hosts, Inl (Wrap (''failed to create host '' @ nat_text i @ '' on port '' @ big_String port) [err]))
      | Inr (host, peerID) \<Rightarrow> make_hosts L (Suc i) ports (hosts @ [host]) (ids @ [peerID]))"

definition NewSelfService :: "('ma, 'k, 'h) libp2p \<Rightarrow> 'h list \<times> 'h SelfService res" where
  "NewSelfService L =
     (case make_hosts L 0 self_ports [] [] of
        (closed, Inl err) \<Rightarrow> (closed, Inl err)
      | (closed, Inr (hosts, ids)) \<Rightarrow> (closed, Inr \<lparr>ss_hosts = map Some hosts, ss_peerIDs = ids\<rparr>))"

fun close_hosts :: "('h \<Rightarrow> go_error option) \<Rightarrow> nat \<Rightarrow> 'h option list \<Rightarrow> 'h list \<times> go_error list" where
  "close_hosts close i [] = ([], [])"
| "close_hosts close i (None # hs) = close_hosts close (Suc i) hs"
| "close_hosts close i (Some h # hs) =
     (let (closed, errors) = close_hosts close (Suc i) hs in
      (h # closed,
       (case close h of None \<Rightarrow> [] | Some err \<Rightarrow> [Wrap (''failed to close host '' @ nat_text i) [err]]) @ errors))"

definition SelfService_Close :: "('h \<Rightarrow> go_error option) \<Rightarrow> 'h SelfService \<Rightarrow> 'h list \<times> go_error option" where
  "SelfService_Close close s =
     (let (closed, errors) = close_hosts close 0 (ss_hosts s)
      in (closed, if 0 < length errors then Some (Wrap ''errors during shutdown'' errors) else None))"

section \<open>Peer managers\<close>

text \<open>\<open>discovery i\<close> is the error of starting mDNS for node \<open>i\<close>.\<close>

fun setup_pms ::
  "(nat \<Rightarrow> go_error option) \<Rightarrow> string \<Rightarrow> nat \<Rightarrow> ('h option \<times> string) list \<Rightarrow> peer_heap \<Rightarrow>
   peer_heap \<times> P2PManager option list \<times> go_error list"
where
  "setup_pms discovery protocolID i [] hp = (hp, [], [])"
| "setup_pms discovery protocolID i ((host, peerID) # ns) hp =
     (case host of
        None \<Rightarrow>
          (let (hp', pms, errs) = setup_pms discovery protocolID (Suc i) ns hp
           in (hp', None # pms, ErrorString (''host '' @ nat_text i @ '' is nil'') # errs))
      | Some h \<Rightarrow>
          (let (hp1, pm) = NewPeerManager peerID peerID (GetProtocol protocolID) hp;
               (hp', pms, errs) = setup_pms discovery protocolID (Suc i) ns hp1
           in (hp', Some pm # pms,
               (case discovery i of
                  None \<Rightarrow> []
                | Some err \<Rightarrow> [Wrap (''setup discovery for node '' @ nat_text i) [err]]) @ errs)))"

text \<open>In seconds: how long the loop waits, and how often it looks.\<close>

definition peerWaitTimeout :: nat where
  "peerWaitTimeout = 30"

definition peerCheckInterval :: nat where
  "peerCheckInterval = 1"

text \<open>What the loop sees when it looks: the deadline has passed, or a tick, with the peer tables
  as they are then.\<close>

datatype wait_event = TimedOut go_error | Tick peer_heap

definition all_connected :: "peer_heap \<Rightarrow> P2PManager option list \<Rightarrow> bool" where
  "all_connected hp pms =
     list_all (\<lambda>pm. case pm of None \<Rightarrow> False | Some p \<Rightarrow> \<not> NumPeers hp p < word_of_nat (numNodes - 1)) pms"

definition wait_look :: "P2PManager option list \<Rightarrow> wait_event \<Rightarrow> go_error option res" where
  "wait_look pms ev =
     (case ev of
        TimedOut err \<Rightarrow> Inr (Some (Wrap ''timeout waiting for peers to connect'' [err]))
      | Tick hp \<Rightarrow> if all_connected hp pms then Inr None else Inl (ErrorString ''Waiting for peers''))"

definition waitForPeers :: "(nat \<Rightarrow> wait_event) \<Rightarrow> P2PManager option list \<Rightarrow> (nat \<times> go_error option) option" where
  "waitForPeers events pms = retry (\<lambda>n. wait_look pms (events n)) 0"

definition CreatePm ::
  "(nat \<Rightarrow> go_error option) \<Rightarrow> (nat \<Rightarrow> wait_event) \<Rightarrow> 'h SelfService \<Rightarrow> string \<Rightarrow> peer_heap \<Rightarrow>
   (peer_heap \<times> P2PManager list res) option"
where
  "CreatePm discovery events s protocolID hp =
     (if protocolID = '''' then Some (hp, Inl (ErrorString ''protocolID cannot be empty''))
      else
        (let (hp1, pms, setupErrors) = setup_pms discovery protocolID 0 (zip (ss_hosts s) (ss_peerIDs s)) hp in
         if 0 < length setupErrors then Some (hp1, Inl (Wrap ''failed to setup peer managers'' setupErrors))
         else
           (case waitForPeers events pms of
              None \<Rightarrow> None
            | Some (n, err) \<Rightarrow>
                (let hp' = (case events n of Tick h \<Rightarrow> h | TimedOut _ \<Rightarrow> hp1) in
                 case err of
                   Some x \<Rightarrow> Some (hp', Inl (Wrap ''failed to wait for peers'' [x]))
                 | None \<Rightarrow> Some (hp', Inr (map the pms))))))"

section \<open>The cluster\<close>

record 's cluster =
  cl_peers :: peer_heap
  cl_handlers :: "(string, svc_ref) fmap list"
  cl_store :: 's

definition node_world :: "'s cluster \<Rightarrow> nat \<Rightarrow> 's world" where
  "node_world cl i = \<lparr>w_peers = cl_peers cl, w_handlers = cl_handlers cl ! i, w_store = cl_store cl\<rparr>"

definition put_node :: "nat \<Rightarrow> 's world \<Rightarrow> 's cluster \<Rightarrow> 's cluster" where
  "put_node i w cl =
     cl\<lparr>cl_peers := w_peers w, cl_handlers := (cl_handlers cl)[i := w_handlers w], cl_store := w_store w\<rparr>"

definition node_key :: "string \<Rightarrow> nat \<Rightarrow> string" where
  "node_key hash i = hash @ ''-'' @ nat_text i"

text \<open>What the goroutine of node \<open>i\<close> sends to the error channel.\<close>

definition node_error :: "string \<Rightarrow> nat \<Rightarrow> 'a outcome \<Rightarrow> go_error list" where
  "node_error what i r =
     (case r of Gives (Inl err) \<Rightarrow> [Wrap (''node '' @ nat_text i @ what) [err]] | _ \<Rightarrow> [])"

text \<open>A goroutine that panics takes the process with it.\<close>

definition with_crash :: "'a outcome list \<Rightarrow> 'a outcome \<Rightarrow> 'a outcome" where
  "with_crash rs r =
     (case find (\<lambda>x. case x of Gives (Inl err) \<Rightarrow> is_panic err | _ \<Rightarrow> False) rs of
        None \<Rightarrow> r
      | Some x \<Rightarrow> x)"

text \<open>
  The \<^verbatim>\<open>select\<close> of the primary node: the other nodes are done (they always are, their calls
  do not block), the context is cancelled, or an error is in the channel.  Of several ready
  cases Go takes any; \<open>pick\<close> is the one it takes.
\<close>

definition select_ready :: "go_error option \<Rightarrow> go_error list \<Rightarrow> go_error option list" where
  "select_ready ctx errs = None # (case ctx of None \<Rightarrow> [] | Some x \<Rightarrow> [Some x]) @ map Some errs"

definition select_case :: "nat \<Rightarrow> go_error option \<Rightarrow> go_error list \<Rightarrow> go_error option" where
  "select_case pick ctx errs = select_ready ctx errs ! (pick mod length (select_ready ctx errs))"

text \<open>The calls of the other nodes are independent of each other; the model makes them in order,
  and before the primary node's.\<close>

definition SelfService_RegisterDKG ::
  "('pt, 'bk, 'dkg, 'pai, 'signer, 'reshare) protocols \<Rightarrow> (nat \<Rightarrow> go_error option) \<Rightarrow> (nat \<Rightarrow> wait_event) \<Rightarrow>
   (nat \<Rightarrow> string list) \<Rightarrow> ('dkg Dkg \<Rightarrow> ('pt, 'bk) dkg_Result res option) \<Rightarrow> go_error option \<Rightarrow> nat \<Rightarrow>
   'h SelfService \<Rightarrow> ('s, 'pt, 'bk) HandlerData option \<Rightarrow> string \<Rightarrow> 's cluster \<Rightarrow>
   's cluster \<times> 'dkg Dkg list \<times> ('pt, 'bk) dkg_Result option outcome"
where
  "SelfService_RegisterDKG P discovery events addrs proc ctx pick s tssCaller hash cl =
     (if Option.is_none tssCaller then (cl, [], Gives (Inl (ErrorString ''tssCaller cannot be nil'')))
      else if hash = '''' then (cl, [], Gives (Inl (ErrorString ''hash cannot be empty'')))
      else
        (case CreatePm discovery events s hash (cl_peers cl) of
           None \<Rightarrow> (cl, [], Blocked)
         | Some (hp, Inl err) \<Rightarrow>
             (cl\<lparr>cl_peers := hp\<rparr>, [], Gives (Inl (Wrap ''failed to create peer managers'' [err])))
         | Some (hp, Inr pms) \<Rightarrow>
             (let cl0 = cl\<lparr>cl_peers := hp\<rparr>;
                  (w1, d1, r1) = TssCaller_RegisterDKG P (pms ! 1) (addrs 1) (node_key hash 1) None proc (node_world cl0 1);
                  cl1 = put_node 1 w1 cl0;
                  (w2, d2, r2) = TssCaller_RegisterDKG P (pms ! 2) (addrs 2) (node_key hash 2) None proc (node_world cl1 2);
                  cl2 = put_node 2 w2 cl1;
                  errs = node_error '' DKG failed'' 1 r1 @ node_error '' DKG failed'' 2 r2;
                  (w0, d0, result) = TssCaller_RegisterDKG P (pms ! 0) (addrs 0) (node_key hash 0)
                    (Some (Some (select_case pick ctx errs))) proc (node_world cl2 0)
              in (put_node 0 w0 cl2, d1 @ d2 @ d0, with_crash [r1, r2] result))))"

definition self_request :: "SignRequest \<Rightarrow> nat \<Rightarrow> SignRequest" where
  "self_request req i =
     \<lparr>sreq_Hash = node_key (sreq_Hash req) i, sreq_Pubkey = sreq_Pubkey req, sreq_Message = sreq_Message req\<rparr>"

definition SelfService_SignMessage ::
  "eth \<Rightarrow> ('pt, 'bk) alice \<Rightarrow> ('pt, 'bk, 'dkg, 'pai, 'signer, 'reshare) protocols \<Rightarrow> (nat \<Rightarrow> go_error option) \<Rightarrow>
   (nat \<Rightarrow> wait_event) \<Rightarrow> ('signer Signer \<Rightarrow> signer_Result res option) \<Rightarrow> go_error option \<Rightarrow> nat \<Rightarrow>
   'h SelfService \<Rightarrow> ('s, 'pt, 'bk) HandlerData option \<Rightarrow> SignRequest option \<Rightarrow> 's cluster \<Rightarrow>
   's cluster \<times> 'signer Signer list \<times> signer_Result option outcome"
where
  "SelfService_SignMessage e A P discovery events proc ctx pick s tssCaller dataRequestSign cl =
     (case tssCaller of
        None \<Rightarrow> (cl, [], Gives (Inl (ErrorString ''tssCaller cannot be nil'')))
      | Some H \<Rightarrow>
          (case dataRequestSign of
             None \<Rightarrow> (cl, [], Gives (Inl (ErrorString ''dataRequestSign cannot be nil'')))
           | Some req \<Rightarrow>
               if sreq_Message req = '''' then (cl, [], Gives (Inl (ErrorString ''message cannot be empty'')))
               else
                 (let hash = ToHexHash e (bytes_of (sreq_Message req)) in
                  case CreatePm discovery events s hash (cl_peers cl) of
                    None \<Rightarrow> (cl, [], Blocked)
                  | Some (hp, Inl err) \<Rightarrow>
                      (cl\<lparr>cl_peers := hp\<rparr>, [], Gives (Inl (Wrap ''failed to create peer managers'' [err])))
                  | Some (hp, Inr pms) \<Rightarrow>
                      (let cl0 = cl\<lparr>cl_peers := hp\<rparr>;
                           (w1, s1, r1) = TssCaller_SignMessage e A P H (pms ! 1) (self_request req 1) None proc (node_world cl0 1);
                           cl1 = put_node 1 w1 cl0;
                           (w2, s2, r2) = TssCaller_SignMessage e A P H (pms ! 2) (self_request req 2) None proc (node_world cl1 2);
                           cl2 = put_node 2 w2 cl1;
                           errs = node_error '' signing failed'' 1 r1 @ node_error '' signing failed'' 2 r2;
                           (w0, s0, result) = TssCaller_SignMessage e A P H (pms ! 0) (self_request req 0)
                             (Some (Some (select_case pick ctx errs))) proc (node_world cl2 0)
                       in (put_node 0 w0 cl2, s1 @ s2 @ s0, with_crash [r1, r2] result)))))"

section \<open>Keys and protocols of the nodes\<close>

lemma before_dash_node_key: "CHR ''-'' \<notin> set hash \<Longrightarrow> before_dash (node_key hash i) = hash"
  unfolding before_dash_def node_key_def by (subst takeWhile_append2) auto

lemma node_key_inject:
  assumes "CHR ''-'' \<notin> set h" and "CHR ''-'' \<notin> set h'"
  shows "node_key h i = node_key h' j \<longleftrightarrow> h = h' \<and> i = j"
proof
  assume eq: "node_key h i = node_key h' j"
  then have "h = h'" using before_dash_node_key assms by metis
  then show "h = h' \<and> i = j" using eq by (simp add: node_key_def)
qed simp

lemma RegisterDKG_started:
  assumes "TssCaller_RegisterDKG P pm addrs h call proc w = (w', ds, r)"
  shows "ds = [] \<or> (\<exists>d. ds = [d] \<and> dkg_hash d = h \<and> w' = SetStreamHandler (GetProtocol (before_dash h)) (DkgHandle h) w)"
proof -
  have "before_dash h = h" if "CHR ''-'' \<notin> set h"
    using that by (simp add: before_dash_def takeWhile_eq_all_conv) metis
  then show ?thesis
    using assms by (auto simp: TssCaller_RegisterDKG_def NewDkgService_def Let_def
        split: sum.splits option.splits if_splits)
qed

lemma three_singletons:
  assumes "xs @ ys @ zs = [a, b, c]" and "length xs \<le> 1" and "length ys \<le> 1" and "length zs \<le> 1"
  shows "xs = [a] \<and> ys = [b] \<and> zs = [c]"
  using assms by (cases xs; cases ys; cases zs) auto

lemma self_dkg_run:
  assumes "SelfService_RegisterDKG P discovery events addrs proc ctx pick s H hash cl = (cl', [d1, d2, d0], r)"
  obtains hp pms c w1 w2 w0 r1 r2 r0 where "CreatePm discovery events s hash (cl_peers cl) = Some (hp, Inr pms)"
    and "TssCaller_RegisterDKG P (pms ! 1) (addrs 1) (node_key hash 1) None proc (node_world (cl\<lparr>cl_peers := hp\<rparr>) 1) = (w1, [d1], r1)"
    and "TssCaller_RegisterDKG P (pms ! 2) (addrs 2) (node_key hash 2) None proc (node_world (put_node 1 w1 (cl\<lparr>cl_peers := hp\<rparr>)) 2) = (w2, [d2], r2)"
    and "TssCaller_RegisterDKG P (pms ! 0) (addrs 0) (node_key hash 0) (Some (Some c)) proc
      (node_world (put_node 2 w2 (put_node 1 w1 (cl\<lparr>cl_peers := hp\<rparr>))) 0) = (w0, [d0], r0)"
    and "cl' = put_node 0 w0 (put_node 2 w2 (put_node 1 w1 (cl\<lparr>cl_peers := hp\<rparr>)))"
proof -
  from assms obtain hp pms where pms: "CreatePm discovery events s hash (cl_peers cl) = Some (hp, Inr pms)"
    by (auto simp: SelfService_RegisterDKG_def split: if_splits option.splits sum.splits)
  define cl0 where "cl0 = cl\<lparr>cl_peers := hp\<rparr>"
  obtain w1 e1 r1 where n1: "TssCaller_RegisterDKG P (pms ! 1) (addrs 1) (node_key hash 1) None proc (node_world cl0 1) = (w1, e1, r1)"
    by (metis surj_pair)
  obtain w2 e2 r2 where n2: "TssCaller_RegisterDKG P (pms ! 2) (addrs 2) (node_key hash 2) None proc (node_world (put_node 1 w1 cl0) 2) = (w2, e2, r2)"
    by (metis surj_pair)
  define c where "c = select_case pick ctx (node_error '' DKG failed'' 1 r1 @ node_error '' DKG failed'' 2 r2)"
  obtain w0 e0 r0 where n0: "TssCaller_RegisterDKG P (pms ! 0) (addrs 0) (node_key hash 0) (Some (Some c)) proc
      (node_world (put_node 2 w2 (put_node 1 w1 cl0)) 0) = (w0, e0, r0)" by (metis surj_pair)
  have run: "cl' = put_node 0 w0 (put_node 2 w2 (put_node 1 w1 cl0))" "e1 @ e2 @ e0 = [d1, d2, d0]"
    using assms pms n1 n2 n0 by (auto simp: SelfService_RegisterDKG_def cl0_def c_def Let_def split: if_splits)
  have "length e1 \<le> 1" "length e2 \<le> 1" "length e0 \<le> 1"
    using RegisterDKG_started [OF n1] RegisterDKG_started [OF n2] RegisterDKG_started [OF n0] by auto
  from three_singletons [OF run(2) this] have "e1 = [d1]" "e2 = [d2]" "e0 = [d0]" by simp_all
  with that pms n1 n2 n0 run(1) show ?thesis unfolding cl0_def by blast
qed

section \<open>Properties\<close>

text \<open>When the three nodes have started a key generation, they store its result under three
  different keys, each is the request's hash with the number of the node, and all three hosts
  listen on the one protocol named by the hash.\<close>

lemma self_dkg_keys_and_protocol:
  assumes "CHR ''-'' \<notin> set hash" and "length (cl_handlers cl) = 3"
    and "SelfService_RegisterDKG P discovery events addrs proc ctx pick s H hash cl = (cl', [d1, d2, d0], r)"
  shows "map dkg_hash [d0, d1, d2] = map (node_key hash) [0, 1, 2] \<and> distinct (map dkg_hash [d0, d1, d2]) \<and>
    map (\<lambda>h. fmlookup h (GetProtocol hash)) (cl_handlers cl') =
      map (\<lambda>i. Some (DkgHandle (node_key hash i))) [0, 1, 2]"
proof -
  from self_dkg_run [OF assms(3)] obtain hp pms c w1 w2 w0 r1 r2 r0 where
    n: "TssCaller_RegisterDKG P (pms ! 1) (addrs 1) (node_key hash 1) None proc (node_world (cl\<lparr>cl_peers := hp\<rparr>) 1) = (w1, [d1], r1)"
      "TssCaller_RegisterDKG P (pms ! 2) (addrs 2) (node_key hash 2) None proc (node_world (put_node 1 w1 (cl\<lparr>cl_peers := hp\<rparr>)) 2) = (w2, [d2], r2)"
      "TssCaller_RegisterDKG P (pms ! 0) (addrs 0) (node_key hash 0) (Some (Some c)) proc
        (node_world (put_node 2 w2 (put_node 1 w1 (cl\<lparr>cl_peers := hp\<rparr>))) 0) = (w0, [d0], r0)"
    and cl': "cl' = put_node 0 w0 (put_node 2 w2 (put_node 1 w1 (cl\<lparr>cl_peers := hp\<rparr>)))" .
  note started = n [THEN RegisterDKG_started]
  have hashes: "dkg_hash d1 = node_key hash 1" "dkg_hash d2 = node_key hash 2" "dkg_hash d0 = node_key hash 0"
    using started by simp_all
  let ?p = "GetProtocol hash"
  have w: "fmlookup (w_handlers w1) ?p = Some (DkgHandle (node_key hash 1))"
    "fmlookup (w_handlers w2) ?p = Some (DkgHandle (node_key hash 2))"
    "fmlookup (w_handlers w0) ?p = Some (DkgHandle (node_key hash 0))"
    using started by (simp_all add: before_dash_node_key [OF assms(1)] SetStreamHandler_def)
  have "cl_handlers cl' = [w_handlers w0, w_handlers w1, w_handlers w2]"
    using assms(2) unfolding cl' put_node_def
    by (cases "cl_handlers cl" rule: list.exhaust) (auto simp: length_Suc_conv numeral_3_eq_3 numeral_2_eq_2)
  then show ?thesis using hashes w by (simp add: node_key_inject [OF assms(1,1)])
qed

text \<open>Three example nodes that know each other.\<close>

definition self0 :: "string SelfService" where
  "self0 = \<lparr>ss_hosts = [Some ''h0'', Some ''h1'', Some ''h2''], ss_peerIDs = [''p0'', ''p1'', ''p2'']\<rparr>"

definition connected0 :: peer_heap where
  "connected0 = replicate 3 (fmupd ''a'' ''/a'' (fmupd ''b'' ''/b'' fmempty))"

definition cluster0 :: "mock cluster" where
  "cluster0 = \<lparr>cl_peers = [], cl_handlers = [fmempty, fmempty, fmempty], cl_store = NewMockDB\<rparr>"

definition pms0 :: "string \<Rightarrow> P2PManager list" where
  "pms0 hash = map (\<lambda>(i, p). \<lparr>pm_id = p, pm_Host = p, pm_protocol = GetProtocol hash, pm_peers = i\<rparr>)
     [(0, ''p0''), (1, ''p1''), (2, ''p2'')]"

lemma NumPeers_connected0: "i < 3 \<Longrightarrow> NumPeers connected0 (p\<lparr>pm_peers := i\<rparr>) = 2"
  by (simp add: NumPeers_def Peers_def connected0_def fcard_finsert_if fcard_fempty)

lemma connected0_all: "all_connected connected0 (map Some (pms0 hash))"
  using NumPeers_connected0 [where p = "\<lparr>pm_id = p, pm_Host = p, pm_protocol = GetProtocol hash, pm_peers = 0\<rparr>" for p]
  by (simp add: all_connected_def pms0_def numNodes_def)

lemma CreatePm0:
  assumes "hash \<noteq> ''''"
  shows "CreatePm (\<lambda>_. None) (\<lambda>_. Tick connected0) self0 hash [] = Some (connected0, Inr (pms0 hash))"
proof -
  have n: "NumPeers connected0 \<lparr>pm_id = a, pm_Host = b, pm_protocol = c, pm_peers = i\<rparr> = 2" if "i < 3" for a b c i
    using NumPeers_connected0 [OF that, of "\<lparr>pm_id = a, pm_Host = b, pm_protocol = c, pm_peers = 0\<rparr>"] by simp
  have pms: "setup_pms (\<lambda>_. None) hash 0 (zip (ss_hosts self0) (ss_peerIDs self0)) [] =
      ([fmempty, fmempty, fmempty], map Some (pms0 hash), [])"
    by (simp add: self0_def pms0_def NewPeerManager_def)
  have "waitForPeers (\<lambda>_. Tick connected0) (map Some (pms0 hash)) = Some (0, None)"
    unfolding waitForPeers_def
    by (rule retry_stop) (simp add: wait_look_def all_connected_def pms0_def n numNodes_def)
  then show ?thesis using assms pms by (simp add: CreatePm_def o_def)
qed

text \<open>Waiting for the peers succeeds only at a tick at which each of the three managers exists and
  has at least two peers, fails only with the deadline, and goes on for ever only if no deadline
  ever passes.\<close>

lemma waitForPeers_outcome:
  "case waitForPeers events pms of
     None \<Rightarrow> (\<forall>n. \<exists>hp. events n = Tick hp \<and> \<not> all_connected hp pms)
   | Some (n, None) \<Rightarrow> (\<exists>hp. events n = Tick hp \<and> all_connected hp pms)
   | Some (n, Some err) \<Rightarrow> (\<exists>x. events n = TimedOut x \<and> err = Wrap ''timeout waiting for peers to connect'' [x])"
proof (cases "waitForPeers events pms")
  case None
  then have look: "isl (wait_look pms (events n))" for n
    using retry_returns_iff [of "\<lambda>n. wait_look pms (events n)" 0] by (auto simp: waitForPeers_def)
  have "\<exists>hp. events n = Tick hp \<and> \<not> all_connected hp pms" for n
    using look [of n] by (cases "events n") (auto simp: wait_look_def split: if_splits)
  with None show ?thesis by simp
next
  case (Some r)
  obtain n err where r: "r = (n, err)" by (cases r)
  have "retry (\<lambda>n. wait_look pms (events n)) 0 = Some (n, err)"
    using Some r by (simp add: waitForPeers_def)
  from retry_Some [OF this] have "wait_look pms (events n) = Inr err" by simp
  then show ?thesis
    using Some r by (cases "events n") (auto simp: wait_look_def split: if_splits)
qed

text \<open>The clock: the \<open>n\<close>-th look is at the end of the \<open>n\<close>-th interval, and after the timeout every look
  finds that the deadline has passed.  (It may have passed before, when the caller's context ended;
  at the deadline itself Go takes either case.)\<close>

definition wait_clock :: "(nat \<Rightarrow> wait_event) \<Rightarrow> bool" where
  "wait_clock events \<longleftrightarrow> (\<forall>n. peerWaitTimeout < Suc n * peerCheckInterval \<longrightarrow> (\<exists>err. events n = TimedOut err))"

text \<open>C34: Waiting for the peers takes at most 31 looks, one per second: it then has succeeded, at a tick
  at which each of the three managers exists and has at least two peers, or it has failed with the
  deadline, and no earlier look saw all connected.\<close>

theorem waitForPeers_bounded:
  assumes "wait_clock events"
  shows "\<exists>n err. waitForPeers events pms = Some (n, err) \<and> n \<le> 30 \<and>
    (case err of
       None \<Rightarrow> (\<exists>hp. events n = Tick hp \<and> all_connected hp pms)
     | Some x \<Rightarrow> (\<exists>y. events n = TimedOut y \<and> x = Wrap ''timeout waiting for peers to connect'' [y])) \<and>
    (\<forall>i hp. i < n \<and> events i = Tick hp \<longrightarrow> \<not> all_connected hp pms)"
proof -
  let ?look = "\<lambda>n. wait_look pms (events n)"
  obtain err where "events 30 = TimedOut err"
    using assms by (auto simp: wait_clock_def peerWaitTimeout_def peerCheckInterval_def)
  then have stop: "\<not> isl (?look 30)" by (simp add: wait_look_def)
  then obtain n err where r: "retry ?look 0 = Some (n, err)"
    using retry_returns_iff [of ?look 0] by auto
  note first = retry_Some [OF r]
  have "n \<le> 30" using first stop by (meson le0 not_le)
  moreover have "\<not> all_connected hp pms" if "i < n" "events i = Tick hp" for i hp
    using first that by (auto simp: wait_look_def split: if_splits)
  moreover have "waitForPeers events pms = Some (n, err)" using r by (simp add: waitForPeers_def)
  ultimately show ?thesis
    using waitForPeers_outcome [of events pms] by (intro exI [of _ n] exI [of _ err]) (auto split: option.splits)
qed

theorem waitForPeers_bounded_witness:
  "\<exists>n. waitForPeers (\<lambda>n. if n < 3 then Tick [] else if n < 30 then Tick connected0 else TimedOut (ErrorString ''deadline''))
      (map Some (pms0 ''0xaa'')) = Some (n, None) \<and> n \<le> 30"
proof -
  let ?ev = "\<lambda>n. if n < (3::nat) then Tick [] else if n < 30 then Tick connected0 else TimedOut (ErrorString ''deadline'')"
  have "wait_clock ?ev" by (simp add: wait_clock_def peerWaitTimeout_def peerCheckInterval_def)
  from waitForPeers_bounded [OF this, of "map Some (pms0 ''0xaa'')"] obtain n err where
    n: "waitForPeers ?ev (map Some (pms0 ''0xaa'')) = Some (n, err)" "n \<le> 30"
      "\<And>i hp. i < n \<Longrightarrow> ?ev i = Tick hp \<Longrightarrow> \<not> all_connected hp (map Some (pms0 ''0xaa''))"
      "case err of None \<Rightarrow> \<exists>hp. ?ev n = Tick hp \<and> all_connected hp (map Some (pms0 ''0xaa'')) | Some x \<Rightarrow> \<exists>y. ?ev n = TimedOut y \<and> x = Wrap ''timeout waiting for peers to connect'' [y]"
    by blast
  have "all_connected connected0 (map Some (pms0 ''0xaa''))"
    using connected0_all [of "''0xaa''"] .
  then have "n \<le> 3" using n(3) [of 3 connected0] by (cases "3 < n") auto
  then have "err = None" using n(4) by (cases err) (auto split: if_splits)
  then show ?thesis using n(1,2) by blast
qed

text \<open>Creating the cluster gives three nodes or leaves no host behind: if the host of a port
  cannot be created, exactly the hosts of the ports before it exist, and each has been closed
  (unless the creation panicked).\<close>

lemma NewSelfService_leaves_no_host:
  "case NewSelfService L of
     (closed, Inr s) \<Rightarrow> closed = [] \<and> length (ss_hosts s) = 3 \<and> length (ss_peerIDs s) = 3 \<and> None \<notin> set (ss_hosts s)
   | (closed, Inl err) \<Rightarrow>
       is_panic err \<or>
       (\<exists>i x. i < 3 \<and> MakeBasicHostByID L (self_ports ! i) = Inl x \<and>
         map (\<lambda>port. map_sum id fst (MakeBasicHostByID L port)) (take i self_ports) = map Inr closed)"
proof -
  let ?m = "MakeBasicHostByID L"
  consider (a) x where "?m 11111 = Inl x" | (b) h x where "?m 11111 = Inr h" "?m 11112 = Inl x"
    | (c) h h' x where "?m 11111 = Inr h" "?m 11112 = Inr h'" "?m 11113 = Inl x"
    | (d) h h' h'' where "?m 11111 = Inr h" "?m 11112 = Inr h'" "?m 11113 = Inr h''"
    by (metis sum.exhaust)
  then show ?thesis
  proof cases
    case a
    then show ?thesis by (auto simp: NewSelfService_def self_ports_def intro!: exI [of _ "0::nat"])
  next
    case b
    then show ?thesis by (auto simp: NewSelfService_def self_ports_def intro!: exI [of _ "1::nat"] split: prod.splits)
  next
    case c
    then show ?thesis by (auto simp: NewSelfService_def self_ports_def numeral_2_eq_2 intro!: exI [of _ "Suc (Suc 0)"] split: prod.splits)
  next
    case d
    then show ?thesis by (auto simp: NewSelfService_def self_ports_def split: prod.splits)
  qed
qed

text \<open>A failed node can go unnoticed: when a node has reported an error, all nodes are also done,
  and Go may take either case of the \<^verbatim>\<open>select\<close>, going on with the protocol in the one and reporting
  the error in the other.\<close>

lemma node_failure_may_be_ignored:
  assumes "errs \<noteq> []"
  shows "(\<exists>pick. select_case pick ctx errs = None) \<and> (\<exists>pick. select_case pick ctx errs = Some (hd errs))"
proof -
  have "select_case 0 ctx errs = None" by (simp add: select_case_def select_ready_def)
  moreover obtain i where "i < length (select_ready ctx errs)" "select_ready ctx errs ! i = Some (hd errs)"
    using assms by (metis (no_types, lifting) select_ready_def UnCI hd_in_set image_eqI in_set_conv_nth list.set_intros(2) set_append set_map)
  then have "select_case i ctx errs = Some (hd errs)" by (simp add: select_case_def)
  ultimately show ?thesis by blast
qed

end
