(* ===== verification/Rpc.thy ===== *)
theory Rpc
  imports Self_Service
begin

text \<open>
  \<^verbatim>\<open>server/rpc_server.go\<close> and \<^verbatim>\<open>server/grpc_server.go\<close>: the handlers a client calls.  The data of
  a JSON-RPC request reaches the handler as an \<^verbatim>\<open>interface{}\<close>, a value of type \<open>json\<close>.
\<close>

section \<open>server/rpc_server.go\<close>

definition unmarshalRequestData :: "(json \<Rightarrow> 'a res) \<Rightarrow> json \<Rightarrow> 'a res" where
  "unmarshalRequestData decode data =
     (case json_Marshal data of
        Inl err \<Rightarrow> Inl (Wrap ''failed to marshal request data'' [err])
      | Inr argData \<Rightarrow>
          (case (case json_parse argData of Inl err \<Rightarrow> Inl err | Inr j \<Rightarrow> decode j) of
             Inl err \<Rightarrow> Inl (Wrap ''failed to unmarshal request data'' [err])
           | Inr target \<Rightarrow> Inr target))"

definition RpcService_GetSignerConfig :: "('s, 'pt, 'bk) HandlerData \<Rightarrow> json \<Rightarrow> 's world \<Rightarrow> SignerConfig res" where
  "RpcService_GetSignerConfig H data w =
     (case unmarshalRequestData decode_SignRequest data of
        Inl err \<Rightarrow> Inl err
      | Inr dataRequestSign \<Rightarrow> TssCaller_GetSignerConfig H dataRequestSign w)"

text \<open>A nil result is dereferenced.\<close>

definition sign_reply :: "string \<Rightarrow> signer_Result option outcome \<Rightarrow> RVSignature outcome" where
  "sign_reply hash r =
     (case r of
        Blocked \<Rightarrow> Blocked
      | Gives (Inl err) \<Rightarrow> Gives (Inl err)
      | Gives (Inr None) \<Rightarrow> Gives (Inl (Panic ''invalid memory address or nil pointer dereference''))
      | Gives (Inr (Some result)) \<Rightarrow>
          Gives (Inr \<lparr>rv_R = hex_EncodeToString (big_Bytes (sr_R result)),
                      rv_S = hex_EncodeToString (big_Bytes (sr_S result)), rv_Hash = hash\<rparr>))"

definition dkg_reply ::
  "eth \<Rightarrow> ('pt, 'bk) alice \<Rightarrow> string \<Rightarrow> ('pt, 'bk) dkg_Result option outcome \<Rightarrow> DkgReply outcome"
where
  "dkg_reply e A hash r =
     (case r of
        Blocked \<Rightarrow> Blocked
      | Gives (Inl err) \<Rightarrow> Gives (Inl err)
      | Gives (Inr None) \<Rightarrow> Gives (Inl (Panic ''invalid memory address or nil pointer dereference''))
      | Gives (Inr (Some result)) \<Rightarrow>
          (let pubkey = CompressPubkey e (ToPubKey A (r_PublicKey result)) in
           Gives (Inr \<lparr>dk_X = hex_EncodeToString (big_Bytes (GetX A (r_PublicKey result))),
                       dk_Y = hex_EncodeToString (big_Bytes (GetY A (r_PublicKey result))),
                       dk_Pubkey = hex_EncodeToString pubkey,
                       dk_Address = Address_String e (PubkeyToAddress e (ToPubKey A (r_PublicKey result))),
                       dk_Hash = hash\<rparr>)))"

definition RpcService_SignMessage ::
  "eth \<Rightarrow> ('pt, 'bk) alice \<Rightarrow> ('pt, 'bk, 'dkg, 'pai, 'signer, 'reshare) protocols \<Rightarrow> ('s, 'pt, 'bk) HandlerData \<Rightarrow>
   ('ma, 'k, 'h) libp2p \<Rightarrow> network \<Rightarrow> ('signer Signer \<Rightarrow> signer_Result res option) \<Rightarrow> P2PManager \<Rightarrow> json \<Rightarrow> 's world \<Rightarrow>
   's world \<times> 'signer Signer list \<times> RVSignature outcome"
where
  "RpcService_SignMessage e A P H L net proc hPm data w =
     (case unmarshalRequestData decode_SignRequest data of
        Inl err \<Rightarrow> (w, [], Gives (Inl err))
      | Inr dataRequestSign \<Rightarrow>
          (let hash = ToHexHash e (bytes_of (sreq_Message dataRequestSign));
               pm = ClonePeerManager hPm (GetProtocol hash) in
           case json_Marshal data of
             Inl err \<Rightarrow> (w, [], Gives (Inl err))
           | Inr argData \<Rightarrow>
               (let call = RpcToPeer L net (w_peers w) pm ''TssPeerService'' ''SignMessage'' (bytes_of argData);
                    (w', started, result) =
                      TssCaller_SignMessage e A P H pm dataRequestSign (Some (map_option snd call)) proc w
                in (w', started, sign_reply hash result))))"

definition RpcService_SelfSignMessage ::
  "eth \<Rightarrow> ('pt, 'bk) alice \<Rightarrow> ('pt, 'bk, 'dkg, 'pai, 'signer, 'reshare) protocols \<Rightarrow> (nat \<Rightarrow> go_error option) \<Rightarrow>
   (nat \<Rightarrow> wait_event) \<Rightarrow> ('signer Signer \<Rightarrow> signer_Result res option) \<Rightarrow> nat \<Rightarrow>
   'h SelfService option \<Rightarrow> ('s, 'pt, 'bk) HandlerData option \<Rightarrow> json \<Rightarrow> 's cluster \<Rightarrow>
   's cluster \<times> 'signer Signer list \<times> RVSignature outcome"
where
  "RpcService_SelfSignMessage e A P discovery events proc pick selfService tssCaller data cl =
     (case selfService of
        None \<Rightarrow> (cl, [], Gives (Inl (ErrorString ''self service is not available'')))
      | Some s \<Rightarrow>
          (case unmarshalRequestData decode_SignRequest data of
             Inl err \<Rightarrow> (cl, [], Gives (Inl err))
           | Inr dataRequestSign \<Rightarrow>
               (let (cl', started, result) =
                  SelfService_SignMessage e A P discovery events proc None pick s tssCaller (Some dataRequestSign) cl
                in (cl', started, sign_reply (ToHexHash e (bytes_of (sreq_Message dataRequestSign))) result))))"

text \<open>\<open>hash\<close> is what \<^verbatim>\<open>RandomHash\<close> returned.\<close>

definition RpcService_RegisterDKG ::
  "eth \<Rightarrow> ('pt, 'bk) alice \<Rightarrow> ('pt, 'bk, 'dkg, 'pai, 'signer, 'reshare) protocols \<Rightarrow>
   ('ma, 'k, 'h) libp2p \<Rightarrow> network \<Rightarrow> string list \<Rightarrow> ('dkg Dkg \<Rightarrow> ('pt, 'bk) dkg_Result res option) \<Rightarrow>
   P2PManager \<Rightarrow> string \<Rightarrow> 's world \<Rightarrow> 's world \<times> 'dkg Dkg list \<times> DkgReply outcome"
where
  "RpcService_RegisterDKG e A P L net addrs proc hPm hash w =
     (let pm = ClonePeerManager hPm (GetProtocol hash);
          call = RpcToPeer L net (w_peers w) pm ''TssPeerService'' ''RegisterDKG'' (bytes_of hash);
          (w', started, result) =
            TssCaller_RegisterDKG P pm addrs hash (Some (map_option snd call)) proc w
      in (w', started, dkg_reply e A hash result))"

definition RpcService_RegisterSelfDKG ::
  "eth \<Rightarrow> ('pt, 'bk) alice \<Rightarrow> ('pt, 'bk, 'dkg, 'pai, 'signer, 'reshare) protocols \<Rightarrow> (nat \<Rightarrow> go_error option) \<Rightarrow>
   (nat \<Rightarrow> wait_event) \<Rightarrow> (nat \<Rightarrow> string list) \<Rightarrow> ('dkg Dkg \<Rightarrow> ('pt, 'bk) dkg_Result res option) \<Rightarrow> nat \<Rightarrow>
   'h SelfService option \<Rightarrow> ('s, 'pt, 'bk) HandlerData option \<Rightarrow> string \<Rightarrow> 's cluster \<Rightarrow>
   's cluster \<times> 'dkg Dkg list \<times> DkgReply outcome"
where
  "RpcService_RegisterSelfDKG e A P discovery events addrs proc pick selfService tssCaller hash cl =
     (case selfService of
        None \<Rightarrow> (cl, [], Gives (Inl (ErrorString ''self service is not available'')))
      | Some s \<Rightarrow>
          (let (cl', started, dkgResult) =
             SelfService_RegisterDKG P discovery events addrs proc None pick s tssCaller hash cl
           in (cl', started, dkg_reply e A hash dkgResult)))"

text \<open>The reply is set before anything can fail.\<close>

definition RpcService_Reshare ::
  "('pt, 'bk) alice \<Rightarrow> ('pt, 'bk, 'dkg, 'pai, 'signer, 'reshare) protocols \<Rightarrow> ('s, 'pt, 'bk) HandlerData \<Rightarrow>
   ('ma, 'k, 'h) libp2p \<Rightarrow> network \<Rightarrow> P2PManager \<Rightarrow> json \<Rightarrow> 's world \<Rightarrow>
   's world \<times> 'reshare Reshare list \<times> string option \<times> unit outcome"
where
  "RpcService_Reshare A P H L net hPm data w =
     (case unmarshalRequestData decode_ReshareRequest data of
        Inl err \<Rightarrow> (w, [], None, Gives (Inl err))
      | Inr dataShare \<Rightarrow>
          (let reply = rreq_Hash dataShare;
               pm = ClonePeerManager hPm (GetProtocol (rreq_Hash dataShare)) in
           case json_Marshal data of
             Inl err \<Rightarrow> (w, [], Some reply, Gives (Inl err))
           | Inr argData \<Rightarrow>
               (let call = RpcToPeer L net (w_peers w) pm ''TssPeerService'' ''Reshare'' (bytes_of argData);
                    (w', started, result) = TssCaller_Reshare A P H pm dataShare (Some (map_option snd call)) w
                in (w', started, Some reply, result))))"

definition RpcService_GetDKG :: "('s, 'pt, 'bk) HandlerData \<Rightarrow> string \<Rightarrow> 's world \<Rightarrow> DKGResult option res" where
  "RpcService_GetDKG H key w =
     (case GetDKGResultData H key (w_store w) of Inl err \<Rightarrow> Inl err | Inr data \<Rightarrow> Inr data)"

definition RpcService_CheckSignature ::
  "eth \<Rightarrow> (PublicKey \<Rightarrow> byte list \<Rightarrow> int \<Rightarrow> int \<Rightarrow> bool) \<Rightarrow> ('s, 'pt, 'bk) HandlerData \<Rightarrow> json \<Rightarrow> 's world \<Rightarrow>
   ResponseCheckSignature res"
where
  "RpcService_CheckSignature e on_curve H data w =
     (case unmarshalRequestData decode_CheckSignature data of
        Inl err \<Rightarrow> Inl err
      | Inr dataSignature \<Rightarrow>
          (let hash = ToHexHash e (bytes_of (creq_Message dataSignature)) in
           case GetDKGResultData H hash (w_store w) of
             Inl err \<Rightarrow> Inl err
           | Inr found \<Rightarrow>
               (case json_Marshal (case found of None \<Rightarrow> JNull | Some d \<Rightarrow> json_DKGResult e d) of
                  Inl err \<Rightarrow> Inl err
                | Inr rvsData \<Rightarrow>
                    (case (case json_parse rvsData of Inl err \<Rightarrow> Inl err | Inr j \<Rightarrow> decode_RVSignature j) of
                       Inl err \<Rightarrow> Inl err
                     | Inr rvSignature \<Rightarrow>
                         CheckSignatureECDSA e on_curve (creq_Message dataSignature) rvSignature (creq_Pubkey dataSignature)))))"

section \<open>server/grpc_server.go\<close>

text \<open>\<open>proto_Marshal\<close> is that of the protobuf package.\<close>

definition grpc_SignMessage ::
  "eth \<Rightarrow> ('pt, 'bk) alice \<Rightarrow> ('pt, 'bk, 'dkg, 'pai, 'signer, 'reshare) protocols \<Rightarrow> ('s, 'pt, 'bk) HandlerData \<Rightarrow>
   ('ma, 'k, 'h) libp2p \<Rightarrow> network \<Rightarrow> ('signer Signer \<Rightarrow> signer_Result res option) \<Rightarrow> (SignRequest \<Rightarrow> byte list res) \<Rightarrow>
   P2PManager \<Rightarrow> SignRequest \<Rightarrow> 's world \<Rightarrow> 's world \<times> 'signer Signer list \<times> RVSignature outcome"
where
  "grpc_SignMessage e A P H L net proc proto_Marshal sPm signRequest w =
     (let hash = ToHexHash e (bytes_of (sreq_Message signRequest));
          pm = ClonePeerManager sPm (GetProtocol hash) in
      case proto_Marshal signRequest of
        Inl err \<Rightarrow> (w, [], Gives (Inl err))
      | Inr bs \<Rightarrow>
          (let call = RpcToPeer L net (w_peers w) pm ''TssPeerService'' ''SignMessage'' bs;
               (w', started, result) =
                 TssCaller_SignMessage e A P H pm signRequest (Some (map_option snd call)) proc w
           in (w', started, sign_reply hash result)))"

text \<open>The reply leaves the hash empty.\<close>

definition grpc_RegisterDKG ::
  "eth \<Rightarrow> ('pt, 'bk) alice \<Rightarrow> ('pt, 'bk, 'dkg, 'pai, 'signer, 'reshare) protocols \<Rightarrow>
   ('ma, 'k, 'h) libp2p \<Rightarrow> network \<Rightarrow> string list \<Rightarrow> ('dkg Dkg \<Rightarrow> ('pt, 'bk) dkg_Result res option) \<Rightarrow>
   P2PManager \<Rightarrow> string \<Rightarrow> 's world \<Rightarrow> 's world \<times> 'dkg Dkg list \<times> DkgReply outcome"
where
  "grpc_RegisterDKG e A P L net addrs proc sPm hash w =
     (let pm = ClonePeerManager sPm (GetProtocol hash);
          call = RpcToPeer L net (w_peers w) pm ''TssPeerService'' ''RegisterDKG'' (bytes_of hash);
          (w', started, result) =
            TssCaller_RegisterDKG P pm addrs hash (Some (map_option snd call)) proc w
      in (w', started, dkg_reply e A '''' result))"

definition grpc_Reshare ::
  "('pt, 'bk) alice \<Rightarrow> ('pt, 'bk, 'dkg, 'pai, 'signer, 'reshare) protocols \<Rightarrow> ('s, 'pt, 'bk) HandlerData \<Rightarrow>
   ('ma, 'k, 'h) libp2p \<Rightarrow> network \<Rightarrow> (ReshareRequest \<Rightarrow> byte list res) \<Rightarrow> P2PManager \<Rightarrow> ReshareRequest \<Rightarrow> 's world \<Rightarrow>
   's world \<times> 'reshare Reshare list \<times> unit outcome"
where
  "grpc_Reshare A P H L net proto_Marshal sPm reshareRequest w =
     (case proto_Marshal reshareRequest of
        Inl err \<Rightarrow> (w, [], Gives (Inl err))
      | Inr bs \<Rightarrow>
          (let pm = ClonePeerManager sPm (GetProtocol (rreq_Hash reshareRequest));
               call = RpcToPeer L net (w_peers w) pm ''TssPeerService'' ''Reshare'' bs
           in TssCaller_Reshare A P H pm reshareRequest (Some (map_option snd call)) w))"

section \<open>Replies\<close>

lemma sign_reply_result:
  "sign_reply hash r = Gives (Inr sig) \<Longrightarrow> \<exists>result. r = Gives (Inr (Some result)) \<and> sig = signature_of hash result"
  by (auto simp: sign_reply_def signature_of_def split: outcome.splits sum.splits option.splits)

lemma SignMessage_result:
  assumes "TssCaller_SignMessage e A P H pm req (Some call) proc w = (w', started, Gives (Inr (Some result)))"
  shows "\<exists>service. started = [service] \<and> proc service = Some (Inr result) \<and>
    sg_hash service = ToHexHash e (bytes_of (sreq_Message req)) \<and> sg_pm service = pm"
  using assms
  by (auto simp: TssCaller_SignMessage_def NewSignerService_def Let_def split: sum.splits option.splits prod.splits)

text \<open>What a node sends to its peers means the same to them: the data of a JSON-RPC request decodes on a
  peer to the request the node itself works on.\<close>

lemma peer_decodes:
  "unmarshalRequestData decode data = Inr req \<Longrightarrow> UnmarshalRequest decode proto (bytes_of (json_text data)) = Inr req"
  by (auto simp: unmarshalRequestData_def UnmarshalRequest_def json_Marshal_def split: sum.splits)

section \<open>Properties\<close>

text \<open>C30: The signature a client gets is the one the node stores: it belongs to the one service the
  call has started, and saving that service's result writes the reply, under the reply's hash.\<close>

theorem sign_reply_is_what_is_stored:
  assumes "RpcService_SignMessage e A P H L net proc hPm data w = (w', started, Gives (Inr sig))"
  shows "\<exists>service result. started = [service] \<and> proc service = Some (Inr result) \<and>
    w_store (snd (fst (Signer_save H' result (service, w')))) = fst (SaveSignerResultData H' (rv_Hash sig) sig (w_store w')) \<and>
    pm_protocol (sg_pm service) = GetProtocol (rv_Hash sig)"
proof -
  from assms obtain req call r where r: "sign_reply (ToHexHash e (bytes_of (sreq_Message req))) r = Gives (Inr sig)"
    and run: "TssCaller_SignMessage e A P H (ClonePeerManager hPm (GetProtocol (ToHexHash e (bytes_of (sreq_Message req)))))
      req (Some call) proc w = (w', started, r)"
    by (auto simp: RpcService_SignMessage_def Let_def split: sum.splits prod.splits)
  from sign_reply_result [OF r] obtain result where
    result: "r = Gives (Inr (Some result))" "sig = signature_of (ToHexHash e (bytes_of (sreq_Message req))) result" by blast
  from SignMessage_result [OF run [unfolded result(1)]] obtain service where
    s: "started = [service]" "proc service = Some (Inr result)"
    and sig: "sig = signature_of (sg_hash service) result" "pm_protocol (sg_pm service) = GetProtocol (sg_hash service)"
    using result(2) by auto
  have "rv_Hash sig = sg_hash service" by (simp add: sig signature_of_def)
  with s sig show ?thesis
    by (intro exI [of _ service] exI [of _ result]) (simp add: Signer_save_def Let_def case_prod_unfold)
qed

text \<open>The reply of a key generation is what signing needs: whatever the kind of store, once the
  service of the call has saved its result, the hash and the public key of the reply find the
  configuration of that result.\<close>

lemma dkg_reply_finds_config:
  assumes "eth_laws e" and "alice_laws A" and "badger_laws B"
    and "RpcService_RegisterDKG e A P L net addrs proc hPm hash w = (w', started, Gives (Inr reply))"
    and "\<And>d r. proc d = Some (Inr r) \<Longrightarrow> storable r"
  shows "\<exists>service result. started = [service] \<and> proc service = Some (Inr result) \<and>
    (\<forall>s. SaveDKGResultData (store_db e A B) (dkg_hash service) result (w_store w') = (s, None) \<longrightarrow>
       GetSignerConfig (store_db e A B) (dk_Hash reply) (dk_Pubkey reply) s = Inr (config_of A result))"
proof -
  from assms(4) obtain service result where started: "started = [service]" "proc service = Some (Inr result)"
    and names: "dkg_hash service = hash" "dk_Hash reply = hash" "dk_Pubkey reply = pubkey_text e A result"
    by (auto simp: RpcService_RegisterDKG_def TssCaller_RegisterDKG_def NewDkgService_def dkg_reply_def pubkey_text_def
        Let_def split: sum.splits option.splits prod.splits outcome.splits)
  have "GetSignerConfig (store_db e A B) (dk_Hash reply) (dk_Pubkey reply) s = Inr (config_of A result)"
    if "SaveDKGResultData (store_db e A B) (dkg_hash service) result (w_store w') = (s, None)" for s
    using store.get_repr [OF _ store.save_repr [OF _ assms(5) [OF started(2)] that]] assms(1-3) names by simp
  with started show ?thesis by blast
qed

text \<open>C37: The signature check never finds a valid signature: what it reads back as a signature has
  empty \<open>r\<close> and \<open>s\<close>, whatever the store holds and whatever the curve computation would say.\<close>

theorem CheckSignature_never_valid:
  assumes "eth_laws e" and "RpcService_CheckSignature e on_curve H data w = Inr resp"
  shows "\<not> IsValid resp"
proof -
  have zero: "(case json_parse (json_text (case found of None \<Rightarrow> JNull | Some d \<Rightarrow> json_DKGResult e d)) of
      Inl err \<Rightarrow> Inl err | Inr j \<Rightarrow> decode_RVSignature j) = Inr zero_RVSignature" for found
  proof (cases found)
    case None
    then show ?thesis using json_parse_text [of JNull] by (simp add: decode_RVSignature_def)
  next
    case (Some d)
    then show ?thesis
      by (simp add: json_parse_text) (simp add: json_DKGResult_def decode_RVSignature_def RVSignature_fields_def find_field_def)
  qed
  have "FromHex e '''' = []" using eth_lawsD(7) [OF assms(1), of "[]"] by simp
  then have "CheckSignatureECDSA e on_curve m zero_RVSignature p = Inr resp \<Longrightarrow> \<not> IsValid resp" for m p
    by (auto simp: CheckSignatureECDSA_def zero_RVSignature_def ecdsa_Verify_def big_SetBytes_def split: sum.splits)
  then show ?thesis
    using assms(2) by (auto simp: RpcService_CheckSignature_def json_Marshal_def zero Let_def split: sum.splits)
qed

section \<open>Witnesses\<close>

text \<open>An example request, and a network on which every call succeeds.\<close>

definition sign_data0 :: json where
  "sign_data0 = JObj [(''hash'', JStr ''0xaa''), (''message'', JStr ''ab''), (''pubkey'', JStr ''02'')]"

definition net0 :: network where
  "net0 = \<lparr>net_Connect = (\<lambda>n i. None), net_Call = (\<lambda>n i a. None)\<rparr>"

lemma json_parse_sign_data0: "json_parse (json_text sign_data0) = Inr sign_data0"
proof -
  have "json_ok sign_data0" "json_valid sign_data0" by (simp_all add: sign_data0_def)
  then show ?thesis using json_parse_text json_utf8_valid by metis
qed

lemma unmarshal_sign_data0:
  "unmarshalRequestData decode_SignRequest sign_data0 =
     Inr \<lparr>sreq_Hash = ''0xaa'', sreq_Pubkey = ''02'', sreq_Message = ''ab''\<rparr>"
  unfolding unmarshalRequestData_def json_Marshal_def
  by (simp add: json_parse_sign_data0) (simp add: sign_data0_def decode_SignRequest_def SignRequest_fields_def find_field_def)

lemma RpcToPeer_no_peers: "RpcToPeer L net [fmempty] (ClonePeerManager pm0 p) svc meth data = Some ([], None)"
  by (simp add: RpcToPeer_def PeerIDs_def Peers_def pm0_def sorted_list_of_fmap_def sorted_list_of_fset.rep_eq)

theorem sign_reply_is_what_is_stored_witness:
  "\<exists>w' started sig service result.
     RpcService_SignMessage eth0 alice0 protocols0 (mock_handler eth0 alice0) libp2p0 net0
       (\<lambda>_. Some (Inr \<lparr>sr_R = 17, sr_S = 18\<rparr>)) pm0 sign_data0 world1 = (w', started, Gives (Inr sig)) \<and>
     started = [service] \<and>
     w_store (snd (fst (Signer_save (mock_handler eth0 alice0) result (service, w')))) =
       fst (SaveSignerResultData (mock_handler eth0 alice0) (rv_Hash sig) sig (w_store w')) \<and>
     pm_protocol (sg_pm service) = GetProtocol (rv_Hash sig)"
proof -
  have peers: "w_peers world1 = [fmempty]" by (simp add: world1_def world0_def)
  obtain w' started sig where run: "RpcService_SignMessage eth0 alice0 protocols0 (mock_handler eth0 alice0) libp2p0 net0
       (\<lambda>_. Some (Inr \<lparr>sr_R = 17, sr_S = 18\<rparr>)) pm0 sign_data0 world1 = (w', started, Gives (Inr sig))"
    by (simp add: RpcService_SignMessage_def unmarshal_sign_data0 json_Marshal_def Let_def TssCaller_SignMessage_def
        world1_config NewSignerService_def createSigner_def protocols0_def Convert_result0 peers RpcToPeer_no_peers sign_reply_def)
  from sign_reply_is_what_is_stored [OF run, of "mock_handler eth0 alice0"] run show ?thesis by blast
qed

theorem CheckSignature_never_valid_witness:
  "\<exists>resp. RpcService_CheckSignature eth0 (\<lambda>_ _ _ _. True) (mock_handler eth0 alice0)
       (JObj [(''message'', JStr ''ab''), (''pubkey'', JStr (hex_EncodeToString (replicate 33 2)))]) world0 = Inr resp \<and> \<not> IsValid resp"
proof -
  let ?j = "JObj [(''message'', JStr ''ab''), (''pubkey'', JStr (hex_EncodeToString (replicate 33 2)))]"
  have "json_ok ?j" "json_valid ?j" by simp_all
  then have parse: "json_parse (json_text ?j) = Inr ?j" using json_parse_text json_utf8_valid by metis
  have data: "unmarshalRequestData decode_CheckSignature ?j =
      Inr \<lparr>creq_Message = ''ab'', creq_Pubkey = hex_EncodeToString (replicate 33 2)\<rparr>"
    unfolding unmarshalRequestData_def json_Marshal_def
    by (simp add: parse del: json_text.simps) (simp add: decode_CheckSignature_def CheckSignature_fields_def find_field_def)
  obtain pk where "DecompressPubkey eth0 (replicate 33 2) = Inr pk" by (simp add: eth0_def)
  then obtain resp where resp: "RpcService_CheckSignature eth0 (\<lambda>_ _ _ _. True) (mock_handler eth0 alice0) ?j world0 = Inr resp"
    using json_parse_text [of JNull]
    by (auto simp: RpcService_CheckSignature_def data Let_def mock_handler_def mock_GetDKGResultData_def world0_def NewMockDB_def
        go_lookup_def json_Marshal_def decode_RVSignature_def CheckSignatureECDSA_def split: sum.splits)
  from CheckSignature_never_valid [OF eth0_laws resp] resp show ?thesis by blast
qed

end
