(* ===== verification/Startup.thy ===== *)
theory Startup
  imports Flags Rpc
begin

text \<open>
  \<^verbatim>\<open>main.go\<close>, with \<^verbatim>\<open>NewRpcServer\<close>, \<^verbatim>\<open>InitRouter\<close> and \<^verbatim>\<open>StartGRPC\<close>: how a node is put together
  from its configuration and its key, and which servers it starts.  The packages that read files
  and listen on ports are arguments.
\<close>

section \<open>The surroundings of the process\<close>

text \<open>\<^verbatim>\<open>viper\<close>, with the state of the package of type \<open>'v\<close>; \<open>viper_Unmarshal\<close> gives the struct that
  is filled.\<close>

record 'v viper =
  SetConfigFile :: "string \<Rightarrow> 'v \<Rightarrow> 'v"
  AddConfigPath :: "string \<Rightarrow> 'v \<Rightarrow> 'v"
  ReadInConfig :: "'v \<Rightarrow> 'v \<times> go_error option"
  viper_Unmarshal :: "'v \<Rightarrow> AppConfig res"

text \<open>
  What \<open>main\<close> is started on.  \<open>sys_mdns_Start\<close> is the error of starting an mDNS service for a host,
  a tag and a notifee; \<open>sys_rpc_NewServer\<close> is what \<^verbatim>\<open>gorpc.NewServer\<close> does to the stream handlers of
  the host, \<open>sys_rpc_Register\<close> and \<open>sys_RegisterService\<close> the errors of registering a receiver.
  \<open>sys_Listen\<close>, \<open>sys_net_Listen\<close> and \<open>sys_Serve\<close> are \<^verbatim>\<open>http.ListenAndServe\<close>, \<^verbatim>\<open>net.Listen\<close> and
  \<^verbatim>\<open>Serve\<close> of gRPC; a server that goes on serving is \<open>None\<close>.
\<close>

record ('v, 'ma, 'k, 'h, 'db) system =
  sys_viper :: "'v viper"
  sys_ReadFile :: "string \<Rightarrow> byte list res"
  sys_DecryptKey :: "byte list \<Rightarrow> string \<Rightarrow> keystore_Key res"
  sys_libp2p :: "('ma, 'k, 'h) libp2p"
  sys_base_mult :: "byte list \<Rightarrow> (int \<times> int) option"
  sys_badger :: "'db badger"
  sys_mdns_Start :: "string \<Rightarrow> string \<Rightarrow> discovery \<Rightarrow> go_error option"
  sys_rpc_NewServer :: "string \<Rightarrow> (string, svc_ref) fmap \<Rightarrow> (string, svc_ref) fmap"
  sys_rpc_Register :: "go_error option"
  sys_RegisterService :: "go_error option"
  sys_Listen :: "string \<Rightarrow> go_error option option"
  sys_net_Listen :: "string \<Rightarrow> go_error option"
  sys_Serve :: "go_error option option"
  sys_host_Close :: "'h \<Rightarrow> go_error option"

section \<open>Servers\<close>

text \<open>The receivers registered with the servers.  The handlers in \<open>Tss\<close> and \<open>Rpc\<close> take the fields
  they read as arguments.\<close>

record ('s, 'pt, 'bk) TssCaller =
  StoreDB :: "('s, 'pt, 'bk) HandlerData"

record ('s, 'pt, 'bk) TssPeerService =
  tps_Pm :: P2PManager
  tps_TssCaller :: "('s, 'pt, 'bk) TssCaller"

record ('s, 'pt, 'bk, 'h) RpcService =
  rpcs_pm :: P2PManager
  rpcs_config :: AppConfig
  rpcs_storeDB :: "('s, 'pt, 'bk) HandlerData option"
  rpcs_selfService :: "'h SelfService option"
  rpcs_tssCaller :: "('s, 'pt, 'bk) TssCaller"

record ('s, 'pt, 'bk, 'db) grpcServer =
  grpcs_pm :: P2PManager
  grpcs_badgerFsm :: "'db FSM option"
  grpcs_tssCaller :: "('s, 'pt, 'bk) TssCaller"

text \<open>A call of a starting function: \<^verbatim>\<open>main\<close> gets to \<^verbatim>\<open>log.Crit\<close>, which logs and ends the process
  (the model ends there, with the state the process has), it panics, it serves for ever, or it
  returns.\<close>

datatype 'a flow = Crit go_error | Panics go_error | Serves | Continues 'a

definition NewRpcServer :: "P2PManager \<Rightarrow> ('s, 'pt, 'bk) HandlerData \<Rightarrow> ('s, 'pt, 'bk) TssPeerService" where
  "NewRpcServer pm storeDB = \<lparr>tps_Pm = pm, tps_TssCaller = \<lparr>StoreDB = storeDB\<rparr>\<rparr>"

text \<open>The receiver and the address served, and the error returned.\<close>

definition InitRouter ::
  "('v, 'ma, 'k, 'h, 'db) system \<Rightarrow> AppConfig \<Rightarrow> P2PManager \<Rightarrow> ('s, 'pt, 'bk) HandlerData \<Rightarrow> 'h SelfService option \<Rightarrow>
   (('s, 'pt, 'bk, 'h) RpcService \<times> string) option \<times> go_error option flow"
where
  "InitRouter S config pm storeDB selfService =
     (let receiver = \<lparr>rpcs_pm = pm, rpcs_config = config, rpcs_storeDB = None, rpcs_selfService = selfService,
                      rpcs_tssCaller = \<lparr>StoreDB = storeDB\<rparr>\<rparr> in
      case sys_RegisterService S of
        Some err \<Rightarrow> (None, Crit err)
      | None \<Rightarrow>
          (let addr = '':'' @ big_String (app_RPC config) in
           (Some (receiver, addr),
            case sys_Listen S addr of None \<Rightarrow> Serves | Some err \<Rightarrow> Continues err)))"

definition StartGRPC ::
  "('v, 'ma, 'k, 'h, 'db) system \<Rightarrow> int \<Rightarrow> P2PManager \<Rightarrow> ('s, 'pt, 'bk) HandlerData \<Rightarrow>
   ('s, 'pt, 'bk, 'db) grpcServer option \<times> unit flow"
where
  "StartGRPC S port pm storeDB =
     (case sys_net_Listen S ('':'' @ big_String port) of
        Some err \<Rightarrow> (None, Crit err)
      | None \<Rightarrow>
          (Some \<lparr>grpcs_pm = pm, grpcs_badgerFsm = None, grpcs_tssCaller = \<lparr>StoreDB = storeDB\<rparr>\<rparr>,
           case sys_Serve S of
             None \<Rightarrow> Serves
           | Some (Some err) \<Rightarrow> Crit err
           | Some None \<Rightarrow> Continues ()))"

section \<open>main.go\<close>

definition readAppConfigFile :: "'v viper \<Rightarrow> string \<Rightarrow> 'v \<Rightarrow> 'v \<times> AppConfig res" where
  "readAppConfigFile V configFile v =
     (case ReadInConfig V (AddConfigPath V ''./'' (SetConfigFile V configFile v)) of
        (v', Some err) \<Rightarrow> (v', Inl err)
      | (v', None) \<Rightarrow>
          (case viper_Unmarshal V v' of
             Inl err \<Rightarrow> (v', Inl err)
           | Inr c \<Rightarrow> (v', Inr c)))"

text \<open>What the process holds: the hosts it has opened and closed, its peer tables, the stream
  handlers of its host, its store, the mDNS services it has started, the receivers of its servers,
  and the deferred calls, the latest first.\<close>

datatype 'h deferred = CloseStore | CloseSelf "'h SelfService"

record ('db, 'pt, 'bk, 'h) process =
  pr_hosts :: "'h list"
  pr_closed :: "'h list"
  pr_peers :: peer_heap
  pr_handlers :: "(string, svc_ref) fmap"
  pr_store :: "'db store_state option"
  pr_mdns :: "discovery list"
  pr_peer_service :: "('db store_state, 'pt, 'bk) TssPeerService option"
  pr_router :: "(('db store_state, 'pt, 'bk, 'h) RpcService \<times> string) option"
  pr_deferred :: "'h deferred list"

definition process_init :: "('db, 'pt, 'bk, 'h) process" where
  "process_init = \<lparr>pr_hosts = [], pr_closed = [], pr_peers = [], pr_handlers = fmempty, pr_store = None, pr_mdns = [],
     pr_peer_service = None, pr_router = None, pr_deferred = []\<rparr>"

lemma process_init_sel [simp]:
  "pr_hosts process_init = []" "pr_closed process_init = []" "pr_peers process_init = []" "pr_handlers process_init = fmempty"
  "pr_store process_init = None" "pr_mdns process_init = []" "pr_deferred process_init = []"
  by (simp_all add: process_init_def)

text \<open>A deferred call; the error of closing the self service is only logged.\<close>

definition deferred_call ::
  "('v, 'ma, 'k, 'h, 'db) system \<Rightarrow> ('db store_state, 'pt, 'bk) HandlerData \<Rightarrow> 'h deferred \<Rightarrow>
   ('db, 'pt, 'bk, 'h) process \<Rightarrow> ('db, 'pt, 'bk, 'h) process"
where
  "deferred_call S H d st =
     (case d of
        CloseStore \<Rightarrow> st\<lparr>pr_store := map_option (Defer H) (pr_store st)\<rparr>
      | CloseSelf s \<Rightarrow> st\<lparr>pr_closed := pr_closed st @ fst (SelfService_Close (sys_host_Close S) s)\<rparr>)"

definition run_deferred ::
  "('v, 'ma, 'k, 'h, 'db) system \<Rightarrow> ('db store_state, 'pt, 'bk) HandlerData \<Rightarrow>
   ('db, 'pt, 'bk, 'h) process \<Rightarrow> ('db, 'pt, 'bk, 'h) process"
where
  "run_deferred S H st = fold (deferred_call S H) (pr_deferred st) (st\<lparr>pr_deferred := []\<rparr>)"

text \<open>After an error \<^verbatim>\<open>main\<close> calls \<^verbatim>\<open>log.Crit\<close>; a panic runs the deferred calls on its way out.\<close>

definition fail_with ::
  "('v, 'ma, 'k, 'h, 'db) system \<Rightarrow> ('db store_state, 'pt, 'bk) HandlerData \<Rightarrow> go_error \<Rightarrow>
   ('db, 'pt, 'bk, 'h) process \<Rightarrow> ('db, 'pt, 'bk, 'h) process \<times> unit flow"
where
  "fail_with S H err st = (if is_panic err then (run_deferred S H st, Panics err) else (st, Crit err))"

text \<open>The self service or, without it, discovery.\<close>

definition start_peers ::
  "('v, 'ma, 'k, 'h, 'db) system \<Rightarrow> bool \<Rightarrow> P2PManager \<Rightarrow> ('db, 'pt, 'bk, 'h) process \<Rightarrow>
   ('db, 'pt, 'bk, 'h) process \<times> 'h SelfService option res"
where
  "start_peers S selfHost pm st =
     (if selfHost then
        (case NewSelfService (sys_libp2p S) of
           (closed, Inl err) \<Rightarrow> (st\<lparr>pr_hosts := pr_hosts st @ closed, pr_closed := pr_closed st @ closed\<rparr>, Inl err)
         | (closed, Inr s) \<Rightarrow>
             (st\<lparr>pr_hosts := pr_hosts st @ map the (ss_hosts s), pr_deferred := CloseSelf s # pr_deferred st\<rparr>, Inr (Some s)))
      else
        (case SetupDiscovery (sys_mdns_Start S) pm of
           Some err \<Rightarrow> (st, Inl err)
         | None \<Rightarrow> (st\<lparr>pr_mdns := pr_mdns st @ [\<lparr>disc_pm = pm\<rparr>]\<rparr>, Inr None)))"

text \<open>The RPC server for the peers and the router for the clients.\<close>

definition start_servers ::
  "('v, 'ma, 'k, 'h, 'db) system \<Rightarrow> ('db store_state, 'pt, 'bk) HandlerData \<Rightarrow> int \<Rightarrow> AppConfig \<Rightarrow> P2PManager \<Rightarrow>
   'h SelfService option \<Rightarrow> ('db, 'pt, 'bk, 'h) process \<Rightarrow> ('db, 'pt, 'bk, 'h) process \<times> unit flow"
where
  "start_servers S H port appConfig pm selfService st =
     (let rpcServer = NewRpcServer pm H;
          st1 = st\<lparr>pr_handlers := sys_rpc_NewServer S ProtocolId (pr_handlers st)\<rparr> in
      case sys_rpc_Register S of
        Some err \<Rightarrow> fail_with S H err st1
      | None \<Rightarrow>
          (let appConfig' = (if port \<noteq> 0 then appConfig\<lparr>app_RPC := port\<rparr> else appConfig);
               (router, r) = InitRouter S appConfig' pm H selfService;
               st2 = st1\<lparr>pr_peer_service := Some rpcServer, pr_router := router\<rparr> in
           case r of
             Crit err \<Rightarrow> (st2, Crit err)
           | Panics err \<Rightarrow> (run_deferred S H st2, Panics err)
           | Serves \<Rightarrow> (st2, Serves)
           | Continues (Some err) \<Rightarrow> fail_with S H err st2
           | Continues None \<Rightarrow> (run_deferred S H st2, Continues ())))"

definition main ::
  "('v, 'ma, 'k, 'h, 'db) system \<Rightarrow> eth \<Rightarrow> ('pt, 'bk) alice \<Rightarrow> flags \<Rightarrow> 'v \<Rightarrow>
   ('db, 'pt, 'bk, 'h) process \<times> unit flow"
where
  "main S e A fl v =
     (let H = store_db e A (sys_badger S); st = process_init in
      case snd (readAppConfigFile (sys_viper S) (fl_configFile fl) v) of
        Inl err \<Rightarrow> fail_with S H err st
      | Inr appConfig \<Rightarrow>
          (case GetPrivateKeyFromKeystore (sys_ReadFile S) (sys_DecryptKey S) (fl_keystoreFile fl) (fl_password fl) of
             Inl err \<Rightarrow> fail_with S H err st
           | Inr privateKey \<Rightarrow>
               (case MakeBasicHost (sys_libp2p S) (sys_base_mult S) (app_Port appConfig) privateKey of
                  Inl err \<Rightarrow> fail_with S H err st
                | Inr (host, pid) \<Rightarrow>
                    (let (hp, pm) = NewPeerManager pid pid ProtocolId (pr_peers st);
                         st1 = st\<lparr>pr_hosts := [host], pr_peers := hp\<rparr> in
                     case NewStoreHandler (sys_badger S) (app_Store appConfig) (Some privateKey) of
                       Inl err \<Rightarrow> fail_with S H err st1
                     | Inr storeDb \<Rightarrow>
                         (let st2 = st1\<lparr>pr_store := Some storeDb, pr_deferred := [CloseStore]\<rparr> in
                          case start_peers S (fl_selfHost fl) pm st2 of
                            (st3, Inl err) \<Rightarrow> fail_with S H err st3
                          | (st3, Inr selfService) \<Rightarrow>
                              start_servers S H (fl_port fl) appConfig pm selfService st3)))))"

section \<open>What a started node is\<close>

lemma make_hosts_length: "snd (make_hosts L i ports hs ids) = Inr (hs', ids') \<Longrightarrow> length hs' = length hs + length ports"
  by (induction L i ports hs ids rule: make_hosts.induct) (auto split: sum.splits if_splits prod.splits)

lemma NewSelfService_three: "snd (NewSelfService L) = Inr x \<Longrightarrow> length (ss_hosts x) = 3"
  using make_hosts_length [of L 0 self_ports "[]" "[]"]
  by (auto simp: NewSelfService_def self_ports_def split: prod.splits sum.splits)

definition main_pm :: "string \<Rightarrow> P2PManager" where
  "main_pm pid = \<lparr>pm_id = pid, pm_Host = pid, pm_protocol = ProtocolId, pm_peers = 0\<rparr>"

definition main_config :: "flags \<Rightarrow> AppConfig \<Rightarrow> AppConfig" where
  "main_config fl cfg = (if fl_port fl \<noteq> 0 then cfg\<lparr>app_RPC := fl_port fl\<rparr> else cfg)"

lemma NewPeerManager_main: "NewPeerManager pid pid ProtocolId [] = ([fmempty], main_pm pid)"
  by (simp add: NewPeerManager_def main_pm_def)

lemma fail_with_flow: "snd (fail_with S H err st) \<in> {Crit err, Panics err}"
  by (simp add: fail_with_def)

lemma fail_with_ne [simp]: "fail_with S H err st \<noteq> (st', Serves)" "fail_with S H err st \<noteq> (st', Continues x)"
  by (simp_all add: fail_with_def)

lemma fail_with_Crit: "fail_with S H err st = (st', Crit x) \<longleftrightarrow> \<not> is_panic err \<and> st' = st \<and> x = err"
  by (auto simp: fail_with_def)

text \<open>Every way through \<open>main\<close> up to the servers.\<close>

lemma main_cases:
  assumes "main S e A fl v = (st, r)"
  obtains (failed) err st0 where "fail_with S (store_db e A (sys_badger S)) err st0 = (st, r)"
      and "pr_store st0 = None"
  | (no_peers) cfg key host pid s st3 err
    where "snd (readAppConfigFile (sys_viper S) (fl_configFile fl) v) = Inr cfg"
      and "GetPrivateKeyFromKeystore (sys_ReadFile S) (sys_DecryptKey S) (fl_keystoreFile fl) (fl_password fl) = Inr key"
      and "MakeBasicHost (sys_libp2p S) (sys_base_mult S) (app_Port cfg) key = Inr (host, pid)"
      and "NewStoreHandler (sys_badger S) (app_Store cfg) (Some key) = Inr s"
      and "start_peers S (fl_selfHost fl) (main_pm pid)
          (process_init\<lparr>pr_hosts := [host], pr_peers := [fmempty], pr_store := Some s, pr_deferred := [CloseStore]\<rparr>) = (st3, Inl err)"
      and "fail_with S (store_db e A (sys_badger S)) err st3 = (st, r)"
  | (servers) cfg key host pid s st3 selfService
    where "snd (readAppConfigFile (sys_viper S) (fl_configFile fl) v) = Inr cfg"
      and "GetPrivateKeyFromKeystore (sys_ReadFile S) (sys_DecryptKey S) (fl_keystoreFile fl) (fl_password fl) = Inr key"
      and "MakeBasicHost (sys_libp2p S) (sys_base_mult S) (app_Port cfg) key = Inr (host, pid)"
      and "NewStoreHandler (sys_badger S) (app_Store cfg) (Some key) = Inr s"
      and "start_peers S (fl_selfHost fl) (main_pm pid)
          (process_init\<lparr>pr_hosts := [host], pr_peers := [fmempty], pr_store := Some s, pr_deferred := [CloseStore]\<rparr>) = (st3, Inr selfService)"
      and "start_servers S (store_db e A (sys_badger S)) (fl_port fl) cfg (main_pm pid) selfService st3 = (st, r)"
  using assms unfolding main_def Let_def
  by (auto simp: NewPeerManager_main split: sum.splits prod.splits intro: failed no_peers servers)

lemma start_peers_ok:
  assumes "start_peers S selfHost pm st = (st', Inr ss)"
  shows "(\<not> selfHost \<longrightarrow> ss = None \<and> st' = st\<lparr>pr_mdns := pr_mdns st @ [\<lparr>disc_pm = pm\<rparr>]\<rparr>) \<and>
    (selfHost \<longrightarrow> (\<exists>s. ss = Some s \<and> snd (NewSelfService (sys_libp2p S)) = Inr s \<and>
       st' = st\<lparr>pr_hosts := pr_hosts st @ map the (ss_hosts s), pr_deferred := CloseSelf s # pr_deferred st\<rparr>))"
  using assms by (auto simp: start_peers_def split: if_splits prod.splits sum.splits option.splits)

lemma start_servers_serves:
  "start_servers S H port cfg pm ss st = (st', Serves) \<longleftrightarrow>
     (let cfg' = (if port \<noteq> 0 then cfg\<lparr>app_RPC := port\<rparr> else cfg); addr = '':'' @ big_String (app_RPC cfg') in
      sys_rpc_Register S = None \<and> sys_RegisterService S = None \<and> sys_Listen S addr = None \<and>
      st' = st\<lparr>pr_handlers := sys_rpc_NewServer S ProtocolId (pr_handlers st), pr_peer_service := Some (NewRpcServer pm H),
        pr_router := Some (\<lparr>rpcs_pm = pm, rpcs_config = cfg', rpcs_storeDB = None, rpcs_selfService = ss,
           rpcs_tssCaller = \<lparr>StoreDB = H\<rparr>\<rparr>, addr)\<rparr>)"
  by (auto simp: start_servers_def InitRouter_def Let_def split: option.splits flow.splits)

lemma serving_node:
  assumes "main S e A fl v = (st, Serves)" and "pr_router st = Some (receiver, addr)"
  shows "\<exists>pid. rpcs_pm receiver = main_pm pid \<and> pr_peers st = [fmempty] \<and>
    pr_handlers st = sys_rpc_NewServer S ProtocolId fmempty"
  using assms(1)
proof (cases rule: main_cases)
  case (servers cfg key host pid s st3 ss)
  have "pr_peers st3 = [fmempty] \<and> pr_handlers st3 = fmempty"
    using start_peers_ok [OF servers(5)] by (cases "fl_selfHost fl") auto
  then show ?thesis
    using servers(6) assms(2) by (intro exI [of _ pid]) (auto simp: start_servers_serves Let_def)
qed simp_all

section \<open>Properties\<close>

text \<open>C22: A process serves only if every step of its start has succeeded: the configuration and the key
  were read, the host and the store were made from them, and discovery, or with \<^verbatim>\<open>--self-host\<close> the
  self service, is up.  It then serves clients on the port of the command line if there is one and
  of the configuration otherwise, and peers with the store it has opened; discovery reports to the
  manager the servers use.\<close>

theorem main_serves:
  assumes "main S e A fl v = (st, Serves)"
  shows "\<exists>cfg key host pid s.
    snd (readAppConfigFile (sys_viper S) (fl_configFile fl) v) = Inr cfg \<and>
    GetPrivateKeyFromKeystore (sys_ReadFile S) (sys_DecryptKey S) (fl_keystoreFile fl) (fl_password fl) = Inr key \<and>
    MakeBasicHost (sys_libp2p S) (sys_base_mult S) (app_Port cfg) key = Inr (host, pid) \<and>
    NewStoreHandler (sys_badger S) (app_Store cfg) (Some key) = Inr s \<and>
    pr_store st = Some s \<and> pr_peers st = [fmempty] \<and> pr_closed st = [] \<and>
    pr_handlers st = sys_rpc_NewServer S ProtocolId fmempty \<and>
    pr_peer_service st = Some (NewRpcServer (main_pm pid) (store_db e A (sys_badger S))) \<and>
    (\<exists>ss. pr_router st = Some (\<lparr>rpcs_pm = main_pm pid, rpcs_config = main_config fl cfg, rpcs_storeDB = None,
          rpcs_selfService = ss, rpcs_tssCaller = \<lparr>StoreDB = store_db e A (sys_badger S)\<rparr>\<rparr>,
          '':'' @ big_String (if fl_port fl = 0 then app_RPC cfg else fl_port fl)) \<and>
       (if fl_selfHost fl
        then (\<exists>x. ss = Some x \<and> pr_hosts st = host # map the (ss_hosts x) \<and> length (pr_hosts st) = 4) \<and> pr_mdns st = []
        else ss = None \<and> pr_hosts st = [host] \<and> pr_mdns st = [\<lparr>disc_pm = main_pm pid\<rparr>]))"
  using assms
proof (cases rule: main_cases)
  case (servers cfg key host pid s st3 ss)
  from servers(6) have st: "st = st3\<lparr>pr_handlers := sys_rpc_NewServer S ProtocolId (pr_handlers st3),
      pr_peer_service := Some (NewRpcServer (main_pm pid) (store_db e A (sys_badger S))),
      pr_router := Some (\<lparr>rpcs_pm = main_pm pid, rpcs_config = main_config fl cfg, rpcs_storeDB = None,
          rpcs_selfService = ss, rpcs_tssCaller = \<lparr>StoreDB = store_db e A (sys_badger S)\<rparr>\<rparr>,
          '':'' @ big_String (if fl_port fl = 0 then app_RPC cfg else fl_port fl))\<rparr>"
    by (simp add: start_servers_serves main_config_def Let_def split: if_splits)
  have "length (ss_hosts x) = 3" if "snd (NewSelfService (sys_libp2p S)) = Inr x" for x
    by (rule NewSelfService_three [OF that])
  then show ?thesis
    using servers(1-4) start_peers_ok [OF servers(5)] st
    by (intro exI [of _ cfg] exI [of _ key] exI [of _ host] exI [of _ pid] exI [of _ s] conjI exI [of _ ss])
      auto
qed simp_all

text \<open>Started as the README says, with \<^verbatim>\<open>--config\<close>, \<^verbatim>\<open>--keystore\<close>, \<^verbatim>\<open>--password\<close> and \<^verbatim>\<open>--port\<close>, the
  process serves on the port given, whatever the configuration says, if its files can be read and
  the packages it uses report no error.\<close>

lemma readme_command_serves:
  assumes "0 < n" and "n < 65536"
    and "flag_Parse init_formal [''--config'', c, ''--keystore'', k, ''--password'', p, ''--port'', big_String n] init_flags = Inr fl"
    and "snd (readAppConfigFile (sys_viper S) c v) = Inr cfg"
    and "GetPrivateKeyFromKeystore (sys_ReadFile S) (sys_DecryptKey S) k p = Inr key"
    and "MakeBasicHost (sys_libp2p S) (sys_base_mult S) (app_Port cfg) key = Inr (host, pid)"
    and "NewStoreHandler (sys_badger S) (app_Store cfg) (Some key) = Inr s"
    and "sys_mdns_Start S pid DiscoveryServiceTag \<lparr>disc_pm = main_pm pid\<rparr> = None"
    and "sys_rpc_Register S = None" and "sys_RegisterService S = None"
    and "sys_Listen S ('':'' @ big_String n) = None"
  shows "\<exists>st receiver. main S e A fl v = (st, Serves) \<and> pr_router st = Some (receiver, '':'' @ big_String n) \<and>
    pr_store st = Some s"
proof -
  have "(2::int) ^ 63 = 9223372036854775808" by simp
  then have fl: "fl = \<lparr>fl_configFile = c, fl_keystoreFile = k, fl_password = p, fl_port = n, fl_selfHost = False\<rparr>"
    using flag_Parse_readme [of n c k p] assms(1-3) by simp
  have pm: "pm_Host (main_pm pid) = pid" by (simp add: main_pm_def)
  then show ?thesis
    using assms(1,4-11) fl pm
    by (simp add: main_def Let_def NewPeerManager_main start_peers_def SetupDiscovery_def start_servers_serves
        start_servers_def InitRouter_def)
qed

text \<open>C32: The deferred clean-up of \<^verbatim>\<open>main\<close> never runs in an orderly end.  \<^verbatim>\<open>http.ListenAndServe\<close> returns
  only with an error, so \<^verbatim>\<open>main\<close> never returns; it serves for ever, panics, or ends in \<^verbatim>\<open>log.Crit\<close>,
  and there the store it has opened is as opened, with its closing still pending.\<close>

theorem main_never_closes_store:
  assumes "\<And>addr. sys_Listen S addr \<noteq> Some None"
    and "main S e A fl v = (st, r)"
  shows "r \<noteq> Continues () \<and>
    (\<forall>err s. r = Crit err \<and> pr_store st = Some s \<longrightarrow>
       CloseStore \<in> set (pr_deferred st) \<and> (\<exists>cfg key.
         snd (readAppConfigFile (sys_viper S) (fl_configFile fl) v) = Inr cfg \<and>
         GetPrivateKeyFromKeystore (sys_ReadFile S) (sys_DecryptKey S) (fl_keystoreFile fl) (fl_password fl) = Inr key \<and>
         NewStoreHandler (sys_badger S) (app_Store cfg) (Some key) = Inr s))"
  using assms(2)
proof (cases rule: main_cases)
  case (failed err st0)
  then show ?thesis using fail_with_ne(2) by (auto simp: fail_with_Crit)
next
  case (no_peers cfg key host pid s st3 err)
  have "pr_store st3 = Some s \<and> CloseStore \<in> set (pr_deferred st3)"
    using no_peers(5) by (auto simp: start_peers_def split: if_splits prod.splits sum.splits option.splits)
  then show ?thesis using no_peers(1,2,4,6) fail_with_ne(2) by (auto simp: fail_with_Crit)
next
  case (servers cfg key host pid s st3 ss)
  have st3: "pr_store st3 = Some s \<and> CloseStore \<in> set (pr_deferred st3)"
    using start_peers_ok [OF servers(5)] by (cases "fl_selfHost fl") auto
  have "r \<noteq> Continues () \<and> (\<forall>err. r = Crit err \<longrightarrow> pr_store st = pr_store st3 \<and> pr_deferred st = pr_deferred st3)"
    using servers(6) assms(1)
    by (auto simp: start_servers_def InitRouter_def fail_with_Crit Let_def split: option.splits flow.splits if_splits)
  then show ?thesis using servers(1,2,4) st3 by auto
qed

section \<open>Witnesses\<close>

text \<open>An example system: a configuration like the README's, a key, and packages that report no error.\<close>

definition config0 :: AppConfig where
  "config0 = \<lparr>app_Port = 10001, app_RPC = 1234, app_Store = \<lparr>store_Type = ''badger'', store_Path = ''./badger1''\<rparr>\<rparr>"

definition system0 :: "(unit, string, int, string, db0) system" where
  "system0 =
     \<lparr>sys_viper = \<lparr>SetConfigFile = (\<lambda>f v. v), AddConfigPath = (\<lambda>p v. v), ReadInConfig = (\<lambda>v. (v, None)), viper_Unmarshal = (\<lambda>v. Inr config0)\<rparr>,
      sys_ReadFile = (\<lambda>f. Inr []), sys_DecryptKey = (\<lambda>k p. Inr \<lparr>key_Address = [], key_PrivateKey = key0\<rparr>),
      sys_libp2p = libp2p0, sys_base_mult = (\<lambda>d. Some (1, 2)), sys_badger = badger0,
      sys_mdns_Start = (\<lambda>h t d. None), sys_rpc_NewServer = (\<lambda>p hs. fmupd p RpcHandle hs), sys_rpc_Register = None,
      sys_RegisterService = None, sys_Listen = (\<lambda>a. None), sys_net_Listen = (\<lambda>a. None), sys_Serve = None,
      sys_host_Close = (\<lambda>h. None)\<rparr>"

definition flags0 :: "int \<Rightarrow> flags" where
  "flags0 n = \<lparr>fl_configFile = ''c.yml'', fl_keystoreFile = ''k'', fl_password = ''p'', fl_port = n, fl_selfHost = False\<rparr>"

lemma system0_config: "snd (readAppConfigFile (sys_viper system0) c v) = Inr config0"
  by (simp add: readAppConfigFile_def system0_def)

lemma system0_key: "GetPrivateKeyFromKeystore (sys_ReadFile system0) (sys_DecryptKey system0) k p = Inr key0"
  by (simp add: GetPrivateKeyFromKeystore_def system0_def)

lemma system0_host: "\<exists>host pid. MakeBasicHost (sys_libp2p system0) (sys_base_mult system0) (app_Port config0) key0 = Inr (host, pid)"
proof -
  obtain k where "ToEcdsaP256 (\<lambda>d. Some (1, 2)) (big_Bytes (sk_D key0)) False = Inr k"
    by (simp add: ToEcdsaP256_def key0_def secp256k1N_value Let_def)
  then show ?thesis by (simp add: MakeBasicHost_def system0_def libp2p0_def host_of_key_def)
qed

lemma system0_store: "\<exists>s. NewStoreHandler (sys_badger system0) (app_Store config0) (Some key0) = Inr s"
  by (simp add: NewStoreHandler_def system0_def config0_def StoreTypeMock_def StoreTypeBadger_def NewBadgerDB_def)

lemma system0_serves:
  assumes "0 < n" and "n < 65536"
  shows "\<exists>st receiver. main system0 e A (flags0 n) () = (st, Serves) \<and> pr_router st = Some (receiver, '':'' @ big_String n)"
proof -
  obtain host pid where host: "MakeBasicHost (sys_libp2p system0) (sys_base_mult system0) (app_Port config0) key0 = Inr (host, pid)"
    using system0_host by blast
  obtain s where s: "NewStoreHandler (sys_badger system0) (app_Store config0) (Some key0) = Inr s"
    using system0_store by blast
  have "sys_mdns_Start system0 h t d = None" "sys_rpc_Register system0 = None" "sys_RegisterService system0 = None"
    "sys_Listen system0 addr = None" for h t d addr by (simp_all add: system0_def)
  then show ?thesis
    using assms(1) system0_config system0_key host s
    by (simp add: main_def flags0_def Let_def NewPeerManager_main start_peers_def SetupDiscovery_def start_servers_serves)
qed

theorem main_serves_witness:
  "\<exists>st s. main system0 eth0 alice0 (flags0 1234) () = (st, Serves) \<and> pr_store st = Some s \<and>
     pr_handlers st = fmupd ProtocolId RpcHandle fmempty"
proof -
  obtain st where "main system0 eth0 alice0 (flags0 1234) () = (st, Serves)"
    using system0_serves [of 1234] by auto
  from main_serves [OF this] this show ?thesis by (auto simp: system0_def)
qed

theorem main_never_closes_store_witness:
  "\<exists>st s err. main (system0\<lparr>sys_Listen := (\<lambda>a. Some (Some (LibError ''address already in use'')))\<rparr>) eth0 alice0 (flags0 1234) () = (st, Crit err) \<and>
     pr_store st = Some s \<and> CloseStore \<in> set (pr_deferred st)"
proof -
  let ?S = "system0\<lparr>sys_Listen := (\<lambda>a. Some (Some (LibError ''address already in use'')))\<rparr>"
  obtain st s where run: "main ?S eth0 alice0 (flags0 1234) () = (st, Crit (LibError ''address already in use''))" "pr_store st = Some s"
    using system0_config system0_key system0_host system0_store
    by (auto simp: main_def flags0_def Let_def NewPeerManager_main start_peers_def SetupDiscovery_def start_servers_def
        InitRouter_def fail_with_def system0_def)
  have "sys_Listen ?S addr \<noteq> Some None" for addr by simp
  from main_never_closes_store [OF this run(1)] run show ?thesis by blast
qed

end
