(* ===== verification/Node.thy ===== *)
theory Node
  imports Startup
begin

text \<open>
  A node at work: the steps that change its state, whoever takes them (discovery, a client, a peer,
  a running protocol), and what holds in every state they reach.  The operations are those of the
  components; nothing here models code of its own.
\<close>

section \<open>State and steps\<close>

text \<open>What a node is given: the packages it uses, the method table of its store, its peer manager and
  the addresses of its host; \<open>ne_unmarshal_sign\<close> and \<open>ne_unmarshal_reshare\<close> are \<^verbatim>\<open>proto.Unmarshal\<close>.\<close>

record ('s, 'pt, 'bk, 'dkg, 'pai, 'signer, 'reshare, 'ma, 'k, 'h) node_env =
  ne_eth :: eth
  ne_alice :: "('pt, 'bk) alice"
  ne_protocols :: "('pt, 'bk, 'dkg, 'pai, 'signer, 'reshare) protocols"
  ne_handler :: "('s, 'pt, 'bk) HandlerData"
  ne_libp2p :: "('ma, 'k, 'h) libp2p"
  ne_unmarshal_sign :: "byte list \<Rightarrow> SignRequest res"
  ne_unmarshal_reshare :: "byte list \<Rightarrow> ReshareRequest res"
  ne_pm :: P2PManager
  ne_addrs :: "string list"

text \<open>The node and the services whose \<^verbatim>\<open>Process\<close> was entered.\<close>

record ('s, 'dkg, 'signer, 'reshare) node =
  nd_world :: "'s world"
  nd_dkgs :: "'dkg Dkg list"
  nd_signers :: "'signer Signer list"
  nd_reshares :: "'reshare Reshare list"

abbreviation started_dkg where
  "started_dkg n w ds \<equiv> n\<lparr>nd_world := w, nd_dkgs := nd_dkgs n @ ds\<rparr>"

abbreviation started_signer where
  "started_signer n w ss \<equiv> n\<lparr>nd_world := w, nd_signers := nd_signers n @ ss\<rparr>"

abbreviation started_reshare where
  "started_reshare n w rs \<equiv> n\<lparr>nd_world := w, nd_reshares := nd_reshares n @ rs\<rparr>"

text \<open>A message is represented by the bytes it is unmarshalled from.\<close>

inductive node_step ::
  "('s, 'pt, 'bk, 'dkg, 'pai, 'signer, 'reshare, 'ma, 'k, 'h) node_env \<Rightarrow>
   ('s, 'dkg, 'signer, 'reshare) node \<Rightarrow> ('s, 'dkg, 'signer, 'reshare) node \<Rightarrow> bool"
  for E
where
  peer_found: "HandlePeerFound (w_peers (nd_world n)) (ne_pm E) pi connected = (hp, None) \<Longrightarrow>
    node_step E n (n\<lparr>nd_world := (nd_world n)\<lparr>w_peers := hp\<rparr>\<rparr>)"
| client_dkg: "RpcService_RegisterDKG (ne_eth E) (ne_alice E) (ne_protocols E) (ne_libp2p E) net (ne_addrs E) dproc (ne_pm E) hash (nd_world n) = (w, ds, dr) \<Longrightarrow>
    node_step E n (started_dkg n w ds)"
| client_sign: "RpcService_SignMessage (ne_eth E) (ne_alice E) (ne_protocols E) (ne_handler E) (ne_libp2p E) net sproc (ne_pm E) data (nd_world n) = (w, ss, sr) \<Longrightarrow>
    node_step E n (started_signer n w ss)"
| client_reshare: "RpcService_Reshare (ne_alice E) (ne_protocols E) (ne_handler E) (ne_libp2p E) net (ne_pm E) data (nd_world n) = (w, rs, reply, rr) \<Longrightarrow>
    node_step E n (started_reshare n w rs)"
| grpc_dkg: "grpc_RegisterDKG (ne_eth E) (ne_alice E) (ne_protocols E) (ne_libp2p E) net (ne_addrs E) dproc (ne_pm E) hash (nd_world n) = (w, ds, dr) \<Longrightarrow>
    node_step E n (started_dkg n w ds)"
| grpc_sign: "grpc_SignMessage (ne_eth E) (ne_alice E) (ne_protocols E) (ne_handler E) (ne_libp2p E) net sproc marshal_s (ne_pm E) sreq (nd_world n) = (w, ss, sr) \<Longrightarrow>
    node_step E n (started_signer n w ss)"
| grpc_reshare: "grpc_Reshare (ne_alice E) (ne_protocols E) (ne_handler E) (ne_libp2p E) net marshal_r (ne_pm E) rreq (nd_world n) = (w, rs, rr) \<Longrightarrow>
    node_step E n (started_reshare n w rs)"
| peer_dkg: "TssPeerService_RegisterDKG (ne_protocols E) (ne_pm E) (ne_addrs E) bs (nd_world n) = (w, ds, ur) \<Longrightarrow>
    node_step E n (started_dkg n w ds)"
| peer_sign: "TssPeerService_SignMessage (ne_eth E) (ne_alice E) (ne_protocols E) (ne_handler E) (ne_unmarshal_sign E) (ne_pm E) bs (nd_world n) = (w, ss, ur) \<Longrightarrow>
    node_step E n (started_signer n w ss)"
| peer_reshare: "TssPeerService_Reshare (ne_alice E) (ne_protocols E) (ne_handler E) (ne_unmarshal_reshare E) (ne_pm E) bs (nd_world n) = (w, rs, ur) \<Longrightarrow>
    node_step E n (started_reshare n w rs)"
| dkg_message: "i < length (nd_dkgs n) \<Longrightarrow>
    node_step E n (n\<lparr>nd_dkgs := (nd_dkgs n)[i := Dkg_Handle buf (unmarshal :: byte list \<Rightarrow> byte list res) addd (nd_dkgs n ! i)]\<rparr>)"
| signer_message: "i < length (nd_signers n) \<Longrightarrow>
    node_step E n (n\<lparr>nd_signers := (nd_signers n)[i := Signer_Handle buf (unmarshal :: byte list \<Rightarrow> byte list res) adds (nd_signers n ! i)]\<rparr>)"
| reshare_message: "i < length (nd_reshares n) \<Longrightarrow>
    node_step E n (n\<lparr>nd_reshares := (nd_reshares n)[i := Reshare_Handle buf (unmarshal :: byte list \<Rightarrow> byte list res) addr (nd_reshares n ! i)]\<rparr>)"
| dkg_change: "i < length (nd_dkgs n) \<Longrightarrow>
    Dkg_OnStateChanged (ne_handler E) dres ns (nd_dkgs n ! i, nd_world n) = ((d, w), None) \<Longrightarrow>
    node_step E n (n\<lparr>nd_world := w, nd_dkgs := (nd_dkgs n)[i := d]\<rparr>)"
| signer_change: "i < length (nd_signers n) \<Longrightarrow>
    Signer_OnStateChanged (ne_handler E) sres ns (nd_signers n ! i, nd_world n) = ((s, w), None) \<Longrightarrow>
    node_step E n (n\<lparr>nd_world := w, nd_signers := (nd_signers n)[i := s]\<rparr>)"
| reshare_change: "i < length (nd_reshares n) \<Longrightarrow>
    Reshare_OnStateChanged (ne_handler E) rres ns (nd_reshares n ! i, nd_world n) = ((r, w), None) \<Longrightarrow>
    node_step E n (n\<lparr>nd_world := w, nd_reshares := (nd_reshares n)[i := r]\<rparr>)"

section \<open>Well-formed nodes\<close>

text \<open>The protocol a handler is registered for.\<close>

primrec handler_protocol :: "svc_ref \<Rightarrow> string" where
  "handler_protocol RpcHandle = ProtocolId"
| "handler_protocol (DkgHandle hash) = GetProtocol (before_dash hash)"
| "handler_protocol (SignerHandle hash) = GetProtocol hash"
| "handler_protocol (ReshareHandle hash) = GetProtocol hash"

definition handlers_ok :: "(string, svc_ref) fmap \<Rightarrow> bool" where
  "handlers_ok hs \<longleftrightarrow> (\<forall>p h. fmlookup hs p = Some h \<longrightarrow> handler_protocol h = p)"

definition peers_known :: "P2PManager \<Rightarrow> peer_heap \<Rightarrow> bool" where
  "peers_known pm hp \<longleftrightarrow> pm_peers pm < length hp \<and> peers_ok (pm_Host pm) (Peers hp pm)"

definition dkg_ok :: "P2PManager \<Rightarrow> 'dkg Dkg \<Rightarrow> bool" where
  "dkg_ok pm d \<longleftrightarrow> dkg_pm d = ClonePeerManager pm (GetProtocol (dkg_hash d)) \<and> dc_Rank (dkg_config d) = 0"

definition signer_ok :: "eth \<Rightarrow> P2PManager \<Rightarrow> 'signer Signer \<Rightarrow> bool" where
  "signer_ok e pm s \<longleftrightarrow>
     sg_pm s = ClonePeerManager pm (GetProtocol (sg_hash s)) \<and> sg_signer s \<noteq> None \<and> (\<exists>m. sg_hash s = ToHexHash e m)"

definition reshare_ok :: "P2PManager \<Rightarrow> 'reshare Reshare \<Rightarrow> bool" where
  "reshare_ok pm r \<longleftrightarrow> rs_pm r = ClonePeerManager pm (GetProtocol (rs_hash r)) \<and> rc_Threshold (rs_config r) = 2"

text \<open>The peer table holds addresses of other nodes; every handler is registered for its own
  protocol; every service talks through a clone of the node's manager, on the protocol of its hash;
  every signing service has its signer and is named by a hash.\<close>

definition node_ok ::
  "('s, 'pt, 'bk, 'dkg, 'pai, 'signer, 'reshare, 'ma, 'k, 'h) node_env \<Rightarrow> ('s, 'dkg, 'signer, 'reshare) node \<Rightarrow> bool"
where
  "node_ok E n \<longleftrightarrow>
     peers_known (ne_pm E) (w_peers (nd_world n)) \<and> handlers_ok (w_handlers (nd_world n)) \<and>
     list_all (dkg_ok (ne_pm E)) (nd_dkgs n) \<and> list_all (signer_ok (ne_eth E) (ne_pm E)) (nd_signers n) \<and>
     list_all (reshare_ok (ne_pm E)) (nd_reshares n)"

lemma handlers_ok_fmupd: "handlers_ok hs \<Longrightarrow> handler_protocol h = p \<Longrightarrow> handlers_ok (fmupd p h hs)"
  by (simp add: handlers_ok_def)

lemma handlers_ok_fmdrop: "handlers_ok hs \<Longrightarrow> handlers_ok (fmdrop p hs)"
  by (simp add: handlers_ok_def)

lemma before_dash_id: "CHR ''-'' \<notin> set h \<Longrightarrow> before_dash h = h"
  unfolding before_dash_def takeWhile_eq_all_conv by auto

text \<open>A call that starts services leaves the peer tables and the store alone, registers handlers for
  their own protocols only, and starts well-formed services.\<close>

definition starts :: "('svc \<Rightarrow> bool) \<Rightarrow> 's world \<Rightarrow> 's world \<Rightarrow> 'svc list \<Rightarrow> bool" where
  "starts ok w w' svcs \<longleftrightarrow>
     w_peers w' = w_peers w \<and> w_store w' = w_store w \<and> (handlers_ok (w_handlers w) \<longrightarrow> handlers_ok (w_handlers w')) \<and>
     list_all ok svcs"

lemma starts_none [simp]: "starts ok w w []"
  by (simp add: starts_def)

lemma NewDkgService_starts:
  assumes "NewDkgService P cfg (ClonePeerManager pm (GetProtocol hash)) addrs hash w = (w', r)" and "dc_Rank cfg = 0"
  shows "starts (dkg_ok pm) w w' (case r of Inl err \<Rightarrow> [] | Inr d \<Rightarrow> [d])"
  using assms
  by (auto simp: NewDkgService_def starts_def dkg_ok_def SetStreamHandler_def before_dash_id Let_def
      intro!: handlers_ok_fmupd split: sum.splits if_splits)

lemma NewSignerService_starts:
  assumes "NewSignerService e A P cfg (ClonePeerManager pm (GetProtocol (ToHexHash e (bytes_of msg)))) msg w = (w', r)"
  shows "starts (signer_ok e pm) w w' (case r of Inl err \<Rightarrow> [] | Inr s \<Rightarrow> [s])"
  using assms
  by (auto simp: NewSignerService_def starts_def signer_ok_def SetStreamHandler_def Let_def
      intro!: handlers_ok_fmupd split: sum.splits)

lemma NewReshareService_starts:
  assumes "NewReshareService A P (reshare_config cfg) (ClonePeerManager pm (GetProtocol hash)) hash w = (w', r)"
  shows "starts (reshare_ok pm) w w' (case r of Inl err \<Rightarrow> [] | Inr s \<Rightarrow> [s])"
  using assms
  by (auto simp: NewReshareService_def starts_def reshare_ok_def SetStreamHandler_def reshare_config_def
      intro!: handlers_ok_fmupd split: sum.splits)

lemma starts_prefix: "starts ok w w' svcs \<Longrightarrow> starts ok w w' []"
  by (simp add: starts_def)

lemma TssCaller_RegisterDKG_starts:
  assumes "TssCaller_RegisterDKG P (ClonePeerManager pm (GetProtocol hash)) addrs hash call proc w = (w', ds, r)"
  shows "starts (dkg_ok pm) w w' ds"
proof -
  obtain w1 r1 where new: "NewDkgService P \<lparr>dc_Rank = 0, dc_Threshold = NumPeers (w_peers w) (ClonePeerManager pm (GetProtocol hash))\<rparr>
      (ClonePeerManager pm (GetProtocol hash)) addrs hash w = (w1, r1)" by fastforce
  have "starts (dkg_ok pm) w w1 (case r1 of Inl err \<Rightarrow> [] | Inr d \<Rightarrow> [d])"
    by (rule NewDkgService_starts [OF new]) simp
  then show ?thesis
    using assms new
    by (auto simp: TssCaller_RegisterDKG_def Let_def split: sum.splits option.splits intro: starts_prefix)
qed

lemma TssCaller_SignMessage_starts:
  assumes "TssCaller_SignMessage e A P H (ClonePeerManager pm (GetProtocol (ToHexHash e (bytes_of (sreq_Message req))))) req call proc w = (w', ss, r)"
  shows "starts (signer_ok e pm) w w' ss"
  using assms
  by (auto simp: TssCaller_SignMessage_def split: sum.splits option.splits prod.splits
      dest!: NewSignerService_starts intro: starts_prefix)

lemma TssCaller_Reshare_starts:
  assumes "TssCaller_Reshare A P H (ClonePeerManager pm (GetProtocol (rreq_Hash req))) req call w = (w', rs, r)"
  shows "starts (reshare_ok pm) w w' rs"
  using assms
  by (auto simp: TssCaller_Reshare_def split: sum.splits option.splits prod.splits
      dest!: NewReshareService_starts intro: starts_prefix)

lemmas caller_starts = TssCaller_RegisterDKG_starts TssCaller_SignMessage_starts TssCaller_Reshare_starts

text \<open>So do the handlers of clients and peers, which make the clone of the manager.\<close>

lemma client_dkg_starts:
  "RpcService_RegisterDKG e A P L net addrs proc pm hash w = (w', ds, r) \<Longrightarrow> starts (dkg_ok pm) w w' ds"
  "grpc_RegisterDKG e A P L net addrs proc pm hash w = (w', ds, r) \<Longrightarrow> starts (dkg_ok pm) w w' ds"
  by (auto simp: RpcService_RegisterDKG_def grpc_RegisterDKG_def Let_def split: prod.splits dest: caller_starts(1))

lemma client_sign_starts:
  "RpcService_SignMessage e A P H L net proc pm data w = (w', ss, r) \<Longrightarrow> starts (signer_ok e pm) w w' ss"
  "grpc_SignMessage e A P H L net proc marshal pm req w = (w', ss, r) \<Longrightarrow> starts (signer_ok e pm) w w' ss"
  by (auto simp: RpcService_SignMessage_def grpc_SignMessage_def Let_def split: prod.splits sum.splits dest: caller_starts(2))

lemma client_reshare_starts:
  "RpcService_Reshare A P H L net pm data w = (w', rs, reply, rr) \<Longrightarrow> starts (reshare_ok pm) w w' rs"
  "grpc_Reshare A P H L net marshal pm req w = (w', rs, rr) \<Longrightarrow> starts (reshare_ok pm) w w' rs"
  by (auto simp: RpcService_Reshare_def grpc_Reshare_def Let_def split: prod.splits sum.splits dest: caller_starts(3))

lemma peer_starts:
  "TssPeerService_RegisterDKG P pm addrs bs w = (w', ds, ur) \<Longrightarrow> starts (dkg_ok pm) w w' ds"
  "TssPeerService_SignMessage e A P H unmarshal_s pm bs w = (w', ss, ur) \<Longrightarrow> starts (signer_ok e pm) w w' ss"
  "TssPeerService_Reshare A P H unmarshal_r pm bs w = (w', rs, ur) \<Longrightarrow> starts (reshare_ok pm) w w' rs"
  by (auto simp: TssPeerService_RegisterDKG_def TssPeerService_SignMessage_def TssPeerService_Reshare_def Let_def
      split: prod.splits sum.splits dest: caller_starts(1,2) NewReshareService_starts)

text \<open>A state change leaves the peer tables alone and at most removes a handler; the service keeps
  what makes it well-formed.\<close>

definition changes :: "('svc \<Rightarrow> bool) \<Rightarrow> 'svc \<times> 's world \<Rightarrow> 'svc \<times> 's world \<Rightarrow> bool" where
  "changes ok st st' \<longleftrightarrow>
     w_peers (snd st') = w_peers (snd st) \<and> (handlers_ok (w_handlers (snd st)) \<longrightarrow> handlers_ok (w_handlers (snd st'))) \<and>
     (ok (fst st) \<longrightarrow> ok (fst st'))"

lemma OnStateChanged_changes:
  "Dkg_OnStateChanged H dres ns (d, w) = (st', err) \<Longrightarrow> changes (dkg_ok pm) (d, w) st'"
  "Signer_OnStateChanged H sres ns (s, w) = (st'', err) \<Longrightarrow> changes (signer_ok e pm) (s, w) st''"
  "Reshare_OnStateChanged H rres ns (r, w) = (st''', err) \<Longrightarrow> changes (reshare_ok pm) (r, w) st'''"
  by (auto simp: Dkg_OnStateChanged_def Dkg_close_def Dkg_save_def Signer_OnStateChanged_def Signer_closeDone_def
      Signer_save_def Reshare_OnStateChanged_def Reshare_closeDone_def Reshare_save_def changes_def dkg_ok_def
      signer_ok_def reshare_ok_def RemoveStreamHandler_def handlers_ok_fmdrop chan_close_def Let_def
      split: if_splits sum.splits prod.splits)

lemma Handle_ok:
  "dkg_ok pm d \<Longrightarrow> dkg_ok pm (Dkg_Handle buf unmarshal addd d)"
  "signer_ok e pm s \<Longrightarrow> signer_ok e pm (Signer_Handle buf unmarshal adds s)"
  "reshare_ok pm r \<Longrightarrow> reshare_ok pm (Reshare_Handle buf unmarshal addr r)"
  by (auto simp: Dkg_Handle_def Signer_Handle_def Reshare_Handle_def dkg_ok_def signer_ok_def reshare_ok_def
      split: sum.splits option.splits)

lemma peers_ok_fmupd:
  "peers_ok self m \<Longrightarrow> k \<noteq> self \<Longrightarrow> peers_ok self (fmupd k (a @ ''/p2p/'' @ k) m)"
  by (auto simp: peers_ok_def)

lemma HandlePeerFound_known:
  assumes "HandlePeerFound hp pm pi connected = (hp', None)" and "peers_known pm hp"
  shows "peers_known pm hp'"
  using HandlePeerFound_cases [OF assms(1)] assms(2) peers_ok_fmupd [of "pm_Host pm"]
  by (auto simp: peers_known_def Peers_AddPeerID)

lemma list_all_update: "list_all ok xs \<Longrightarrow> ok y \<Longrightarrow> list_all ok (xs[i := y])"
  by (auto simp: list_all_iff dest: set_update_subset_insert [THEN subsetD])

lemma list_all_nth: "list_all ok xs \<Longrightarrow> i < length xs \<Longrightarrow> ok (xs ! i)"
  by (simp add: list_all_length)

lemma node_step_ok:
  assumes "node_step E n n'" and "node_ok E n"
  shows "node_ok E n'"
  using assms
proof (induction rule: node_step.induct)
  case (peer_found n pi connected hp)
  then show ?case by (simp add: node_ok_def HandlePeerFound_known)
next
  case (dkg_change i n dres ns d w)
  then show ?case
    using OnStateChanged_changes(1) [OF dkg_change(2), of "ne_pm E"] list_all_nth [of "dkg_ok (ne_pm E)" "nd_dkgs n" i]
    by (auto simp: node_ok_def changes_def intro!: list_all_update)
next
  case (signer_change i n sres ns s w)
  then show ?case
    using OnStateChanged_changes(2) [OF signer_change(2), of "ne_eth E" "ne_pm E"]
      list_all_nth [of "signer_ok (ne_eth E) (ne_pm E)" "nd_signers n" i]
    by (auto simp: node_ok_def changes_def intro!: list_all_update)
next
  case (reshare_change i n rres ns r w)
  then show ?case
    using OnStateChanged_changes(3) [OF reshare_change(2), of "ne_pm E"]
      list_all_nth [of "reshare_ok (ne_pm E)" "nd_reshares n" i]
    by (auto simp: node_ok_def changes_def intro!: list_all_update)
qed (auto simp: node_ok_def starts_def list_all_nth intro!: list_all_update Handle_ok
    dest!: client_dkg_starts client_sign_starts client_reshare_starts peer_starts)

lemma node_steps_ok: "(node_step E)\<^sup>*\<^sup>* n n' \<Longrightarrow> node_ok E n \<Longrightarrow> node_ok E n'"
  by (induction rule: rtranclp_induct) (auto intro: node_step_ok)

section \<open>Properties\<close>

text \<open>The node a process has when it starts to serve.\<close>

definition node_of :: "('db, 'pt, 'bk, 'h) process \<Rightarrow> ('db store_state, 'dkg, 'signer, 'reshare) node" where
  "node_of st = \<lparr>nd_world = \<lparr>w_peers = pr_peers st, w_handlers = pr_handlers st, w_store = the (pr_store st)\<rparr>,
     nd_dkgs = [], nd_signers = [], nd_reshares = []\<rparr>"

text \<open>A node is well-formed when \<^verbatim>\<open>main\<close> has started it, and stays so whatever discovery reports, clients
  and peers ask for, and the protocols do: its table holds addresses of other nodes, every stream
  handler is registered for the protocol it serves, and every service uses a clone of the node's
  manager on the protocol of its hash.\<close>

lemma started_node_ok:
  assumes "main S e A fl v = (st, Serves)" and "pr_router st = Some (receiver, addr)"
    and "\<And>p hs. sys_rpc_NewServer S p hs = fmupd p RpcHandle hs" and "ne_pm E = rpcs_pm receiver"
  shows "node_ok E (node_of st)"
proof -
  from serving_node [OF assms(1,2)] obtain pid where
    "rpcs_pm receiver = main_pm pid" "pr_peers st = [fmempty]" "pr_handlers st = fmupd ProtocolId RpcHandle fmempty"
    by (auto simp: assms(3))
  then show ?thesis
    using assms(4) by (simp add: node_ok_def node_of_def peers_known_def main_pm_def Peers_def peers_ok_def handlers_ok_def)
qed

lemma reachable_node_ok:
  assumes "main S e A fl v = (st, Serves)" and "pr_router st = Some (receiver, addr)"
    and "\<And>p hs. sys_rpc_NewServer S p hs = fmupd p RpcHandle hs"
    and "ne_pm E = rpcs_pm receiver" and "(node_step E)\<^sup>*\<^sup>* (node_of st) n"
  shows "node_ok E n"
  using node_steps_ok [OF assms(5) started_node_ok [OF assms(1-4)]] .

text \<open>C33: Two signings of one message get into each other's way: both listen on the protocol of the
  message's hash, so the one that ends first takes the handler of the other with it.  The other has
  not ended, and no peer reaches it any more.\<close>

theorem finished_signing_disconnects_other:
  assumes "NewSignerService e A P cfg pm msg w = (w1, Inr p)" and "NewSignerService e A P cfg' pm' msg w1 = (w2, Inr q)"
    and "ns \<noteq> StateInit" and "Signer_OnStateChanged H res ns (p, w2) = ((p', w3), err)"
  shows "\<not> sg_done q \<and> fmlookup (w_handlers w2) (GetProtocol (sg_hash q)) = Some (SignerHandle (sg_hash q)) \<and>
    fmlookup (w_handlers w3) (GetProtocol (sg_hash q)) = None"
proof -
  let ?h = "ToHexHash e (bytes_of msg)"
  have p: "\<not> sg_done p" "sg_hash p = ?h" and q: "\<not> sg_done q" "sg_hash q = ?h"
    and w2: "w2 = SetStreamHandler (GetProtocol ?h) (SignerHandle ?h) w1"
    using assms(1,2) by (auto simp: NewSignerService_def Let_def split: sum.splits)
  have "w_handlers w3 = fmdrop (GetProtocol ?h) (w_handlers w2)"
    using assms(3,4) p
    by (cases ns; cases res) (auto simp: Signer_OnStateChanged_def Signer_closeDone_def Signer_save_def chan_close_def
        RemoveStreamHandler_def Let_def split: prod.splits)
  then show ?thesis using q w2 by (simp add: SetStreamHandler_def)
qed

section \<open>Witnesses\<close>

definition env0 ::
  "P2PManager \<Rightarrow> (db0 store_state, pt0, bk0, unit, unit, unit, unit, string, int, string) node_env"
where
  "env0 pm =
     \<lparr>ne_eth = eth0, ne_alice = alice0, ne_protocols = protocols0, ne_handler = store_db eth0 alice0 badger0,
      ne_libp2p = libp2p0, ne_unmarshal_sign = (\<lambda>b. Inl SyntaxError), ne_unmarshal_reshare = (\<lambda>b. Inl SyntaxError),
      ne_pm = pm, ne_addrs = [''/ip4/127.0.0.1/tcp/10001'']\<rparr>"

theorem finished_signing_disconnects_other_witness:
  "\<exists>w1 w2 p q p' w3 err.
     NewSignerService eth0 alice0 protocols0 (config_of alice0 result0) pm0 ''ab'' world0 = (w1, Inr p) \<and>
     NewSignerService eth0 alice0 protocols0 (config_of alice0 result0) pm0 ''ab'' w1 = (w2, Inr q) \<and>
     Signer_OnStateChanged (mock_handler eth0 alice0) (Inl ErrConversion) StateDone (p, w2) = ((p', w3), err) \<and>
     \<not> sg_done q \<and> fmlookup (w_handlers w3) (GetProtocol (sg_hash q)) = None"
proof -
  have new: "\<exists>w' s. NewSignerService eth0 alice0 protocols0 (config_of alice0 result0) pm0 ''ab'' w = (w', Inr s)" for w :: "mock world"
    by (simp add: NewSignerService_def createSigner_def protocols0_def Convert_result0 Let_def)
  obtain w1 p where p: "NewSignerService eth0 alice0 protocols0 (config_of alice0 result0) pm0 ''ab'' world0 = (w1, Inr p)"
    using new by blast
  obtain w2 q where q: "NewSignerService eth0 alice0 protocols0 (config_of alice0 result0) pm0 ''ab'' w1 = (w2, Inr q)"
    using new by blast
  obtain p' w3 err where ch: "Signer_OnStateChanged (mock_handler eth0 alice0) (Inl ErrConversion) StateDone (p, w2) = ((p', w3), err)"
    by (metis surj_pair)
  from finished_signing_disconnects_other [OF p q _ ch] p q ch show ?thesis by blast
qed

end
