(* ===== verification/Network.thy ===== *)
theory Network
  imports Node
begin

text \<open>
  Several nodes: a call of one node's client, delivered by the network to the peers of its table and
  handled there by \<^verbatim>\<open>TssPeerService\<close>.  The operations are those of \<open>Rpc\<close> and \<open>Tss\<close>; nothing here
  models code of its own.
\<close>

section \<open>Delivery\<close>

text \<open>A call on the receiver \<^verbatim>\<open>main\<close> registers, under the name of its type.\<close>

definition peer_serve ::
  "('s, 'pt, 'bk, 'dkg, 'pai, 'signer, 'reshare, 'ma, 'k, 'h) node_env \<Rightarrow> PeerArgs \<Rightarrow>
   ('s, 'dkg, 'signer, 'reshare) node \<Rightarrow> ('s, 'dkg, 'signer, 'reshare) node \<times> unit outcome"
where
  "peer_serve E args n =
     (if SvcName args \<noteq> ''TssPeerService'' then (n, Gives (Inl (LibError ''rpc: no such service'')))
      else if SvcMethod args = ''SignMessage'' then
        (let (w, ss, r) = TssPeerService_SignMessage (ne_eth E) (ne_alice E) (ne_protocols E) (ne_handler E)
           (ne_unmarshal_sign E) (ne_pm E) (args_Data args) (nd_world n) in (started_signer n w ss, r))
      else if SvcMethod args = ''Reshare'' then
        (let (w, rs, r) = TssPeerService_Reshare (ne_alice E) (ne_protocols E) (ne_handler E)
           (ne_unmarshal_reshare E) (ne_pm E) (args_Data args) (nd_world n) in (started_reshare n w rs, r))
      else if SvcMethod args = ''RegisterDKG'' then
        (let (w, ds, r) = TssPeerService_RegisterDKG (ne_protocols E) (ne_pm E) (ne_addrs E) (args_Data args) (nd_world n)
         in (started_dkg n w ds, r))
      else (n, Gives (Inl (LibError ''rpc: no such method''))))"

text \<open>The network between the nodes: connecting may fail for a while, a call that gets through has the
  result of the peer's handler.\<close>

definition net_of ::
  "(nat \<Rightarrow> AddrInfo \<Rightarrow> go_error option) \<Rightarrow>
   (string \<Rightarrow> ('s, 'pt, 'bk, 'dkg, 'pai, 'signer, 'reshare, 'ma, 'k, 'h) node_env) \<Rightarrow>
   (string \<Rightarrow> ('s, 'dkg, 'signer, 'reshare) node) \<Rightarrow> network"
where
  "net_of conn E N =
     \<lparr>net_Connect = conn,
      net_Call = (\<lambda>t k args. case snd (peer_serve (E k) args (N k)) of
         Blocked \<Rightarrow> Some (LibError ''timeout'') | Gives (Inl err) \<Rightarrow> Some err | Gives (Inr u) \<Rightarrow> None)\<rparr>"

lemma net_of_sel [simp]:
  "net_Connect (net_of conn E N) = conn"
  "net_Call (net_of conn E N) t k args = (case snd (peer_serve (E k) args (N k)) of
     Blocked \<Rightarrow> Some (LibError ''timeout'') | Gives (Inl err) \<Rightarrow> Some err | Gives (Inr u) \<Rightarrow> None)"
  by (simp_all add: net_of_def)

text \<open>The addresses of the table are those of the peers they stand for, which the table of a
  well-formed node has by construction.\<close>

definition addresses_ok :: "('ma, 'k, 'h) libp2p \<Rightarrow> (string, string) fmap \<Rightarrow> bool" where
  "addresses_ok L peers \<longleftrightarrow>
     (\<forall>k a. fmlookup peers k = Some a \<longrightarrow>
        (\<exists>ma info. NewMultiaddr L a = Inr ma \<and> AddrInfoFromP2pAddr L ma = Inr info \<and> ai_ID info = k))"

lemma addresses_okE:
  assumes "addresses_ok L peers" and "fmlookup peers k = Some a"
  obtains ma info where "NewMultiaddr L a = Inr ma" and "AddrInfoFromP2pAddr L ma = Inr info" and "ai_ID info = k"
  using assms unfolding addresses_ok_def by blast

lemma MsgToPeer_delivers:
  assumes "NewMultiaddr L a = Inr ma" and "AddrInfoFromP2pAddr L ma = Inr info" and "ai_ID info = k"
    and "conn t info = None"
  shows "(\<exists>t. \<not> isl (MsgToPeer L (net_of conn E N) (peer_args svc meth data a) t)) \<longleftrightarrow>
    snd (peer_serve (E k) (peer_args svc meth data a) (N k)) = Gives (Inr ())"
proof -
  let ?r = "snd (peer_serve (E k) (peer_args svc meth data a) (N k))"
  have "MsgToPeer L (net_of conn E N) (peer_args svc meth data a) t' =
      (case conn t' info of Some err \<Rightarrow> Inl err
       | None \<Rightarrow> (case ?r of Blocked \<Rightarrow> Inl (LibError ''timeout'') | Gives (Inl err) \<Rightarrow> Inl err | Gives (Inr u) \<Rightarrow> Inr ()))" for t'
    using assms(1-3) by (simp add: MsgToPeer_def peer_args_def split: outcome.splits sum.splits option.splits)
  then show ?thesis
    using assms(4) by (cases ?r) (auto split: sum.splits option.splits intro!: exI [of _ t])
qed

text \<open>A peer that cannot handle the call is called for ever, connected or not.\<close>

lemma MsgToPeer_refused:
  assumes "AddrInfoFromP2pAddr L ma = Inr info" and "NewMultiaddr L a = Inr ma" and "ai_ID info = k"
    and "snd (peer_serve (E k) (peer_args svc meth data a) (N k)) \<noteq> Gives (Inr ())"
  shows "isl (MsgToPeer L (net_of conn E N) (peer_args svc meth data a) t)"
  using assms by (auto simp: MsgToPeer_def peer_args_def split: outcome.splits sum.splits option.splits)

lemma RpcToPeer_net:
  assumes "addresses_ok L (Peers hp pm)" and "\<And>info. \<exists>t. conn t info = None"
    and "\<And>k a. fmlookup (Peers hp pm) k = Some a \<Longrightarrow> snd (peer_serve (E k) (peer_args svc meth data a) (N k)) = Gives (Inr ())"
  shows "RpcToPeer L (net_of conn E N) hp (ClonePeerManager pm p) svc meth data =
    Some (map (\<lambda>(k, a). peer_args svc meth data a) (sorted_list_of_fmap (Peers hp pm)), None)"
proof -
  have "\<exists>t. \<not> isl (MsgToPeer L (net_of conn E N) (peer_args svc meth data a) t)" if "fmlookup (Peers hp pm) k = Some a" for k a
  proof -
    from addresses_okE [OF assms(1) that] obtain ma info
      where r: "NewMultiaddr L a = Inr ma" "AddrInfoFromP2pAddr L ma = Inr info" "ai_ID info = k" .
    obtain t where "conn t info = None" using assms(2) by blast
    from MsgToPeer_delivers [where conn = conn, OF r this] assms(3) [OF that] show ?thesis by blast
  qed
  then show ?thesis unfolding RpcToPeer_eq by auto
qed

lemma RpcToPeer_refused:
  assumes "addresses_ok L (Peers hp pm)" and "fmlookup (Peers hp pm) k = Some a"
    and "snd (peer_serve (E k) (peer_args svc meth data a) (N k)) \<noteq> Gives (Inr ())"
  shows "RpcToPeer L (net_of conn E N) hp (ClonePeerManager pm p) svc meth data = None"
proof -
  from addresses_okE [OF assms(1,2)] obtain ma info
    where r: "NewMultiaddr L a = Inr ma" "AddrInfoFromP2pAddr L ma = Inr info" "ai_ID info = k" .
  have "isl (MsgToPeer L (net_of conn E N) (peer_args svc meth data a) t)" for t
    by (rule MsgToPeer_refused [OF r(2,1,3), where E = E and N = N, OF assms(3)])
  moreover have "(k, a) \<in> set (sorted_list_of_fmap (Peers hp pm))" using assms(2) by simp
  ultimately show ?thesis unfolding RpcToPeer_eq Peers_Clone by (auto intro!: bexI [of _ "(k, a)"])
qed

section \<open>A request that goes to every peer\<close>

abbreviation known_peers where
  "known_peers E n \<equiv> Peers (w_peers (nd_world n)) (ne_pm E)"

text \<open>
  The contract of a request a client makes of one node and that node of its peers: \<open>able\<close> says that a
  node can take part, \<open>begun\<close> what it is like when it does, \<open>ask\<close> is the client's call, which is
  \<open>answered\<close> when the peers have been told and \<open>blocked\<close> when they never are.  All holds provided the
  request is a valid one (\<open>valid\<close>).
\<close>

locale peer_request =
  fixes valid :: bool
    and able :: "('s, 'pt, 'bk, 'dkg, 'pai, 'signer, 'reshare, 'ma, 'k, 'h) node_env \<Rightarrow> ('s, 'dkg, 'signer, 'reshare) node \<Rightarrow> bool"
    and begun :: "('s, 'pt, 'bk, 'dkg, 'pai, 'signer, 'reshare, 'ma, 'k, 'h) node_env \<Rightarrow>
      ('s, 'dkg, 'signer, 'reshare) node \<Rightarrow> ('s, 'dkg, 'signer, 'reshare) node \<Rightarrow> bool"
    and meth :: string and bs :: "byte list"
    and protocol :: "('s, 'pt, 'bk, 'dkg, 'pai, 'signer, 'reshare, 'ma, 'k, 'h) node_env \<Rightarrow> string"
    and ask :: "('s, 'pt, 'bk, 'dkg, 'pai, 'signer, 'reshare, 'ma, 'k, 'h) node_env \<Rightarrow> network \<Rightarrow>
      ('s, 'dkg, 'signer, 'reshare) node \<Rightarrow> 'a"
    and answered :: "('s, 'pt, 'bk, 'dkg, 'pai, 'signer, 'reshare, 'ma, 'k, 'h) node_env \<Rightarrow> ('s, 'dkg, 'signer, 'reshare) node \<Rightarrow> 'a \<Rightarrow> bool"
    and blocked :: "('s, 'pt, 'bk, 'dkg, 'pai, 'signer, 'reshare, 'ma, 'k, 'h) node_env \<Rightarrow> ('s, 'dkg, 'signer, 'reshare) node \<Rightarrow> 'a \<Rightarrow> bool"
  assumes serve_able: "valid \<Longrightarrow> able E n \<Longrightarrow>
      \<exists>n'. peer_serve E (peer_args ''TssPeerService'' meth bs a) n = (n', Gives (Inr ())) \<and> begun E n n'"
    and serve_unable: "valid \<Longrightarrow> \<not> able E n \<Longrightarrow>
      \<exists>err. peer_serve E (peer_args ''TssPeerService'' meth bs a) n = (n, Gives (Inl err))"
    and ask_told: "valid \<Longrightarrow> able E n \<Longrightarrow>
      RpcToPeer (ne_libp2p E) net (w_peers (nd_world n)) (ClonePeerManager (ne_pm E) (protocol E)) ''TssPeerService'' meth bs =
        Some (sent, None) \<Longrightarrow> answered E n (ask E net n)"
    and ask_not_told: "valid \<Longrightarrow> able E n \<Longrightarrow>
      RpcToPeer (ne_libp2p E) net (w_peers (nd_world n)) (ClonePeerManager (ne_pm E) (protocol E)) ''TssPeerService'' meth bs =
        None \<Longrightarrow> blocked E n (ask E net n)"
begin

lemma all_able:
  assumes valid and "addresses_ok (ne_libp2p (E i)) (known_peers (E i) (N i))" and "\<And>info. \<exists>t. conn t info = None"
    and "\<And>j. j = i \<or> j |\<in>| fmdom (known_peers (E i) (N i)) \<Longrightarrow> able (E j) (N j)"
  shows "answered (E i) (N i) (ask (E i) (net_of conn E N) (N i))"
    and "fmlookup (known_peers (E i) (N i)) k = Some a \<Longrightarrow>
      \<exists>n'. peer_serve (E k) (peer_args ''TssPeerService'' meth bs a) (N k) = (n', Gives (Inr ())) \<and> begun (E k) (N k) n'"
proof -
  have serve: "\<exists>n'. peer_serve (E k) (peer_args ''TssPeerService'' meth bs a) (N k) = (n', Gives (Inr ())) \<and> begun (E k) (N k) n'"
    if "fmlookup (known_peers (E i) (N i)) k = Some a" for k a
    by (rule serve_able [OF assms(1) assms(4) [OF disjI2 [OF fmdomI [OF that]]]])
  then have "snd (peer_serve (E k) (peer_args ''TssPeerService'' meth bs a) (N k)) = Gives (Inr ())"
    if "fmlookup (known_peers (E i) (N i)) k = Some a" for k a
    using that by fastforce
  note told = RpcToPeer_net [where conn = conn and E = E and N = N, OF assms(2,3) this]
  show "answered (E i) (N i) (ask (E i) (net_of conn E N) (N i))"
    by (rule ask_told [OF assms(1) assms(4) [OF disjI1 [OF refl]] told])
  show "fmlookup (known_peers (E i) (N i)) k = Some a \<Longrightarrow>
      \<exists>n'. peer_serve (E k) (peer_args ''TssPeerService'' meth bs a) (N k) = (n', Gives (Inr ())) \<and> begun (E k) (N k) n'"
    by (rule serve)
qed

lemma one_unable:
  assumes valid and "addresses_ok (ne_libp2p (E i)) (known_peers (E i) (N i))"
    and "able (E i) (N i)" and "k |\<in>| fmdom (known_peers (E i) (N i))" and "\<not> able (E k) (N k)"
  shows "blocked (E i) (N i) (ask (E i) (net_of conn E N) (N i))"
proof -
  obtain a where a: "fmlookup (known_peers (E i) (N i)) k = Some a" using assms(4) by (meson fmlookup_dom_iff)
  have "snd (peer_serve (E k) (peer_args ''TssPeerService'' meth bs a) (N k)) \<noteq> Gives (Inr ())"
    using serve_unable [OF assms(1,5), of a] by auto
  note refused = RpcToPeer_refused [where E = E and N = N, OF assms(2) a this]
  show ?thesis by (rule ask_not_told [OF assms(1,3) refused])
qed

text \<open>A request that was answered has started on every peer.\<close>

lemma answered_begun:
  assumes valid and "addresses_ok (ne_libp2p (E i)) (known_peers (E i) (N i))" and "able (E i) (N i)"
    and "\<not> blocked (E i) (N i) (ask (E i) (net_of conn E N) (N i))" and "fmlookup (known_peers (E i) (N i)) k = Some a"
  shows "\<exists>n'. peer_serve (E k) (peer_args ''TssPeerService'' meth bs a) (N k) = (n', Gives (Inr ())) \<and> begun (E k) (N k) n'"
proof -
  have "able (E k) (N k)"
    using one_unable [where conn = conn and E = E and N = N, OF assms(1-3) fmdomI [OF assms(5)]] assms(4) by blast
  from serve_able [OF assms(1) this] show ?thesis .
qed

text \<open>So the request starts on every node or on none that has not been told.\<close>

lemma all_or_blocked:
  assumes valid and "addresses_ok (ne_libp2p (E i)) (known_peers (E i) (N i))" and "\<And>info. \<exists>t. conn t info = None"
    and "able (E i) (N i)"
  shows "if \<forall>k. k |\<in>| fmdom (known_peers (E i) (N i)) \<longrightarrow> able (E k) (N k)
    then answered (E i) (N i) (ask (E i) (net_of conn E N) (N i)) \<and>
      (\<forall>k a. fmlookup (known_peers (E i) (N i)) k = Some a \<longrightarrow>
         (\<exists>n'. peer_serve (E k) (peer_args ''TssPeerService'' meth bs a) (N k) = (n', Gives (Inr ())) \<and> begun (E k) (N k) n'))
    else blocked (E i) (N i) (ask (E i) (net_of conn E N) (N i))"
proof (cases "\<forall>k. k |\<in>| fmdom (known_peers (E i) (N i)) \<longrightarrow> able (E k) (N k)")
  case True
  then have "able (E j) (N j)" if "j = i \<or> j |\<in>| fmdom (known_peers (E i) (N i))" for j using that assms(4) by blast
  note all_able [where conn = conn and E = E and N = N, OF assms(1-3) this]
  then show ?thesis by (simp only: if_P [OF True]) blast
next
  case False
  then obtain k where "k |\<in>| fmdom (known_peers (E i) (N i))" "\<not> able (E k) (N k)" by blast
  from one_unable [where conn = conn and E = E and N = N, OF assms(1,2,4) this] show ?thesis by (simp only: if_not_P [OF False])
qed

end

section \<open>What a node needs\<close>

text \<open>To sign or reshare, a configuration for the key and the protocol object made from it; for a key
  generation, an address and the protocol object.\<close>

definition can_sign ::
  "('s, 'pt, 'bk, 'dkg, 'pai, 'signer, 'reshare, 'ma, 'k, 'h) node_env \<Rightarrow> SignRequest \<Rightarrow> ('s, 'dkg, 'signer, 'reshare) node \<Rightarrow> bool"
where
  "can_sign E req n \<longleftrightarrow>
     (\<exists>cfg signer. GetSignerConfig (ne_handler E) (sreq_Hash req) (sreq_Pubkey req) (w_store (nd_world n)) = Inr cfg \<and>
        createSigner (ne_eth E) (ne_alice E) (ne_protocols E) cfg
          (w_peers (nd_world n), ClonePeerManager (ne_pm E) (GetProtocol (ToHexHash (ne_eth E) (bytes_of (sreq_Message req)))))
          (sreq_Message req) = Inr signer)"

definition can_dkg ::
  "('s, 'pt, 'bk, 'dkg, 'pai, 'signer, 'reshare, 'ma, 'k, 'h) node_env \<Rightarrow> string \<Rightarrow> ('s, 'dkg, 'signer, 'reshare) node \<Rightarrow> bool"
where
  "can_dkg E hash n \<longleftrightarrow>
     (\<exists>port dkg. getPort (ne_addrs E) = Inr port \<and>
        NewDKG (ne_protocols E) GetCurve (w_peers (nd_world n), ClonePeerManager (ne_pm E) (GetProtocol hash))
          (NumPeers (w_peers (nd_world n)) (ne_pm E)) 0 = Inr dkg)"

lemma NumPeers_Clone [simp]: "NumPeers hp (ClonePeerManager pm p) = NumPeers hp pm"
  by (simp add: NumPeers_def)

text \<open>A node that has what it needs starts a service; another changes nothing and reports an error.\<close>

definition signing :: "eth \<Rightarrow> SignRequest \<Rightarrow> ('s, 'dkg, 'signer, 'reshare) node \<Rightarrow> ('s, 'dkg, 'signer, 'reshare) node \<Rightarrow> bool" where
  "signing e req n n' \<longleftrightarrow>
     (\<exists>s. nd_signers n' = nd_signers n @ [s] \<and> sg_hash s = ToHexHash e (bytes_of (sreq_Message req)) \<and> \<not> sg_done s \<and>
        w_handlers (nd_world n') = fmupd (GetProtocol (sg_hash s)) (SignerHandle (sg_hash s)) (w_handlers (nd_world n)))"

lemma peer_serve_sign:
  assumes "UnmarshalRequest decode_SignRequest (ne_unmarshal_sign E) bs = Inr req"
  shows "can_sign E req n \<Longrightarrow>
      \<exists>n'. peer_serve E (peer_args ''TssPeerService'' ''SignMessage'' bs a) n = (n', Gives (Inr ())) \<and> signing (ne_eth E) req n n'"
    and "\<not> can_sign E req n \<Longrightarrow>
      \<exists>err. peer_serve E (peer_args ''TssPeerService'' ''SignMessage'' bs a) n = (n, Gives (Inl err))"
  using assms
  by (auto simp: can_sign_def signing_def peer_serve_def peer_args_def TssPeerService_SignMessage_def TssCaller_SignMessage_def
      NewSignerService_def SetStreamHandler_def Let_def split: sum.splits)

definition generating ::
  "('s, 'pt, 'bk, 'dkg, 'pai, 'signer, 'reshare, 'ma, 'k, 'h) node_env \<Rightarrow> string \<Rightarrow>
   ('s, 'dkg, 'signer, 'reshare) node \<Rightarrow> ('s, 'dkg, 'signer, 'reshare) node \<Rightarrow> bool" where
  "generating E hash n n' \<longleftrightarrow>
     (\<exists>d. nd_dkgs n' = nd_dkgs n @ [d] \<and> dkg_hash d = hash \<and> \<not> dkg_done d \<and>
        dkg_config d = \<lparr>dc_Rank = 0, dc_Threshold = NumPeers (w_peers (nd_world n)) (ne_pm E)\<rparr> \<and>
        w_handlers (nd_world n') = fmupd (GetProtocol (before_dash hash)) (DkgHandle hash) (w_handlers (nd_world n)))"

lemma peer_serve_dkg:
  "can_dkg E hash n \<Longrightarrow>
     \<exists>n'. peer_serve E (peer_args ''TssPeerService'' ''RegisterDKG'' (bytes_of hash) a) n = (n', Gives (Inr ())) \<and> generating E hash n n'"
  "\<not> can_dkg E hash n \<Longrightarrow>
     \<exists>err. peer_serve E (peer_args ''TssPeerService'' ''RegisterDKG'' (bytes_of hash) a) n = (n, Gives (Inl err))"
  by (auto simp: can_dkg_def generating_def peer_serve_def peer_args_def TssPeerService_RegisterDKG_def TssCaller_RegisterDKG_def
      NewDkgService_def SetStreamHandler_def before_dash_id Let_def split: sum.splits)

definition can_reshare ::
  "('s, 'pt, 'bk, 'dkg, 'pai, 'signer, 'reshare, 'ma, 'k, 'h) node_env \<Rightarrow> ReshareRequest \<Rightarrow> ('s, 'dkg, 'signer, 'reshare) node \<Rightarrow> bool"
where
  "can_reshare E req n \<longleftrightarrow>
     (\<exists>cfg r x. GetSignerConfig (ne_handler E) (rreq_Hash req) (rreq_Pubkey req) (w_store (nd_world n)) = Inr cfg \<and>
        ConvertDKGResult (ne_alice E) (sc_Pubkey cfg) (sc_Share cfg) (sc_BKs cfg) = Inr r \<and>
        NewReshare (ne_protocols E) (w_peers (nd_world n), ClonePeerManager (ne_pm E) (GetProtocol (rreq_Hash req))) 2
          (r_PublicKey r) (r_Share r) (r_Bks r) = Inr x)"

definition resharing :: "ReshareRequest \<Rightarrow> ('s, 'dkg, 'signer, 'reshare) node \<Rightarrow> ('s, 'dkg, 'signer, 'reshare) node \<Rightarrow> bool" where
  "resharing req n n' \<longleftrightarrow>
     (\<exists>r. nd_reshares n' = nd_reshares n @ [r] \<and> rs_hash r = rreq_Hash req \<and> \<not> rs_done r \<and> rc_Threshold (rs_config r) = 2 \<and>
        w_handlers (nd_world n') = fmupd (GetProtocol (rreq_Hash req)) (ReshareHandle (rreq_Hash req)) (w_handlers (nd_world n)))"

lemma peer_serve_reshare:
  assumes "UnmarshalRequest decode_ReshareRequest (ne_unmarshal_reshare E) bs = Inr req"
  shows "can_reshare E req n \<Longrightarrow>
      \<exists>n'. peer_serve E (peer_args ''TssPeerService'' ''Reshare'' bs a) n = (n', Gives (Inr ())) \<and> resharing req n n'"
    and "\<not> can_reshare E req n \<Longrightarrow>
      \<exists>err. peer_serve E (peer_args ''TssPeerService'' ''Reshare'' bs a) n = (n, Gives (Inl err))"
  using assms
  by (auto simp: can_reshare_def resharing_def peer_serve_def peer_args_def TssPeerService_Reshare_def
      NewReshareService_def reshare_config_def SetStreamHandler_def Let_def split: sum.splits)

section \<open>The node a client asked\<close>

text \<open>What the client gets once the services run: what \<^verbatim>\<open>Process\<close> leaves in the service.\<close>

definition result_of :: "'r res option \<Rightarrow> 'r option outcome" where
  "result_of r = (case r of None \<Rightarrow> Blocked | Some (Inl err) \<Rightarrow> Gives (Inl err) | Some (Inr x) \<Rightarrow> Gives (Inr (Some x)))"

abbreviation ask_sign where
  "ask_sign E net proc data n \<equiv>
     RpcService_SignMessage (ne_eth E) (ne_alice E) (ne_protocols E) (ne_handler E) (ne_libp2p E) net proc (ne_pm E) data (nd_world n)"

abbreviation ask_dkg where
  "ask_dkg E net proc hash n \<equiv>
     RpcService_RegisterDKG (ne_eth E) (ne_alice E) (ne_protocols E) (ne_libp2p E) net (ne_addrs E) proc (ne_pm E) hash (nd_world n)"

abbreviation ask_reshare where
  "ask_reshare E net data n \<equiv>
     RpcService_Reshare (ne_alice E) (ne_protocols E) (ne_handler E) (ne_libp2p E) net (ne_pm E) data (nd_world n)"

lemma ask_sign_called:
  assumes "unmarshalRequestData decode_SignRequest data = Inr req" and "can_sign E req n"
    and "RpcToPeer (ne_libp2p E) net (w_peers (nd_world n))
        (ClonePeerManager (ne_pm E) (GetProtocol (ToHexHash (ne_eth E) (bytes_of (sreq_Message req)))))
        ''TssPeerService'' ''SignMessage'' (bytes_of (json_text data)) = call"
  shows "case call of
      None \<Rightarrow> \<exists>w. ask_sign E net proc data n = (w, [], Blocked) \<and>
        fmlookup (w_handlers w) (GetProtocol (ToHexHash (ne_eth E) (bytes_of (sreq_Message req)))) =
          Some (SignerHandle (ToHexHash (ne_eth E) (bytes_of (sreq_Message req))))
    | Some (sent, None) \<Rightarrow> \<exists>w s. ask_sign E net proc data n =
          (w, [s], sign_reply (ToHexHash (ne_eth E) (bytes_of (sreq_Message req))) (result_of (proc s))) \<and>
        signing (ne_eth E) req n (started_signer n w [s])
    | Some (sent, Some err) \<Rightarrow> True"
proof -
  obtain cfg signer where c: "GetSignerConfig (ne_handler E) (sreq_Hash req) (sreq_Pubkey req) (w_store (nd_world n)) = Inr cfg"
    "createSigner (ne_eth E) (ne_alice E) (ne_protocols E) cfg
      (w_peers (nd_world n), ClonePeerManager (ne_pm E) (GetProtocol (ToHexHash (ne_eth E) (bytes_of (sreq_Message req)))))
      (sreq_Message req) = Inr signer"
    using assms(2) unfolding can_sign_def by blast
  show ?thesis
    using assms(1,3) c
    by (auto simp: RpcService_SignMessage_def json_Marshal_def TssCaller_SignMessage_def NewSignerService_def SetStreamHandler_def
        signing_def result_of_def sign_reply_def Let_def split: option.splits sum.splits)
qed

lemma ask_dkg_called:
  assumes "can_dkg E hash n"
    and "RpcToPeer (ne_libp2p E) net (w_peers (nd_world n)) (ClonePeerManager (ne_pm E) (GetProtocol hash))
        ''TssPeerService'' ''RegisterDKG'' (bytes_of hash) = call"
  shows "case call of
      None \<Rightarrow> \<exists>w. ask_dkg E net proc hash n = (w, [], Blocked)
    | Some (sent, None) \<Rightarrow> \<exists>w d. ask_dkg E net proc hash n =
          (w, [d], dkg_reply (ne_eth E) (ne_alice E) hash (result_of (proc d))) \<and> generating E hash n (started_dkg n w [d])
    | Some (sent, Some err) \<Rightarrow> True"
proof -
  obtain port dkg where c: "getPort (ne_addrs E) = Inr port"
    "NewDKG (ne_protocols E) GetCurve (w_peers (nd_world n), ClonePeerManager (ne_pm E) (GetProtocol hash))
      (NumPeers (w_peers (nd_world n)) (ne_pm E)) 0 = Inr dkg"
    using assms(1) unfolding can_dkg_def by blast
  show ?thesis
    using assms(2) c
    by (auto simp: RpcService_RegisterDKG_def TssCaller_RegisterDKG_def NewDkgService_def SetStreamHandler_def before_dash_id
        generating_def result_of_def dkg_reply_def Let_def split: option.splits sum.splits)
qed

lemma ask_reshare_called:
  assumes "unmarshalRequestData decode_ReshareRequest data = Inr req" and "can_reshare E req n"
    and "RpcToPeer (ne_libp2p E) net (w_peers (nd_world n)) (ClonePeerManager (ne_pm E) (GetProtocol (rreq_Hash req)))
        ''TssPeerService'' ''Reshare'' (bytes_of (json_text data)) = call"
  shows "case call of
      None \<Rightarrow> \<exists>w. ask_reshare E net data n = (w, [], Some (rreq_Hash req), Blocked)
    | Some (sent, None) \<Rightarrow> \<exists>w r. ask_reshare E net data n = (w, [r], Some (rreq_Hash req), Gives (Inr ())) \<and>
        resharing req n (started_reshare n w [r])
    | Some (sent, Some err) \<Rightarrow> True"
proof -
  obtain cfg r x where c: "GetSignerConfig (ne_handler E) (rreq_Hash req) (rreq_Pubkey req) (w_store (nd_world n)) = Inr cfg"
    "ConvertDKGResult (ne_alice E) (sc_Pubkey cfg) (sc_Share cfg) (sc_BKs cfg) = Inr r"
    "NewReshare (ne_protocols E) (w_peers (nd_world n), ClonePeerManager (ne_pm E) (GetProtocol (rreq_Hash req))) 2
      (r_PublicKey r) (r_Share r) (r_Bks r) = Inr x"
    using assms(2) unfolding can_reshare_def by blast
  show ?thesis
    using assms(1,3) c
    by (auto simp: RpcService_Reshare_def json_Marshal_def TssCaller_Reshare_def NewReshareService_def reshare_config_def
        SetStreamHandler_def resharing_def Let_def split: option.splits sum.splits)
qed

section \<open>The three requests keep the contract\<close>

interpretation sign_request: peer_request
    "unmarshalRequestData decode_SignRequest data = Inr req" "\<lambda>E. can_sign E req" "\<lambda>E. signing (ne_eth E) req"
    "''SignMessage''" "bytes_of (json_text data)" "\<lambda>E. GetProtocol (ToHexHash (ne_eth E) (bytes_of (sreq_Message req)))"
    "\<lambda>E net n. ask_sign E net proc data n"
    "\<lambda>E n r. \<exists>w s. r = (w, [s], sign_reply (ToHexHash (ne_eth E) (bytes_of (sreq_Message req))) (result_of (proc s))) \<and>
       signing (ne_eth E) req n (started_signer n w [s])"
    "\<lambda>E n r. \<exists>w. r = (w, [], Blocked) \<and>
       fmlookup (w_handlers w) (GetProtocol (ToHexHash (ne_eth E) (bytes_of (sreq_Message req)))) =
         Some (SignerHandle (ToHexHash (ne_eth E) (bytes_of (sreq_Message req))))"
  for data req proc
proof (unfold_locales, goal_cases)
  case (1 E n a) then show ?case by (intro peer_serve_sign(1) peer_decodes)
next
  case (2 E n a) then show ?case by (intro peer_serve_sign(2) peer_decodes)
next
  case (3 E n net sent) then show ?case using ask_sign_called [where proc = proc, OF 3] by simp
next
  case (4 E n net) then show ?case using ask_sign_called [where proc = proc, OF 4] by simp
qed

interpretation dkg_request: peer_request
    True "\<lambda>E. can_dkg E hash" "\<lambda>E. generating E hash" "''RegisterDKG''" "bytes_of hash" "\<lambda>E. GetProtocol hash"
    "\<lambda>E net n. ask_dkg E net proc hash n"
    "\<lambda>E n r. \<exists>w d. r = (w, [d], dkg_reply (ne_eth E) (ne_alice E) hash (result_of (proc d))) \<and> generating E hash n (started_dkg n w [d])"
    "\<lambda>E n r. \<exists>w. r = (w, [], Blocked)"
  for hash proc
proof (unfold_locales, goal_cases)
  case (1 E n a) then show ?case by (intro peer_serve_dkg(1))
next
  case (2 E n a) then show ?case by (intro peer_serve_dkg(2))
next
  case (3 E n net sent) then show ?case using ask_dkg_called [where proc = proc, OF 3(2,3)] by simp
next
  case (4 E n net) then show ?case using ask_dkg_called [where proc = proc, OF 4(2,3)] by simp
qed

interpretation reshare_request: peer_request
    "unmarshalRequestData decode_ReshareRequest data = Inr req" "\<lambda>E. can_reshare E req" "\<lambda>E. resharing req"
    "''Reshare''" "bytes_of (json_text data)" "\<lambda>E. GetProtocol (rreq_Hash req)"
    "\<lambda>E net n. ask_reshare E net data n"
    "\<lambda>E n r. \<exists>w s. r = (w, [s], Some (rreq_Hash req), Gives (Inr ())) \<and> resharing req n (started_reshare n w [s])"
    "\<lambda>E n r. \<exists>w. r = (w, [], Some (rreq_Hash req), Blocked)"
  for data req
proof (unfold_locales, goal_cases)
  case (1 E n a) then show ?case by (intro peer_serve_reshare(1) peer_decodes)
next
  case (2 E n a) then show ?case by (intro peer_serve_reshare(2) peer_decodes)
next
  case (3 E n net sent) then show ?case using ask_reshare_called [OF 3] by simp
next
  case (4 E n net) then show ?case using ask_reshare_called [OF 4] by simp
qed

section \<open>gRPC\<close>

text \<open>Protobuf, as far as the program relies on it: unmarshalling inverts marshalling, and the first
  field, if it is set and shorter than 128 bytes, comes first, as its tag, its length and its bytes.\<close>

definition proto_laws :: "('r \<Rightarrow> string) \<Rightarrow> ('r \<Rightarrow> byte list res) \<Rightarrow> (byte list \<Rightarrow> 'r res) \<Rightarrow> bool" where
  "proto_laws first marshal unmarshal \<longleftrightarrow>
     (\<forall>r bs. marshal r = Inr bs \<longrightarrow> unmarshal bs = Inr r \<and>
        (first r \<noteq> [] \<and> length (first r) < 128 \<longrightarrow>
           (\<exists>rest. bs = 0x0a # word_of_nat (length (first r)) # bytes_of (first r) @ rest)))"

text \<open>The tag is white space to the JSON parser, the length of a hash is the letter \<open>B\<close>, which starts
  no JSON value.\<close>

lemma json_parse_proto: "json_parse (CHR 10 # CHR ''B'' # s) = Inl SyntaxError"
  by (simp add: json_parse_def skip_ws_def is_ws_def p_number_def is_digit_def)

lemma proto_request_decodes:
  assumes "proto_laws first marshal unmarshal" and "marshal req = Inr bs" and "length (first req) = 66"
  shows "UnmarshalRequest decode unmarshal bs = Inr req"
proof -
  have "first req \<noteq> []" using assms(3) by auto
  with assms obtain rest where "bs = 0x0a # word_of_nat 66 # bytes_of (first req) @ rest" and inverse: "unmarshal bs = Inr req"
    unfolding proto_laws_def by force
  then have "string_of bs = CHR 10 # CHR ''B'' # string_of (bytes_of (first req) @ rest)"
    by (simp add: string_of_def char_of_byte_def of_char_eq_iff [where ?'a = nat, symmetric])
  then show ?thesis using inverse by (simp add: UnmarshalRequest_def json_parse_proto)
qed

lemma peer_serve_same_request:
  assumes "UnmarshalRequest decode_SignRequest (ne_unmarshal_sign E) bs = UnmarshalRequest decode_SignRequest (ne_unmarshal_sign E) bs'"
  shows "peer_serve E (peer_args ''TssPeerService'' ''SignMessage'' bs a) n = peer_serve E (peer_args ''TssPeerService'' ''SignMessage'' bs' a) n"
  using assms by (simp add: peer_serve_def peer_args_def TssPeerService_SignMessage_def)

section \<open>Properties\<close>


text \<open>If one peer cannot take part in a signing, for instance because it does not have the key, the
  call never returns: the peer's error makes the node call again and again, and no service starts,
  while the handler of the one it has made stays registered.\<close>

lemma sign_blocks_if_a_peer_cannot:
  assumes "addresses_ok (ne_libp2p (E i)) (known_peers (E i) (N i))"
    and "unmarshalRequestData decode_SignRequest data = Inr req" and "can_sign (E i) req (N i)"
    and "k |\<in>| fmdom (known_peers (E i) (N i))" and "\<not> can_sign (E k) req (N k)"
  shows "\<exists>w. ask_sign (E i) (net_of conn E N) proc data (N i) = (w, [], Blocked) \<and>
    fmlookup (w_handlers w) (GetProtocol (ToHexHash (ne_eth (E i)) (bytes_of (sreq_Message req)))) =
      Some (SignerHandle (ToHexHash (ne_eth (E i)) (bytes_of (sreq_Message req))))"
  by (rule sign_request.one_unable [OF assms(2,1,3-5)])

text \<open>C23: A key generation starts on every node or the call never returns.  Where it starts, each
  node runs it under the one hash, listens on the protocol of that hash, and uses the number of its
  own peers as threshold, so the thresholds agree exactly when the nodes know equally many peers.\<close>

theorem dkg_starts_on_every_node:
  assumes "addresses_ok (ne_libp2p (E i)) (known_peers (E i) (N i))" and "\<And>info. \<exists>t. conn t info = None"
    and "can_dkg (E i) hash (N i)" and "\<And>j. ne_eth (E j) = e \<and> ne_alice (E j) = A"
  shows "if \<forall>k. k |\<in>| fmdom (known_peers (E i) (N i)) \<longrightarrow> can_dkg (E k) hash (N k)
    then (\<exists>w d. ask_dkg (E i) (net_of conn E N) proc hash (N i) = (w, [d], dkg_reply e A hash (result_of (proc d))) \<and>
        generating (E i) hash (N i) (started_dkg (N i) w [d])) \<and>
      (\<forall>k a. fmlookup (known_peers (E i) (N i)) k = Some a \<longrightarrow>
         (\<exists>n'. peer_serve (E k) (peer_args ''TssPeerService'' ''RegisterDKG'' (bytes_of hash) a) (N k) = (n', Gives (Inr ())) \<and>
            generating (E k) hash (N k) n'))
    else \<exists>w. ask_dkg (E i) (net_of conn E N) proc hash (N i) = (w, [], Blocked)"
  using dkg_request.all_or_blocked [where conn = conn and E = E and N = N and proc = proc, OF TrueI assms(1-3)]
  by (simp only: assms(4))

text \<open>The same for a resharing, which the client's call only starts: every node that has the key
  starts a resharing service under its hash, always with threshold 2, or the call never returns.\<close>

lemma reshare_starts_on_every_node:
  assumes "addresses_ok (ne_libp2p (E i)) (known_peers (E i) (N i))" and "\<And>info. \<exists>t. conn t info = None"
    and "unmarshalRequestData decode_ReshareRequest data = Inr req" and "can_reshare (E i) req (N i)"
  shows "if \<forall>k. k |\<in>| fmdom (known_peers (E i) (N i)) \<longrightarrow> can_reshare (E k) req (N k)
    then (\<exists>w r. ask_reshare (E i) (net_of conn E N) data (N i) = (w, [r], Some (rreq_Hash req), Gives (Inr ())) \<and>
        resharing req (N i) (started_reshare (N i) w [r])) \<and>
      (\<forall>k a. fmlookup (known_peers (E i) (N i)) k = Some a \<longrightarrow>
         (\<exists>n'. peer_serve (E k) (peer_args ''TssPeerService'' ''Reshare'' (bytes_of (json_text data)) a) (N k) = (n', Gives (Inr ())) \<and>
            resharing req (N k) n'))
    else \<exists>w. ask_reshare (E i) (net_of conn E N) data (N i) = (w, [], Some (rreq_Hash req), Blocked)"
  by (rule reshare_request.all_or_blocked [where conn = conn and E = E and N = N, OF assms(3,1,2,4)])

text \<open>A node that has saved a result of the key generation can sign with its key.\<close>

lemma saved_can_sign:
  assumes "eth_laws e \<and> alice_laws A \<and> badger_laws B" and "ne_eth E = e" and "ne_alice E = A" and "ne_handler E = store_db e A B"
    and "storable r" and "0 \<le> r_Share r"
    and "NewECPoint A S256 (GetX A (r_PublicKey r)) (GetY A (r_PublicKey r)) = Inr (r_PublicKey r)"
    and "SaveDKGResultData (store_db e A B) (sreq_Hash req) r old = (w_store (nd_world n), None)"
    and "sreq_Pubkey req = pubkey_text e A r"
    and "\<exists>pai. NewPaillier (ne_protocols E) 2048 = Inr pai" and "\<And>pm pk pai sh bks msg. \<exists>x. NewSigner (ne_protocols E) pm pk pai sh bks msg = Inr x"
  shows "can_sign E req n"
proof -
  have cfg: "GetSignerConfig (ne_handler E) (sreq_Hash req) (sreq_Pubkey req) (w_store (nd_world n)) = Inr (config_of A r)"
    using store.get_repr [OF assms(1) store.save_repr [OF assms(1,5,8)]] assms(4,9) by simp
  obtain pai where "NewPaillier (ne_protocols E) 2048 = Inr pai" using assms(10) by blast
  then have "\<exists>x. createSigner (ne_eth E) (ne_alice E) (ne_protocols E) (config_of A r) pm (sreq_Message req) = Inr x" for pm
    using Convert_config [OF _ assms(6,7)] assms(1,3,11) by (simp add: createSigner_def)
  with cfg show ?thesis unfolding can_sign_def by blast
qed


text \<open>The two forms of a request for a signature, \<^verbatim>\<open>grpcServer.SignMessage\<close> and
  \<^verbatim>\<open>RpcService.SignMessage\<close>: with the hash of a key as \<^verbatim>\<open>RandomHash\<close> makes it, both have the same
  effect on the node asked and give the same reply, whatever the state of the peers.\<close>

lemma grpc_signs_as_json_rpc:
  assumes "unmarshalRequestData decode_SignRequest data = Inr req" and "marshal req = Inr bs"
    and "\<And>k. proto_laws sreq_Hash marshal (ne_unmarshal_sign (E k))" and "length (sreq_Hash req) = 66"
  shows "grpc_SignMessage (ne_eth (E i)) (ne_alice (E i)) (ne_protocols (E i)) (ne_handler (E i)) (ne_libp2p (E i)) (net_of conn E N)
      proc marshal (ne_pm (E i)) req (nd_world (N i)) = ask_sign (E i) (net_of conn E N) proc data (N i)"
proof -
  let ?L = "ne_libp2p (E i)" and ?net = "net_of conn E N"
  have "MsgToPeer ?L ?net (peer_args ''TssPeerService'' ''SignMessage'' bs a) t =
      MsgToPeer ?L ?net (peer_args ''TssPeerService'' ''SignMessage'' (bytes_of (json_text data)) a) t" for a t
  proof -
    have "peer_serve (E k) (peer_args ''TssPeerService'' ''SignMessage'' bs a) (N k) =
        peer_serve (E k) (peer_args ''TssPeerService'' ''SignMessage'' (bytes_of (json_text data)) a) (N k)" for k
      by (rule peer_serve_same_request) (simp add: proto_request_decodes [OF assms(3,2,4)] peer_decodes [OF assms(1)])
    moreover have "PeerAddrTarget (peer_args svc meth b a) = a" for svc meth b by (simp add: peer_args_def)
    ultimately show ?thesis by (simp add: MsgToPeer_def split: sum.splits option.splits)
  qed
  then have "map_option snd (RpcToPeer ?L ?net hp pm ''TssPeerService'' ''SignMessage'' bs) =
      map_option snd (RpcToPeer ?L ?net hp pm ''TssPeerService'' ''SignMessage'' (bytes_of (json_text data)))" for hp pm
    unfolding RpcToPeer_eq by simp
  then show ?thesis
    using assms(1,2) by (simp add: grpc_SignMessage_def RpcService_SignMessage_def json_Marshal_def Let_def)
qed

section \<open>Witnesses\<close>

text \<open>Two nodes, \<open>QmA\<close> with \<open>QmB\<close> in its table; each has what \<open>st\<close> says in its store.\<close>

definition table0 :: "(string, string) fmap" where
  "table0 = fmupd ''QmB'' ''/ip4/127.0.0.1/tcp/10002/p2p/QmB'' fmempty"

definition nodes0 :: "(string \<Rightarrow> mock) \<Rightarrow> string \<Rightarrow> (db0 store_state, unit, unit, unit) node" where
  "nodes0 st j = \<lparr>nd_world = \<lparr>w_peers = [table0], w_handlers = fmupd ProtocolId RpcHandle fmempty, w_store = MockStore (st j)\<rparr>,
     nd_dkgs = [], nd_signers = [], nd_reshares = []\<rparr>"

abbreviation envs0 where
  "envs0 j \<equiv> env0 (main_pm j)"

definition holds0 :: mock where
  "holds0 = fst (mock_SaveDKGResultData eth0 alice0 ''0xaa'' result0 NewMockDB)"

definition sign_data1 :: json where
  "sign_data1 = JObj [(''hash'', JStr ''0xaa''), (''message'', JStr ''ab''), (''pubkey'', JStr (pubkey_text eth0 alice0 result0))]"

definition sign_req1 :: SignRequest where
  "sign_req1 = \<lparr>sreq_Hash = ''0xaa'', sreq_Pubkey = pubkey_text eth0 alice0 result0, sreq_Message = ''ab''\<rparr>"

lemma unmarshal_sign_data1: "unmarshalRequestData decode_SignRequest sign_data1 = Inr sign_req1"
proof -
  have "json_ok sign_data1" "json_valid sign_data1" by (simp_all add: sign_data1_def pubkey_text_def)
  then have "json_parse (json_text sign_data1) = Inr sign_data1" using json_parse_text json_utf8_valid by metis
  then show ?thesis
    unfolding unmarshalRequestData_def json_Marshal_def
    by simp (simp add: sign_data1_def sign_req1_def decode_SignRequest_def SignRequest_fields_def find_field_def)
qed

lemma known_peers0: "known_peers (envs0 j) (nodes0 st j) = table0"
  by (simp add: env0_def nodes0_def main_pm_def Peers_def)

lemma addresses_ok0: "addresses_ok (ne_libp2p (envs0 j)) (known_peers (envs0 j) (nodes0 st j))"
  unfolding known_peers0 by (simp add: addresses_ok_def table0_def env0_def libp2p0_def)

lemma save0: "SaveDKGResultData (store_db eth0 alice0 badger0) ''0xaa'' result0 (MockStore NewMockDB) = (MockStore holds0, None)"
proof -
  have "mock_SaveDKGResultData eth0 alice0 ''0xaa'' result0 NewMockDB = (holds0, None)"
    by (simp add: holds0_def mock_SaveDKGResultData_def Let_def NewMockDB_def)
  then show ?thesis by (simp add: store_db_def Let_def dispatch_step_def mock_handler_def)
qed

lemma result0_facts:
  "0 \<le> r_Share result0" "NewECPoint alice0 S256 (GetX alice0 (r_PublicKey result0)) (GetY alice0 (r_PublicKey result0)) = Inr (r_PublicKey result0)"
  by (simp_all add: alice0_def result0_def)

lemma protocols0_ok: "NewPaillier protocols0 n = Inr ()" "NewSigner protocols0 pm pk pai sh bks msg = Inr ()"
  by (simp_all add: protocols0_def)

lemma can_sign0: "st j = holds0 \<Longrightarrow> can_sign (envs0 j) sign_req1 (nodes0 st j)"
  by (rule saved_can_sign [where old = "MockStore NewMockDB" and r = result0 and B = badger0])
    (simp_all add: env0_def nodes0_def sign_req1_def storable_result0 result0_facts save0 protocols0_ok)

lemma cannot_sign0: "st j = NewMockDB \<Longrightarrow> \<not> can_sign (envs0 j) sign_req1 (nodes0 st j)"
  by (simp add: can_sign_def env0_def nodes0_def sign_req1_def store_db_def Let_def dispatch_get_def mock_handler_def
      mock_GetSignerConfig_def NewMockDB_def go_lookup_def)

lemma env0_sel: "ne_eth (envs0 j) = eth0" "ne_alice (envs0 j) = alice0" "ne_handler (envs0 j) = store_db eth0 alice0 badger0"
  "ne_protocols (envs0 j) = protocols0"
  by (simp_all add: env0_def)


theorem dkg_starts_on_every_node_witness:
  "\<exists>w d n'. ask_dkg (envs0 ''QmA'') (net_of (\<lambda>t i. None) envs0 (nodes0 (\<lambda>j. NewMockDB))) (\<lambda>d. Some (Inr result0)) ''0xaa'' (nodes0 (\<lambda>j. NewMockDB) ''QmA'') =
     (w, [d], dkg_reply eth0 alice0 ''0xaa'' (Gives (Inr (Some result0)))) \<and>
     peer_serve (envs0 ''QmB'') (peer_args ''TssPeerService'' ''RegisterDKG'' (bytes_of ''0xaa'') ''/ip4/127.0.0.1/tcp/10002/p2p/QmB'')
       (nodes0 (\<lambda>j. NewMockDB) ''QmB'') = (n', Gives (Inr ())) \<and> generating (envs0 ''QmB'') ''0xaa'' (nodes0 (\<lambda>j. NewMockDB) ''QmB'') n'"
proof -
  have dkg: "can_dkg (envs0 j) ''0xaa'' (nodes0 (\<lambda>j. NewMockDB) j)" for j
    by (simp add: can_dkg_def env0_def getPort_def protocols0_def)
  have "fmlookup (known_peers (envs0 ''QmA'') (nodes0 (\<lambda>j. NewMockDB) ''QmA'')) ''QmB'' = Some ''/ip4/127.0.0.1/tcp/10002/p2p/QmB''"
    unfolding known_peers0 by (simp add: table0_def)
  then show ?thesis
    using dkg_starts_on_every_node [where conn = "\<lambda>t i. None" and E = envs0 and N = "nodes0 (\<lambda>j. NewMockDB)" and i = "''QmA''" and e = eth0 and A = alice0
        and proc = "\<lambda>d. Some (Inr result0)", OF addresses_ok0 _ dkg] dkg env0_sel(1,2)
    by (auto simp: result_of_def)
qed


end
