(* ===== verification/Messages.thy ===== *)
theory Messages
  imports Network
begin

text \<open>
  The messages of a running protocol: what \<^verbatim>\<open>MustSend\<close> of one node writes to a stream, the peer's
  host gives to the handler registered for the protocol of the stream, and that is the \<^verbatim>\<open>Handle\<close>
  method of a service.  The operations are those of \<open>Peer\<close> and \<open>Service\<close>; what the three protocols
  share is the locale \<open>protocol_run\<close>.
\<close>

section \<open>Receiving\<close>

text \<open>\<^verbatim>\<open>proto.Unmarshal\<close> and \<^verbatim>\<open>AddMessage\<close> of the three protocols; a message is represented by the bytes
  it is unmarshalled from.\<close>

record ('dkg, 'signer, 'reshare) inbox =
  in_Unmarshal :: "byte list \<Rightarrow> byte list res"
  in_dkg :: "byte list \<Rightarrow> 'dkg \<Rightarrow> 'dkg \<times> go_error option"
  in_signer :: "byte list \<Rightarrow> 'signer \<Rightarrow> 'signer \<times> go_error option"
  in_reshare :: "byte list \<Rightarrow> 'reshare \<Rightarrow> 'reshare \<times> go_error option"

text \<open>A handler belongs to the service that registered it: of the services with its hash the one
  started last, because a later registration replaces an earlier one.\<close>

fun update_last :: "('a \<Rightarrow> bool) \<Rightarrow> ('a \<Rightarrow> 'a) \<Rightarrow> 'a list \<Rightarrow> 'a list" where
  "update_last P f [] = []"
| "update_last P f (x # xs) =
     (if list_ex P xs then x # update_last P f xs else if P x then f x # xs else x # xs)"

lemma update_last_snoc [simp]: "P x \<Longrightarrow> update_last P f (xs @ [x]) = xs @ [f x]"
  by (induction xs) auto

lemma update_last_cases: "list_all2 (\<lambda>x y. y = x \<or> (P x \<and> y = f x)) xs (update_last P f xs)"
  by (induction xs) (auto simp: list.rel_refl)

primrec receive ::
  "('dkg, 'signer, 'reshare) inbox \<Rightarrow> svc_ref \<Rightarrow> byte list \<Rightarrow> ('s, 'dkg, 'signer, 'reshare) node \<Rightarrow> ('s, 'dkg, 'signer, 'reshare) node"
where
  "receive M RpcHandle bs n = n"
| "receive M (DkgHandle h) bs n =
     n\<lparr>nd_dkgs := update_last (\<lambda>d. dkg_hash d = h) (Dkg_Handle (Inr bs) (in_Unmarshal M) (in_dkg M)) (nd_dkgs n)\<rparr>"
| "receive M (SignerHandle h) bs n =
     n\<lparr>nd_signers := update_last (\<lambda>s. sg_hash s = h) (Signer_Handle (Inr bs) (in_Unmarshal M) (in_signer M)) (nd_signers n)\<rparr>"
| "receive M (ReshareHandle h) bs n =
     n\<lparr>nd_reshares := update_last (\<lambda>r. rs_hash r = h) (Reshare_Handle (Inr bs) (in_Unmarshal M) (in_reshare M)) (nd_reshares n)\<rparr>"

section \<open>Sending\<close>

text \<open>A stream to a peer opens if the network lets it (\<open>link i\<close> is the error of attempt \<open>i\<close>) and the
  peer's host has a handler for its protocol.  The handler gets what was written once the stream is
  closed; a stream that is not closed keeps its handler waiting.\<close>

definition streams_to :: "(nat \<Rightarrow> go_error option) \<Rightarrow> string \<Rightarrow> ('s, 'dkg, 'signer, 'reshare) node \<Rightarrow> nat \<Rightarrow> stream res" where
  "streams_to link protocol n i =
     (case link i of
        Some err \<Rightarrow> Inl err
      | None \<Rightarrow>
          (case fmlookup (w_handlers (nd_world n)) protocol of
             None \<Rightarrow> Inl (LibError ''protocols not supported'')
           | Some h \<Rightarrow> Inr \<lparr>st_Write = (\<lambda>_. None), st_Close = None\<rparr>))"

text \<open>The node whose address the table has for a peer.\<close>

definition addressee :: "('ma, 'k, 'h) libp2p \<Rightarrow> (string, string) fmap \<Rightarrow> string \<Rightarrow> string option" where
  "addressee L peers peerID =
     (case fmlookup peers peerID of
        None \<Rightarrow> None
      | Some a \<Rightarrow>
          (case NewMultiaddr L a of
             Inl err \<Rightarrow> None
           | Inr ma \<Rightarrow> (case AddrInfoFromP2pAddr L ma of Inl err \<Rightarrow> None | Inr info \<Rightarrow> Some (ai_ID info))))"

definition transmit ::
  "('ma, 'k, 'h) libp2p \<Rightarrow> ('dkg, 'signer, 'reshare) inbox \<Rightarrow> (nat \<Rightarrow> go_error option) \<Rightarrow> peer_heap \<Rightarrow> P2PManager \<Rightarrow> string \<Rightarrow> payload \<Rightarrow>
   (string \<Rightarrow> ('s, 'dkg, 'signer, 'reshare) node) \<Rightarrow> (string \<Rightarrow> ('s, 'dkg, 'signer, 'reshare) node)"
where
  "transmit L M link hp pm peerID message N =
     (case addressee L (Peers hp pm) peerID of
        None \<Rightarrow> N
      | Some k \<Rightarrow>
          (case (snd_wrote (MustSend L hp pm peerID message (streams_to link (pm_protocol pm) (N k))),
                 fmlookup (w_handlers (nd_world (N k))) (pm_protocol pm)) of
             (Some bs, Some h) \<Rightarrow> N(k := receive M h bs (N k))
           | _ \<Rightarrow> N))"

text \<open>The messages of one service to one peer, each with what the network does to it; and messages of
  several services, in the order in which they arrive: each with the sender and the receiver.\<close>

abbreviation transmit_all where
  "transmit_all L M hp pm k ms N \<equiv> fold (\<lambda>(link, bs). transmit L M link hp pm k (ProtoMsg (Inr bs))) ms N"

abbreviation deliver_all where
  "deliver_all L M hp pm ms N \<equiv> fold (\<lambda>(j, k, link, bs). transmit (L j) M link (hp j) (pm j) k (ProtoMsg (Inr bs))) ms N"

definition sent_to :: "string \<Rightarrow> (string \<times> string \<times> (nat \<Rightarrow> go_error option) \<times> byte list) list \<Rightarrow> byte list list" where
  "sent_to k ms = map (\<lambda>(i, j, link, bs). bs) (filter (\<lambda>(i, j, link, bs). j = k) ms)"

lemma sent_to_simps [simp]:
  "sent_to k [] = []" "sent_to k ((i, j, link, bs) # ms) = (if j = k then bs # sent_to k ms else sent_to k ms)"
  by (simp_all add: sent_to_def)

lemma addressee_ok:
  assumes "addresses_ok L peers" and "k |\<in>| fmdom peers"
  shows "addressee L peers k = Some k"
proof -
  obtain a where a: "fmlookup peers k = Some a" using assms(2) by (meson fmlookup_dom_iff)
  from addresses_okE [OF assms(1) a] obtain ma info
    where "NewMultiaddr L a = Inr ma" "AddrInfoFromP2pAddr L ma = Inr info" "ai_ID info = k" .
  with a show ?thesis by (simp add: addressee_def)
qed

text \<open>Of the ten attempts only the last one counts.\<close>

lemma MustSend_wrote:
  assumes "addressee L (Peers hp pm) peerID = Some k"
  shows "snd_wrote (MustSend L hp pm peerID (ProtoMsg (Inr bs)) (streams_to link p n)) =
    (if link 9 = None \<and> p |\<in>| fmdom (w_handlers (nd_world n)) then Some bs else None)"
proof -
  from assms obtain a ma info where "fmlookup (Peers hp pm) peerID = Some a" "NewMultiaddr L a = Inr ma" "AddrInfoFromP2pAddr L ma = Inr info"
    by (auto simp: addressee_def split: option.splits sum.splits)
  then show ?thesis
    by (cases "link 9"; cases "fmlookup (w_handlers (nd_world n)) p")
      (simp_all add: MustSend_def send_def create_stream_last streams_to_def fmlookup_dom_iff)
qed

lemma transmit_arrives:
  assumes "addresses_ok L (Peers hp pm)" and "k |\<in>| fmdom (Peers hp pm)" and "link 9 = None"
    and "fmlookup (w_handlers (nd_world (N k))) (pm_protocol pm) = Some h"
  shows "transmit L M link hp pm k (ProtoMsg (Inr bs)) N = N(k := receive M h bs (N k))"
  using MustSend_wrote [OF addressee_ok [OF assms(1,2)], where p = "pm_protocol pm" and n = "N k" and link = link] assms(3,4)
  by (simp add: transmit_def addressee_ok [OF assms(1,2)] fmdomI)

lemma transmit_cases:
  "transmit L M link hp pm k m N = N \<or>
   (\<exists>j h bs. fmlookup (w_handlers (nd_world (N j))) (pm_protocol pm) = Some h \<and>
      transmit L M link hp pm k m N = N(j := receive M h bs (N j)))"
  by (auto simp: transmit_def split: option.splits prod.splits)

section \<open>The messages of a run\<close>

text \<open>
  One kind of service among those of a node: \<open>svcs\<close> lists them and \<open>put\<close> replaces the list, \<open>name\<close>
  is the hash of a service, \<open>ref\<close> the handler it registers and \<open>handle\<close> what it does with a message.
\<close>

locale protocol_run =
  fixes M :: "('dkg, 'signer, 'reshare) inbox"
    and svcs :: "('s, 'dkg, 'signer, 'reshare) node \<Rightarrow> 'v list"
    and put :: "'v list \<Rightarrow> ('s, 'dkg, 'signer, 'reshare) node \<Rightarrow> ('s, 'dkg, 'signer, 'reshare) node"
    and name :: "'v \<Rightarrow> string" and ref :: "string \<Rightarrow> svc_ref" and handle :: "byte list \<Rightarrow> 'v \<Rightarrow> 'v"
  assumes receive_ref: "receive M (ref h) bs n = put (update_last (\<lambda>v. name v = h) (handle bs) (svcs n)) n"
    and svcs_put: "svcs (put vs n) = vs" and put_put: "put vs (put us n) = put vs n" and put_svcs: "put (svcs n) n = n"
    and put_world: "nd_world (put vs n) = nd_world n"
    and name_handle: "name (handle bs v) = name v"
begin

text \<open>Between nodes that each have a service of the run, whatever is sent arrives: each service gets what
  was sent to it, in the order of arrival, and nothing else changes.\<close>

lemma deliveries_arrive:
  assumes "\<And>j. J j \<Longrightarrow> addresses_ok (L j) (Peers (hp j) (pm j)) \<and> pm_protocol (pm j) = p"
    and "\<And>j. J j \<Longrightarrow> fmlookup (w_handlers (nd_world (N j))) p = Some (ref (name (v j))) \<and> svcs (N j) = vs j @ [v j]"
    and "\<forall>(i, k, link, bs) \<in> set ms. J i \<and> J k \<and> k |\<in>| fmdom (Peers (hp i) (pm i)) \<and> link 9 = None"
  shows "deliver_all L M hp pm ms N = (\<lambda>k. if J k then put (vs k @ [fold handle (sent_to k ms) (v k)]) (N k) else N k)"
  using assms(2,3)
proof (induction ms arbitrary: N v)
  case Nil
  then show ?case using put_svcs by (metis (mono_tags, lifting) fold_simps(1) sent_to_simps(1))
next
  case (Cons m ms)
  obtain i k link bs where m: "m = (i, k, link, bs)" by (cases m)
  let ?N = "N(k := put (vs k @ [handle bs (v k)]) (N k))" and ?v = "v(k := handle bs (v k))"
  have k: "J i" "J k" "k |\<in>| fmdom (Peers (hp i) (pm i))" "link 9 = None" using Cons.prems(2) m by auto
  have "transmit (L i) M link (hp i) (pm i) k (ProtoMsg (Inr bs)) N = ?N"
    using transmit_arrives [where N = N and link = link and M = M and bs = bs and L = "L i" and h = "ref (name (v k))", OF _ k(3,4)]
      assms(1) [OF k(1)] Cons.prems(1) [OF k(2)]
    by (simp add: receive_ref)
  moreover have "deliver_all L M hp pm ms ?N = (\<lambda>j. if J j then put (vs j @ [fold handle (sent_to j ms) (?v j)]) (?N j) else ?N j)"
    by (rule Cons.IH) (use Cons.prems in \<open>auto simp: put_world name_handle svcs_put\<close>)
  ultimately show ?case using k(2) unfolding m by (simp add: put_put) (rule ext, simp add: put_put)
qed

end

interpretation dkg_messages: protocol_run M nd_dkgs "\<lambda>ds n. n\<lparr>nd_dkgs := ds\<rparr>" dkg_hash DkgHandle
    "\<lambda>bs. Dkg_Handle (Inr bs) (in_Unmarshal M) (in_dkg M)" for M
  by unfold_locales (auto simp: Dkg_Handle_def split: sum.splits)

interpretation signer_messages: protocol_run M nd_signers "\<lambda>ss n. n\<lparr>nd_signers := ss\<rparr>" sg_hash SignerHandle
    "\<lambda>bs. Signer_Handle (Inr bs) (in_Unmarshal M) (in_signer M)" for M
  by unfold_locales (auto simp: Signer_Handle_def split: sum.splits option.splits)

interpretation reshare_messages: protocol_run M nd_reshares "\<lambda>rs n. n\<lparr>nd_reshares := rs\<rparr>" rs_hash ReshareHandle
    "\<lambda>bs. Reshare_Handle (Inr bs) (in_Unmarshal M) (in_reshare M)" for M
  by unfold_locales (auto simp: Reshare_Handle_def split: sum.splits)

text \<open>What a protocol object has heard after some messages.\<close>

definition heard :: "(byte list \<Rightarrow> byte list res) \<Rightarrow> (byte list \<Rightarrow> 'p \<Rightarrow> 'p \<times> go_error option) \<Rightarrow> byte list \<Rightarrow> 'p \<Rightarrow> 'p" where
  "heard unmarshal add bs p = (case unmarshal bs of Inl err \<Rightarrow> p | Inr m \<Rightarrow> fst (add m p))"

lemma fold_Dkg_Handle:
  "fold (\<lambda>bs. Dkg_Handle (Inr bs) unmarshal add) bss d = d\<lparr>dkg_dkg := fold (heard unmarshal add) bss (dkg_dkg d)\<rparr>"
  by (induction bss arbitrary: d) (auto simp: Dkg_Handle_def heard_def split: sum.splits)

lemma fold_Signer_Handle:
  "sg_signer s \<noteq> None \<Longrightarrow> fold (\<lambda>bs. Signer_Handle (Inr bs) unmarshal add) bss s =
     s\<lparr>sg_signer := map_option (fold (heard unmarshal add) bss) (sg_signer s)\<rparr>"
  by (induction bss arbitrary: s) (auto simp: Signer_Handle_def heard_def split: sum.splits)

lemma fold_Reshare_Handle:
  "fold (\<lambda>bs. Reshare_Handle (Inr bs) unmarshal add) bss r = r\<lparr>rs_reshare := fold (heard unmarshal add) bss (rs_reshare r)\<rparr>"
  by (induction bss arbitrary: r) (auto simp: Reshare_Handle_def heard_def split: sum.splits)

text \<open>Receiving is a step of the node, so what holds of every reachable node holds after it.\<close>

lemma update_last_list_update:
  "update_last P f xs = xs \<or> (\<exists>i < length xs. P (xs ! i) \<and> update_last P f xs = xs[i := f (xs ! i)])"
proof (induction xs)
  case (Cons x xs)
  show ?case
  proof (cases "list_ex P xs")
    case True
    from Cons.IH show ?thesis
    proof
      assume "\<exists>i < length xs. P (xs ! i) \<and> update_last P f xs = xs[i := f (xs ! i)]"
      then obtain i where "i < length xs" "P (xs ! i)" "update_last P f xs = xs[i := f (xs ! i)]" by blast
      with True show ?thesis by (intro disjI2 exI [of _ "Suc i"]) simp
    qed (use True in simp)
  next
    case False
    then show ?thesis by (cases "P x") (auto intro!: exI [of _ 0])
  qed
qed simp

lemma receive_is_step: "receive M f bs n = n \<or> node_step E n (receive M f bs n)"
proof (cases f)
  case (DkgHandle h)
  then show ?thesis
    using update_last_list_update [of "\<lambda>d. dkg_hash d = h" "Dkg_Handle (Inr bs) (in_Unmarshal M) (in_dkg M)" "nd_dkgs n"]
    by (auto intro: node_step.dkg_message)
next
  case (SignerHandle h)
  then show ?thesis
    using update_last_list_update [of "\<lambda>s. sg_hash s = h" "Signer_Handle (Inr bs) (in_Unmarshal M) (in_signer M)" "nd_signers n"]
    by (auto intro: node_step.signer_message)
next
  case (ReshareHandle h)
  then show ?thesis
    using update_last_list_update [of "\<lambda>r. rs_hash r = h" "Reshare_Handle (Inr bs) (in_Unmarshal M) (in_reshare M)" "nd_reshares n"]
    by (auto intro: node_step.reshare_message)
qed simp

lemma transmit_keeps_nodes_ok:
  assumes "\<And>j. node_ok (E j) (N j)"
  shows "node_ok (E j) (transmit L M link hp pm k m N j)"
  using transmit_cases [of L M link hp pm k m N] assms node_step_ok [OF _ assms] receive_is_step
  by (metis fun_upd_apply)

section \<open>The nodes of a run\<close>

text \<open>The nodes after node \<open>i\<close> has told its peers: each has handled the one call.\<close>

definition after_request ::
  "(string \<Rightarrow> ('s, 'pt, 'bk, 'dkg, 'pai, 'signer, 'reshare, 'ma, 'k, 'h) node_env) \<Rightarrow> string \<Rightarrow> byte list \<Rightarrow> string \<Rightarrow>
   ('s, 'dkg, 'signer, 'reshare) node \<Rightarrow> (string \<Rightarrow> ('s, 'dkg, 'signer, 'reshare) node) \<Rightarrow> string \<Rightarrow> ('s, 'dkg, 'signer, 'reshare) node"
where
  "after_request E meth bs i ni N j =
     (if j = i then ni
      else case fmlookup (known_peers (E i) (N i)) j of
        None \<Rightarrow> N j
      | Some a \<Rightarrow> fst (peer_serve (E j) (peer_args ''TssPeerService'' meth bs a) (N j)))"

abbreviation takes_part where
  "takes_part E i N j \<equiv> j = i \<or> j |\<in>| fmdom (known_peers (E i) (N i))"

lemma after_request_cases:
  assumes "takes_part E i N j"
  obtains "j = i" "after_request E meth bs i ni N j = ni"
  | a where "j \<noteq> i" "fmlookup (known_peers (E i) (N i)) j = Some a"
      "after_request E meth bs i ni N j = fst (peer_serve (E j) (peer_args ''TssPeerService'' meth bs a) (N j))"
proof (cases "j = i")
  case False
  then have "j |\<in>| fmdom (known_peers (E i) (N i))" using assms by simp
  then obtain a where "fmlookup (known_peers (E i) (N i)) j = Some a" by (meson fmlookup_dom_iff)
  with False that(2) show ?thesis by (simp add: after_request_def)
qed (use that(1) in \<open>simp add: after_request_def\<close>)

lemma peer_serve_starts:
  "peer_serve E (peer_args ''TssPeerService'' ''SignMessage'' bs a) n = (n', r) \<Longrightarrow>
     \<exists>w ss. n' = started_signer n w ss \<and> starts (signer_ok (ne_eth E) (ne_pm E)) (nd_world n) w ss"
  "peer_serve E (peer_args ''TssPeerService'' ''RegisterDKG'' bs a) n = (n', r) \<Longrightarrow>
     \<exists>w ds. n' = started_dkg n w ds \<and> starts (dkg_ok (ne_pm E)) (nd_world n) w ds"
  "peer_serve E (peer_args ''TssPeerService'' ''Reshare'' bs a) n = (n', r) \<Longrightarrow>
     \<exists>w rs. n' = started_reshare n w rs \<and> starts (reshare_ok (ne_pm E)) (nd_world n) w rs"
  by (auto simp: peer_serve_def peer_args_def split: prod.splits dest: peer_starts)

text \<open>A node that takes part in a run has a service for it, which listens on the protocol it sends on.\<close>

definition signer_of_run ::
  "('s, 'pt, 'bk, 'dkg, 'pai, 'signer, 'reshare, 'ma, 'k, 'h) node_env \<Rightarrow> string \<Rightarrow>
   ('s, 'dkg, 'signer, 'reshare) node \<Rightarrow> ('s, 'dkg, 'signer, 'reshare) node \<Rightarrow> 'signer Signer \<Rightarrow> bool"
where
  "signer_of_run E h n n' s \<longleftrightarrow>
     nd_signers n' = nd_signers n @ [s] \<and> signer_ok (ne_eth E) (ne_pm E) s \<and> sg_hash s = h \<and>
     fmlookup (w_handlers (nd_world n')) (GetProtocol h) = Some (SignerHandle h) \<and> w_peers (nd_world n') = w_peers (nd_world n)"

definition dkg_of_run ::
  "('s, 'pt, 'bk, 'dkg, 'pai, 'signer, 'reshare, 'ma, 'k, 'h) node_env \<Rightarrow> string \<Rightarrow>
   ('s, 'dkg, 'signer, 'reshare) node \<Rightarrow> ('s, 'dkg, 'signer, 'reshare) node \<Rightarrow> 'dkg Dkg \<Rightarrow> bool"
where
  "dkg_of_run E h n n' d \<longleftrightarrow>
     nd_dkgs n' = nd_dkgs n @ [d] \<and> dkg_ok (ne_pm E) d \<and> dkg_hash d = h \<and>
     fmlookup (w_handlers (nd_world n')) (GetProtocol (before_dash h)) = Some (DkgHandle h) \<and> w_peers (nd_world n') = w_peers (nd_world n)"

definition reshare_of_run ::
  "('s, 'pt, 'bk, 'dkg, 'pai, 'signer, 'reshare, 'ma, 'k, 'h) node_env \<Rightarrow> string \<Rightarrow>
   ('s, 'dkg, 'signer, 'reshare) node \<Rightarrow> ('s, 'dkg, 'signer, 'reshare) node \<Rightarrow> 'reshare Reshare \<Rightarrow> bool"
where
  "reshare_of_run E h n n' r \<longleftrightarrow>
     nd_reshares n' = nd_reshares n @ [r] \<and> reshare_ok (ne_pm E) r \<and> rs_hash r = h \<and>
     fmlookup (w_handlers (nd_world n')) (GetProtocol h) = Some (ReshareHandle h) \<and> w_peers (nd_world n') = w_peers (nd_world n)"

text \<open>The contract of a request whose call and whose handler on the peer leave such a service:
  \<open>started\<close> is the node after a call that has started one.\<close>

locale run_request = peer_request valid able begun meth bs protocol ask answered blocked
  for valid and able and begun ::
      "('s, 'pt, 'bk, 'dkg, 'pai, 'signer, 'reshare, 'ma, 'k, 'h) node_env \<Rightarrow>
       ('s, 'dkg, 'signer, 'reshare) node \<Rightarrow> ('s, 'dkg, 'signer, 'reshare) node \<Rightarrow> bool"
    and meth bs protocol and ask :: "_ \<Rightarrow> _ \<Rightarrow> _ \<Rightarrow> 'a" and answered blocked +
  fixes of_run :: "('s, 'pt, 'bk, 'dkg, 'pai, 'signer, 'reshare, 'ma, 'k, 'h) node_env \<Rightarrow>
      ('s, 'dkg, 'signer, 'reshare) node \<Rightarrow> ('s, 'dkg, 'signer, 'reshare) node \<Rightarrow> 'v \<Rightarrow> bool"
    and started :: "('s, 'dkg, 'signer, 'reshare) node \<Rightarrow> 'a \<Rightarrow> ('s, 'dkg, 'signer, 'reshare) node option"
  assumes served_run: "valid \<Longrightarrow> peer_serve E (peer_args ''TssPeerService'' meth bs a) n = (n', Gives (Inr ())) \<Longrightarrow> begun E n n' \<Longrightarrow>
      \<exists>v. of_run E n n' v"
    and asked_run: "valid \<Longrightarrow> started n (ask E net n) = Some n' \<Longrightarrow>
      able E n \<and> \<not> blocked E n (ask E net n) \<and> (\<exists>v. of_run E n n' v)"
begin

lemma services_of_run:
  assumes valid and "addresses_ok (ne_libp2p (E i)) (known_peers (E i) (N i))"
    and "started (N i) (ask (E i) (net_of conn E N) (N i)) = Some ni" and "takes_part E i N j"
  shows "\<exists>v. of_run (E j) (N j) (after_request E meth bs i ni N j) v"
proof -
  note asked = asked_run [OF assms(1,3)]
  from assms(4) show ?thesis
  proof (cases rule: after_request_cases [where meth = meth and bs = bs and ni = ni])
    case 1
    then show ?thesis using asked by simp
  next
    case (2 a)
    from answered_begun [where conn = conn and E = E and N = N, OF assms(1,2) _ _ 2(2)] asked obtain n'
      where "peer_serve (E j) (peer_args ''TssPeerService'' meth bs a) (N j) = (n', Gives (Inr ()))" "begun (E j) (N j) n'" by blast
    with served_run [OF assms(1)] show ?thesis unfolding 2(3) by (metis fst_conv)
  qed
qed

end

lemma ask_sign_started:
  assumes "unmarshalRequestData decode_SignRequest data = Inr req" and "ask_sign E net proc data n = (w, [s], r)"
  shows "can_sign E req n \<and> signing (ne_eth E) req n (started_signer n w [s])"
  using assms
  by (auto simp: RpcService_SignMessage_def json_Marshal_def TssCaller_SignMessage_def NewSignerService_def can_sign_def signing_def
      SetStreamHandler_def Let_def split: option.splits sum.splits prod.splits)

lemma ask_dkg_started:
  assumes "ask_dkg E net proc hash n = (w, [d], r)"
  shows "can_dkg E hash n \<and> generating E hash n (started_dkg n w [d])"
  using assms
  by (auto simp: RpcService_RegisterDKG_def TssCaller_RegisterDKG_def NewDkgService_def can_dkg_def generating_def before_dash_id
      SetStreamHandler_def Let_def split: option.splits sum.splits prod.splits)

lemma ask_reshare_started:
  assumes "unmarshalRequestData decode_ReshareRequest data = Inr req" and "ask_reshare E net data n = (w, [s], reply, r)"
  shows "can_reshare E req n \<and> resharing req n (started_reshare n w [s])"
  using assms
  by (auto simp: RpcService_Reshare_def json_Marshal_def TssCaller_Reshare_def NewReshareService_def reshare_config_def can_reshare_def resharing_def
      SetStreamHandler_def Let_def split: option.splits sum.splits prod.splits)

lemma begun_of_run:
  "signing (ne_eth E) req n (started_signer n w ss) \<Longrightarrow> starts (signer_ok (ne_eth E) (ne_pm E)) (nd_world n) w ss \<Longrightarrow>
     \<exists>s. signer_of_run E (ToHexHash (ne_eth E) (bytes_of (sreq_Message req))) n (started_signer n w ss) s"
  "generating E hash n (started_dkg n w ds) \<Longrightarrow> starts (dkg_ok (ne_pm E)) (nd_world n) w ds \<Longrightarrow>
     \<exists>d. dkg_of_run E hash n (started_dkg n w ds) d"
  "resharing rreq n (started_reshare n w rs) \<Longrightarrow> starts (reshare_ok (ne_pm E)) (nd_world n) w rs \<Longrightarrow>
     \<exists>x. reshare_of_run E (rreq_Hash rreq) n (started_reshare n w rs) x"
  by (auto simp: signing_def signer_of_run_def generating_def dkg_of_run_def resharing_def reshare_of_run_def starts_def)

interpretation sign_run: run_request
    "unmarshalRequestData decode_SignRequest data = Inr req" "\<lambda>E. can_sign E req" "\<lambda>E. signing (ne_eth E) req"
    "''SignMessage''" "bytes_of (json_text data)" "\<lambda>E. GetProtocol (ToHexHash (ne_eth E) (bytes_of (sreq_Message req)))"
    "\<lambda>E net n. ask_sign E net proc data n"
    "\<lambda>E n r. \<exists>w s. r = (w, [s], sign_reply (ToHexHash (ne_eth E) (bytes_of (sreq_Message req))) (result_of (proc s))) \<and>
       signing (ne_eth E) req n (started_signer n w [s])"
    "\<lambda>E n r. \<exists>w. r = (w, [], Blocked) \<and>
       fmlookup (w_handlers w) (GetProtocol (ToHexHash (ne_eth E) (bytes_of (sreq_Message req)))) =
         Some (SignerHandle (ToHexHash (ne_eth E) (bytes_of (sreq_Message req))))"
    "\<lambda>E. signer_of_run E (ToHexHash (ne_eth E) (bytes_of (sreq_Message req)))"
    "\<lambda>n (w, ss, r). if length ss = 1 then Some (started_signer n w ss) else None"
  for data req proc
proof (unfold_locales, goal_cases)
  case (1 E a n n')
  from peer_serve_starts(1) [OF 1(2)] 1(3) show ?case using begun_of_run(1) by blast
next
  case (2 n E net n')
  then obtain w s r where ask: "ask_sign E net proc data n = (w, [s], r)" and n': "n' = started_signer n w [s]"
    by (auto simp: length_Suc_conv split: prod.splits if_splits)
  from ask_sign_started [OF 2(1) ask] begun_of_run(1) [OF _ client_sign_starts(1) [OF ask]] ask show ?case
    unfolding n' by auto
qed

interpretation dkg_run: run_request
    True "\<lambda>E. can_dkg E hash" "\<lambda>E. generating E hash" "''RegisterDKG''" "bytes_of hash" "\<lambda>E. GetProtocol hash"
    "\<lambda>E net n. ask_dkg E net proc hash n"
    "\<lambda>E n r. \<exists>w d. r = (w, [d], dkg_reply (ne_eth E) (ne_alice E) hash (result_of (proc d))) \<and> generating E hash n (started_dkg n w [d])"
    "\<lambda>E n r. \<exists>w. r = (w, [], Blocked)"
    "\<lambda>E. dkg_of_run E hash"
    "\<lambda>n (w, ds, r). if length ds = 1 then Some (started_dkg n w ds) else None"
  for hash proc
proof (unfold_locales, goal_cases)
  case (1 E a n n')
  from peer_serve_starts(2) [OF 1(2)] 1(3) show ?case using begun_of_run(2) by blast
next
  case (2 n E net n')
  then obtain w d r where ask: "ask_dkg E net proc hash n = (w, [d], r)" and n': "n' = started_dkg n w [d]"
    by (auto simp: length_Suc_conv split: prod.splits if_splits)
  from ask_dkg_started [OF ask] begun_of_run(2) [OF _ client_dkg_starts(1) [OF ask]] ask show ?case
    unfolding n' by auto
qed

interpretation reshare_run: run_request
    "unmarshalRequestData decode_ReshareRequest data = Inr req" "\<lambda>E. can_reshare E req" "\<lambda>E. resharing req"
    "''Reshare''" "bytes_of (json_text data)" "\<lambda>E. GetProtocol (rreq_Hash req)"
    "\<lambda>E net n. ask_reshare E net data n"
    "\<lambda>E n r. \<exists>w s. r = (w, [s], Some (rreq_Hash req), Gives (Inr ())) \<and> resharing req n (started_reshare n w [s])"
    "\<lambda>E n r. \<exists>w. r = (w, [], Some (rreq_Hash req), Blocked)"
    "\<lambda>E. reshare_of_run E (rreq_Hash req)"
    "\<lambda>n (w, rs, r). if length rs = 1 then Some (started_reshare n w rs) else None"
  for data req
proof (unfold_locales, goal_cases)
  case (1 E a n n')
  from peer_serve_starts(3) [OF 1(2)] 1(3) show ?case using begun_of_run(3) by blast
next
  case (2 n E net n')
  then obtain w x reply r where ask: "ask_reshare E net data n = (w, [x], reply, r)" and n': "n' = started_reshare n w [x]"
    by (auto simp: length_Suc_conv split: prod.splits if_splits)
  from ask_reshare_started [OF 2(1) ask] begun_of_run(3) [OF _ client_reshare_starts(1) [OF ask]] ask show ?case
    unfolding n' by auto
qed

section \<open>Where a message can go\<close>

text \<open>Two lists of services that differ only where the name of a service satisfies \<open>P\<close>.\<close>

definition same_but :: "('v \<Rightarrow> bool) \<Rightarrow> 'v list \<Rightarrow> 'v list \<Rightarrow> bool" where
  "same_but P vs vs' \<longleftrightarrow> list_all2 (\<lambda>v v'. v' = v \<or> P v) vs vs'"

lemma same_but_refl [simp]: "same_but P vs vs"
  by (simp add: same_but_def list.rel_refl)

lemma same_but_update_last:
  assumes "\<And>v. Q v \<Longrightarrow> P v"
  shows "same_but P vs (update_last Q f vs)"
  unfolding same_but_def by (rule list_all2_mono [OF update_last_cases]) (use assms in auto)

section \<open>Properties\<close>

text \<open>C7: Once a signing has started, its nodes hear each other.  If the call at node \<open>i\<close> has started a
  service there, then every peer it told has one too; and whatever protobuf messages the services of
  these nodes send to each other, in whatever order they arrive, each service gets exactly those sent
  to it, in the order of their arrival, and nothing else changes on any node; of the ten attempts for
  each message only the last has to succeed.\<close>

theorem signing_messages_arrive:
  assumes "\<And>j. addresses_ok (ne_libp2p (E j)) (known_peers (E j) (N j)) \<and> ne_eth (E j) = e"
    and "unmarshalRequestData decode_SignRequest data = Inr req" and "ask_sign (E i) (net_of conn E N) proc data (N i) = (w, [s], r)"
    and "N' = after_request E ''SignMessage'' (bytes_of (json_text data)) i (started_signer (N i) w [s]) N"
    and "\<forall>(j, k, link, bs) \<in> set ms. takes_part E i N j \<and> takes_part E i N k \<and> k |\<in>| fmdom (known_peers (E j) (N j)) \<and> link 9 = None"
  shows "\<exists>sv. (\<forall>j. takes_part E i N j \<longrightarrow> nd_signers (N' j) = nd_signers (N j) @ [sv j] \<and> sg_signer (sv j) \<noteq> None) \<and>
    deliver_all (\<lambda>j. ne_libp2p (E j)) M (\<lambda>j. w_peers (nd_world (N' j))) (\<lambda>j. sg_pm (sv j)) ms N' =
      (\<lambda>k. if takes_part E i N k
        then (N' k)\<lparr>nd_signers := nd_signers (N k) @
          [(sv k)\<lparr>sg_signer := map_option (fold (heard (in_Unmarshal M) (in_signer M)) (sent_to k ms)) (sg_signer (sv k))\<rparr>]\<rparr>
        else N' k)"
proof -
  let ?h = "ToHexHash e (bytes_of (sreq_Message req))"
  have "\<exists>x. signer_of_run (E j) ?h (N j) (N' j) x" if "takes_part E i N j" for j
    unfolding assms(4)
    using sign_run.services_of_run [where conn = conn and E = E and N = N and proc = proc, OF assms(2) _ _ that] assms(1,3) by simp
  then obtain sv where sv: "signer_of_run (E j) ?h (N j) (N' j) (sv j)" if "takes_part E i N j" for j by metis
  have deliver: "deliver_all (\<lambda>j. ne_libp2p (E j)) M (\<lambda>j. w_peers (nd_world (N' j))) (\<lambda>j. sg_pm (sv j)) ms N' =
      (\<lambda>k. if takes_part E i N k
        then (N' k)\<lparr>nd_signers := nd_signers (N k) @ [fold (\<lambda>bs. Signer_Handle (Inr bs) (in_Unmarshal M) (in_signer M)) (sent_to k ms) (sv k)]\<rparr>
        else N' k)"
    by (rule signer_messages.deliveries_arrive [where p = "GetProtocol ?h"])
      (use sv assms(1,5) in \<open>fastforce simp: signer_of_run_def signer_ok_def\<close>)+
  have some: "sg_signer (sv j) \<noteq> None" if "takes_part E i N j" for j
    using sv [OF that] by (simp add: signer_of_run_def signer_ok_def)
  show ?thesis
    by (rule exI [of _ sv]) (use sv some in \<open>auto simp: deliver signer_of_run_def fold_Signer_Handle fun_eq_iff\<close>)
qed

text \<open>The same for a key generation under a name without a dash, which \<^verbatim>\<open>RandomHash\<close> always gives.\<close>

lemma dkg_messages_arrive:
  assumes "\<And>j. addresses_ok (ne_libp2p (E j)) (known_peers (E j) (N j))" and "CHR ''-'' \<notin> set hash"
    and "ask_dkg (E i) (net_of conn E N) proc hash (N i) = (w, [d], r)"
    and "N' = after_request E ''RegisterDKG'' (bytes_of hash) i (started_dkg (N i) w [d]) N"
    and "\<forall>(j, k, link, bs) \<in> set ms. takes_part E i N j \<and> takes_part E i N k \<and> k |\<in>| fmdom (known_peers (E j) (N j)) \<and> link 9 = None"
  shows "\<exists>sv. (\<forall>j. takes_part E i N j \<longrightarrow> nd_dkgs (N' j) = nd_dkgs (N j) @ [sv j]) \<and>
    deliver_all (\<lambda>j. ne_libp2p (E j)) M (\<lambda>j. w_peers (nd_world (N' j))) (\<lambda>j. dkg_pm (sv j)) ms N' =
      (\<lambda>k. if takes_part E i N k
        then (N' k)\<lparr>nd_dkgs := nd_dkgs (N k) @
          [(sv k)\<lparr>dkg_dkg := fold (heard (in_Unmarshal M) (in_dkg M)) (sent_to k ms) (dkg_dkg (sv k))\<rparr>]\<rparr>
        else N' k)"
proof -
  have "\<exists>x. dkg_of_run (E j) hash (N j) (N' j) x" if "takes_part E i N j" for j
    unfolding assms(4)
    using dkg_run.services_of_run [where conn = conn and E = E and N = N and proc = proc, OF TrueI _ _ that] assms(1,3) by simp
  then obtain sv where sv: "dkg_of_run (E j) hash (N j) (N' j) (sv j)" if "takes_part E i N j" for j by metis
  have deliver: "deliver_all (\<lambda>j. ne_libp2p (E j)) M (\<lambda>j. w_peers (nd_world (N' j))) (\<lambda>j. dkg_pm (sv j)) ms N' =
      (\<lambda>k. if takes_part E i N k
        then (N' k)\<lparr>nd_dkgs := nd_dkgs (N k) @ [fold (\<lambda>bs. Dkg_Handle (Inr bs) (in_Unmarshal M) (in_dkg M)) (sent_to k ms) (sv k)]\<rparr> else N' k)"
    by (rule dkg_messages.deliveries_arrive [where p = "GetProtocol hash"])
      (use sv assms(1,5) in \<open>fastforce simp: dkg_of_run_def dkg_ok_def before_dash_id [OF assms(2)]\<close>)+
  show ?thesis by (rule exI [of _ sv]) (use sv in \<open>auto simp: deliver dkg_of_run_def fold_Dkg_Handle fun_eq_iff\<close>)
qed

text \<open>And for a resharing.\<close>

lemma reshare_messages_arrive:
  assumes "\<And>j. addresses_ok (ne_libp2p (E j)) (known_peers (E j) (N j))"
    and "unmarshalRequestData decode_ReshareRequest data = Inr req" and "ask_reshare (E i) (net_of conn E N) data (N i) = (w, [x], reply, r)"
    and "N' = after_request E ''Reshare'' (bytes_of (json_text data)) i (started_reshare (N i) w [x]) N"
    and "\<forall>(j, k, link, bs) \<in> set ms. takes_part E i N j \<and> takes_part E i N k \<and> k |\<in>| fmdom (known_peers (E j) (N j)) \<and> link 9 = None"
  shows "\<exists>sv. (\<forall>j. takes_part E i N j \<longrightarrow> nd_reshares (N' j) = nd_reshares (N j) @ [sv j]) \<and>
    deliver_all (\<lambda>j. ne_libp2p (E j)) M (\<lambda>j. w_peers (nd_world (N' j))) (\<lambda>j. rs_pm (sv j)) ms N' =
      (\<lambda>k. if takes_part E i N k
        then (N' k)\<lparr>nd_reshares := nd_reshares (N k) @
          [(sv k)\<lparr>rs_reshare := fold (heard (in_Unmarshal M) (in_reshare M)) (sent_to k ms) (rs_reshare (sv k))\<rparr>]\<rparr>
        else N' k)"
proof -
  have "\<exists>x. reshare_of_run (E j) (rreq_Hash req) (N j) (N' j) x" if "takes_part E i N j" for j
    unfolding assms(4)
    using reshare_run.services_of_run [where conn = conn and E = E and N = N, OF assms(2) _ _ that] assms(1,3) by simp
  then obtain sv where sv: "reshare_of_run (E j) (rreq_Hash req) (N j) (N' j) (sv j)" if "takes_part E i N j" for j by metis
  have deliver: "deliver_all (\<lambda>j. ne_libp2p (E j)) M (\<lambda>j. w_peers (nd_world (N' j))) (\<lambda>j. rs_pm (sv j)) ms N' =
      (\<lambda>k. if takes_part E i N k
        then (N' k)\<lparr>nd_reshares := nd_reshares (N k) @ [fold (\<lambda>bs. Reshare_Handle (Inr bs) (in_Unmarshal M) (in_reshare M)) (sent_to k ms) (sv k)]\<rparr>
        else N' k)"
    by (rule reshare_messages.deliveries_arrive [where p = "GetProtocol (rreq_Hash req)"])
      (use sv assms(1,5) in \<open>fastforce simp: reshare_of_run_def reshare_ok_def\<close>)+
  show ?thesis by (rule exI [of _ sv]) (use sv in \<open>auto simp: deliver reshare_of_run_def fold_Reshare_Handle fun_eq_iff\<close>)
qed

text \<open>C15: A message of a run never reaches another run: on well-formed nodes, sending on the protocol of a
  hash changes at most services with that hash (for a key generation, the part before the dash), and
  no peer table, handler or store.\<close>

theorem messages_stay_within_their_run:
  assumes "\<And>j. handlers_ok (w_handlers (nd_world (N j)))" and "pm_protocol pm = GetProtocol h"
    and "transmit L M link hp pm peer message N = N'"
  shows "nd_world (N' j) = nd_world (N j) \<and>
    same_but (\<lambda>d. before_dash (dkg_hash d) = h) (nd_dkgs (N j)) (nd_dkgs (N' j)) \<and>
    same_but (\<lambda>s. sg_hash s = h) (nd_signers (N j)) (nd_signers (N' j)) \<and>
    same_but (\<lambda>r. rs_hash r = h) (nd_reshares (N j)) (nd_reshares (N' j))"
proof -
  have received: "nd_world (receive M f bs n) = nd_world n \<and>
    same_but (\<lambda>d. before_dash (dkg_hash d) = h) (nd_dkgs n) (nd_dkgs (receive M f bs n)) \<and>
    same_but (\<lambda>s. sg_hash s = h) (nd_signers n) (nd_signers (receive M f bs n)) \<and>
    same_but (\<lambda>r. rs_hash r = h) (nd_reshares n) (nd_reshares (receive M f bs n))"
    if "handler_protocol f = GetProtocol h" for f bs n
    using that by (cases f) (auto simp: GetProtocol_names intro!: same_but_update_last)
  from transmit_cases [of L M link hp pm peer message N] show ?thesis
  proof
    assume "transmit L M link hp pm peer message N = N"
    then show ?thesis using assms(3) by simp
  next
    assume "\<exists>k f bs. fmlookup (w_handlers (nd_world (N k))) (pm_protocol pm) = Some f \<and>
      transmit L M link hp pm peer message N = N(k := receive M f bs (N k))"
    then obtain k f bs where f: "fmlookup (w_handlers (nd_world (N k))) (pm_protocol pm) = Some f"
      and N': "N' = N(k := receive M f bs (N k))" using assms(3) by blast
    have "handler_protocol f = GetProtocol h" using assms(1,2) f unfolding handlers_ok_def by metis
    from received [OF this, of bs "N k"] show ?thesis unfolding N' by (cases "j = k") simp_all
  qed
qed

text \<open>C28: A peer can cut a signing off from its messages.  Any node may ask for a key generation under
  the hash of the message being signed, or under that hash with a dash and more; the node starts it,
  its handler takes the place of the signing's, and no message sent on the protocol of the signing
  reaches the signing any more.\<close>

theorem peer_can_cut_off_a_signing:
  assumes "can_dkg (E k) d (N k)" and "before_dash d = h" and "pm_protocol pm = GetProtocol h"
    and "peer_serve (E k) (peer_args ''TssPeerService'' ''RegisterDKG'' (bytes_of d) a) (N k) = (n', r)"
  shows "r = Gives (Inr ()) \<and> nd_signers n' = nd_signers (N k) \<and>
    nd_signers (transmit_all L M hp pm peer ms (N(k := n')) k) = nd_signers (N k)"
proof -
  from peer_serve_dkg(1) [OF assms(1), of a] assms(4) have r: "r = Gives (Inr ())" and g: "generating (E k) d (N k) n'" by auto
  have f: "fmlookup (w_handlers (nd_world n')) (pm_protocol pm) = Some (DkgHandle d)"
    using g assms(2,3) by (auto simp: generating_def)
  from peer_serve_starts(2) [OF assms(4)] have s: "nd_signers n' = nd_signers (N k)" by auto
  have "nd_signers (transmit_all L M hp pm peer ms N' k) = nd_signers (N' k)"
    if "fmlookup (w_handlers (nd_world (N' k))) (pm_protocol pm) = Some (DkgHandle d)" for N'
    using that
  proof (induction ms arbitrary: N')
    case (Cons m ms)
    obtain link bs where m: "m = (link, bs)" by (cases m)
    let ?N = "transmit L M link hp pm peer (ProtoMsg (Inr bs)) N'"
    have world: "nd_world (receive M f bs n) = nd_world n" for f bs n by (cases f) simp_all
    have "?N k = N' k \<or> (\<exists>bs. ?N k = receive M (DkgHandle d) bs (N' k))"
      using transmit_cases [of L M link hp pm peer "ProtoMsg (Inr bs)" N'] Cons.prems by (metis fun_upd_apply option.inject)
    then have "nd_signers (?N k) = nd_signers (N' k)" "nd_world (?N k) = nd_world (N' k)" using world by auto
    with Cons.IH [of ?N] Cons.prems show ?case by (simp add: m)
  qed simp
  from this [of "N(k := n')"] f s r show ?thesis by simp
qed

section \<open>Witnesses\<close>

text \<open>Two nodes whose protocol objects are the messages they were given, the latest first.\<close>

definition protocols1 :: "(pt0, bk0, byte list list, unit, byte list list, byte list list) protocols" where
  "protocols1 = \<lparr>NewDKG = (\<lambda>_ _ _ _. Inr []), NewPaillier = (\<lambda>_. Inr ()), NewSigner = (\<lambda>_ _ _ _ _ _. Inr []),
     NewReshare = (\<lambda>_ _ _ _ _. Inr [])\<rparr>"

definition inbox1 :: "(byte list list, byte list list, byte list list) inbox" where
  "inbox1 = \<lparr>in_Unmarshal = Inr, in_dkg = (\<lambda>m p. (m # p, None)), in_signer = (\<lambda>m p. (m # p, None)), in_reshare = (\<lambda>m p. (m # p, None))\<rparr>"

definition envs1 ::
  "string \<Rightarrow> (db0 store_state, pt0, bk0, byte list list, unit, byte list list, byte list list, string, int, string) node_env"
where
  "envs1 j =
     \<lparr>ne_eth = eth0, ne_alice = alice0, ne_protocols = protocols1, ne_handler = store_db eth0 alice0 badger0,
      ne_libp2p = libp2p0, ne_unmarshal_sign = (\<lambda>b. Inl SyntaxError), ne_unmarshal_reshare = (\<lambda>b. Inl SyntaxError),
      ne_pm = main_pm j, ne_addrs = [''/ip4/127.0.0.1/tcp/10001'']\<rparr>"

definition table1 :: "string \<Rightarrow> (string, string) fmap" where
  "table1 j = (if j = ''QmA'' then table0 else fmupd ''QmA'' ''/ip4/127.0.0.1/tcp/10001/p2p/QmA'' fmempty)"

definition nodes1 :: "string \<Rightarrow> (db0 store_state, byte list list, byte list list, byte list list) node" where
  "nodes1 j = \<lparr>nd_world = \<lparr>w_peers = [table1 j], w_handlers = fmupd ProtocolId RpcHandle fmempty, w_store = MockStore holds0\<rparr>,
     nd_dkgs = [], nd_signers = [], nd_reshares = []\<rparr>"

text \<open>The first message goes through at once, the second only with the last stream.\<close>

definition sent1 :: "((nat \<Rightarrow> go_error option) \<times> byte list) list" where
  "sent1 = [(\<lambda>_. None, [1]), (\<lambda>i. if i < 9 then Some (LibError ''dial'') else None, [2])]"

text \<open>And an answer between the two.\<close>

definition exchanged1 :: "(string \<times> string \<times> (nat \<Rightarrow> go_error option) \<times> byte list) list" where
  "exchanged1 = [(''QmA'', ''QmB'', \<lambda>_. None, [1]), (''QmB'', ''QmA'', \<lambda>_. None, [3]),
     (''QmA'', ''QmB'', \<lambda>i. if i < 9 then Some (LibError ''dial'') else None, [2])]"

lemma known_peers1: "known_peers (envs1 j) (nodes1 k) = table1 k"
  by (simp add: envs1_def nodes1_def main_pm_def Peers_def)

lemma addresses_ok1: "addresses_ok (ne_libp2p (envs1 j)) (known_peers (envs1 j) (nodes1 k))"
  unfolding known_peers1 by (simp add: addresses_ok_def table1_def table0_def envs1_def libp2p0_def)

lemma exchanged1_ok:
  "\<forall>(j, k, link, bs) \<in> set exchanged1. takes_part envs1 ''QmA'' nodes1 j \<and> takes_part envs1 ''QmA'' nodes1 k \<and>
     k |\<in>| fmdom (known_peers (envs1 j) (nodes1 j)) \<and> link 9 = None"
  unfolding known_peers1 by (simp add: exchanged1_def table1_def table0_def)

lemma envs1_sel: "ne_eth (envs1 j) = eth0" "ne_libp2p (envs1 j) = libp2p0" "ne_protocols (envs1 j) = protocols1"
  by (simp_all add: envs1_def)

lemma nodes1_sel: "nd_signers (nodes1 j) = []" "nd_dkgs (nodes1 j) = []"
  by (simp_all add: nodes1_def)

lemma can_sign1: "can_sign (envs1 j) sign_req1 (nodes1 j)"
  by (rule saved_can_sign [where old = "MockStore NewMockDB" and r = result0 and B = badger0])
    (simp_all add: envs1_def nodes1_def sign_req1_def storable_result0 result0_facts save0 protocols1_def)

theorem signing_messages_arrive_witness:
  "\<exists>w s r N' sv. ask_sign (envs1 ''QmA'') (net_of (\<lambda>t i. None) envs1 nodes1) (\<lambda>s. None) sign_data1 (nodes1 ''QmA'') = (w, [s], r) \<and>
     N' = after_request envs1 ''SignMessage'' (bytes_of (json_text sign_data1)) ''QmA'' (started_signer (nodes1 ''QmA'') w [s]) nodes1 \<and>
     (\<forall>j \<in> {''QmA'', ''QmB''}. nd_signers (N' j) = [sv j]) \<and>
     map sg_signer (nd_signers (deliver_all (\<lambda>j. libp2p0) inbox1 (\<lambda>j. w_peers (nd_world (N' j))) (\<lambda>j. sg_pm (sv j)) exchanged1 N' ''QmB'')) =
       [map_option (\<lambda>g. [2] # [1] # g) (sg_signer (sv ''QmB''))] \<and>
     map sg_signer (nd_signers (deliver_all (\<lambda>j. libp2p0) inbox1 (\<lambda>j. w_peers (nd_world (N' j))) (\<lambda>j. sg_pm (sv j)) exchanged1 N' ''QmA'')) =
       [map_option (\<lambda>g. [3] # g) (sg_signer (sv ''QmA''))]"
proof -
  have "\<And>info. \<exists>t. (\<lambda>(t :: nat) (i :: AddrInfo). None :: go_error option) t info = None" by simp
  from sign_request.all_able(1) [where conn = "\<lambda>t i. None" and E = envs1 and N = nodes1 and i = "''QmA''" and proc = "\<lambda>s. None",
      OF unmarshal_sign_data1 addresses_ok1 this can_sign1]
  obtain w s r where ask: "ask_sign (envs1 ''QmA'') (net_of (\<lambda>t i. None) envs1 nodes1) (\<lambda>s. None) sign_data1 (nodes1 ''QmA'') = (w, [s], r)"
    by blast
  define N' where "N' = after_request envs1 ''SignMessage'' (bytes_of (json_text sign_data1)) ''QmA'' (started_signer (nodes1 ''QmA'') w [s]) nodes1"
  have laws: "addresses_ok (ne_libp2p (envs1 j)) (known_peers (envs1 j) (nodes1 j)) \<and> ne_eth (envs1 j) = eth0" for j
    using addresses_ok1 envs1_sel by simp
  have part: "takes_part envs1 ''QmA'' nodes1 ''QmA''" "takes_part envs1 ''QmA'' nodes1 ''QmB''"
    unfolding known_peers1 by (simp_all add: table1_def table0_def)
  from signing_messages_arrive [OF laws unmarshal_sign_data1 ask N'_def exchanged1_ok, of inbox1] obtain sv
    where sv: "\<forall>j. takes_part envs1 ''QmA'' nodes1 j \<longrightarrow> nd_signers (N' j) = nd_signers (nodes1 j) @ [sv j] \<and> sg_signer (sv j) \<noteq> None"
    and all: "deliver_all (\<lambda>j. ne_libp2p (envs1 j)) inbox1 (\<lambda>j. w_peers (nd_world (N' j))) (\<lambda>j. sg_pm (sv j)) exchanged1 N' =
      (\<lambda>k. if takes_part envs1 ''QmA'' nodes1 k
        then (N' k)\<lparr>nd_signers := nd_signers (nodes1 k) @
          [(sv k)\<lparr>sg_signer := map_option (fold (heard (in_Unmarshal inbox1) (in_signer inbox1)) (sent_to k exchanged1)) (sg_signer (sv k))\<rparr>]\<rparr>
        else N' k)" by blast
  have heard: "sent_to ''QmB'' exchanged1 = [[1], [2]]" "sent_to ''QmA'' exchanged1 = [[3]]"
    "heard (in_Unmarshal inbox1) (in_signer inbox1) = (#)"
    by (simp_all add: exchanged1_def heard_def inbox1_def fun_eq_iff)
  have "(\<forall>j \<in> {''QmA'', ''QmB''}. nd_signers (N' j) = [sv j])" using sv part by (simp add: nodes1_sel)
  moreover have "nd_signers (deliver_all (\<lambda>j. libp2p0) inbox1 (\<lambda>j. w_peers (nd_world (N' j))) (\<lambda>j. sg_pm (sv j)) exchanged1 N' k) =
      [(sv k)\<lparr>sg_signer := map_option (fold (#) (sent_to k exchanged1)) (sg_signer (sv k))\<rparr>]" if "takes_part envs1 ''QmA'' nodes1 k" for k
    using fun_cong [OF all [unfolded envs1_sel(2)], of k] that by (simp add: heard nodes1_sel)
  ultimately show ?thesis
    using ask part by (intro exI [of _ w] exI [of _ s] exI [of _ r] exI [of _ N'] exI [of _ sv]) (simp add: N'_def [symmetric] heard comp_def)
qed

text \<open>A node in the middle of a signing.\<close>

definition signing1 :: "string \<Rightarrow> (db0 store_state, byte list list, byte list list, byte list list) node" where
  "signing1 j = (let h = ToHexHash eth0 (bytes_of ''ab'') in
     (nodes1 j)\<lparr>nd_signers := [\<lparr>sg_config = config_of alice0 result0, sg_pm = ClonePeerManager (main_pm j) (GetProtocol h), sg_done = False,
        sg_signer = Some [], sg_hash = h\<rparr>],
      nd_world := SetStreamHandler (GetProtocol h) (SignerHandle h) (nd_world (nodes1 j))\<rparr>)"

theorem peer_can_cut_off_a_signing_witness:
  "\<exists>n'. peer_serve (envs1 ''QmB'') (peer_args ''TssPeerService'' ''RegisterDKG'' (bytes_of (ToHexHash eth0 (bytes_of ''ab''))) ''/a'') (signing1 ''QmB'') = (n', Gives (Inr ())) \<and>
     nd_signers (transmit_all libp2p0 inbox1 [table0] (ClonePeerManager (main_pm ''QmA'') (GetProtocol (ToHexHash eth0 (bytes_of ''ab'')))) ''QmB'' sent1
       (signing1(''QmB'' := n')) ''QmB'') = nd_signers (signing1 ''QmB'')"
proof -
  let ?h = "ToHexHash eth0 (bytes_of ''ab'')"
  have dkg: "can_dkg (envs1 ''QmB'') ?h (signing1 ''QmB'')"
    by (simp add: can_dkg_def envs1_def getPort_def protocols1_def)
  have name: "before_dash ?h = ?h" by (simp add: before_dash_id ToHexHash_def dash_notin_ToHex)
  obtain n' r where "peer_serve (envs1 ''QmB'') (peer_args ''TssPeerService'' ''RegisterDKG'' (bytes_of ?h) ''/a'') (signing1 ''QmB'') = (n', r)"
    by (metis surj_pair)
  from peer_can_cut_off_a_signing [where N = signing1 and E = envs1 and ms = sent1, OF dkg name _ this,
      of "ClonePeerManager (main_pm ''QmA'') (GetProtocol ?h)"] this show ?thesis by auto
qed

theorem messages_stay_within_their_run_witness:
  "nd_signers (transmit libp2p0 inbox1 (\<lambda>_. None) [table0] (ClonePeerManager (main_pm ''QmA'') (GetProtocol ''0xcc'')) ''QmB'' (ProtoMsg (Inr [1])) signing1 ''QmB'') =
   nd_signers (signing1 ''QmB'')"
proof -
  let ?pm = "ClonePeerManager (main_pm ''QmA'') (GetProtocol ''0xcc'')"
  have "handlers_ok (w_handlers (nd_world (signing1 j)))" for j
    by (auto simp: signing1_def nodes1_def Let_def SetStreamHandler_def handlers_ok_def)
  moreover have "pm_protocol ?pm = GetProtocol ''0xcc''" by simp
  ultimately have "same_but (\<lambda>s. sg_hash s = ''0xcc'') (nd_signers (signing1 ''QmB''))
      (nd_signers (transmit libp2p0 inbox1 (\<lambda>_. None) [table0] ?pm ''QmB'' (ProtoMsg (Inr [1])) signing1 ''QmB''))"
    using messages_stay_within_their_run [where N = signing1] by blast
  moreover have "ToHexHash eth0 (bytes_of ''ab'') \<noteq> ''0xcc''"
    using length_ToHexHash [OF eth0_laws, of "bytes_of ''ab''"] by auto
  ultimately show ?thesis by (simp add: signing1_def Let_def same_but_def list_all2_Cons1)
qed

end
