(* ===== verification/Router.thy ===== *)
theory Router
  imports Network
begin

text \<open>
  \<^verbatim>\<open>types/server.go\<close> and the way of a client's request through the router: the argument structs the
  JSON-RPC package fills, the handler it calls, the reply it writes, and the timeout \<^verbatim>\<open>InitRouter\<close> puts
  around it.
\<close>

section \<open>types/server.go\<close>

text \<open>An \<^verbatim>\<open>interface{}\<close> is a value of type \<open>json\<close>, nil is \<open>JNull\<close>.\<close>

record RpcDataArgs =
  rda_Data :: json

record RpcKeyArgs =
  rka_Key :: string

record RpcDataReply =
  rdr_Data :: json

definition RpcDataArgs_fields :: "(string \<times> RpcDataArgs setter) list" where
  "RpcDataArgs_fields = [(''Data'', \<lambda>j a. Inr (a\<lparr>rda_Data := json_any j\<rparr>))]"

definition decode_RpcDataArgs :: "json \<Rightarrow> RpcDataArgs res" where
  "decode_RpcDataArgs j = decode_struct ''RpcDataArgs'' RpcDataArgs_fields j \<lparr>rda_Data = JNull\<rparr>"

definition RpcKeyArgs_fields :: "(string \<times> RpcKeyArgs setter) list" where
  "RpcKeyArgs_fields = [(''key'', decode_string (\<lambda>s. rka_Key_update (\<lambda>_. s)))]"

definition decode_RpcKeyArgs :: "json \<Rightarrow> RpcKeyArgs res" where
  "decode_RpcKeyArgs j = decode_struct ''RpcKeyArgs'' RpcKeyArgs_fields j \<lparr>rka_Key = ''''\<rparr>"

definition json_RpcDataReply :: "RpcDataReply \<Rightarrow> json" where
  "json_RpcDataReply r = JObj [(''Data'', rdr_Data r)]"

definition RpcDataReply_fields :: "(string \<times> RpcDataReply setter) list" where
  "RpcDataReply_fields = [(''Data'', \<lambda>j a. Inr (a\<lparr>rdr_Data := json_any j\<rparr>))]"

definition decode_RpcDataReply :: "json \<Rightarrow> RpcDataReply res" where
  "decode_RpcDataReply j = decode_struct ''RpcDataReply'' RpcDataReply_fields j \<lparr>rdr_Data = JNull\<rparr>"

section \<open>What the handlers put into a reply\<close>

definition json_SignerConfig :: "SignerConfig \<Rightarrow> json" where
  "json_SignerConfig c =
     JObj [(''share'', JStr (sc_Share c)), (''pubkey'', json_Pubkey (sc_Pubkey c)), (''bks'', encode_map json_BK (sc_BKs c))]"

text \<open>The fields of \<^verbatim>\<open>pb.DkgReply\<close> have the option \<^verbatim>\<open>omitempty\<close>.\<close>

definition omit_empty :: "(string \<times> string) list \<Rightarrow> json" where
  "omit_empty fs = JObj (map (\<lambda>(k, s). (k, JStr s)) (filter (\<lambda>(k, s). s \<noteq> '''') fs))"

definition json_DkgReply :: "DkgReply \<Rightarrow> json" where
  "json_DkgReply r = omit_empty
     [(''x'', dk_X r), (''y'', dk_Y r), (''pubkey'', dk_Pubkey r), (''address'', dk_Address r), (''hash'', dk_Hash r)]"

definition DkgReply_fields :: "(string \<times> DkgReply setter) list" where
  "DkgReply_fields =
     [(''x'', decode_string (\<lambda>s. dk_X_update (\<lambda>_. s))), (''y'', decode_string (\<lambda>s. dk_Y_update (\<lambda>_. s))),
      (''pubkey'', decode_string (\<lambda>s. dk_Pubkey_update (\<lambda>_. s))), (''address'', decode_string (\<lambda>s. dk_Address_update (\<lambda>_. s))),
      (''hash'', decode_string (\<lambda>s. dk_Hash_update (\<lambda>_. s)))]"

definition decode_DkgReply :: "json \<Rightarrow> DkgReply res" where
  "decode_DkgReply j = decode_struct ''DkgReply'' DkgReply_fields j
     \<lparr>dk_X = '''', dk_Y = '''', dk_Pubkey = '''', dk_Address = '''', dk_Hash = ''''\<rparr>"

definition json_ResponseCheckSignature :: "ResponseCheckSignature \<Rightarrow> json" where
  "json_ResponseCheckSignature r =
     JObj [(''isValid'', JBool (IsValid r)), (''message'', JStr (resp_Message r)), (''hashMessage'', JStr (HashMessage r)),
           (''address'', JStr (resp_Address r))]"

section \<open>Dispatch\<close>

text \<open>The JSON-RPC package: the method a request names and the JSON it fills the argument struct from.\<close>

record codec =
  cdc_Method :: "json \<Rightarrow> string res"
  cdc_Args :: "json \<Rightarrow> json res"

definition reply_with :: "('a \<Rightarrow> json) \<Rightarrow> 'a outcome \<Rightarrow> RpcDataReply outcome" where
  "reply_with enc r =
     (case r of Blocked \<Rightarrow> Blocked | Gives (Inl err) \<Rightarrow> Gives (Inl err) | Gives (Inr x) \<Rightarrow> Gives (Inr \<lparr>rdr_Data = enc x\<rparr>))"

text \<open>The receiver \<^verbatim>\<open>InitRouter\<close> registers as \<^verbatim>\<open>signer\<close>, in a process without the self service.  \<open>hash\<close> is
  what \<^verbatim>\<open>RandomHash\<close> gives the call, \<open>dproc\<close> and \<open>sproc\<close> are what the protocols give.\<close>

definition call_data ::
  "('s, 'pt, 'bk, 'dkg, 'pai, 'signer, 'reshare, 'ma, 'k, 'h) node_env \<Rightarrow> network \<Rightarrow>
   ('dkg Dkg \<Rightarrow> ('pt, 'bk) dkg_Result res option) \<Rightarrow> ('signer Signer \<Rightarrow> signer_Result res option) \<Rightarrow>
   (PublicKey \<Rightarrow> byte list \<Rightarrow> int \<Rightarrow> int \<Rightarrow> bool) \<Rightarrow> string \<Rightarrow> string \<Rightarrow> json \<Rightarrow>
   ('s, 'dkg, 'signer, 'reshare) node \<Rightarrow> ('s, 'dkg, 'signer, 'reshare) node \<times> RpcDataReply outcome"
where
  "call_data E net dproc sproc on_curve hash meth data n =
     (if meth = ''signer.GetSignerConfig'' then
        (n, reply_with json_SignerConfig (Gives (RpcService_GetSignerConfig (ne_handler E) data (nd_world n))))
      else if meth = ''signer.SignMessage'' then
        (let (w, ss, r) = ask_sign E net sproc data n in (started_signer n w ss, reply_with json_RVSignature r))
      else if meth = ''signer.RegisterDKG'' then
        (let (w, ds, r) = ask_dkg E net dproc hash n in (started_dkg n w ds, reply_with json_DkgReply r))
      else if meth = ''signer.Reshare'' then
        (let (w, rs, reply, r) = ask_reshare E net data n
         in (started_reshare n w rs, reply_with (\<lambda>_. JStr (the reply)) r))
      else if meth = ''signer.CheckSignature'' then
        (n, reply_with json_ResponseCheckSignature
           (Gives (RpcService_CheckSignature (ne_eth E) on_curve (ne_handler E) data (nd_world n))))
      else if meth = ''signer.SelfSignMessage'' \<or> meth = ''signer.RegisterSelfDKG'' then
        (n, Gives (Inl (ErrorString ''self service is not available'')))
      else (n, Gives (Inl (LibError ''rpc: can't find method''))))"

definition call_key ::
  "('s, 'pt, 'bk, 'dkg, 'pai, 'signer, 'reshare, 'ma, 'k, 'h) node_env \<Rightarrow> string \<Rightarrow>
   ('s, 'dkg, 'signer, 'reshare) node \<Rightarrow> RpcDataReply outcome"
where
  "call_key E key n =
     reply_with (\<lambda>found. case found of None \<Rightarrow> JNull | Some d \<Rightarrow> json_DKGResult (ne_eth E) d)
       (Gives (RpcService_GetDKG (ne_handler E) key (nd_world n)))"

text \<open>The two methods that work on the nodes of the self service.\<close>

definition call_self ::
  "eth \<Rightarrow> ('pt, 'bk) alice \<Rightarrow> ('pt, 'bk, 'dkg, 'pai, 'signer, 'reshare) protocols \<Rightarrow> (nat \<Rightarrow> go_error option) \<Rightarrow>
   (nat \<Rightarrow> wait_event) \<Rightarrow> (nat \<Rightarrow> string list) \<Rightarrow> ('dkg Dkg \<Rightarrow> ('pt, 'bk) dkg_Result res option) \<Rightarrow>
   ('signer Signer \<Rightarrow> signer_Result res option) \<Rightarrow> nat \<Rightarrow> 'h SelfService option \<Rightarrow> ('s, 'pt, 'bk) HandlerData \<Rightarrow>
   string \<Rightarrow> string \<Rightarrow> json \<Rightarrow> 's cluster \<Rightarrow> 's cluster \<times> RpcDataReply outcome"
where
  "call_self e A P discovery events addrs dproc sproc pick selfService H hash meth data cl =
     (if meth = ''signer.SelfSignMessage'' then
        (let (cl', ss, r) = RpcService_SelfSignMessage e A P discovery events sproc pick selfService (Some H) data cl
         in (cl', reply_with json_RVSignature r))
      else if meth = ''signer.RegisterSelfDKG'' then
        (let (cl', ds, r) = RpcService_RegisterSelfDKG e A P discovery events addrs dproc pick selfService (Some H) hash cl
         in (cl', reply_with json_DkgReply r))
      else (cl, Gives (Inl (LibError ''rpc: can't find method''))))"

text \<open>Without the self service they change nothing and answer what \<open>call_data\<close> does.\<close>

lemma call_self_without_service:
  assumes "meth = ''signer.SelfSignMessage'' \<or> meth = ''signer.RegisterSelfDKG''"
  shows "fst (call_self e A P discovery events addrs dproc sproc pick None H hash meth data cl) = cl \<and>
    snd (call_self e A P discovery events addrs dproc sproc pick None H hash meth data cl) =
      snd (call_data E net dproc' sproc' on_curve hash' meth data' n)"
  using assms
  by (auto simp: call_self_def call_data_def RpcService_SelfSignMessage_def RpcService_RegisterSelfDKG_def reply_with_def)

section \<open>The timeout\<close>

text \<open>What the client gets: the text of a reply, an error of the call, the answer of the timeout handler
  (which leaves the handler running), or a broken connection after a panic.\<close>

datatype http_answer = Answered string | Refused go_error | ServiceUnavailable string | Aborted go_error

definition handler_timeout :: nat where
  "handler_timeout = 5"

definition TimeoutHandler :: "nat \<Rightarrow> RpcDataReply outcome \<Rightarrow> http_answer" where
  "TimeoutHandler seconds r =
     (case r of
        Blocked \<Rightarrow> ServiceUnavailable ''Timeout!''
      | Gives x \<Rightarrow>
          if handler_timeout \<le> seconds then ServiceUnavailable ''Timeout!''
          else (case x of
             Inl err \<Rightarrow> if is_panic err then Aborted err else Refused err
           | Inr reply \<Rightarrow> Answered (json_text (json_RpcDataReply reply))))"

text \<open>\<open>seconds\<close> is how long the handler took, if it returned.\<close>

definition serve_http ::
  "codec \<Rightarrow> ('s, 'pt, 'bk, 'dkg, 'pai, 'signer, 'reshare, 'ma, 'k, 'h) node_env \<Rightarrow> network \<Rightarrow>
   ('dkg Dkg \<Rightarrow> ('pt, 'bk) dkg_Result res option) \<Rightarrow> ('signer Signer \<Rightarrow> signer_Result res option) \<Rightarrow>
   (PublicKey \<Rightarrow> byte list \<Rightarrow> int \<Rightarrow> int \<Rightarrow> bool) \<Rightarrow> string \<Rightarrow> nat \<Rightarrow> json \<Rightarrow>
   ('s, 'dkg, 'signer, 'reshare) node \<Rightarrow> ('s, 'dkg, 'signer, 'reshare) node \<times> http_answer"
where
  "serve_http C E net dproc sproc on_curve hash seconds req n =
     (case cdc_Method C req of
        Inl err \<Rightarrow> (n, Refused err)
      | Inr meth \<Rightarrow>
          (case cdc_Args C req of
             Inl err \<Rightarrow> (n, Refused err)
           | Inr args \<Rightarrow>
               if meth = ''signer.GetDKG'' then
                 (case decode_RpcKeyArgs args of
                    Inl err \<Rightarrow> (n, Refused err)
                  | Inr a \<Rightarrow> (n, TimeoutHandler seconds (call_key E (rka_Key a) n)))
               else
                 (case decode_RpcDataArgs args of
                    Inl err \<Rightarrow> (n, Refused err)
                  | Inr a \<Rightarrow>
                      (let (n', r) = call_data E net dproc sproc on_curve hash meth (rda_Data a) n
                       in (n', TimeoutHandler seconds r)))))"

section \<open>Reading a reply\<close>

text \<open>A client reads the reply into the same struct and its data into a struct of its own.\<close>

definition read_reply :: "(json \<Rightarrow> 'a res) \<Rightarrow> string \<Rightarrow> 'a res" where
  "read_reply decode body =
     (case json_parse body of
        Inl err \<Rightarrow> Inl err
      | Inr j \<Rightarrow> (case decode_RpcDataReply j of Inl err \<Rightarrow> Inl err | Inr r \<Rightarrow> decode (rdr_Data r)))"

lemma read_reply_text:
  assumes "json_ok j" and "json_valid j"
  shows "read_reply decode (json_text (json_RpcDataReply \<lparr>rdr_Data = j\<rparr>)) = decode (json_any j)"
proof -
  have "json_ok (json_RpcDataReply \<lparr>rdr_Data = j\<rparr>)" "json_valid (json_RpcDataReply \<lparr>rdr_Data = j\<rparr>)"
    using assms by (simp_all add: json_RpcDataReply_def)
  then have "json_parse (json_text (json_RpcDataReply \<lparr>rdr_Data = j\<rparr>)) = Inr (json_RpcDataReply \<lparr>rdr_Data = j\<rparr>)"
    using json_parse_text json_utf8_valid by metis
  then show ?thesis
    by (simp add: read_reply_def)
      (simp add: json_RpcDataReply_def decode_RpcDataReply_def RpcDataReply_fields_def find_field_def)
qed

lemma decode_RVSignature_any [roundtrip]: "decode_RVSignature (json_any (json_RVSignature v)) = Inr v"
  by (simp add: json_RVSignature_def canon_def decode_RVSignature_def RVSignature_fields_def find_field_def zero_RVSignature_def)

lemma decode_DkgReply_any [roundtrip]: "decode_DkgReply (json_any (json_DkgReply r)) = Inr r"
  by (cases "dk_X r = []"; cases "dk_Y r = []"; cases "dk_Pubkey r = []"; cases "dk_Address r = []"; cases "dk_Hash r = []")
     (simp_all add: json_DkgReply_def omit_empty_def canon_def decode_DkgReply_def DkgReply_fields_def find_field_def)

lemma TimeoutHandler_Answered:
  "TimeoutHandler seconds (reply_with enc r) = Answered body \<Longrightarrow>
     \<exists>x. r = Gives (Inr x) \<and> body = json_text (json_RpcDataReply \<lparr>rdr_Data = enc x\<rparr>)"
  by (auto simp: TimeoutHandler_def reply_with_def split: outcome.splits sum.splits if_splits)

lemma read_signature:
  "read_reply decode_RVSignature (json_text (json_RpcDataReply \<lparr>rdr_Data = json_RVSignature (signature_of (ToHexHash e m) result)\<rparr>)) =
     Inr (signature_of (ToHexHash e m) result)"
proof -
  have "json_ok (json_RVSignature (signature_of (ToHexHash e m) result))" "json_valid (json_RVSignature (signature_of (ToHexHash e m) result))"
    by (simp_all add: signature_of_def json_RVSignature_def ToHexHash_def ToHex_def)
  from read_reply_text [OF this, of decode_RVSignature] show ?thesis by (simp only: decode_RVSignature_any)
qed

text \<open>A client of the self service reads its signature the same way.\<close>

lemma self_client_reads_signature:
  assumes "TimeoutHandler seconds (snd (call_self e A P discovery events addrs dproc sproc pick (Some s) H hash ''signer.SelfSignMessage'' data cl)) =
      Answered body"
    and "unmarshalRequestData decode_SignRequest data = Inr req"
  shows "\<exists>result. read_reply decode_RVSignature body = Inr (signature_of (ToHexHash e (bytes_of (sreq_Message req))) result) \<and>
    snd (snd (SelfService_SignMessage e A P discovery events sproc None pick s (Some H) (Some req) cl)) = Gives (Inr (Some result))"
proof -
  obtain cl' ss q where q: "SelfService_SignMessage e A P discovery events sproc None pick s (Some H) (Some req) cl = (cl', ss, q)"
    by (metis surj_pair)
  let ?h = "ToHexHash e (bytes_of (sreq_Message req))"
  have "TimeoutHandler seconds (reply_with json_RVSignature (sign_reply ?h q)) = Answered body"
    using assms q by (simp add: call_self_def RpcService_SelfSignMessage_def)
  from TimeoutHandler_Answered [OF this] obtain sig
    where sig: "sign_reply ?h q = Gives (Inr sig)" and body: "body = json_text (json_RpcDataReply \<lparr>rdr_Data = json_RVSignature sig\<rparr>)" by blast
  from sign_reply_result [OF sig] obtain result where r: "q = Gives (Inr (Some result))" "sig = signature_of ?h result" by blast
  have "read_reply decode_RVSignature body = Inr sig" unfolding body r(2) by (rule read_signature)
  with r q show ?thesis by simp
qed

section \<open>Properties\<close>

text \<open>C9: A client that gets an answer to a signing request within the timeout reads the signature of its
  message from it: the text of the answer decodes to the \<open>r\<close>, \<open>s\<close> and hash of the result of the one
  service the request has started on the node, and that service signs the message of the request.\<close>

theorem client_reads_signature:
  assumes "cdc_Method C req = Inr ''signer.SignMessage''" and "cdc_Args C req = Inr args" and "decode_RpcDataArgs args = Inr a"
    and "serve_http C E net dproc sproc on_curve hash seconds req n = (n', Answered body)"
  shows "\<exists>s sreq result. unmarshalRequestData decode_SignRequest (rda_Data a) = Inr sreq \<and>
    nd_signers n' = nd_signers n @ [s] \<and> sg_hash s = ToHexHash (ne_eth E) (bytes_of (sreq_Message sreq)) \<and>
    sproc s = Some (Inr result) \<and> read_reply decode_RVSignature body = Inr (signature_of (sg_hash s) result) \<and> seconds < 5"
proof -
  obtain w ss r where ask: "ask_sign E net sproc (rda_Data a) n = (w, ss, r)" by (metis surj_pair)
  have n': "n' = started_signer n w ss" and answer: "TimeoutHandler seconds (reply_with json_RVSignature r) = Answered body"
    using assms ask by (simp_all add: serve_http_def call_data_def)
  from TimeoutHandler_Answered [OF answer] obtain sig
    where r: "r = Gives (Inr sig)" and body: "body = json_text (json_RpcDataReply \<lparr>rdr_Data = json_RVSignature sig\<rparr>)" by blast
  have "seconds < 5" using answer by (auto simp: r TimeoutHandler_def reply_with_def handler_timeout_def split: if_splits)
  moreover from ask r obtain sreq where sreq: "unmarshalRequestData decode_SignRequest (rda_Data a) = Inr sreq"
    by (auto simp: RpcService_SignMessage_def split: sum.splits)
  moreover from ask sreq r obtain call q where reply: "sign_reply (ToHexHash (ne_eth E) (bytes_of (sreq_Message sreq))) q = Gives (Inr sig)"
    and run: "TssCaller_SignMessage (ne_eth E) (ne_alice E) (ne_protocols E) (ne_handler E)
      (ClonePeerManager (ne_pm E) (GetProtocol (ToHexHash (ne_eth E) (bytes_of (sreq_Message sreq))))) sreq (Some call) sproc (nd_world n) = (w, ss, q)"
    by (auto simp: RpcService_SignMessage_def Let_def split: sum.splits prod.splits)
  from sign_reply_result [OF reply] obtain result where q: "q = Gives (Inr (Some result))"
    and sig: "sig = signature_of (ToHexHash (ne_eth E) (bytes_of (sreq_Message sreq))) result" by blast
  from SignMessage_result [OF run [unfolded q]] obtain s
    where s: "ss = [s]" "sproc s = Some (Inr result)" "sg_hash s = ToHexHash (ne_eth E) (bytes_of (sreq_Message sreq))" by blast
  have "read_reply decode_RVSignature body = Inr sig" unfolding body sig by (rule read_signature)
  ultimately show ?thesis using n' s sig by auto
qed

text \<open>C10: A client that reads the answer to a key generation can sign with it: hash and public key as the
  client decodes them find the configuration of the result, on either kind of store, once the
  service has saved it.\<close>

theorem client_reads_key:
  assumes "eth_laws e" and "alice_laws A" and "badger_laws B" and "ne_eth E = e" and "ne_alice E = A"
    and "cdc_Method C req = Inr ''signer.RegisterDKG''" and "cdc_Args C req = Inr args" and "decode_RpcDataArgs args = Inr a"
    and "serve_http C E net dproc sproc on_curve hash seconds req n = (n', Answered body)"
    and "\<And>d r. dproc d = Some (Inr r) \<Longrightarrow> storable r" and "\<And>b. ascii_text (Address_String e b)" and "ascii_text hash"
  shows "\<exists>d result reply. nd_dkgs n' = nd_dkgs n @ [d] \<and> dkg_hash d = hash \<and> dproc d = Some (Inr result) \<and>
    read_reply decode_DkgReply body = Inr reply \<and>
    (\<forall>s. SaveDKGResultData (store_db e A B) hash result (w_store (nd_world n')) = (s, None) \<longrightarrow>
       GetSignerConfig (store_db e A B) (dk_Hash reply) (dk_Pubkey reply) s = Inr (config_of A result))"
proof -
  obtain w ds r where ask: "ask_dkg E net dproc hash n = (w, ds, r)" by (metis surj_pair)
  have n': "n' = started_dkg n w ds" and answer: "TimeoutHandler seconds (reply_with json_DkgReply r) = Answered body"
    using assms(6-9) ask by (simp_all add: serve_http_def call_data_def)
  from TimeoutHandler_Answered [OF answer] obtain reply
    where r: "r = Gives (Inr reply)" and body: "body = json_text (json_RpcDataReply \<lparr>rdr_Data = json_DkgReply reply\<rparr>)" by blast
  from ask r obtain d result where d: "ds = [d]" "dproc d = Some (Inr result)" "dkg_hash d = hash"
    and reply: "dkg_reply e A hash (Gives (Inr (Some result))) = Gives (Inr reply)"
    using assms(4,5)
    by (auto simp: RpcService_RegisterDKG_def TssCaller_RegisterDKG_def NewDkgService_def Let_def
        split: sum.splits option.splits prod.splits outcome.splits) (auto simp: dkg_reply_def)
  have "json_ok (json_DkgReply reply)" "json_valid (json_DkgReply reply)"
    using reply assms(11,12) by (auto simp: dkg_reply_def json_DkgReply_def omit_empty_def Let_def)
  then have "read_reply decode_DkgReply body = Inr reply"
    by (simp add: body read_reply_text decode_DkgReply_any)
  moreover have "dk_Hash reply = hash" "dk_Pubkey reply = pubkey_text e A result"
    using reply by (auto simp: dkg_reply_def pubkey_text_def Let_def)
  moreover have "GetSignerConfig (store_db e A B) hash (pubkey_text e A result) s = Inr (config_of A result)"
    if "SaveDKGResultData (store_db e A B) hash result (w_store (nd_world n')) = (s, None)" for s
    using store.get_repr [OF _ store.save_repr [OF _ assms(10) [OF d(2)] that]] assms(1-3) by simp
  ultimately show ?thesis using n' d by auto
qed

text \<open>C25: If one peer cannot take part in a signing, for instance because it does not have the key, the
  client is told of a timeout and nothing of the reason: the peer's error makes the node call again
  and again, no service starts, and the handler of the one it has made stays registered.\<close>

theorem refused_signing_times_out:
  assumes "addresses_ok (ne_libp2p (E i)) (known_peers (E i) (N i))"
    and "cdc_Method C req = Inr ''signer.SignMessage''" and "cdc_Args C req = Inr args" and "decode_RpcDataArgs args = Inr a"
    and "unmarshalRequestData decode_SignRequest (rda_Data a) = Inr sreq" and "can_sign (E i) sreq (N i)"
    and "k |\<in>| fmdom (known_peers (E i) (N i))" and "\<not> can_sign (E k) sreq (N k)"
  shows "\<exists>n'. serve_http C (E i) (net_of conn E N) dproc sproc on_curve hash seconds req (N i) = (n', ServiceUnavailable ''Timeout!'') \<and>
    nd_signers n' = nd_signers (N i) \<and>
    fmlookup (w_handlers (nd_world n')) (GetProtocol (ToHexHash (ne_eth (E i)) (bytes_of (sreq_Message sreq)))) =
      Some (SignerHandle (ToHexHash (ne_eth (E i)) (bytes_of (sreq_Message sreq))))"
proof -
  from sign_blocks_if_a_peer_cannot [where conn = conn and E = E and N = N and proc = sproc, OF assms(1,5-8)]
  obtain w where "ask_sign (E i) (net_of conn E N) sproc (rda_Data a) (N i) = (w, [], Blocked)"
    and "fmlookup (w_handlers w) (GetProtocol (ToHexHash (ne_eth (E i)) (bytes_of (sreq_Message sreq)))) =
      Some (SignerHandle (ToHexHash (ne_eth (E i)) (bytes_of (sreq_Message sreq))))" by blast
  then show ?thesis
    using assms(2-4) by (simp add: serve_http_def call_data_def TimeoutHandler_def reply_with_def)
qed

section \<open>Witnesses\<close>

text \<open>The JSON-RPC package on requests as the README writes them.\<close>

definition codec0 :: codec where
  "codec0 =
     \<lparr>cdc_Method = (\<lambda>j. case j of JObj ms \<Rightarrow> (case map_of ms ''method'' of Some (JStr m) \<Rightarrow> Inr m | _ \<Rightarrow> Inl SyntaxError) | _ \<Rightarrow> Inl SyntaxError),
      cdc_Args = (\<lambda>j. case j of JObj ms \<Rightarrow> (case map_of ms ''params'' of Some (JArr (x # xs)) \<Rightarrow> Inr x | Some (JArr []) \<Rightarrow> Inr JNull | _ \<Rightarrow> Inl SyntaxError)
         | _ \<Rightarrow> Inl SyntaxError)\<rparr>"

definition request0 :: "string \<Rightarrow> json list \<Rightarrow> json" where
  "request0 meth params = JObj [(''jsonrpc'', JStr ''2.0''), (''method'', JStr meth), (''params'', JArr params), (''id'', JStr ''12'')]"

lemma codec0_request:
  "cdc_Method codec0 (request0 m ps) = Inr m" "cdc_Args codec0 (request0 m (p # ps)) = Inr p" "cdc_Args codec0 (request0 m []) = Inr JNull"
  by (simp_all add: codec0_def request0_def)

lemma decode_args0: "decode_RpcDataArgs (JObj [(''data'', sign_data1)]) = Inr \<lparr>rda_Data = sign_data1\<rparr>"
  by (simp add: decode_RpcDataArgs_def RpcDataArgs_fields_def find_field_def of_char_eq_iff [where ?'a = nat, symmetric])
    (simp add: sign_data1_def canon_def)

lemma always_connects: "\<exists>t. (\<lambda>(t :: nat) (i :: AddrInfo). None :: go_error option) t info = None"
  by simp

theorem client_reads_signature_witness:
  "\<exists>n' body s. serve_http codec0 (envs0 ''QmA'') (net_of (\<lambda>t i. None) envs0 (nodes0 (\<lambda>j. holds0))) (\<lambda>d. None)
      (\<lambda>s. Some (Inr \<lparr>sr_R = 17, sr_S = 18\<rparr>)) (\<lambda>_ _ _ _. True) ''0xcc'' 1 (request0 ''signer.SignMessage'' [JObj [(''data'', sign_data1)]])
      (nodes0 (\<lambda>j. holds0) ''QmA'') = (n', Answered body) \<and>
    nd_signers n' = [s] \<and> read_reply decode_RVSignature body = Inr (signature_of (sg_hash s) \<lparr>sr_R = 17, sr_S = 18\<rparr>)"
proof -
  let ?proc = "\<lambda>s :: unit Signer. Some (Inr \<lparr>sr_R = 17, sr_S = 18\<rparr>)" and ?N = "nodes0 (\<lambda>j. holds0)"
  let ?serve = "serve_http codec0 (envs0 ''QmA'') (net_of (\<lambda>t i. None) envs0 ?N) (\<lambda>d. None) ?proc (\<lambda>_ _ _ _. True) ''0xcc'' 1
    (request0 ''signer.SignMessage'' [JObj [(''data'', sign_data1)]]) (?N ''QmA'')"
  from sign_request.all_able(1) [where conn = "\<lambda>t i. None" and E = envs0 and N = ?N and i = "''QmA''" and proc = ?proc,
      OF unmarshal_sign_data1 addresses_ok0 always_connects can_sign0]
  obtain w s where "ask_sign (envs0 ''QmA'') (net_of (\<lambda>t i. None) envs0 ?N) ?proc sign_data1 (?N ''QmA'') =
      (w, [s], sign_reply (ToHexHash (ne_eth (envs0 ''QmA'')) (bytes_of (sreq_Message sign_req1))) (result_of (?proc s)))" by auto
  then obtain n' body where run: "?serve = (n', Answered body)"
    by (simp add: serve_http_def codec0_request decode_args0 call_data_def result_of_def sign_reply_def reply_with_def TimeoutHandler_def
        handler_timeout_def)
  from client_reads_signature [OF codec0_request(1,2) decode_args0 run] run show ?thesis by (auto simp: nodes0_def)
qed

lemma ask_dkg0: "\<exists>w d. ask_dkg (envs0 ''QmA'') (net_of (\<lambda>t i. None) envs0 (nodes0 (\<lambda>j. NewMockDB))) (\<lambda>d. Some (Inr result0)) ''0xaa''
    (nodes0 (\<lambda>j. NewMockDB) ''QmA'') = (w, [d], dkg_reply eth0 alice0 ''0xaa'' (Gives (Inr (Some result0))))"
proof -
  have "can_dkg (envs0 j) ''0xaa'' (nodes0 (\<lambda>j. NewMockDB) j)" for j
    by (simp add: can_dkg_def env0_def getPort_def protocols0_def)
  from dkg_request.all_able(1) [where conn = "\<lambda>t i. None" and E = envs0 and N = "nodes0 (\<lambda>j. NewMockDB)" and i = "''QmA''" and proc = "\<lambda>d. Some (Inr result0)",
      OF TrueI addresses_ok0 always_connects this]
  show ?thesis by (auto simp: result_of_def env0_sel)
qed

theorem client_reads_key_witness:
  "\<exists>n' body reply. serve_http codec0 (envs0 ''QmA'') (net_of (\<lambda>t i. None) envs0 (nodes0 (\<lambda>j. NewMockDB))) (\<lambda>d. Some (Inr result0))
      (\<lambda>s. None) (\<lambda>_ _ _ _. True) ''0xaa'' 1 (request0 ''signer.RegisterDKG'' []) (nodes0 (\<lambda>j. NewMockDB) ''QmA'') = (n', Answered body) \<and>
    read_reply decode_DkgReply body = Inr reply \<and>
    (\<forall>s. SaveDKGResultData (store_db eth0 alice0 badger0) ''0xaa'' result0 (w_store (nd_world n')) = (s, None) \<longrightarrow>
       GetSignerConfig (store_db eth0 alice0 badger0) (dk_Hash reply) (dk_Pubkey reply) s = Inr (config_of alice0 result0))"
proof -
  let ?N = "nodes0 (\<lambda>j. NewMockDB)" and ?proc = "\<lambda>d :: unit Dkg. Some (Inr result0)"
  let ?serve = "serve_http codec0 (envs0 ''QmA'') (net_of (\<lambda>t i. None) envs0 ?N) ?proc (\<lambda>s. None) (\<lambda>_ _ _ _. True) ''0xaa'' 1
    (request0 ''signer.RegisterDKG'' []) (?N ''QmA'')"
  have args: "decode_RpcDataArgs JNull = Inr \<lparr>rda_Data = JNull\<rparr>" by (simp add: decode_RpcDataArgs_def)
  from ask_dkg0 obtain n' body where run: "?serve = (n', Answered body)"
    by (auto simp: serve_http_def codec0_request args call_data_def dkg_reply_def reply_with_def TimeoutHandler_def handler_timeout_def Let_def)
  have "ascii_text (Address_String eth0 b)" for b by (simp add: eth0_def)
  moreover have "storable r" if "Some (Inr result0) = (Some (Inr r) :: (pt0, bk0) dkg_Result res option)" for r
    using that by auto
  ultimately show ?thesis
    using client_reads_key [OF eth0_laws alice0_laws badger0_laws env0_sel(1,2) codec0_request(1,3) args run] run by auto
qed

theorem refused_signing_times_out_witness:
  "\<exists>n'. serve_http codec0 (envs0 ''QmA'') (net_of (\<lambda>t i. None) envs0 (nodes0 (\<lambda>j. if j = ''QmA'' then holds0 else NewMockDB))) (\<lambda>d. None)
      (\<lambda>s. None) (\<lambda>_ _ _ _. True) ''0xcc'' 1 (request0 ''signer.SignMessage'' [JObj [(''data'', sign_data1)]])
      (nodes0 (\<lambda>j. if j = ''QmA'' then holds0 else NewMockDB) ''QmA'') = (n', ServiceUnavailable ''Timeout!'')"
proof -
  have "''QmB'' |\<in>| fmdom (known_peers (envs0 ''QmA'') (nodes0 st ''QmA''))" for st
    unfolding known_peers0 by (simp add: table0_def)
  moreover have "unmarshalRequestData decode_SignRequest (rda_Data \<lparr>rda_Data = sign_data1\<rparr>) = Inr sign_req1"
    by (simp add: unmarshal_sign_data1)
  ultimately show ?thesis
    using refused_signing_times_out [where E = envs0 and N = "nodes0 (\<lambda>j. if j = ''QmA'' then holds0 else NewMockDB)"
        and i = "''QmA''" and k = "''QmB''" and conn = "\<lambda>t i. None" and dproc = "\<lambda>d. None" and sproc = "\<lambda>s. None"
        and on_curve = "\<lambda>_ _ _ _. True" and hash = "''0xcc''" and seconds = 1,
        OF addresses_ok0 codec0_request(1) codec0_request(2) [where ps = "[]"] decode_args0 _ can_sign0 _ cannot_sign0]
    by auto
qed

end
