(* ===== verification/Grpc.thy ===== *)
theory Grpc
  imports Network
begin

text \<open>
  \<^verbatim>\<open>pb/tss_grpc.pb.go\<close> and \<^verbatim>\<open>pb/service_grpc.pb.go\<close>: the client and server stubs of the services
  \<^verbatim>\<open>TssService\<close> and \<^verbatim>\<open>Ping\<close>, and the way of a gRPC client's request to the methods of
  \<^verbatim>\<open>server/grpc_server.go\<close>.  The gRPC package is a parameter; what the stubs of all methods have in
  common is the locale \<open>unary_method\<close>.
\<close>

section \<open>Messages\<close>

text \<open>Pointers to the messages of the package \<^verbatim>\<open>pb\<close>, as values of \<^verbatim>\<open>interface{}\<close>.\<close>

datatype pb_msg =
    PbSignRequest SignRequest
  | PbDKGRequest
  | PbReshareRequest ReshareRequest
  | PbRVSignatureReply RVSignature
  | PbDkgReply DkgReply
  | PbServiceReply
  | PbPingRequest
  | PbPongReply string
  | PbMsgRequest
  | PbMsgReply string

text \<open>The Go type of a value, and the type assertions and typed results of the stubs.\<close>

primrec pb_type :: "pb_msg \<Rightarrow> string" where
  "pb_type (PbSignRequest x) = ''*pb.SignRequest''"
| "pb_type PbDKGRequest = ''*pb.DKGRequest''"
| "pb_type (PbReshareRequest x) = ''*pb.ReshareRequest''"
| "pb_type (PbRVSignatureReply x) = ''*pb.RVSignatureReply''"
| "pb_type (PbDkgReply x) = ''*pb.DkgReply''"
| "pb_type PbServiceReply = ''*pb.ServiceReply''"
| "pb_type PbPingRequest = ''*pb.PingRequest''"
| "pb_type (PbPongReply x) = ''*pb.PongReply''"
| "pb_type PbMsgRequest = ''*pb.MsgRequest''"
| "pb_type (PbMsgReply x) = ''*pb.MsgReply''"

definition bad_type :: "pb_msg \<Rightarrow> 'a res" where
  "bad_type m = Inl (Panic (''interface conversion: interface {} is '' @ pb_type m))"

definition as_SignRequest :: "pb_msg \<Rightarrow> SignRequest res" where
  "as_SignRequest m = (case m of PbSignRequest x \<Rightarrow> Inr x | _ \<Rightarrow> bad_type m)"

definition as_DKGRequest :: "pb_msg \<Rightarrow> unit res" where
  "as_DKGRequest m = (case m of PbDKGRequest \<Rightarrow> Inr () | _ \<Rightarrow> bad_type m)"

definition as_ReshareRequest :: "pb_msg \<Rightarrow> ReshareRequest res" where
  "as_ReshareRequest m = (case m of PbReshareRequest x \<Rightarrow> Inr x | _ \<Rightarrow> bad_type m)"

definition as_PingRequest :: "pb_msg \<Rightarrow> unit res" where
  "as_PingRequest m = (case m of PbPingRequest \<Rightarrow> Inr () | _ \<Rightarrow> bad_type m)"

definition as_MsgRequest :: "pb_msg \<Rightarrow> unit res" where
  "as_MsgRequest m = (case m of PbMsgRequest \<Rightarrow> Inr () | _ \<Rightarrow> bad_type m)"

definition as_RVSignatureReply :: "pb_msg \<Rightarrow> RVSignature res" where
  "as_RVSignatureReply m = (case m of PbRVSignatureReply x \<Rightarrow> Inr x | _ \<Rightarrow> bad_type m)"

definition as_DkgReply :: "pb_msg \<Rightarrow> DkgReply res" where
  "as_DkgReply m = (case m of PbDkgReply x \<Rightarrow> Inr x | _ \<Rightarrow> bad_type m)"

definition as_ServiceReply :: "pb_msg \<Rightarrow> unit res" where
  "as_ServiceReply m = (case m of PbServiceReply \<Rightarrow> Inr () | _ \<Rightarrow> bad_type m)"

definition as_PongReply :: "pb_msg \<Rightarrow> string res" where
  "as_PongReply m = (case m of PbPongReply x \<Rightarrow> Inr x | _ \<Rightarrow> bad_type m)"

definition as_MsgReply :: "pb_msg \<Rightarrow> string res" where
  "as_MsgReply m = (case m of PbMsgReply x \<Rightarrow> Inr x | _ \<Rightarrow> bad_type m)"

lemmas as_defs = as_SignRequest_def as_DKGRequest_def as_ReshareRequest_def as_PingRequest_def as_MsgRequest_def
  as_RVSignatureReply_def as_DkgReply_def as_ServiceReply_def as_PongReply_def as_MsgReply_def

definition zero_SignRequest :: SignRequest where
  "zero_SignRequest = \<lparr>sreq_Hash = [], sreq_Pubkey = [], sreq_Message = []\<rparr>"

definition zero_ReshareRequest :: ReshareRequest where
  "zero_ReshareRequest = \<lparr>rreq_Hash = [], rreq_Pubkey = []\<rparr>"

definition zero_DkgReply :: DkgReply where
  "zero_DkgReply = \<lparr>dk_X = [], dk_Y = [], dk_Pubkey = [], dk_Address = [], dk_Hash = []\<rparr>"

section \<open>The gRPC package\<close>

text \<open>A call on a server of state \<open>'st\<close>.  \<open>dec\<close> fills the message it is given with what the client sent;
  an interceptor gets the request, the method's full name and the rest of the call.\<close>

type_synonym ('st, 'a) call = "'st \<Rightarrow> 'st \<times> 'a outcome"
type_synonym decoder = "pb_msg \<Rightarrow> pb_msg res"
type_synonym 'st interceptor = "pb_msg \<Rightarrow> string \<Rightarrow> (pb_msg \<Rightarrow> ('st, pb_msg) call) \<Rightarrow> ('st, pb_msg) call"
type_synonym 'st handler = "decoder \<Rightarrow> 'st interceptor option \<Rightarrow> ('st, pb_msg) call"

record ('srv, 'st) ServiceDesc =
  sd_ServiceName :: string
  sd_Methods :: "(string \<times> ('srv \<Rightarrow> 'st handler)) list"

text \<open>What a registrar has been given: the names of the services, their methods and handlers.\<close>

type_synonym 'st registrations = "(string \<times> (string \<times> 'st handler) list) list"

definition RegisterService :: "'st registrations \<Rightarrow> ('srv, 'st) ServiceDesc \<Rightarrow> 'srv \<Rightarrow> 'st registrations" where
  "RegisterService reg desc srv = reg @ [(sd_ServiceName desc, map (apsnd (\<lambda>h. h srv)) (sd_Methods desc))]"

text \<open>\<^verbatim>\<open>Invoke\<close> of a client connection: the full name of a method, the request, and the message to fill
  with the reply.\<close>

type_synonym 'st conn = "string \<Rightarrow> pb_msg \<Rightarrow> pb_msg \<Rightarrow> ('st, pb_msg) call"

record grpc_lib =
  gl_Errorf :: "string \<Rightarrow> string \<Rightarrow> go_error"
  gl_convert :: "go_error \<Rightarrow> go_error"
  gl_wire :: "pb_msg \<Rightarrow> bool"

definition routes :: "'st registrations \<Rightarrow> string \<Rightarrow> 'st handler option" where
  "routes reg path = map_of (concat (map (\<lambda>(s, ms). map (apfst (\<lambda>m. ''/'' @ s @ ''/'' @ m)) ms) reg)) path"

text \<open>What a caller gets of an outcome: an error as the client's package reports it, a reply if it can be
  sent (\<open>gl_wire\<close>; strings have to be valid UTF-8).\<close>

definition returned :: "grpc_lib \<Rightarrow> ('a \<Rightarrow> pb_msg) \<Rightarrow> 'a outcome \<Rightarrow> 'a outcome \<Rightarrow> bool" where
  "returned G msg r r' \<longleftrightarrow>
     (case r of
        Blocked \<Rightarrow> r' = Blocked
      | Gives (Inl err) \<Rightarrow> r' = Gives (Inl (gl_convert G err))
      | Gives (Inr x) \<Rightarrow> gl_wire G (msg x) \<longrightarrow> r' = Gives (Inr x))"

text \<open>The documented behaviour of a unary call to a server without interceptors: the handler registered
  for the name runs with a decoder that gives it the request; without one the call fails as not
  implemented.\<close>

definition grpc_laws :: "grpc_lib \<Rightarrow> 'st registrations \<Rightarrow> 'st conn \<Rightarrow> bool" where
  "grpc_laws G reg cc \<longleftrightarrow>
     (\<forall>path m out st. gl_wire G m \<longrightarrow>
        (case routes reg path of
           None \<Rightarrow> (\<exists>desc. cc path m out st = (st, Gives (Inl (gl_Errorf G ''Unimplemented'' desc))))
         | Some h \<Rightarrow>
             (\<exists>dec st' r r'. (\<forall>z. pb_type z = pb_type m \<longrightarrow> dec z = Inr m) \<and> h dec None st = (st', r) \<and>
                cc path m out st = (st', r') \<and>
                ((\<forall>x. r = Gives (Inr x) \<longrightarrow> pb_type x = pb_type out) \<longrightarrow> returned G id r r'))))"

section \<open>pb/tss_grpc.pb.go\<close>

primrec out_bind :: "('a \<Rightarrow> 'b res) \<Rightarrow> 'a outcome \<Rightarrow> 'b outcome" where
  "out_bind f Blocked = Blocked"
| "out_bind f (Gives r) = Gives (case r of Inl err \<Rightarrow> Inl err | Inr x \<Rightarrow> f x)"

definition tssServiceClient_SignMessage :: "'st conn \<Rightarrow> SignRequest \<Rightarrow> ('st, RVSignature) call" where
  "tssServiceClient_SignMessage cc req st =
     apsnd (out_bind as_RVSignatureReply) (cc ''/pb.TssService/SignMessage'' (PbSignRequest req) (PbRVSignatureReply zero_RVSignature) st)"

definition tssServiceClient_RegisterDKG :: "'st conn \<Rightarrow> unit \<Rightarrow> ('st, DkgReply) call" where
  "tssServiceClient_RegisterDKG cc req st =
     apsnd (out_bind as_DkgReply) (cc ''/pb.TssService/RegisterDKG'' PbDKGRequest (PbDkgReply zero_DkgReply) st)"

definition tssServiceClient_Reshare :: "'st conn \<Rightarrow> ReshareRequest \<Rightarrow> ('st, unit) call" where
  "tssServiceClient_Reshare cc req st =
     apsnd (out_bind as_ServiceReply) (cc ''/pb.TssService/Reshare'' (PbReshareRequest req) PbServiceReply st)"

record 'st TssServiceServer =
  srv_SignMessage :: "SignRequest \<Rightarrow> ('st, RVSignature) call"
  srv_RegisterDKG :: "unit \<Rightarrow> ('st, DkgReply) call"
  srv_Reshare :: "ReshareRequest \<Rightarrow> ('st, unit) call"

definition UnimplementedTssServiceServer :: "grpc_lib \<Rightarrow> 'st TssServiceServer" where
  "UnimplementedTssServiceServer G =
     \<lparr>srv_SignMessage = (\<lambda>req st. (st, Gives (Inl (gl_Errorf G ''Unimplemented'' ''method SignMessage not implemented'')))),
      srv_RegisterDKG = (\<lambda>req st. (st, Gives (Inl (gl_Errorf G ''Unimplemented'' ''method RegisterDKG not implemented'')))),
      srv_Reshare = (\<lambda>req st. (st, Gives (Inl (gl_Errorf G ''Unimplemented'' ''method Reshare not implemented''))))\<rparr>"

text \<open>The call of a method on a request that came as \<^verbatim>\<open>interface{}\<close>.\<close>

definition asserted :: "(pb_msg \<Rightarrow> 'q res) \<Rightarrow> ('p \<Rightarrow> pb_msg) \<Rightarrow> ('q \<Rightarrow> ('st, 'p) call) \<Rightarrow> pb_msg \<Rightarrow> ('st, pb_msg) call" where
  "asserted as msg f m st =
     (case as m of Inl err \<Rightarrow> (st, Gives (Inl err)) | Inr req \<Rightarrow> apsnd (out_bind (\<lambda>x. Inr (msg x))) (f req st))"

definition TssService_SignMessage_Handler :: "'st TssServiceServer \<Rightarrow> 'st handler" where
  "TssService_SignMessage_Handler srv dec interceptor st =
     (case dec (PbSignRequest zero_SignRequest) of
        Inl err \<Rightarrow> (st, Gives (Inl err))
      | Inr req \<Rightarrow>
          (let handler = asserted as_SignRequest PbRVSignatureReply (srv_SignMessage srv) in
           case interceptor of None \<Rightarrow> handler req st | Some ic \<Rightarrow> ic req ''/pb.TssService/SignMessage'' handler st))"

definition TssService_RegisterDKG_Handler :: "'st TssServiceServer \<Rightarrow> 'st handler" where
  "TssService_RegisterDKG_Handler srv dec interceptor st =
     (case dec PbDKGRequest of
        Inl err \<Rightarrow> (st, Gives (Inl err))
      | Inr req \<Rightarrow>
          (let handler = asserted as_DKGRequest PbDkgReply (srv_RegisterDKG srv) in
           case interceptor of None \<Rightarrow> handler req st | Some ic \<Rightarrow> ic req ''/pb.TssService/RegisterDKG'' handler st))"

definition TssService_Reshare_Handler :: "'st TssServiceServer \<Rightarrow> 'st handler" where
  "TssService_Reshare_Handler srv dec interceptor st =
     (case dec (PbReshareRequest zero_ReshareRequest) of
        Inl err \<Rightarrow> (st, Gives (Inl err))
      | Inr req \<Rightarrow>
          (let handler = asserted as_ReshareRequest (\<lambda>_. PbServiceReply) (srv_Reshare srv) in
           case interceptor of None \<Rightarrow> handler req st | Some ic \<Rightarrow> ic req ''/pb.TssService/Reshare'' handler st))"

definition TssService_ServiceDesc :: "('st TssServiceServer, 'st) ServiceDesc" where
  "TssService_ServiceDesc =
     \<lparr>sd_ServiceName = ''pb.TssService'',
      sd_Methods = [(''SignMessage'', TssService_SignMessage_Handler), (''RegisterDKG'', TssService_RegisterDKG_Handler),
                    (''Reshare'', TssService_Reshare_Handler)]\<rparr>"

definition RegisterTssServiceServer :: "'st registrations \<Rightarrow> 'st TssServiceServer \<Rightarrow> 'st registrations" where
  "RegisterTssServiceServer s srv = RegisterService s TssService_ServiceDesc srv"

section \<open>pb/service_grpc.pb.go\<close>

definition pingClient_Ping :: "'st conn \<Rightarrow> unit \<Rightarrow> ('st, string) call" where
  "pingClient_Ping cc req st = apsnd (out_bind as_PongReply) (cc ''/pb.Ping/Ping'' PbPingRequest (PbPongReply []) st)"

definition pingClient_Msg :: "'st conn \<Rightarrow> unit \<Rightarrow> ('st, string) call" where
  "pingClient_Msg cc req st = apsnd (out_bind as_MsgReply) (cc ''/pb.Ping/Msg'' PbMsgRequest (PbMsgReply []) st)"

record 'st PingServer =
  srv_Ping :: "unit \<Rightarrow> ('st, string) call"
  srv_Msg :: "unit \<Rightarrow> ('st, string) call"

definition UnimplementedPingServer :: "grpc_lib \<Rightarrow> 'st PingServer" where
  "UnimplementedPingServer G =
     \<lparr>srv_Ping = (\<lambda>req st. (st, Gives (Inl (gl_Errorf G ''Unimplemented'' ''method Ping not implemented'')))),
      srv_Msg = (\<lambda>req st. (st, Gives (Inl (gl_Errorf G ''Unimplemented'' ''method Msg not implemented''))))\<rparr>"

definition Ping_Ping_Handler :: "'st PingServer \<Rightarrow> 'st handler" where
  "Ping_Ping_Handler srv dec interceptor st =
     (case dec PbPingRequest of
        Inl err \<Rightarrow> (st, Gives (Inl err))
      | Inr req \<Rightarrow>
          (let handler = asserted as_PingRequest PbPongReply (srv_Ping srv) in
           case interceptor of None \<Rightarrow> handler req st | Some ic \<Rightarrow> ic req ''/pb.Ping/Ping'' handler st))"

definition Ping_Msg_Handler :: "'st PingServer \<Rightarrow> 'st handler" where
  "Ping_Msg_Handler srv dec interceptor st =
     (case dec PbMsgRequest of
        Inl err \<Rightarrow> (st, Gives (Inl err))
      | Inr req \<Rightarrow>
          (let handler = asserted as_MsgRequest PbMsgReply (srv_Msg srv) in
           case interceptor of None \<Rightarrow> handler req st | Some ic \<Rightarrow> ic req ''/pb.Ping/Msg'' handler st))"

definition Ping_ServiceDesc :: "('st PingServer, 'st) ServiceDesc" where
  "Ping_ServiceDesc =
     \<lparr>sd_ServiceName = ''pb.Ping'', sd_Methods = [(''Ping'', Ping_Ping_Handler), (''Msg'', Ping_Msg_Handler)]\<rparr>"

definition RegisterPingServer :: "'st registrations \<Rightarrow> 'st PingServer \<Rightarrow> 'st registrations" where
  "RegisterPingServer s srv = RegisterService s Ping_ServiceDesc srv"

section \<open>The stubs of a method\<close>

text \<open>A method with its request and reply types (\<open>req\<close>, \<open>rep\<close> and \<open>un\<close>, its inverse), its handler and the
  call a client makes.\<close>

locale unary_method =
  fixes path :: string and req :: "'q \<Rightarrow> pb_msg" and zero :: pb_msg and rep :: "'p \<Rightarrow> pb_msg" and out :: pb_msg and un :: "pb_msg \<Rightarrow> 'p res"
    and meth :: "'srv \<Rightarrow> 'q \<Rightarrow> ('st, 'p) call" and handler :: "'srv \<Rightarrow> 'st handler" and client :: "'st conn \<Rightarrow> 'q \<Rightarrow> ('st, 'p) call"
  assumes types: "pb_type zero = pb_type (req q)" "pb_type (rep p) = pb_type out" and un_rep: "un (rep p) = Inr p"
    and handles: "dec zero = Inr (req q) \<Longrightarrow> handler srv dec None st = apsnd (out_bind (\<lambda>p. Inr (rep p))) (meth srv q st)"
    and calls: "client cc q st = apsnd (out_bind un) (cc path (req q) out st)"
begin

lemma client_gets:
  assumes "grpc_laws G reg cc" and "routes reg path = Some (handler srv)" and "gl_wire G (req q)" and "meth srv q st = (st', r)"
  shows "\<exists>r'. client cc q st = (st', r') \<and> returned G rep r r'"
proof -
  from assms(1) [unfolded grpc_laws_def, rule_format, OF assms(3), of path out st, unfolded assms(2) option.case]
  obtain dec st1 x x' where dec: "\<forall>z. pb_type z = pb_type (req q) \<longrightarrow> dec z = Inr (req q)" and h: "handler srv dec None st = (st1, x)"
    and cc: "cc path (req q) out st = (st1, x')" and ret: "(\<forall>m. x = Gives (Inr m) \<longrightarrow> pb_type m = pb_type out) \<longrightarrow> returned G id x x'"
    by blast
  have "dec zero = Inr (req q)" using dec types(1) by blast
  from handles [where dec = dec and q = q and srv = srv and st = st, OF this] h assms(4) have st1: "st1 = st'" and x: "x = out_bind (\<lambda>p. Inr (rep p)) r" by simp_all
  have "\<forall>m. x = Gives (Inr m) \<longrightarrow> pb_type m = pb_type out"
    using types(2) by (cases r) (auto simp: x split: sum.splits)
  with ret have "returned G id x x'" by blast
  then have "returned G rep r (out_bind un x')"
    by (cases r) (auto simp: x returned_def un_rep split: sum.splits)
  then show ?thesis using cc st1 by (simp add: calls)
qed

lemma client_unimplemented:
  assumes "grpc_laws G reg cc" and "routes reg path = None" and "gl_wire G (req q)"
  shows "\<exists>desc. client cc q st = (st, Gives (Inl (gl_Errorf G ''Unimplemented'' desc)))"
  using assms(1) [unfolded grpc_laws_def, rule_format, OF assms(3), of path out st] assms(2) by (auto simp: calls)

end

interpretation sign_method: unary_method "''/pb.TssService/SignMessage''" PbSignRequest "PbSignRequest zero_SignRequest" PbRVSignatureReply
    "PbRVSignatureReply zero_RVSignature" as_RVSignatureReply srv_SignMessage TssService_SignMessage_Handler tssServiceClient_SignMessage
  by unfold_locales (simp_all add: TssService_SignMessage_Handler_def tssServiceClient_SignMessage_def asserted_def as_defs)

interpretation dkg_method: unary_method "''/pb.TssService/RegisterDKG''" "\<lambda>_. PbDKGRequest" PbDKGRequest PbDkgReply
    "PbDkgReply zero_DkgReply" as_DkgReply srv_RegisterDKG TssService_RegisterDKG_Handler tssServiceClient_RegisterDKG
  by unfold_locales (simp_all add: TssService_RegisterDKG_Handler_def tssServiceClient_RegisterDKG_def asserted_def as_defs)

interpretation reshare_method: unary_method "''/pb.TssService/Reshare''" PbReshareRequest "PbReshareRequest zero_ReshareRequest" "\<lambda>_. PbServiceReply"
    PbServiceReply as_ServiceReply srv_Reshare TssService_Reshare_Handler tssServiceClient_Reshare
  by unfold_locales (simp_all add: TssService_Reshare_Handler_def tssServiceClient_Reshare_def asserted_def as_defs)

interpretation ping_method: unary_method "''/pb.Ping/Ping''" "\<lambda>_. PbPingRequest" PbPingRequest PbPongReply "PbPongReply []" as_PongReply
    srv_Ping Ping_Ping_Handler pingClient_Ping
  by unfold_locales (simp_all add: Ping_Ping_Handler_def pingClient_Ping_def asserted_def as_defs)

interpretation msg_method: unary_method "''/pb.Ping/Msg''" "\<lambda>_. PbMsgRequest" PbMsgRequest PbMsgReply "PbMsgReply []" as_MsgReply
    srv_Msg Ping_Msg_Handler pingClient_Msg
  by unfold_locales (simp_all add: Ping_Msg_Handler_def pingClient_Msg_def asserted_def as_defs)

lemma routes_tss:
  "routes (RegisterTssServiceServer [] srv) ''/pb.TssService/SignMessage'' = Some (TssService_SignMessage_Handler srv)"
  "routes (RegisterTssServiceServer [] srv) ''/pb.TssService/RegisterDKG'' = Some (TssService_RegisterDKG_Handler srv)"
  "routes (RegisterTssServiceServer [] srv) ''/pb.TssService/Reshare'' = Some (TssService_Reshare_Handler srv)"
  "routes (RegisterTssServiceServer [] srv) ''/pb.Ping/Ping'' = None" "routes (RegisterTssServiceServer [] srv) ''/pb.Ping/Msg'' = None"
  by (simp_all add: routes_def RegisterTssServiceServer_def RegisterService_def TssService_ServiceDesc_def)


section \<open>The server of a node\<close>

text \<open>The methods of \<^verbatim>\<open>grpcServer\<close> on a node; the services they start are added to those of the node.\<close>

definition grpcServer_methods ::
  "('s, 'pt, 'bk, 'dkg, 'pai, 'signer, 'reshare, 'ma, 'k, 'h) node_env \<Rightarrow> network \<Rightarrow> ('dkg Dkg \<Rightarrow> ('pt, 'bk) dkg_Result res option) \<Rightarrow>
   ('signer Signer \<Rightarrow> signer_Result res option) \<Rightarrow> (SignRequest \<Rightarrow> byte list res) \<Rightarrow> (ReshareRequest \<Rightarrow> byte list res) \<Rightarrow> string \<Rightarrow>
   ('s, 'dkg, 'signer, 'reshare) node TssServiceServer"
where
  "grpcServer_methods E net dproc sproc marshal_s marshal_r hash =
     \<lparr>srv_SignMessage = (\<lambda>req n.
        let (w, ss, r) = grpc_SignMessage (ne_eth E) (ne_alice E) (ne_protocols E) (ne_handler E) (ne_libp2p E) net sproc marshal_s (ne_pm E) req (nd_world n)
        in (started_signer n w ss, r)),
      srv_RegisterDKG = (\<lambda>_ n.
        let (w, ds, r) = grpc_RegisterDKG (ne_eth E) (ne_alice E) (ne_protocols E) (ne_libp2p E) net (ne_addrs E) dproc (ne_pm E) hash (nd_world n)
        in (started_dkg n w ds, r)),
      srv_Reshare = (\<lambda>req n.
        let (w, rs, r) = grpc_Reshare (ne_alice E) (ne_protocols E) (ne_handler E) (ne_libp2p E) net marshal_r (ne_pm E) req (nd_world n)
        in (started_reshare n w rs, r))\<rparr>"

section \<open>Properties\<close>

text \<open>C16: The stubs of client and server fit together: on a connection to a server that has registered an
  implementation of \<^verbatim>\<open>TssService\<close>, each method of the client runs the method of that name of the
  implementation, once, with the request of the client, and gives the client its reply or its error.\<close>

theorem stubs_call_their_methods:
  assumes "grpc_laws G (RegisterTssServiceServer [] srv) cc"
    and "gl_wire G (PbSignRequest sq)" and "gl_wire G PbDKGRequest" and "gl_wire G (PbReshareRequest rq)"
    and "srv_SignMessage srv sq st = (st1, sr)" and "srv_RegisterDKG srv () st = (st2, dr)" and "srv_Reshare srv rq st = (st3, rr)"
  shows "(\<exists>r. tssServiceClient_SignMessage cc sq st = (st1, r) \<and> returned G PbRVSignatureReply sr r) \<and>
    (\<exists>r. tssServiceClient_RegisterDKG cc () st = (st2, r) \<and> returned G PbDkgReply dr r) \<and>
    (\<exists>r. tssServiceClient_Reshare cc rq st = (st3, r) \<and> returned G (\<lambda>_. PbServiceReply) rr r)"
  using sign_method.client_gets [OF assms(1) routes_tss(1) assms(2,5)] dkg_method.client_gets [OF assms(1) routes_tss(2) assms(3,6)]
    reshare_method.client_gets [OF assms(1) routes_tss(3) assms(4,7)] by blast

text \<open>The service \<^verbatim>\<open>Ping\<close> has stubs but is not served: on a connection to a server with \<^verbatim>\<open>TssService\<close>
  alone, as \<^verbatim>\<open>StartGRPC\<close> makes it, both methods of its client fail as not implemented and change nothing.\<close>

lemma ping_is_not_served:
  assumes "grpc_laws G (RegisterTssServiceServer [] srv) cc" and "gl_wire G PbPingRequest" and "gl_wire G PbMsgRequest"
  shows "\<exists>d d'. pingClient_Ping cc () st = (st, Gives (Inl (gl_Errorf G ''Unimplemented'' d))) \<and>
    pingClient_Msg cc () st = (st, Gives (Inl (gl_Errorf G ''Unimplemented'' d')))"
  using ping_method.client_unimplemented [OF assms(1) routes_tss(4) assms(2)] msg_method.client_unimplemented [OF assms(1) routes_tss(5) assms(3)] by blast



section \<open>Witnesses\<close>

text \<open>A connection as the package makes it, on which everything can be sent.\<close>

definition grpc0 :: grpc_lib where
  "grpc0 = \<lparr>gl_Errorf = (\<lambda>c d. LibError (''rpc error: code = '' @ c @ '' desc = '' @ d)), gl_convert = id, gl_wire = (\<lambda>_. True)\<rparr>"

definition conn0 :: "'st registrations \<Rightarrow> 'st conn" where
  "conn0 reg path m out st =
     (case routes reg path of
        None \<Rightarrow> (st, Gives (Inl (gl_Errorf grpc0 ''Unimplemented'' ''unknown service'')))
      | Some h \<Rightarrow> h (\<lambda>z. Inr m) None st)"

lemma conn0_laws: "grpc_laws grpc0 reg (conn0 reg)"
  unfolding grpc_laws_def
proof (intro allI impI)
  fix path m out st
  have same: "returned grpc0 id r r" for r by (simp add: returned_def grpc0_def split: outcome.splits sum.splits)
  show "case routes reg path of
      None \<Rightarrow> (\<exists>desc. conn0 reg path m out st = (st, Gives (Inl (gl_Errorf grpc0 ''Unimplemented'' desc))))
    | Some h \<Rightarrow>
        (\<exists>dec st' r r'. (\<forall>z. pb_type z = pb_type m \<longrightarrow> dec z = Inr m) \<and> h dec None st = (st', r) \<and>
           conn0 reg path m out st = (st', r') \<and>
           ((\<forall>x. r = Gives (Inr x) \<longrightarrow> pb_type x = pb_type out) \<longrightarrow> returned grpc0 id r r'))"
  proof (cases "routes reg path")
    case None
    then show ?thesis by (auto simp: conn0_def)
  next
    case (Some h)
    obtain st' r where "h (\<lambda>z. Inr m) None st = (st', r)" by fastforce
    with Some same show ?thesis by (auto simp: conn0_def intro!: exI [of _ "\<lambda>z. Inr m"])
  qed
qed

lemma wire0: "gl_wire grpc0 m"
  by (simp add: grpc0_def)

text \<open>Protobuf for requests with short fields.\<close>

definition proto_field0 :: "byte \<Rightarrow> string \<Rightarrow> byte list" where
  "proto_field0 tag s = tag # word_of_nat (length s) # bytes_of s"

definition marshal0 :: "SignRequest \<Rightarrow> byte list res" where
  "marshal0 r =
     (if length (sreq_Hash r) < 128 \<and> length (sreq_Pubkey r) < 128 \<and> length (sreq_Message r) < 128
      then Inr (proto_field0 0x0a (sreq_Hash r) @ proto_field0 0x12 (sreq_Pubkey r) @ proto_field0 0x1a (sreq_Message r))
      else Inl (LibError ''message too long''))"

definition take_field0 :: "byte list \<Rightarrow> string \<times> byte list" where
  "take_field0 bs = (case bs of t # l # rest \<Rightarrow> (string_of (take (unat l) rest), drop (unat l) rest) | _ \<Rightarrow> ([], []))"

definition unmarshal0 :: "byte list \<Rightarrow> SignRequest res" where
  "unmarshal0 bs =
     (let (h, b1) = take_field0 bs; (p, b2) = take_field0 b1; (m, b3) = take_field0 b2
      in Inr \<lparr>sreq_Hash = h, sreq_Pubkey = p, sreq_Message = m\<rparr>)"

lemma take_field0_marshalled: "length s < 128 \<Longrightarrow> take_field0 (proto_field0 tag s @ bs) = (s, bs)"
  by (simp add: take_field0_def proto_field0_def unat_of_nat)

lemma proto_laws0: "proto_laws sreq_Hash marshal0 unmarshal0"
  unfolding proto_laws_def
proof (intro allI impI conjI)
  fix r bs
  assume m: "marshal0 r = Inr bs"
  then show "unmarshal0 bs = Inr r"
    using take_field0_marshalled [where s = "sreq_Message r" and bs = "[]"]
    by (auto simp: marshal0_def unmarshal0_def take_field0_marshalled Let_def split: if_splits)
  show "\<exists>rest. bs = 0x0a # word_of_nat (length (sreq_Hash r)) # bytes_of (sreq_Hash r) @ rest"
    using m by (auto simp: marshal0_def proto_field0_def split: if_splits)
qed

definition sign_data2 :: json where
  "sign_data2 = JObj [(''hash'', JStr (replicate 66 (CHR ''a''))), (''message'', JStr ''ab''), (''pubkey'', JStr ''02'')]"

definition sign_req2 :: SignRequest where
  "sign_req2 = \<lparr>sreq_Hash = replicate 66 (CHR ''a''), sreq_Pubkey = ''02'', sreq_Message = ''ab''\<rparr>"

lemma unmarshal_sign_data2: "unmarshalRequestData decode_SignRequest sign_data2 = Inr sign_req2"
proof -
  have "json_ok sign_data2" "json_valid sign_data2" by (simp_all add: sign_data2_def ascii_text_def)
  then have "json_parse (json_text sign_data2) = Inr sign_data2" using json_parse_text json_utf8_valid by metis
  then show ?thesis
    unfolding unmarshalRequestData_def json_Marshal_def
    by (simp del: json_text.simps) (simp add: sign_data2_def sign_req2_def decode_SignRequest_def SignRequest_fields_def find_field_def)
qed

text \<open>An implementation that counts the calls and answers a request to sign.\<close>

definition counting0 :: "nat TssServiceServer" where
  "counting0 = (UnimplementedTssServiceServer grpc0)\<lparr>srv_SignMessage := (\<lambda>req n. (Suc n, Gives (Inr zero_RVSignature)))\<rparr>"

theorem stubs_call_their_methods_witness:
  "tssServiceClient_SignMessage (conn0 (RegisterTssServiceServer [] counting0)) sign_req2 0 = (1, Gives (Inr zero_RVSignature)) \<and>
   tssServiceClient_RegisterDKG (conn0 (RegisterTssServiceServer [] counting0)) () 0 =
     (0, Gives (Inl (gl_Errorf grpc0 ''Unimplemented'' ''method RegisterDKG not implemented'')))"
proof -
  have "srv_SignMessage counting0 sign_req2 0 = (1, Gives (Inr zero_RVSignature))"
    "srv_RegisterDKG counting0 () 0 = (0, Gives (Inl (gl_Errorf grpc0 ''Unimplemented'' ''method RegisterDKG not implemented'')))"
    "srv_Reshare counting0 zero_ReshareRequest 0 = (0, Gives (Inl (gl_Errorf grpc0 ''Unimplemented'' ''method Reshare not implemented'')))"
    by (simp_all add: counting0_def UnimplementedTssServiceServer_def)
  from stubs_call_their_methods [OF conn0_laws wire0 wire0 wire0 this]
  show ?thesis by (auto simp: returned_def grpc0_def)
qed

text \<open>\<open>QmA\<close> of the two nodes with a key, its gRPC server, and a client that asks it to sign.\<close>

definition envs2 :: "string \<Rightarrow> (db0 store_state, pt0, bk0, unit, unit, unit, unit, string, int, string) node_env" where
  "envs2 j = (envs0 j)\<lparr>ne_unmarshal_sign := unmarshal0\<rparr>"

abbreviation net2 where
  "net2 \<equiv> net_of (\<lambda>t i. None) envs2 (nodes0 (\<lambda>j. holds0))"

definition server2 :: "(db0 store_state, unit, unit, unit) node TssServiceServer" where
  "server2 = grpcServer_methods (envs2 ''QmA'') net2 (\<lambda>d. None) (\<lambda>s. None) marshal0 (\<lambda>r. Inr []) ''0xbb''"


end
