(* ===== verification/Self_Cluster.thy ===== *)
theory Self_Cluster
  imports Network
begin

text \<open>
  The cluster in one process: what its three nodes send reaches them, and a key they have generated
  signs.  The operations are those of \<open>Self_Service\<close>, \<open>Rpc\<close> and the stores.
\<close>

section \<open>The managers of the three nodes\<close>

lemma setup_pms_hosts:
  assumes "setup_pms discovery protocolID i ns hp = (hp', pms, [])"
  shows "list_all2 (\<lambda>(h, k) p. \<exists>q. p = Some q \<and> pm_Host q = k \<and> pm_protocol q = GetProtocol protocolID) ns pms"
  using assms
proof (induction ns arbitrary: i hp hp' pms)
  case (Cons n ns)
  obtain host peerID where n: "n = (host, peerID)" by (cases n)
  obtain h where h: "host = Some h" using Cons.prems n by (cases host) (auto split: prod.splits)
  obtain hp1 pm where new: "NewPeerManager peerID peerID (GetProtocol protocolID) hp = (hp1, pm)" by fastforce
  obtain hp2 ps es where rest: "setup_pms discovery protocolID (Suc i) ns hp1 = (hp2, ps, es)" by (metis surj_pair)
  have "es = []" "pms = Some pm # ps" using Cons.prems n h new rest by (auto split: option.splits)
  moreover have "pm_protocol pm = GetProtocol protocolID" "pm_Host pm = peerID" using new by (auto simp: NewPeerManager_def)
  ultimately show ?case using Cons.IH [of "Suc i" hp1 hp2 ps] rest n by simp
qed simp

lemma CreatePm_hosts:
  assumes "CreatePm discovery events s hash hp = Some (hp', Inr pms)" and "length (ss_hosts s) = 3" and "length (ss_peerIDs s) = 3" and "i < 3"
  shows "pm_protocol (pms ! i) = GetProtocol hash \<and> pm_Host (pms ! i) = ss_peerIDs s ! i"
proof -
  obtain hp1 ps errs where set: "setup_pms discovery hash 0 (zip (ss_hosts s) (ss_peerIDs s)) hp = (hp1, ps, errs)" by (metis surj_pair)
  have "errs = []" "pms = map the ps"
    using assms(1) set by (auto simp: CreatePm_def Let_def split: if_splits option.splits prod.splits)
  with setup_pms_hosts [of discovery hash 0 "zip (ss_hosts s) (ss_peerIDs s)" hp hp1 ps] set assms(2-4)
  show ?thesis by (auto simp: list_all2_conv_all_nth)
qed

lemma RegisterDKG_pm:
  "TssCaller_RegisterDKG P pm addrs h call proc w = (w', [d], r) \<Longrightarrow> dkg_pm d = pm"
  by (auto simp: TssCaller_RegisterDKG_def NewDkgService_def Let_def split: sum.splits option.splits prod.splits)

lemma less3_cases: "i < 3 \<Longrightarrow> i = 0 \<or> i = 1 \<or> i = (2 :: nat)"
  by linarith

section \<open>Properties\<close>

text \<open>C31: The three nodes of the self service hear each other: when a key generation has started on a
  cluster as \<^verbatim>\<open>NewSelfService\<close> makes it, the protocol on which the service of any node sends is the one
  on which the host of every node listens, each with the handler of its own service; and the
  services store under three different keys.\<close>

theorem self_dkg_nodes_hear_each_other:
  assumes "snd (NewSelfService L) = Inr s" and "CHR ''-'' \<notin> set hash" and "length (cl_handlers cl) = 3"
    and "SelfService_RegisterDKG P discovery events addrs proc ctx pick s H hash cl = (cl', [d1, d2, d0], r)"
    and "i < 3" and "j < 3"
  shows "fmlookup (cl_handlers cl' ! j) (pm_protocol (dkg_pm ([d0, d1, d2] ! i))) = Some (DkgHandle (dkg_hash ([d0, d1, d2] ! j))) \<and>
    dkg_hash ([d0, d1, d2] ! j) = node_key hash j \<and> distinct (map dkg_hash [d0, d1, d2])"
proof -
  from NewSelfService_leaves_no_host [of L] assms(1) have s: "length (ss_hosts s) = 3" "length (ss_peerIDs s) = 3"
    by (auto split: prod.splits)
  from self_dkg_run [OF assms(4)] obtain hp pms c w1 w2 w0 r1 r2 r0 where pms: "CreatePm discovery events s hash (cl_peers cl) = Some (hp, Inr pms)"
    and n: "TssCaller_RegisterDKG P (pms ! 1) (addrs 1) (node_key hash 1) None proc (node_world (cl\<lparr>cl_peers := hp\<rparr>) 1) = (w1, [d1], r1)"
      "TssCaller_RegisterDKG P (pms ! 2) (addrs 2) (node_key hash 2) None proc (node_world (put_node 1 w1 (cl\<lparr>cl_peers := hp\<rparr>)) 2) = (w2, [d2], r2)"
      "TssCaller_RegisterDKG P (pms ! 0) (addrs 0) (node_key hash 0) (Some (Some c)) proc
        (node_world (put_node 2 w2 (put_node 1 w1 (cl\<lparr>cl_peers := hp\<rparr>))) 0) = (w0, [d0], r0)" .
  note names = self_dkg_keys_and_protocol [OF assms(2,3,4)]
  have proto: "pm_protocol (pms ! k) = GetProtocol hash" if "k < 3" for k
    using CreatePm_hosts [OF pms s that] by simp
  have "pm_protocol (dkg_pm ([d0, d1, d2] ! i)) = GetProtocol hash"
    using less3_cases [OF assms(5)] proto [of 0] proto [of 1] proto [of 2] n [THEN RegisterDKG_pm]
    by (elim disjE) simp_all
  moreover have "fmlookup (cl_handlers cl' ! j) (GetProtocol hash) = Some (DkgHandle (node_key hash j))"
  proof -
    have all: "map (\<lambda>h. fmlookup h (GetProtocol hash)) (cl_handlers cl') = map (\<lambda>i. Some (DkgHandle (node_key hash i))) [0, 1, 2]"
      using names by simp
    then have "length (cl_handlers cl') = length [0 :: nat, 1, 2]" by (metis length_map)
    then have "fmlookup (cl_handlers cl' ! j) (GetProtocol hash) = map (\<lambda>h. fmlookup h (GetProtocol hash)) (cl_handlers cl') ! j"
      using assms(6) by simp
    then show ?thesis unfolding all using less3_cases [OF assms(6)] by (elim disjE) simp_all
  qed
  moreover have "dkg_hash ([d0, d1, d2] ! j) = node_key hash j"
    using names less3_cases [OF assms(6)] by (elim disjE) simp_all
  ultimately show ?thesis using names by (simp add: node_key_inject [OF assms(2,2)])
qed

section \<open>Signing with a key of the cluster\<close>

lemma store_save_other:
  assumes "eth_laws e \<and> alice_laws A \<and> badger_laws B" and "store_repr e A B s h r"
    and "SaveDKGResultData (store_db e A B) k q s = (s', None)" and "k \<noteq> h"
  shows "store_repr e A B s' h r"
  using store.frame [OF assms(1,2), of "SaveDKG k q" s' None] assms(3,4) by simp

text \<open>The three nodes share one store without getting into each other's way: after each has saved its
  result, a signing request with that hash and the common public key makes node \<open>i\<close> find the share
  of node \<open>i\<close>, with either kind of store.\<close>

lemma self_signing_finds_each_share:
  assumes "eth_laws e \<and> alice_laws A \<and> badger_laws B" and "CHR ''-'' \<notin> set hash"
    and "\<And>i. storable (r i)" and "\<And>i. pubkey_text e A (r i) = pub"
    and "SaveDKGResultData (store_db e A B) (node_key hash 1) (r 1) s = (s1, None)"
    and "SaveDKGResultData (store_db e A B) (node_key hash 2) (r 2) s1 = (s2, None)"
    and "SaveDKGResultData (store_db e A B) (node_key hash 0) (r 0) s2 = (s3, None)" and "i < 3"
  shows "GetSignerConfig (store_db e A B) (node_key hash i) pub s3 = Inr (config_of A (r i))"
proof -
  have keys: "node_key hash a \<noteq> node_key hash b" if "a \<noteq> b" for a b
    using node_key_inject [OF assms(2,2)] that by simp
  note saved = store.save_repr [OF assms(1,3)]
  have r1: "store_repr e A B s3 (node_key hash 1) (r 1)"
    by (rule store_save_other [OF assms(1) store_save_other [OF assms(1) saved [OF assms(5)] assms(6)] assms(7)]) (simp_all add: keys)
  have r2: "store_repr e A B s3 (node_key hash 2) (r 2)"
    by (rule store_save_other [OF assms(1) saved [OF assms(6)] assms(7)]) (simp add: keys)
  have r0: "store_repr e A B s3 (node_key hash 0) (r 0)" by (rule saved [OF assms(7)])
  have "store_repr e A B s3 (node_key hash i) (r i)" using less3_cases [OF assms(8)] r0 r1 r2 by auto
  from store.get_repr [OF assms(1) this] show ?thesis using assms(4) by simp
qed

text \<open>A node that finds its configuration starts its service, and keeps the store and the peers.\<close>

lemma SignMessage_starts:
  assumes "GetSignerConfig H (sreq_Hash req) (sreq_Pubkey req) (w_store w) = Inr cfg" and "\<And>pm. \<exists>x. createSigner e A P cfg pm (sreq_Message req) = Inr x"
  shows "\<exists>w' s. sg_config s = cfg \<and> w_store w' = w_store w \<and> w_peers w' = w_peers w \<and>
    TssCaller_SignMessage e A P H pm req None proc w = (w', [s], Gives (Inr None)) \<and>
    TssCaller_SignMessage e A P H pm req (Some (Some None)) proc w = (w', [s], result_of (proc s))"
proof -
  obtain x where "createSigner e A P cfg (w_peers w, pm) (sreq_Message req) = Inr x" using assms(2) by blast
  then show ?thesis
    using assms(1) by (auto simp: TssCaller_SignMessage_def NewSignerService_def SetStreamHandler_def result_of_def Let_def split: option.splits sum.splits)
qed

lemma node_world_sel [simp]: "w_store (node_world cl i) = cl_store cl" "w_peers (node_world cl i) = cl_peers cl"
  by (simp_all add: node_world_def)

lemma put_node_sel [simp]: "cl_store (put_node i w cl) = w_store w" "cl_peers (put_node i w cl) = w_peers w"
  by (simp_all add: put_node_def)

lemma with_crash_result: "with_crash rs r = Gives (Inr v) \<Longrightarrow> r = Gives (Inr v)"
  by (auto simp: with_crash_def find_Some_iff split: option.splits) (metis outcome.simps(5) sum.simps(6))

lemma RegisterDKG_result:
  "TssCaller_RegisterDKG P pm addrs h call proc w = (w', ds, Gives (Inr (Some x))) \<Longrightarrow> \<exists>d. proc d = Some (Inr x)"
  by (auto simp: TssCaller_RegisterDKG_def Let_def split: sum.splits option.splits prod.splits)

lemma self_dkg_reply:
  fixes s :: "'h SelfService option"
  assumes "RpcService_RegisterSelfDKG e A P discovery events addrs proc pick s H hash cl = (cl', ds, Gives (Inr reply))"
  shows "\<exists>d x. proc d = Some (Inr x) \<and> dk_Hash reply = hash \<and> dk_Pubkey reply = pubkey_text e A x"
proof -
  from assms obtain sv :: "'h SelfService" and r where self: "SelfService_RegisterDKG P discovery events addrs proc None pick sv H hash cl = (cl', ds, r)"
    and reply: "dkg_reply e A hash r = Gives (Inr reply)"
    by (auto simp: RpcService_RegisterSelfDKG_def split: option.splits prod.splits)
  from reply obtain x where x: "r = Gives (Inr (Some x))" and names: "dk_Hash reply = hash" "dk_Pubkey reply = pubkey_text e A x"
    by (auto simp: dkg_reply_def pubkey_text_def Let_def split: outcome.splits sum.splits option.splits)
  have "\<exists>d. proc d = Some (Inr x)"
    using self x
    by (auto simp: SelfService_RegisterDKG_def Let_def split: if_splits option.splits sum.splits prod.splits
        dest!: with_crash_result RegisterDKG_result)
  with names show ?thesis by blast
qed

text \<open>C13: From the key to the signature in one process: when a client has got the reply of a key
  generation of the self service, and its three nodes have each saved their results, a request to
  sign with the hash and the public key of the reply starts a service on every node, each with the
  share of that node, and gives the client what the service of the primary node gives, on either
  kind of store.\<close>

theorem self_generated_key_signs:
  fixes r :: "nat \<Rightarrow> ('pt, 'bk) dkg_Result"
  assumes "eth_laws e" and "alice_laws A" and "badger_laws B" and "CHR ''-'' \<notin> set hash"
    and "RpcService_RegisterSelfDKG e A P discovery events addrs dproc pick0 (Some s) (Some (store_db e A B)) hash cl0 = (cl1, ds, Gives (Inr reply))"
    and "\<And>d x. dproc d = Some (Inr x) \<Longrightarrow> x = r 0"
    and "\<And>i. storable (r i) \<and> 0 \<le> r_Share (r i) \<and> pubkey_text e A (r i) = pubkey_text e A (r 0) \<and>
      NewECPoint A S256 (GetX A (r_PublicKey (r i))) (GetY A (r_PublicKey (r i))) = Inr (r_PublicKey (r i))"
    and "SaveDKGResultData (store_db e A B) (node_key hash 1) (r 1) st = (st1, None)"
    and "SaveDKGResultData (store_db e A B) (node_key hash 2) (r 2) st1 = (st2, None)"
    and "SaveDKGResultData (store_db e A B) (node_key hash 0) (r 0) st2 = (cl_store cl, None)"
    and "\<exists>pai. NewPaillier P 2048 = Inr pai" and "\<And>pm pk pai sh bks msg. \<exists>x. NewSigner P pm pk pai sh bks msg = Inr x"
    and "unmarshalRequestData decode_SignRequest data = Inr req" and "sreq_Message req \<noteq> []"
    and "sreq_Hash req = dk_Hash reply" and "sreq_Pubkey req = dk_Pubkey reply"
    and "CreatePm discovery' events' s (ToHexHash e (bytes_of (sreq_Message req))) (cl_peers cl) = Some (hp, Inr pms)"
  shows "\<exists>cl' s0 s1 s2. RpcService_SelfSignMessage e A P discovery' events' proc pick (Some s) (Some (store_db e A B)) data cl =
      (cl', [s1, s2, s0], sign_reply (ToHexHash e (bytes_of (sreq_Message req))) (result_of (proc s0))) \<and>
    map sg_config [s0, s1, s2] = map (\<lambda>i. config_of A (r i)) [0, 1, 2]"
proof -
  let ?H = "store_db e A B" and ?cfg = "\<lambda>i. config_of A (r i)"
  have reply: "dk_Hash reply = hash \<and> dk_Pubkey reply = pubkey_text e A (r 0)"
    using self_dkg_reply [OF assms(5)] assms(6) by blast
  have found: "GetSignerConfig ?H (sreq_Hash (self_request req i)) (sreq_Pubkey (self_request req i)) (cl_store cl) = Inr (?cfg i)" if "i < 3" for i
    using self_signing_finds_each_share [where r = r and pub = "pubkey_text e A (r 0)", OF _ assms(4) _ _ assms(8-10) that] assms(1-3,7,15,16) reply
    by (simp add: self_request_def)
  obtain pai where "NewPaillier P 2048 = Inr pai" using assms(11) by blast
  then have signer: "\<exists>x. createSigner e A P (?cfg i) pm msg = Inr x" for i pm msg
    using Convert_config [OF assms(2)] assms(7,12) by (simp add: createSigner_def)
  note starts = SignMessage_starts [OF _ signer, where H = ?H and proc = proc]
  have msg: "sreq_Message (self_request req i) = sreq_Message req" for i by (simp add: self_request_def)
  let ?cl = "cl\<lparr>cl_peers := hp\<rparr>"
  have "w_store (node_world ?cl 1) = cl_store cl" by simp
  from starts [of "self_request req 1" "node_world ?cl 1" 1 "pms ! 1"] found [of 1] obtain w1 s1
    where n1: "sg_config s1 = ?cfg 1" "w_store w1 = cl_store cl" "w_peers w1 = hp"
      "TssCaller_SignMessage e A P ?H (pms ! 1) (self_request req 1) None proc (node_world ?cl 1) = (w1, [s1], Gives (Inr None))" by auto
  from starts [of "self_request req 2" "node_world (put_node 1 w1 ?cl) 2" 2 "pms ! 2"] found [of 2] n1 obtain w2 s2
    where n2: "sg_config s2 = ?cfg 2" "w_store w2 = cl_store cl" "w_peers w2 = hp"
      "TssCaller_SignMessage e A P ?H (pms ! 2) (self_request req 2) None proc (node_world (put_node 1 w1 ?cl) 2) = (w2, [s2], Gives (Inr None))" by auto
  from starts [of "self_request req 0" "node_world (put_node 2 w2 (put_node 1 w1 ?cl)) 0" 0 "pms ! 0"] found [of 0] n2 obtain w0 s0
    where n0: "sg_config s0 = ?cfg 0"
      "TssCaller_SignMessage e A P ?H (pms ! 0) (self_request req 0) (Some (Some None)) proc (node_world (put_node 2 w2 (put_node 1 w1 ?cl)) 0) =
        (w0, [s0], result_of (proc s0))" by auto
  have "SelfService_SignMessage e A P discovery' events' proc None pick s (Some ?H) (Some req) cl =
      (put_node 0 w0 (put_node 2 w2 (put_node 1 w1 ?cl)), [s1, s2, s0], result_of (proc s0))"
    using assms(14,17) n0(2) n1(4) n2(4)
    by (simp add: SelfService_SignMessage_def node_error_def select_case_def select_ready_def with_crash_def)
  then show ?thesis using assms(13) n0(1) n1(1) n2(1) by (simp add: RpcService_SelfSignMessage_def)
qed

section \<open>Witnesses\<close>

text \<open>Three hosts as the example network packages make them.\<close>

lemma NewSelfService0: "\<exists>a b c x y z. snd (NewSelfService libp2p0) = Inr \<lparr>ss_hosts = [Some a, Some b, Some c], ss_peerIDs = [x, y, z]\<rparr>"
  by (simp add: NewSelfService_def self_ports_def MakeBasicHostByID_def libp2p0_def host_of_key_def generateIdentity_def)

lemma CreatePm1:
  assumes "hash \<noteq> []"
  shows "\<exists>pms. CreatePm (\<lambda>_. None) (\<lambda>_. Tick connected0) \<lparr>ss_hosts = [Some a, Some b, Some c], ss_peerIDs = [x, y, z]\<rparr> hash [] = Some (connected0, Inr pms)"
proof -
  have n: "NumPeers connected0 \<lparr>pm_id = a, pm_Host = b, pm_protocol = c, pm_peers = i\<rparr> = 2" if "i < 3" for a b c i
    using NumPeers_connected0 [OF that, of "\<lparr>pm_id = a, pm_Host = b, pm_protocol = c, pm_peers = 0\<rparr>"] by simp
  let ?pm = "\<lambda>x i. \<lparr>pm_id = x, pm_Host = x, pm_protocol = GetProtocol hash, pm_peers = i\<rparr>"
  let ?pms = "[?pm x 0, ?pm y 1, ?pm z 2]"
  have "waitForPeers (\<lambda>_. Tick connected0) (map Some ?pms) = Some (0, None)"
    unfolding waitForPeers_def by (rule retry_stop) (simp add: wait_look_def all_connected_def n numNodes_def)
  then show ?thesis using assms by (simp add: CreatePm_def NewPeerManager_def numeral_2_eq_2)
qed

theorem self_dkg_nodes_hear_each_other_witness:
  "\<exists>s cl' d1 d2 d0 r. snd (NewSelfService libp2p0) = Inr s \<and>
     SelfService_RegisterDKG protocols0 (\<lambda>_. None) (\<lambda>_. Tick connected0) (\<lambda>_. [''/ip4/127.0.0.1/tcp/11111'']) (\<lambda>_. None) None 0 s
       (Some (mock_handler eth0 alice0)) ''0xaa'' cluster0 = (cl', [d1, d2, d0], r) \<and>
     fmlookup (cl_handlers cl' ! 1) (pm_protocol (dkg_pm d2)) = Some (DkgHandle (dkg_hash d1))"
proof -
  obtain s where s: "snd (NewSelfService libp2p0) = Inr s"
    and "\<exists>pms. CreatePm (\<lambda>_. None) (\<lambda>_. Tick connected0) s ''0xaa'' [] = Some (connected0, Inr pms)"
    using NewSelfService0 CreatePm1 [of "''0xaa''"] by fastforce
  then obtain cl' d1 d2 d0 r where run: "SelfService_RegisterDKG protocols0 (\<lambda>_. None) (\<lambda>_. Tick connected0) (\<lambda>_. [''/ip4/127.0.0.1/tcp/11111''])
       (\<lambda>_. None) None 0 s (Some (mock_handler eth0 alice0)) ''0xaa'' cluster0 = (cl', [d1, d2, d0], r)"
    by (auto simp: SelfService_RegisterDKG_def cluster0_def started0_defs node_error_def select_case_def select_ready_def)
  have "length (cl_handlers cluster0) = 3" "CHR ''-'' \<notin> set ''0xaa''" by (simp_all add: cluster0_def)
  from self_dkg_nodes_hear_each_other [OF s this(2,1) run, of 2 1] s run show ?thesis by auto
qed

text \<open>Shares of the three nodes, and a store that holds them.\<close>

definition share_of :: "nat \<Rightarrow> (pt0, bk0) dkg_Result" where
  "share_of i = result0\<lparr>r_Share := int i\<rparr>"

lemma saved_shares:
  "\<exists>s1 s2 s3. SaveDKGResultData (store_db eth0 alice0 badger0) (node_key ''0xaa'' 1) (share_of 1) (MockStore NewMockDB :: db0 store_state) = (s1, None) \<and>
     SaveDKGResultData (store_db eth0 alice0 badger0) (node_key ''0xaa'' 2) (share_of 2) s1 = (s2, None) \<and>
     SaveDKGResultData (store_db eth0 alice0 badger0) (node_key ''0xaa'' 0) (share_of 0) s2 = (s3, None)"
proof -
  let ?H = "store_db eth0 alice0 badger0"
  have save: "\<exists>s'. SaveDKGResultData ?H k q s = (s', None) \<and> (\<exists>m. s' = MockStore m \<and> mock_made m)"
    if "s = MockStore m" "mock_made m" for k q s m
    using that mock_op_made [of m eth0 alice0 "SaveDKG k q"]
    by (auto simp: store_db_def Let_def dispatch_step_def)
  have "mock_made NewMockDB" by (simp add: mock_made_def NewMockDB_def)
  from save [OF refl this] obtain s1 m1 where s1: "SaveDKGResultData ?H (node_key ''0xaa'' 1) (share_of 1) (MockStore NewMockDB) = (s1, None)"
    "s1 = MockStore m1" "mock_made m1" by blast
  from save [OF s1(2,3)] obtain s2 m2 where s2: "SaveDKGResultData ?H (node_key ''0xaa'' 2) (share_of 2) s1 = (s2, None)"
    "s2 = MockStore m2" "mock_made m2" by blast
  from save [OF s2(2,3)] obtain s3 where "SaveDKGResultData ?H (node_key ''0xaa'' 0) (share_of 0) s2 = (s3, None)" by blast
  with s1 s2 show ?thesis by blast
qed

theorem self_generated_key_signs_witness:
  "\<exists>cl cl' s0 s1 s2. RpcService_SelfSignMessage eth0 alice0 protocols0 (\<lambda>_. None) (\<lambda>_. Tick connected0) (\<lambda>s. Some (Inr \<lparr>sr_R = 17, sr_S = 18\<rparr>)) 0
       (Some self0) (Some (store_db eth0 alice0 badger0)) sign_data1 cl =
     (cl', [s1, s2, s0], sign_reply (ToHexHash eth0 (bytes_of (sreq_Message sign_req1))) (result_of (Some (Inr \<lparr>sr_R = 17, sr_S = 18\<rparr>)))) \<and>
     map sg_config [s0, s1, s2] = map (\<lambda>i. config_of alice0 (share_of i)) [0, 1, 2]"
proof -
  let ?H = "store_db eth0 alice0 badger0"
  obtain st1 st2 st3 where st: "SaveDKGResultData ?H (node_key ''0xaa'' 1) (share_of 1) (MockStore NewMockDB) = (st1, None)"
    "SaveDKGResultData ?H (node_key ''0xaa'' 2) (share_of 2) st1 = (st2, None)" "SaveDKGResultData ?H (node_key ''0xaa'' 0) (share_of 0) st2 = (st3, None)"
    using saved_shares by blast
  define cl0 :: "db0 store_state cluster" where "cl0 = \<lparr>cl_peers = [], cl_handlers = [fmempty, fmempty, fmempty], cl_store = MockStore NewMockDB\<rparr>"
  define cl :: "db0 store_state cluster" where "cl = cl0\<lparr>cl_store := st3\<rparr>"
  have "\<exists>cl1 ds reply. RpcService_RegisterSelfDKG eth0 alice0 protocols0 (\<lambda>_. None) (\<lambda>_. Tick connected0) (\<lambda>_. [''/ip4/127.0.0.1/tcp/11111''])
      (\<lambda>_. Some (Inr (share_of 0))) 0 (Some self0) (Some ?H) ''0xaa'' cl0 = (cl1, ds, Gives (Inr reply))"
    by (simp add: RpcService_RegisterSelfDKG_def SelfService_RegisterDKG_def CreatePm0 cl0_def started0_defs node_error_def select_case_def
        select_ready_def with_crash_def dkg_reply_def)
  then obtain cl1 ds reply where run: "RpcService_RegisterSelfDKG eth0 alice0 protocols0 (\<lambda>_. None) (\<lambda>_. Tick connected0) (\<lambda>_. [''/ip4/127.0.0.1/tcp/11111''])
      (\<lambda>_. Some (Inr (share_of 0))) 0 (Some self0) (Some ?H) ''0xaa'' cl0 = (cl1, ds, Gives (Inr reply))" by blast
  have share: "storable (share_of i) \<and> 0 \<le> r_Share (share_of i) \<and> pubkey_text eth0 alice0 (share_of i) = pubkey_text eth0 alice0 (share_of 0) \<and>
      NewECPoint alice0 S256 (GetX alice0 (r_PublicKey (share_of i))) (GetY alice0 (r_PublicKey (share_of i))) = Inr (r_PublicKey (share_of i))" for i
    using storable_result0 result0_facts(2) by (simp add: share_of_def storable_def pubkey_text_def)
  have names: "sreq_Hash sign_req1 = dk_Hash reply" "sreq_Pubkey sign_req1 = dk_Pubkey reply"
    using self_dkg_reply [OF run] by (auto simp: sign_req1_def share_of_def pubkey_text_def)
  have "ToHexHash eth0 b \<noteq> []" for b by (simp add: ToHexHash_def ToHex_def)
  then have pms: "CreatePm (\<lambda>_. None) (\<lambda>_. Tick connected0) self0 (ToHexHash eth0 (bytes_of (sreq_Message sign_req1))) (cl_peers cl) =
      Some (connected0, Inr (pms0 (ToHexHash eth0 (bytes_of (sreq_Message sign_req1)))))"
    by (simp add: cl_def cl0_def CreatePm0)
  have store: "SaveDKGResultData ?H (node_key ''0xaa'' 0) (share_of 0) st2 = (cl_store cl, None)" using st(3) by (simp add: cl_def)
  have "sreq_Message sign_req1 \<noteq> []" by (simp add: sign_req1_def)
  from self_generated_key_signs [where proc = "\<lambda>s. Some (Inr \<lparr>sr_R = 17, sr_S = 18\<rparr>)" and pick = 0,
      OF eth0_laws alice0_laws badger0_laws _ run _ share st(1,2) store _ _ unmarshal_sign_data1 this names pms]
  show ?thesis by - (rule exI [of _ cl], simp add: protocols0_ok)
qed

end
