(* ===== verification/Keys.thy ===== *)
theory Keys
  imports Network
begin

text \<open>
  The life of a key on one node: what a finished resharing leaves for the next signing, and what a
  second key generation under the same hash does.  The operations are those of \<open>Service\<close>, \<open>Network\<close>
  and the badger store.
\<close>

section \<open>What the end of a service does to the store\<close>

lemma Reshare_done_store:
  assumes "Reshare_OnStateChanged H (Inr u) StateDone (p, w) = ((p', w'), err)" and "\<not> rs_done p"
  shows "w_store w' = fst (UpdateDKGResultData H (rs_hash p) u (w_store w))"
  using assms
  by (auto simp: Reshare_OnStateChanged_def Reshare_closeDone_def Reshare_save_def chan_close_def RemoveStreamHandler_def Let_def
      split: prod.splits)

lemma Dkg_done_store:
  assumes "Dkg_OnStateChanged H (Inr r) StateDone (p, w) = ((p', w'), err)" and "\<not> dkg_done p"
  shows "w_store w' = fst (SaveDKGResultData H (dkg_hash p) r (w_store w)) \<and> w_peers w' = w_peers w"
  using assms
  by (auto simp: Dkg_OnStateChanged_def Dkg_close_def Dkg_save_def chan_close_def Let_def split: prod.splits)

section \<open>Properties\<close>

text \<open>C8: A resharing replaces the share for all later signings or leaves the old one.  When a resharing
  of a stored key is done, the configuration a signer gets under the hash and the public key of the
  key converts back to the stored result with the new share if the store took it, and to the stored
  result itself if it did not.\<close>

theorem reshared_share_is_what_signer_gets:
  assumes "eth_laws e" and "alice_laws A" and "badger_laws B" and "storable r" and "0 \<le> r_Share r" and "0 \<le> rr_Share u"
    and "NewECPoint A S256 (GetX A (r_PublicKey r)) (GetY A (r_PublicKey r)) = Inr (r_PublicKey r)"
    and "badger_SaveDKGResultData e A B h r d = (d', None)" and "\<forall>p \<in> set ps. op_key p \<noteq> h"
    and "w_store w = fst (run_both (badger_handler e A B) ps (d', a))"
    and "rs_hash p = h" and "\<not> rs_done p"
    and "Reshare_OnStateChanged (badger_handler e A B) (Inr u) StateDone (p, w) = ((p', w'), err)"
  shows "\<exists>c. badger_GetSignerConfig e B h (pubkey_text e A r) (w_store w') = Inr c \<and>
    ConvertDKGResult A (sc_Pubkey c) (sc_Share c) (sc_BKs c) =
      Inr (if snd (badger_UpdateDKGResultData e B h u (w_store w)) = None then r\<lparr>r_Share := rr_Share u\<rparr> else r)"
proof -
  let ?H = "badger_handler e A B" and ?r = "r\<lparr>r_Share := rr_Share u\<rparr>"
  have env: "eth_laws e \<and> alice_laws A \<and> badger_laws B" using assms(1-3) by simp
  have pub: "pubkey_text e A ?r = pubkey_text e A r" by (simp add: pubkey_text_def)
  have save: "SaveDKGResultData ?H h r d = (d', None)" using assms(8) by (simp add: badger_handler_def)
  have w: "badger_repr e A B (w_store w) h r"
    using badger.ops_frame [OF env badger.save_repr [OF env assms(4) save] assms(9)] assms(10) by simp
  obtain s' uerr where upd: "badger_UpdateDKGResultData e B h u (w_store w) = (s', uerr)" by fastforce
  have w': "w_store w' = s'"
    using Reshare_done_store [OF assms(13,12)] upd assms(11) by (simp add: badger_handler_def)
  have conv: "ConvertDKGResult A (sc_Pubkey (config_of A q)) (sc_Share (config_of A q)) (sc_BKs (config_of A q)) = Inr q"
    if "q = r \<or> q = ?r" for q
    using that Convert_config [OF assms(2)] assms(5-7) by auto
  show ?thesis
  proof (cases uerr)
    case None
    have "badger_repr e A B s' h ?r"
      using badger.update_repr [OF env w, of u s'] upd None by (simp add: badger_handler_def)
    from badger.get_repr [OF env this] have "badger_GetSignerConfig e B h (pubkey_text e A r) s' = Inr (config_of A ?r)"
      unfolding pub by (simp add: badger_handler_def)
    then show ?thesis using conv [of ?r] upd None w' by simp
  next
    case (Some x)
    have "badger_repr e A B s' h r"
      using badger.frame [OF env w, of "UpdateDKG h u" s' uerr] upd Some by (simp add: badger_handler_def)
    from badger.get_repr [OF env this] have "badger_GetSignerConfig e B h (pubkey_text e A r) s' = Inr (config_of A r)"
      by (simp add: badger_handler_def)
    then show ?thesis using conv [of r] upd Some w' by simp
  qed
qed

text \<open>A key generation a peer asks for writes its result under the name the peer gave it.\<close>

lemma peer_dkg_overwrites:
  assumes "eth_laws e \<and> alice_laws A \<and> badger_laws B" and "ne_handler E = badger_handler e A B"
    and "can_dkg E h n" and "peer_serve E (peer_args ''TssPeerService'' ''RegisterDKG'' (bytes_of h) a) n = (n1, reply)"
    and "Dkg_OnStateChanged (ne_handler E) (Inr r) StateDone (last (nd_dkgs n1), nd_world n1) = ((d, w), None)"
    and "storable r" and "snd (badger_SaveDKGResultData e A B h r (w_store (nd_world n1))) = None" and "pub \<noteq> pubkey_text e A r"
  shows "reply = Gives (Inr ()) \<and> GetSignerConfig (ne_handler E) h pub (w_store w) = Inl (ErrorString ''pubkey not match'')"
proof -
  from peer_serve_dkg(1) [OF assms(3), of a] assms(4)
  have reply: "reply = Gives (Inr ())" and "generating E h n n1" by auto
  then have d: "dkg_hash (last (nd_dkgs n1)) = h" "\<not> dkg_done (last (nd_dkgs n1))" by (auto simp: generating_def)
  have "w_store w = fst (badger_SaveDKGResultData e A B h r (w_store (nd_world n1)))"
    using Dkg_done_store [OF assms(5) d(2)] d(1) assms(2) by (simp add: badger_handler_def)
  then have "SaveDKGResultData (badger_handler e A B) h r (w_store (nd_world n1)) = (w_store w, None)"
    using assms(7) by (simp add: badger_handler_def prod_eq_iff)
  from badger.wrong_pub [OF assms(1) badger.save_repr [OF assms(1,6) this] assms(8)] reply assms(2) show ?thesis by simp
qed

text \<open>C26: A peer can make a node lose a key.  It asks for a key generation under the hash of the key; the
  node does not look whether it has one, and when that run is done its result takes the place of
  the old one: no request to sign with another public key than the new one can be served under that
  hash any more.\<close>

theorem repeated_dkg_loses_key:
  assumes "eth_laws e" and "alice_laws A" and "badger_laws B" and "ne_handler E = badger_handler e A B"
    and "can_dkg E h n" and "peer_serve E (peer_args ''TssPeerService'' ''RegisterDKG'' (bytes_of h) a) n = (n1, reply)"
    and "Dkg_OnStateChanged (ne_handler E) (Inr r) StateDone (last (nd_dkgs n1), nd_world n1) = ((d, w), None)"
    and "storable r" and "snd (badger_SaveDKGResultData e A B h r (w_store (nd_world n1))) = None"
    and "sreq_Hash req = h" and "sreq_Pubkey req \<noteq> pubkey_text e A r"
  shows "reply = Gives (Inr ()) \<and> \<not> can_sign E req (n1\<lparr>nd_world := w, nd_dkgs := butlast (nd_dkgs n1) @ [d]\<rparr>)"
  using peer_dkg_overwrites [OF _ assms(4-9,11)] assms(1-3,10) by (simp add: can_sign_def)

section \<open>Witnesses\<close>

text \<open>A node with a badger store.\<close>

definition env2 :: "(db0 FSM, pt0, bk0, unit, unit, unit, unit, string, int, string) node_env" where
  "env2 =
     \<lparr>ne_eth = eth0, ne_alice = alice0, ne_protocols = protocols0, ne_handler = badger_handler eth0 alice0 badger0,
      ne_libp2p = libp2p0, ne_unmarshal_sign = (\<lambda>b. Inl SyntaxError), ne_unmarshal_reshare = (\<lambda>b. Inl SyntaxError),
      ne_pm = main_pm ''QmA'', ne_addrs = [''/ip4/127.0.0.1/tcp/10001'']\<rparr>"

definition node2 :: "db0 FSM \<Rightarrow> (db0 FSM, unit, unit, unit) node" where
  "node2 d = \<lparr>nd_world = \<lparr>w_peers = [table0], w_handlers = fmupd ProtocolId RpcHandle fmempty, w_store = d\<rparr>,
     nd_dkgs = [], nd_signers = [], nd_reshares = []\<rparr>"

lemma panic_of_None [simp]: "panic_of None = None"
  by (simp add: panic_of_def)

theorem reshared_share_is_what_signer_gets_witness:
  "\<exists>p w p' w' err c. rs_hash p = ''0xaa'' \<and>
     Reshare_OnStateChanged (badger_handler eth0 alice0 badger0) (Inr \<lparr>rr_Share = 99\<rparr>) StateDone (p :: unit Reshare, w) = ((p', w'), err) \<and>
     badger_GetSignerConfig eth0 badger0 ''0xaa'' (pubkey_text eth0 alice0 result0) (w_store w') = Inr c \<and>
     ConvertDKGResult alice0 (sc_Pubkey c) (sc_Share c) (sc_BKs c) = Inr (result0\<lparr>r_Share := 99\<rparr>)"
proof -
  obtain d' where d': "badger_SaveDKGResultData eth0 alice0 badger0 ''0xaa'' result0 fsm0 = (d', None)"
    using badger0_save [of "''0xaa''"] by blast
  define w where "w = nd_world (node2 d')"
  define p :: "unit Reshare" where "p = \<lparr>rs_config = reshare_config (config_of alice0 result0), rs_pm = main_pm ''QmA'', rs_done = False,
    rs_reshare = (), rs_hash = ''0xaa''\<rparr>"
  have w: "w_store w = fst (run_both (badger_handler eth0 alice0 badger0) [] (d', \<lambda>_. None))"
    by (simp add: w_def node2_def run_both_def)
  have p: "rs_hash p = ''0xaa''" "\<not> rs_done p" by (simp_all add: p_def)
  obtain p' w' err where ch: "Reshare_OnStateChanged (badger_handler eth0 alice0 badger0) (Inr \<lparr>rr_Share = 99\<rparr>) StateDone (p, w) = ((p', w'), err)"
    by (metis surj_pair)
  have "badger_repr eth0 alice0 badger0 (w_store w) ''0xaa'' result0"
    using badger_save_repr [OF eth0_laws badger0_laws storable_result0 d'] by (simp add: w_def node2_def)
  from badger0_update [OF _ this, of "\<lparr>rr_Share = 99\<rparr>"]
  have "snd (badger_UpdateDKGResultData eth0 badger0 ''0xaa'' \<lparr>rr_Share = 99\<rparr> (w_store w)) = None" by auto
  with reshared_share_is_what_signer_gets [OF eth0_laws alice0_laws badger0_laws storable_result0 result0_facts(1) _ result0_facts(2) d' _ w p ch]
  obtain c where "badger_GetSignerConfig eth0 badger0 ''0xaa'' (pubkey_text eth0 alice0 result0) (w_store w') = Inr c"
    "ConvertDKGResult alice0 (sc_Pubkey c) (sc_Share c) (sc_BKs c) = Inr (result0\<lparr>r_Share := 99\<rparr>)" by auto
  with p(1) ch show ?thesis by blast
qed

text \<open>A key generation under any name, with a result other than the one stored.\<close>

definition other0 :: "(pt0, bk0) dkg_Result" where
  "other0 = result0\<lparr>r_PublicKey := (7, 13)\<rparr>"

lemma other0_facts: "storable other0" "pubkey_text eth0 alice0 result0 \<noteq> pubkey_text eth0 alice0 other0"
  using storable_result0
  by (simp_all add: other0_def storable_def pubkey_text_def eth0_def alice0_def result0_def digit_char_def of_char_eq_iff [where ?'a = nat, symmetric])

lemma can_dkg2: "can_dkg env2 h (node2 s)"
  by (simp add: can_dkg_def env2_def getPort_def protocols0_def)

lemma overwriting0:
  assumes "h \<noteq> []"
  obtains n1 d w where "peer_serve env2 (peer_args ''TssPeerService'' ''RegisterDKG'' (bytes_of h) ''/a'') (node2 s) = (n1, Gives (Inr ()))"
    "Dkg_OnStateChanged (ne_handler env2) (Inr other0) StateDone (last (nd_dkgs n1), nd_world n1) = ((d, w), None)"
    "snd (badger_SaveDKGResultData eth0 alice0 badger0 h other0 (w_store (nd_world n1))) = None"
proof -
  from peer_serve_dkg(1) [OF can_dkg2 [of h s], of "''/a''"] obtain n1
    where n1: "peer_serve env2 (peer_args ''TssPeerService'' ''RegisterDKG'' (bytes_of h) ''/a'') (node2 s) = (n1, Gives (Inr ()))"
      and g: "generating env2 h (node2 s) n1" by blast
  have last: "dkg_hash (last (nd_dkgs n1)) = h" "\<not> dkg_done (last (nd_dkgs n1))" using g by (auto simp: generating_def)
  obtain s' where s': "badger_SaveDKGResultData eth0 alice0 badger0 h other0 (w_store (nd_world n1)) = (s', None)"
    using badger0_save [OF assms] by blast
  have "\<exists>d w. Dkg_OnStateChanged (ne_handler env2) (Inr other0) StateDone (last (nd_dkgs n1), nd_world n1) = ((d, w), None)"
    using last s' by (simp add: Dkg_OnStateChanged_def Dkg_close_def Dkg_save_def chan_close_def env2_def badger_handler_def)
  with that n1 s' show ?thesis by auto
qed

theorem repeated_dkg_loses_key_witness:
  "\<exists>n n1 d w. can_sign env2 sign_req1 n \<and>
     peer_serve env2 (peer_args ''TssPeerService'' ''RegisterDKG'' (bytes_of ''0xaa'') ''/a'') n = (n1, Gives (Inr ())) \<and>
     Dkg_OnStateChanged (ne_handler env2) (Inr other0) StateDone (last (nd_dkgs n1), nd_world n1) = ((d, w), None) \<and>
     \<not> can_sign env2 sign_req1 (n1\<lparr>nd_world := w, nd_dkgs := butlast (nd_dkgs n1) @ [d]\<rparr>)"
proof -
  obtain d' where d': "badger_SaveDKGResultData eth0 alice0 badger0 ''0xaa'' result0 fsm0 = (d', None)"
    using badger0_save [of "''0xaa''"] by blast
  have "GetSignerConfig (badger_handler eth0 alice0 badger0) ''0xaa'' (pubkey_text eth0 alice0 result0) d' = Inr (config_of alice0 result0)"
    using badger.get_repr [OF _ badger_save_repr [OF eth0_laws badger0_laws storable_result0 d']] by simp
  then have before: "can_sign env2 sign_req1 (node2 d')"
    by (simp add: can_sign_def env2_def node2_def sign_req1_def createSigner_def Convert_result0 protocols0_ok)
  obtain n1 d w where over: "peer_serve env2 (peer_args ''TssPeerService'' ''RegisterDKG'' (bytes_of ''0xaa'') ''/a'') (node2 d') = (n1, Gives (Inr ()))"
    "Dkg_OnStateChanged (ne_handler env2) (Inr other0) StateDone (last (nd_dkgs n1), nd_world n1) = ((d, w), None)"
    "snd (badger_SaveDKGResultData eth0 alice0 badger0 ''0xaa'' other0 (w_store (nd_world n1))) = None" 
    by (rule overwriting0 [where h = "''0xaa''" and s = d']) (simp, blast)
  have "ne_handler env2 = badger_handler eth0 alice0 badger0" "sreq_Hash sign_req1 = ''0xaa''" "sreq_Pubkey sign_req1 \<noteq> pubkey_text eth0 alice0 other0"
    using other0_facts(2) by (simp_all add: env2_def sign_req1_def)
  from repeated_dkg_loses_key [OF eth0_laws alice0_laws badger0_laws this(1) can_dkg2 over(1,2) other0_facts(1) over(3) this(2,3)] before over
  show ?thesis by blast
qed

end
