(* ===== verification/One_Process.thy ===== *)
theory One_Process
  imports Self_Cluster Keys
begin

text \<open>
  One process: the node and, with \<^verbatim>\<open>--self-host\<close>, the three nodes of the self service, which keep their
  keys in the store of the node.  The operations are those of the components; the steps are those of
  \<open>Node\<close> and the ones the self service adds.
\<close>

section \<open>State and steps\<close>

text \<open>What the process is given beside its node: the self service \<^verbatim>\<open>main\<close> has made, the addresses of its
  hosts, and whether \<^verbatim>\<open>main\<close> has started discovery for the node.\<close>

record 'h self_env =
  se_self :: "'h SelfService option"
  se_addrs :: "nat \<Rightarrow> string list"
  se_discovery :: bool

text \<open>The services of the three nodes are told apart by the hosts of their managers.\<close>

record ('s, 'dkg, 'signer, 'reshare) running =
  rn_node :: "('s, 'dkg, 'signer, 'reshare) node"
  rn_peers :: peer_heap
  rn_handlers :: "(string, svc_ref) fmap list"
  rn_dkgs :: "'dkg Dkg list"
  rn_signers :: "'signer Signer list"

abbreviation rn_store :: "('s, 'dkg, 'signer, 'reshare) running \<Rightarrow> 's" where
  "rn_store p \<equiv> w_store (nd_world (rn_node p))"

text \<open>The cluster of the self service, on the store of the process.\<close>

definition cluster_of :: "('s, 'dkg, 'signer, 'reshare) running \<Rightarrow> 's cluster" where
  "cluster_of p = \<lparr>cl_peers = rn_peers p, cl_handlers = rn_handlers p, cl_store = rn_store p\<rparr>"

definition put_cluster :: "'s cluster \<Rightarrow> ('s, 'dkg, 'signer, 'reshare) running \<Rightarrow> ('s, 'dkg, 'signer, 'reshare) running" where
  "put_cluster cl p =
     p\<lparr>rn_peers := cl_peers cl, rn_handlers := cl_handlers cl,
       rn_node := (rn_node p)\<lparr>nd_world := (nd_world (rn_node p))\<lparr>w_store := cl_store cl\<rparr>\<rparr>\<rparr>"

text \<open>Without discovery the table of the node stays as it is.  \<open>at_host\<close> says on which of the three
  hosts a service runs.\<close>

definition at_host :: "'h self_env \<Rightarrow> nat \<Rightarrow> P2PManager \<Rightarrow> bool" where
  "at_host SE i pm \<longleftrightarrow> i < numNodes \<and> (\<exists>s. se_self SE = Some s \<and> pm_Host pm = ss_peerIDs s ! i)"

inductive process_step ::
  "('s, 'pt, 'bk, 'dkg, 'pai, 'signer, 'reshare, 'ma, 'k, 'h) node_env \<Rightarrow> 'h self_env \<Rightarrow>
   ('s, 'dkg, 'signer, 'reshare) running \<Rightarrow> ('s, 'dkg, 'signer, 'reshare) running \<Rightarrow> bool"
  for E SE
where
  node: "node_step E (rn_node p) n \<Longrightarrow> se_discovery SE \<or> w_peers (nd_world n) = w_peers (nd_world (rn_node p)) \<Longrightarrow>
    process_step E SE p (p\<lparr>rn_node := n\<rparr>)"
| self_dkg: "RpcService_RegisterSelfDKG (ne_eth E) (ne_alice E) (ne_protocols E) discovery events (se_addrs SE) dproc pick
      (se_self SE) (Some (ne_handler E)) (RandomHash (ne_eth E) now rnd fallback) (cluster_of p) = (cl, ds, dr) \<Longrightarrow>
    process_step E SE p ((put_cluster cl p)\<lparr>rn_dkgs := rn_dkgs p @ ds\<rparr>)"
| self_sign: "RpcService_SelfSignMessage (ne_eth E) (ne_alice E) (ne_protocols E) discovery events sproc pick
      (se_self SE) (Some (ne_handler E)) data (cluster_of p) = (cl, ss, sr) \<Longrightarrow>
    process_step E SE p ((put_cluster cl p)\<lparr>rn_signers := rn_signers p @ ss\<rparr>)"
| self_dkg_message: "i < length (rn_dkgs p) \<Longrightarrow>
    process_step E SE p (p\<lparr>rn_dkgs := (rn_dkgs p)[i := Dkg_Handle buf (unmarshal :: byte list \<Rightarrow> byte list res) addd (rn_dkgs p ! i)]\<rparr>)"
| self_signer_message: "i < length (rn_signers p) \<Longrightarrow>
    process_step E SE p (p\<lparr>rn_signers := (rn_signers p)[i := Signer_Handle buf (unmarshal :: byte list \<Rightarrow> byte list res) adds (rn_signers p ! i)]\<rparr>)"
| self_dkg_change: "i < length (rn_dkgs p) \<Longrightarrow> at_host SE j (dkg_pm (rn_dkgs p ! i)) \<Longrightarrow>
    Dkg_OnStateChanged (ne_handler E) dres ns (rn_dkgs p ! i, node_world (cluster_of p) j) = ((d, w), None) \<Longrightarrow>
    process_step E SE p ((put_cluster (put_node j w (cluster_of p)) p)\<lparr>rn_dkgs := (rn_dkgs p)[i := d]\<rparr>)"
| self_signer_change: "i < length (rn_signers p) \<Longrightarrow> at_host SE j (sg_pm (rn_signers p ! i)) \<Longrightarrow>
    Signer_OnStateChanged (ne_handler E) sres ns (rn_signers p ! i, node_world (cluster_of p) j) = ((s, w), None) \<Longrightarrow>
    process_step E SE p ((put_cluster (put_node j w (cluster_of p)) p)\<lparr>rn_signers := (rn_signers p)[i := s]\<rparr>)"

lemma put_cluster_sel [simp]:
  "rn_peers (put_cluster cl p) = cl_peers cl" "rn_handlers (put_cluster cl p) = cl_handlers cl"
  "rn_store (put_cluster cl p) = cl_store cl" "rn_dkgs (put_cluster cl p) = rn_dkgs p" "rn_signers (put_cluster cl p) = rn_signers p"
  "w_peers (nd_world (rn_node (put_cluster cl p))) = w_peers (nd_world (rn_node p))"
  "w_handlers (nd_world (rn_node (put_cluster cl p))) = w_handlers (nd_world (rn_node p))"
  "nd_dkgs (rn_node (put_cluster cl p)) = nd_dkgs (rn_node p)" "nd_signers (rn_node (put_cluster cl p)) = nd_signers (rn_node p)"
  "nd_reshares (rn_node (put_cluster cl p)) = nd_reshares (rn_node p)"
  by (simp_all add: put_cluster_def)

lemma cluster_of_sel [simp]:
  "cl_peers (cluster_of p) = rn_peers p" "cl_handlers (cluster_of p) = rn_handlers p" "cl_store (cluster_of p) = rn_store p"
  by (simp_all add: cluster_of_def)

section \<open>What the self service starts\<close>

text \<open>As for a node: starting services leaves the store alone, and every handler is registered for its
  own protocol.\<close>

definition cluster_starts :: "('svc \<Rightarrow> bool) \<Rightarrow> 's cluster \<Rightarrow> 's cluster \<Rightarrow> 'svc list \<Rightarrow> bool" where
  "cluster_starts ok cl cl' svcs \<longleftrightarrow>
     cl_store cl' = cl_store cl \<and> length (cl_handlers cl') = length (cl_handlers cl) \<and>
     (list_all handlers_ok (cl_handlers cl) \<longrightarrow> list_all handlers_ok (cl_handlers cl')) \<and> list_all ok svcs"

lemma cluster_starts_none [simp]: "cluster_starts ok cl cl []" "cluster_starts ok cl (cl\<lparr>cl_peers := hp\<rparr>) []"
  by (simp_all add: cluster_starts_def)

lemma cluster_starts_node:
  assumes "cluster_starts ok cl cl1 ss" and "starts ok (node_world cl1 i) w svcs" and "i < length (cl_handlers cl)"
  shows "cluster_starts ok cl (put_node i w cl1) (ss @ svcs)"
  using assms by (auto simp: cluster_starts_def starts_def node_world_def put_node_def list_all_nth intro!: list_all_update)

lemma starts_mono: "starts P w w' svcs \<Longrightarrow> (\<And>v. P v \<Longrightarrow> Q v) \<Longrightarrow> starts Q w w' svcs"
  by (auto simp: starts_def list_all_iff)

lemma any_RegisterDKG_starts:
  "TssCaller_RegisterDKG P pm addrs h call proc w = (w', ds, r) \<Longrightarrow>
   starts (\<lambda>d. dkg_hash d = h \<and> dkg_pm d = pm \<and> dc_Rank (dkg_config d) = 0) w w' ds"
  by (auto simp: TssCaller_RegisterDKG_def NewDkgService_def starts_def SetStreamHandler_def before_dash_id Let_def
      intro!: handlers_ok_fmupd split: sum.splits option.splits if_splits prod.splits)

lemma any_SignMessage_starts:
  "TssCaller_SignMessage e A P H pm req call proc w = (w', ss, r) \<Longrightarrow>
   starts (\<lambda>s. sg_hash s = ToHexHash e (bytes_of (sreq_Message req)) \<and> sg_pm s = pm \<and> sg_signer s \<noteq> None) w w' ss"
  by (auto simp: TssCaller_SignMessage_def NewSignerService_def starts_def SetStreamHandler_def Let_def
      intro!: handlers_ok_fmupd split: sum.splits option.splits if_splits prod.splits)

text \<open>A service of the cluster belongs to one of its hosts, and talks on the protocol of the key or
  message all three work on.\<close>

definition self_dkg_ok :: "'h SelfService \<Rightarrow> 'dkg Dkg \<Rightarrow> bool" where
  "self_dkg_ok s d \<longleftrightarrow>
     (\<exists>h i. i < numNodes \<and> CHR ''-'' \<notin> set h \<and> dkg_hash d = node_key h i \<and> pm_protocol (dkg_pm d) = GetProtocol h \<and>
        pm_Host (dkg_pm d) = ss_peerIDs s ! i) \<and> dc_Rank (dkg_config d) = 0"

definition self_signer_ok :: "eth \<Rightarrow> 'h SelfService \<Rightarrow> 'signer Signer \<Rightarrow> bool" where
  "self_signer_ok e s x \<longleftrightarrow>
     (\<exists>m i. i < numNodes \<and> sg_hash x = ToHexHash e m \<and> pm_protocol (sg_pm x) = GetProtocol (sg_hash x) \<and>
        pm_Host (sg_pm x) = ss_peerIDs s ! i) \<and> sg_signer x \<noteq> None"

lemma cluster_starts_three:
  assumes "starts ok (node_world (cl\<lparr>cl_peers := hp\<rparr>) 1) w1 e1" and "starts ok (node_world (put_node 1 w1 (cl\<lparr>cl_peers := hp\<rparr>)) 2) w2 e2"
    and "starts ok (node_world (put_node 2 w2 (put_node 1 w1 (cl\<lparr>cl_peers := hp\<rparr>))) 0) w0 e0" and "length (cl_handlers cl) = 3"
  shows "cluster_starts ok cl (put_node 0 w0 (put_node 2 w2 (put_node 1 w1 (cl\<lparr>cl_peers := hp\<rparr>)))) (e1 @ e2 @ e0)"
proof -
  have "cluster_starts ok cl (cl\<lparr>cl_peers := hp\<rparr>) []" by simp
  from cluster_starts_node [OF this assms(1)]
  have "cluster_starts ok cl (put_node 1 w1 (cl\<lparr>cl_peers := hp\<rparr>)) e1" using assms(4) by simp
  from cluster_starts_node [OF this assms(2)]
  have "cluster_starts ok cl (put_node 2 w2 (put_node 1 w1 (cl\<lparr>cl_peers := hp\<rparr>))) (e1 @ e2)" using assms(4) by simp
  from cluster_starts_node [OF this assms(3)] show ?thesis using assms(4) by simp
qed

lemma self_dkg_starts:
  assumes "SelfService_RegisterDKG P discovery events addrs proc ctx pick s H hash cl = (cl', ds, r)"
    and "CHR ''-'' \<notin> set hash" and "length (cl_handlers cl) = 3" and "length (ss_hosts s) = 3" and "length (ss_peerIDs s) = 3"
  shows "cluster_starts (self_dkg_ok s) cl cl' ds"
proof -
  have three: "cluster_starts (self_dkg_ok s) cl (put_node 0 w0 (put_node 2 w2 (put_node 1 w1 (cl\<lparr>cl_peers := hp\<rparr>)))) (e1 @ e2 @ e0)"
    if pms: "CreatePm discovery events s hash (cl_peers cl) = Some (hp, Inr pms)"
      and n: "TssCaller_RegisterDKG P (pms ! 1) (addrs 1) (node_key hash 1) None proc (node_world (cl\<lparr>cl_peers := hp\<rparr>) 1) = (w1, e1, r1)"
        "TssCaller_RegisterDKG P (pms ! 2) (addrs 2) (node_key hash 2) None proc (node_world (put_node 1 w1 (cl\<lparr>cl_peers := hp\<rparr>)) 2) = (w2, e2, r2)"
        "TssCaller_RegisterDKG P (pms ! 0) (addrs 0) (node_key hash 0) (Some (Some c)) proc
          (node_world (put_node 2 w2 (put_node 1 w1 (cl\<lparr>cl_peers := hp\<rparr>))) 0) = (w0, e0, r0)" for hp pms w1 e1 r1 w2 e2 r2 c w0 e0 r0
  proof -
    have ok: "starts (self_dkg_ok s) w w' ds"
      if "TssCaller_RegisterDKG P (pms ! i) a (node_key hash i) call proc w = (w', ds, r)" "i < numNodes" for i a call w w' ds r
      by (rule starts_mono [OF any_RegisterDKG_starts [OF that(1)]])
        (use CreatePm_hosts [OF pms assms(4,5), of i] that(2) assms(2) in \<open>auto simp: self_dkg_ok_def numNodes_def\<close>)
    show ?thesis by (rule cluster_starts_three [OF ok [OF n(1)] ok [OF n(2)] ok [OF n(3)] assms(3)]) (simp_all add: numNodes_def)
  qed
  from assms(1) show ?thesis
    by (auto simp: SelfService_RegisterDKG_def Let_def split: if_splits option.splits sum.splits prod.splits intro: three [unfolded One_nat_def])
qed

lemma self_sign_starts:
  assumes "SelfService_SignMessage e A P discovery events proc ctx pick s H sreq cl = (cl', ss, r)"
    and "length (cl_handlers cl) = 3" and "length (ss_hosts s) = 3" and "length (ss_peerIDs s) = 3"
  shows "cluster_starts (self_signer_ok e s) cl cl' ss"
proof -
  have three: "cluster_starts (self_signer_ok e s) cl (put_node 0 w0 (put_node 2 w2 (put_node 1 w1 (cl\<lparr>cl_peers := hp\<rparr>)))) (e1 @ e2 @ e0)"
    if pms: "CreatePm discovery events s (ToHexHash e (bytes_of (sreq_Message req))) (cl_peers cl) = Some (hp, Inr pms)"
      and n: "TssCaller_SignMessage e A P h (pms ! 1) (self_request req 1) None proc (node_world (cl\<lparr>cl_peers := hp\<rparr>) 1) = (w1, e1, r1)"
        "TssCaller_SignMessage e A P h (pms ! 2) (self_request req 2) None proc (node_world (put_node 1 w1 (cl\<lparr>cl_peers := hp\<rparr>)) 2) = (w2, e2, r2)"
        "TssCaller_SignMessage e A P h (pms ! 0) (self_request req 0) (Some (Some c)) proc
          (node_world (put_node 2 w2 (put_node 1 w1 (cl\<lparr>cl_peers := hp\<rparr>))) 0) = (w0, e0, r0)" for h req hp pms w1 e1 r1 w2 e2 r2 c w0 e0 r0
  proof -
    have ok: "starts (self_signer_ok e s) w w' ss"
      if "TssCaller_SignMessage e A P h (pms ! i) (self_request req i) call proc w = (w', ss, r)" "i < numNodes" for i call w w' ss r
      by (rule starts_mono [OF any_SignMessage_starts [OF that(1)]])
        (use CreatePm_hosts [OF pms assms(3,4), of i] that(2) in \<open>auto simp: self_signer_ok_def self_request_def numNodes_def\<close>)
    show ?thesis by (rule cluster_starts_three [OF ok [OF n(1)] ok [OF n(2)] ok [OF n(3)] assms(2)]) (simp_all add: numNodes_def)
  qed
  from assms(1) show ?thesis
    by (auto simp: SelfService_SignMessage_def Let_def split: if_splits option.splits sum.splits prod.splits intro: three [unfolded One_nat_def])
qed

section \<open>Well-formed processes\<close>

definition self_ok :: "'h SelfService \<Rightarrow> bool" where
  "self_ok s \<longleftrightarrow> length (ss_hosts s) = 3 \<and> length (ss_peerIDs s) = 3"

definition process_ok ::
  "('s, 'pt, 'bk, 'dkg, 'pai, 'signer, 'reshare, 'ma, 'k, 'h) node_env \<Rightarrow> 'h self_env \<Rightarrow> ('s, 'dkg, 'signer, 'reshare) running \<Rightarrow> bool"
where
  "process_ok E SE p \<longleftrightarrow>
     node_ok E (rn_node p) \<and> length (rn_handlers p) = 3 \<and> list_all handlers_ok (rn_handlers p) \<and>
     (case se_self SE of
        None \<Rightarrow> rn_dkgs p = [] \<and> rn_signers p = []
      | Some s \<Rightarrow> list_all (self_dkg_ok s) (rn_dkgs p) \<and> list_all (self_signer_ok (ne_eth E) s) (rn_signers p))"

lemma rpc_self_starts:
  assumes "self_ok s" and "length (cl_handlers cl) = 3"
  shows "RpcService_RegisterSelfDKG e A P discovery events addrs dproc pick (Some s) H (RandomHash e now rnd fb) cl = (cl', ds, dr) \<Longrightarrow>
      cluster_starts (self_dkg_ok s) cl cl' ds"
    and "RpcService_SelfSignMessage e A P discovery events sproc pick (Some s) H data cl = (cl', ss, sr) \<Longrightarrow>
      cluster_starts (self_signer_ok e s) cl cl' ss"
  using assms self_dkg_starts [OF _ dash_notin_RandomHash]
  by (auto simp: RpcService_RegisterSelfDKG_def RpcService_SelfSignMessage_def self_ok_def split: prod.splits sum.splits dest: self_sign_starts)

lemma node_ok_put_cluster [simp]: "node_ok E (rn_node (put_cluster cl p)) = node_ok E (rn_node p)"
  by (simp add: node_ok_def)

lemma self_ok_done [simp]:
  "self_dkg_ok s (d\<lparr>dkg_done := b\<rparr>) = self_dkg_ok s d" "self_signer_ok e s (x\<lparr>sg_done := b\<rparr>) = self_signer_ok e s x"
  by (simp_all add: self_dkg_ok_def self_signer_ok_def)

lemma self_changes:
  "Dkg_OnStateChanged H dres ns (d, w) = (st', err) \<Longrightarrow> changes (self_dkg_ok s) (d, w) st'"
  "Signer_OnStateChanged H sres ns (x, w) = (st'', err) \<Longrightarrow> changes (self_signer_ok e s) (x, w) st''"
  by (auto simp: Dkg_OnStateChanged_def Dkg_close_def Dkg_save_def Signer_OnStateChanged_def Signer_closeDone_def
      Signer_save_def changes_def RemoveStreamHandler_def handlers_ok_fmdrop chan_close_def Let_def
      split: if_splits sum.splits prod.splits)

lemma self_Handle_ok:
  "self_dkg_ok s d \<Longrightarrow> self_dkg_ok s (Dkg_Handle buf unmarshal addd d)"
  "self_signer_ok e s x \<Longrightarrow> self_signer_ok e s (Signer_Handle buf unmarshal adds x)"
  by (simp_all add: Dkg_Handle_def Signer_Handle_def self_dkg_ok_def self_signer_ok_def split: sum.splits option.splits)

lemma process_step_ok:
  assumes "process_step E SE p p'" and "process_ok E SE p" and "\<And>s. se_self SE = Some s \<Longrightarrow> self_ok s"
  shows "process_ok E SE p'"
  using assms(1,2)
proof (induction rule: process_step.induct)
  case (node p n)
  then show ?case using node_step_ok [OF node(1)] by (auto simp: process_ok_def split: option.splits)
next
  case (self_dkg discovery events dproc pick now rnd fallback p cl ds dr)
  show ?case
  proof (cases "se_self SE")
    case None
    with self_dkg show ?thesis by (auto simp: process_ok_def RpcService_RegisterSelfDKG_def)
  next
    case (Some s)
    have "cluster_starts (self_dkg_ok s) (cluster_of p) cl ds"
      by (rule rpc_self_starts(1) [OF assms(3) [OF Some] _ self_dkg(1) [unfolded Some]]) (use self_dkg(2) in \<open>simp add: process_ok_def\<close>)
    then show ?thesis using self_dkg(2) Some by (auto simp: process_ok_def cluster_starts_def)
  qed
next
  case (self_sign discovery events sproc pick data p cl ss sr)
  show ?case
  proof (cases "se_self SE")
    case None
    with self_sign show ?thesis by (auto simp: process_ok_def RpcService_SelfSignMessage_def)
  next
    case (Some s)
    have "cluster_starts (self_signer_ok (ne_eth E) s) (cluster_of p) cl ss"
      by (rule rpc_self_starts(2) [OF assms(3) [OF Some] _ self_sign(1) [unfolded Some]]) (use self_sign(2) in \<open>simp add: process_ok_def\<close>)
    then show ?thesis using self_sign(2) Some by (auto simp: process_ok_def cluster_starts_def)
  qed
next
  case (self_dkg_change i p j dres ns d w)
  then obtain s where s: "se_self SE = Some s" "j < 3" by (auto simp: at_host_def numNodes_def)
  with self_dkg_change self_changes(1) [OF self_dkg_change(3), of s] list_all_nth [of "self_dkg_ok s" "rn_dkgs p" i] show ?case
    by (auto simp: process_ok_def changes_def put_node_def node_world_def list_all_nth intro!: list_all_update)
next
  case (self_signer_change i p j sres ns x w)
  then obtain s where s: "se_self SE = Some s" "j < 3" by (auto simp: at_host_def numNodes_def)
  with self_signer_change self_changes(2) [OF self_signer_change(3), of "ne_eth E" s] list_all_nth [of "self_signer_ok (ne_eth E) s" "rn_signers p" i] show ?case
    by (auto simp: process_ok_def changes_def put_node_def node_world_def list_all_nth intro!: list_all_update)
qed (auto simp: process_ok_def list_all_nth split: option.splits intro!: list_all_update self_Handle_ok)


lemma process_steps_ok:
  assumes "(process_step E SE)\<^sup>*\<^sup>* p p'" and "process_ok E SE p" and "\<And>s. se_self SE = Some s \<Longrightarrow> self_ok s"
  shows "process_ok E SE p'"
  using assms(1,2) by (induction rule: rtranclp_induct) (auto intro: process_step_ok assms(3))

section \<open>What can touch a key\<close>

text \<open>Services are added at the end, keep their names, and stay done.\<close>

definition grows :: "('v \<Rightarrow> string) \<Rightarrow> ('v \<Rightarrow> bool) \<Rightarrow> 'v list \<Rightarrow> 'v list \<Rightarrow> bool" where
  "grows name finished vs vs' \<longleftrightarrow>
     (\<exists>us new. vs' = us @ new \<and> list_all2 (\<lambda>v u. name u = name v \<and> (finished v \<longrightarrow> finished u)) vs us)"

definition named :: "('v \<Rightarrow> string) \<Rightarrow> string \<Rightarrow> 'v list \<Rightarrow> nat" where
  "named name k vs = length (filter (\<lambda>v. name v = k) vs)"

definition all_finished :: "('v \<Rightarrow> string) \<Rightarrow> ('v \<Rightarrow> bool) \<Rightarrow> string \<Rightarrow> 'v list \<Rightarrow> bool" where
  "all_finished name finished k vs = list_all (\<lambda>v. name v = k \<longrightarrow> finished v) vs"

lemma grows_refl [simp]: "grows name finished vs vs" and grows_append [simp]: "grows name finished vs (vs @ new)"
  unfolding grows_def by (metis (mono_tags, lifting) append_Nil2 list.rel_refl, metis (mono_tags, lifting) list.rel_refl)

lemma grows_update:
  assumes "name v = name (vs ! i)" and "finished (vs ! i) \<Longrightarrow> finished v"
  shows "grows name finished vs (vs[i := v])"
proof -
  have "name (vs[i := v] ! j) = name (vs ! j) \<and> (finished (vs ! j) \<longrightarrow> finished (vs[i := v] ! j))" if "j < length vs" for j
    using that assms by (cases "j = i") simp_all
  then have "list_all2 (\<lambda>v u. name u = name v \<and> (finished v \<longrightarrow> finished u)) vs (vs[i := v])"
    by (simp add: list_all2_conv_all_nth)
  then show ?thesis unfolding grows_def by (intro exI [of _ "vs[i := v]"] exI [of _ "[]"]) simp
qed

lemma growsE:
  assumes "grows name finished vs vs'"
  obtains us new where "vs' = us @ new" "named name k us = named name k vs"
    "all_finished name finished k vs \<Longrightarrow> all_finished name finished k us"
proof -
  from assms obtain us new where us: "vs' = us @ new" "list_all2 (\<lambda>v u. name u = name v \<and> (finished v \<longrightarrow> finished u)) vs us"
    by (auto simp: grows_def)
  from us(2) have "named name k us = named name k vs \<and> (all_finished name finished k vs \<longrightarrow> all_finished name finished k us)"
    by (induction rule: list_all2_induct) (auto simp: named_def all_finished_def)
  with that us(1) show ?thesis by blast
qed

lemma grows_named: "grows name finished vs vs' \<Longrightarrow> named name k vs \<le> named name k vs'"
  by (erule growsE [where k = k]) (simp add: named_def)

lemma grows_finished:
  assumes "grows name finished vs vs'" and "all_finished name finished k vs" and "named name k vs' = named name k vs"
  shows "all_finished name finished k vs'"
proof -
  from growsE [OF assms(1), of k] assms(2) obtain us new where us: "vs' = us @ new" "named name k us = named name k vs" "all_finished name finished k us"
    by blast
  then have "filter (\<lambda>v. name v = k) new = []" using assms(3) by (simp add: named_def)
  then show ?thesis using us(1,3) by (auto simp: all_finished_def filter_empty_conv list_all_iff)
qed

text \<open>What a report of a protocol does to the service and the store: it writes under the name of the
  service, and only before the service is done.\<close>

definition writes :: "('s, 'pt, 'bk) HandlerData \<Rightarrow> string \<Rightarrow> bool \<Rightarrow> 's \<Rightarrow> 's \<Rightarrow> bool" where
  "writes H h finished s s' \<longleftrightarrow> s' = s \<or> (\<not> finished \<and> (\<exists>p err. op_key p = h \<and> run_op H p s = (s', err)))"

lemma OnStateChanged_writes:
  "Dkg_OnStateChanged H dres ns (d, w) = ((d', w'), err) \<Longrightarrow>
     dkg_hash d' = dkg_hash d \<and> (dkg_done d \<longrightarrow> dkg_done d') \<and> writes H (dkg_hash d) (dkg_done d) (w_store w) (w_store w')"
  "Signer_OnStateChanged H sres ns (x, w) = ((x', w'), err) \<Longrightarrow>
     sg_hash x' = sg_hash x \<and> (sg_done x \<longrightarrow> sg_done x') \<and> writes H (sg_hash x) (sg_done x) (w_store w) (w_store w')"
  "Reshare_OnStateChanged H rres ns (r, w) = ((r', w'), err) \<Longrightarrow>
     rs_hash r' = rs_hash r \<and> (rs_done r \<longrightarrow> rs_done r') \<and> writes H (rs_hash r) (rs_done r) (w_store w) (w_store w')"
proof -
  have op: "writes H h False s s'" if "run_op H p s = (s', x)" "op_key p = h" for h s s' p x
    using that by (auto simp: writes_def)
  have same: "writes H h b s s" for h b s by (simp add: writes_def)
  show "Dkg_OnStateChanged H dres ns (d, w) = ((d', w'), err) \<Longrightarrow>
     dkg_hash d' = dkg_hash d \<and> (dkg_done d \<longrightarrow> dkg_done d') \<and> writes H (dkg_hash d) (dkg_done d) (w_store w) (w_store w')"
    by (auto simp: Dkg_OnStateChanged_def Dkg_close_def Dkg_save_def chan_close_def Let_def same
        split: if_splits sum.splits prod.splits intro: op [of "SaveDKG h r" for h r])
  show "Signer_OnStateChanged H sres ns (x, w) = ((x', w'), err) \<Longrightarrow>
     sg_hash x' = sg_hash x \<and> (sg_done x \<longrightarrow> sg_done x') \<and> writes H (sg_hash x) (sg_done x) (w_store w) (w_store w')"
    by (auto simp: Signer_OnStateChanged_def Signer_closeDone_def Signer_save_def chan_close_def RemoveStreamHandler_def Let_def same
        split: if_splits sum.splits prod.splits intro: op [of "SaveSigner h r" for h r])
  show "Reshare_OnStateChanged H rres ns (r, w) = ((r', w'), err) \<Longrightarrow>
     rs_hash r' = rs_hash r \<and> (rs_done r \<longrightarrow> rs_done r') \<and> writes H (rs_hash r) (rs_done r) (w_store w) (w_store w')"
    by (auto simp: Reshare_OnStateChanged_def Reshare_closeDone_def Reshare_save_def chan_close_def RemoveStreamHandler_def Let_def same
        split: if_splits sum.splits prod.splits intro: op [of "UpdateDKG h r" for h r])
qed


text \<open>The services a node and a process have under a name, and whether all of them are done.\<close>

definition node_named :: "string \<Rightarrow> ('s, 'dkg, 'signer, 'reshare) node \<Rightarrow> nat" where
  "node_named k n = named dkg_hash k (nd_dkgs n) + named sg_hash k (nd_signers n) + named rs_hash k (nd_reshares n)"

definition node_idle :: "string \<Rightarrow> ('s, 'dkg, 'signer, 'reshare) node \<Rightarrow> bool" where
  "node_idle k n \<longleftrightarrow> all_finished dkg_hash dkg_done k (nd_dkgs n) \<and> all_finished sg_hash sg_done k (nd_signers n) \<and>
     all_finished rs_hash rs_done k (nd_reshares n)"

definition services_named :: "string \<Rightarrow> ('s, 'dkg, 'signer, 'reshare) running \<Rightarrow> nat" where
  "services_named k p = node_named k (rn_node p) + named dkg_hash k (rn_dkgs p) + named sg_hash k (rn_signers p)"

definition idle :: "string \<Rightarrow> ('s, 'dkg, 'signer, 'reshare) running \<Rightarrow> bool" where
  "idle k p \<longleftrightarrow> node_idle k (rn_node p) \<and> all_finished dkg_hash dkg_done k (rn_dkgs p) \<and> all_finished sg_hash sg_done k (rn_signers p)"

definition node_grows :: "('s, 'dkg, 'signer, 'reshare) node \<Rightarrow> ('s, 'dkg, 'signer, 'reshare) node \<Rightarrow> bool" where
  "node_grows n n' \<longleftrightarrow> grows dkg_hash dkg_done (nd_dkgs n) (nd_dkgs n') \<and> grows sg_hash sg_done (nd_signers n) (nd_signers n') \<and>
     grows rs_hash rs_done (nd_reshares n) (nd_reshares n')"

lemma Handle_names [simp]:
  "dkg_hash (Dkg_Handle buf un add d) = dkg_hash d" "dkg_done (Dkg_Handle buf un add d) = dkg_done d"
  "sg_hash (Signer_Handle buf un add' x) = sg_hash x" "sg_done (Signer_Handle buf un add' x) = sg_done x"
  "rs_hash (Reshare_Handle buf un add'' r) = rs_hash r" "rs_done (Reshare_Handle buf un add'' r) = rs_done r"
  by (simp_all add: Dkg_Handle_def Signer_Handle_def Reshare_Handle_def split: sum.splits option.splits)

lemma starts_store: "starts ok w w' svcs \<Longrightarrow> w_store w' = w_store w"
  by (simp add: starts_def)

lemmas node_starts = client_dkg_starts client_sign_starts client_reshare_starts peer_starts

lemma all_finished_nth: "all_finished name finished k vs \<Longrightarrow> i < length vs \<Longrightarrow> \<not> finished (vs ! i) \<Longrightarrow> name (vs ! i) \<noteq> k"
  by (auto simp: all_finished_def list_all_length)

text \<open>The store after a step that cannot have written under the name \<open>k\<close>.\<close>

definition harmless :: "('s, 'pt, 'bk) HandlerData \<Rightarrow> string \<Rightarrow> 's \<Rightarrow> 's \<Rightarrow> bool" where
  "harmless H k s s' \<longleftrightarrow> s' = s \<or> (\<exists>p err. op_key p \<noteq> k \<and> run_op H p s = (s', err))"

lemma harmless_refl [simp]: "harmless H k s s"
  by (simp add: harmless_def)

lemma writes_harmless: "writes H (name (vs ! i)) (finished (vs ! i)) s s' \<Longrightarrow> i < length vs \<Longrightarrow> all_finished name finished k vs \<Longrightarrow> harmless H k s s'"
  using all_finished_nth unfolding writes_def harmless_def by metis

text \<open>A step of a node adds services at most, and writes to the store only under the name of a service
  that is not done.\<close>

lemma node_step_touches:
  assumes "node_step E n n'"
  shows "node_grows n n' \<and> (node_idle k n \<longrightarrow> harmless (ne_handler E) k (w_store (nd_world n)) (w_store (nd_world n')))"
  using assms
proof (induction rule: node_step.induct)
  case (dkg_change i n dres ns d w)
  from OnStateChanged_writes(1) [OF dkg_change(2)] dkg_change(1) show ?case
    by (auto simp: node_grows_def node_idle_def intro!: grows_update dest: writes_harmless)
next
  case (signer_change i n sres ns s w)
  from OnStateChanged_writes(2) [OF signer_change(2)] signer_change(1) show ?case
    by (auto simp: node_grows_def node_idle_def intro!: grows_update dest: writes_harmless)
next
  case (reshare_change i n rres ns r w)
  from OnStateChanged_writes(3) [OF reshare_change(2)] reshare_change(1) show ?case
    by (auto simp: node_grows_def node_idle_def intro!: grows_update dest: writes_harmless)
qed (auto simp: node_grows_def intro!: grows_update dest!: node_starts starts_store)

definition process_grows :: "('s, 'dkg, 'signer, 'reshare) running \<Rightarrow> ('s, 'dkg, 'signer, 'reshare) running \<Rightarrow> bool" where
  "process_grows p p' \<longleftrightarrow> node_grows (rn_node p) (rn_node p') \<and> grows dkg_hash dkg_done (rn_dkgs p) (rn_dkgs p') \<and>
     grows sg_hash sg_done (rn_signers p) (rn_signers p')"

lemma node_grows_put_cluster [simp]: "node_grows (rn_node p) (rn_node (put_cluster cl p))"
  by (simp add: node_grows_def)

text \<open>The requests to the self service leave the store alone, whatever hosts it has.\<close>

lemma self_store:
  "SelfService_RegisterDKG P discovery events addrs proc ctx pick s H hash cl = (cl', ds, r) \<Longrightarrow> cl_store cl' = cl_store cl"
  "SelfService_SignMessage e A P discovery events sproc ctx pick s H sreq cl = (cl', ss, sr) \<Longrightarrow> cl_store cl' = cl_store cl"
  by (auto simp: SelfService_RegisterDKG_def SelfService_SignMessage_def Let_def
      split: if_splits option.splits sum.splits prod.splits dest!: any_RegisterDKG_starts any_SignMessage_starts starts_store)

lemma rpc_self_store:
  "RpcService_RegisterSelfDKG e A P discovery events addrs dproc pick s H hash cl = (cl', ds, dr) \<Longrightarrow> cl_store cl' = cl_store cl"
  "RpcService_SelfSignMessage e A P discovery events sproc pick s H data cl = (cl', ss, sr) \<Longrightarrow> cl_store cl' = cl_store cl"
  by (auto simp: RpcService_RegisterSelfDKG_def RpcService_SelfSignMessage_def split: option.splits sum.splits prod.splits dest: self_store)

lemma process_step_touches:
  assumes "process_step E SE p p'"
  shows "process_grows p p' \<and> (idle k p \<longrightarrow> harmless (ne_handler E) k (rn_store p) (rn_store p'))"
  using assms
proof (induction rule: process_step.induct)
  case (node p n)
  then show ?case using node_step_touches [OF node(1)] by (simp add: process_grows_def idle_def)
next
  case (self_dkg_change i p j dres ns d w)
  from OnStateChanged_writes(1) [OF self_dkg_change(3)] self_dkg_change(1) show ?case
    by (auto simp: process_grows_def idle_def intro!: grows_update dest: writes_harmless)
next
  case (self_signer_change i p j sres ns x w)
  from OnStateChanged_writes(2) [OF self_signer_change(3)] self_signer_change(1) show ?case
    by (auto simp: process_grows_def idle_def intro!: grows_update dest: writes_harmless)
qed (auto simp: process_grows_def node_grows_def intro!: grows_update dest!: rpc_self_store)

lemma process_grows_each:
  assumes "process_grows p p'"
  shows "named dkg_hash k (nd_dkgs (rn_node p)) \<le> named dkg_hash k (nd_dkgs (rn_node p'))"
    "named sg_hash k (nd_signers (rn_node p)) \<le> named sg_hash k (nd_signers (rn_node p'))"
    "named rs_hash k (nd_reshares (rn_node p)) \<le> named rs_hash k (nd_reshares (rn_node p'))"
    "named dkg_hash k (rn_dkgs p) \<le> named dkg_hash k (rn_dkgs p')" "named sg_hash k (rn_signers p) \<le> named sg_hash k (rn_signers p')"
  using assms unfolding process_grows_def node_grows_def by (blast intro: grows_named)+

lemma process_grows_named: "process_grows p p' \<Longrightarrow> services_named k p \<le> services_named k p'"
  using process_grows_each [of p p' k] unfolding services_named_def node_named_def by linarith

lemma process_grows_idle:
  assumes "process_grows p p'" and "idle k p" and "services_named k p' = services_named k p"
  shows "idle k p'"
proof -
  note g = assms(1) [unfolded process_grows_def node_grows_def]
  note process_grows_each [OF assms(1), of k]
  then have "named dkg_hash k (nd_dkgs (rn_node p')) = named dkg_hash k (nd_dkgs (rn_node p))"
    "named sg_hash k (nd_signers (rn_node p')) = named sg_hash k (nd_signers (rn_node p))"
    "named rs_hash k (nd_reshares (rn_node p')) = named rs_hash k (nd_reshares (rn_node p))"
    "named dkg_hash k (rn_dkgs p') = named dkg_hash k (rn_dkgs p)" "named sg_hash k (rn_signers p') = named sg_hash k (rn_signers p)"
    using assms(3) unfolding services_named_def node_named_def by linarith+
  then show ?thesis using g assms(2) unfolding idle_def node_idle_def by (blast intro: grows_finished)
qed

text \<open>So a key stays as long as no service of its name is at work.\<close>

lemma key_stays:
  assumes "eth_laws e \<and> alice_laws A \<and> badger_laws B" and "ne_handler E = store_db e A B"
    and "(process_step E SE)\<^sup>*\<^sup>* p p'" and "store_repr e A B (rn_store p) k r" and "idle k p" and "services_named k p' = services_named k p"
  shows "store_repr e A B (rn_store p') k r \<and> idle k p'"
  using assms(3,6)
proof (induction rule: rtranclp_induct)
  case base
  then show ?case using assms(4,5) by simp
next
  case (step q q')
  note t = process_step_touches [OF step(2), of k]
  have grow: "services_named k p \<le> services_named k q"
    using step(1) by (induction rule: rtranclp_induct) (auto dest: process_step_touches process_grows_named intro: le_trans)
  then have "services_named k q = services_named k p" "services_named k q' = services_named k q"
    using process_grows_named [of q q' k] t step(4) by linarith+
  with step(3) have q: "store_repr e A B (rn_store q) k r" "idle k q" by simp_all
  have "store_repr e A B (rn_store q') k r"
    using t q assms(2) store.frame [OF assms(1) q(1)] by (auto simp: harmless_def)
  moreover have "idle k q'" using process_grows_idle t q(2) \<open>services_named k q' = services_named k q\<close> by blast
  ultimately show ?case by simp
qed


section \<open>Properties\<close>

text \<open>The process \<^verbatim>\<open>main\<close> leaves when it serves, and what it is given.\<close>

definition running_of :: "('db, 'pt, 'bk, 'h) process \<Rightarrow> ('db store_state, 'dkg, 'signer, 'reshare) running" where
  "running_of st = \<lparr>rn_node = node_of st, rn_peers = [], rn_handlers = replicate numNodes fmempty, rn_dkgs = [], rn_signers = []\<rparr>"

definition serves_as :: "('db, 'pt, 'bk, 'h) process \<Rightarrow> P2PManager \<Rightarrow> 'h self_env \<Rightarrow> bool" where
  "serves_as st pm SE \<longleftrightarrow>
     (\<exists>receiver addr. pr_router st = Some (receiver, addr) \<and> pm = rpcs_pm receiver \<and> se_self SE = rpcs_selfService receiver) \<and>
     (se_discovery SE \<longleftrightarrow> pr_mdns st \<noteq> [])"

lemma serving_self:
  assumes "main S e A fl v = (st, Serves)" and "serves_as st pm SE"
  shows "if fl_selfHost fl then \<not> se_discovery SE \<and> (\<exists>s. se_self SE = Some s \<and> self_ok s) else se_discovery SE \<and> se_self SE = None"
  using assms(1)
proof (cases rule: main_cases)
  case (servers cfg key host pid s st3 ss)
  have three: "self_ok x" if "snd (NewSelfService (sys_libp2p S)) = Inr x" for x
    using NewSelfService_leaves_no_host [of "sys_libp2p S"] that by (auto simp: self_ok_def split: prod.splits)
  show ?thesis
    using start_peers_ok [OF servers(5)] servers(6) assms(2) three
    by (auto simp: start_servers_serves serves_as_def Let_def)
qed simp_all

text \<open>C11: A process is well-formed in every state it can get into after \<^verbatim>\<open>main\<close> has started it, with or
  without the self service.  Its node is; on the three hosts of the self service every stream handler
  is registered for the protocol it serves; each of their key generations runs on one of the hosts,
  under the common name with the number of that host, and each of their signings under the hash of
  its message.\<close>

theorem reachable_process_ok:
  assumes "main S e A fl v = (st, Serves)" and "serves_as st (ne_pm E) SE"
    and "\<And>p hs. sys_rpc_NewServer S p hs = fmupd p RpcHandle hs"
    and "(process_step E SE)\<^sup>*\<^sup>* (running_of st) p"
  shows "process_ok E SE p"
proof -
  from assms(2) obtain receiver addr where receiver: "pr_router st = Some (receiver, addr)" "ne_pm E = rpcs_pm receiver"
    by (auto simp: serves_as_def)
  from started_node_ok [OF assms(1) receiver(1) assms(3) receiver(2)]
  have "process_ok E SE (running_of st)"
    by (simp add: process_ok_def running_of_def numNodes_def handlers_ok_def list_all_iff split: option.splits)
  from process_steps_ok [OF assms(4) this] show ?thesis
    using serving_self [OF assms(1,2)] by (auto split: if_splits)
qed

text \<open>C12: A key is lost only to a service of its own name.  From the moment a result is saved, whatever
  discovery, clients, peers, protocols and the self service do in the process, a lookup with its public
  key gives the configuration of that result, on either kind of store, as long as no service of that
  name is still at work or is started.\<close>

theorem key_survives_other_services:
  assumes "eth_laws e" and "alice_laws A" and "badger_laws B" and "ne_handler E = store_db e A B" and "storable r"
    and "SaveDKGResultData (store_db e A B) k r s = (rn_store p, None)" and "idle k p"
    and "(process_step E SE)\<^sup>*\<^sup>* p p'" and "services_named k p' = services_named k p"
  shows "GetSignerConfig (store_db e A B) k (pubkey_text e A r) (rn_store p') = Inr (config_of A r)"
proof -
  have env: "eth_laws e \<and> alice_laws A \<and> badger_laws B" using assms(1-3) by simp
  from key_stays [OF env assms(4,8) store.save_repr [OF env assms(5,6)] assms(7,9)]
  show ?thesis using store.get_repr [OF env] by blast
qed

text \<open>C24: With \<^verbatim>\<open>--self-host\<close> the node of the process stays alone: \<^verbatim>\<open>main\<close> starts no discovery for it, so in
  every state it can get into it knows no peer, tells nobody of a request, and asks for keys with
  threshold 0.\<close>

theorem self_host_node_stays_alone:
  assumes "main S e A fl v = (st, Serves)" and "fl_selfHost fl" and "serves_as st (ne_pm E) SE"
    and "(process_step E SE)\<^sup>*\<^sup>* (running_of st) p"
  shows "known_peers E (rn_node p) = fmempty \<and>
    RpcToPeer L net (w_peers (nd_world (rn_node p))) (ClonePeerManager (ne_pm E) proto) svc meth data = Some ([], None) \<and>
    (case ask_dkg E net' proc hash (rn_node p) of (w, ds, reply) \<Rightarrow> list_all (\<lambda>d. dc_Threshold (dkg_config d) = 0) ds)"
proof -
  from assms(3) obtain receiver addr where receiver: "pr_router st = Some (receiver, addr)" "ne_pm E = rpcs_pm receiver"
    by (auto simp: serves_as_def)
  from serving_node [OF assms(1) receiver(1)] obtain pid where start: "ne_pm E = main_pm pid" "pr_peers st = [fmempty]"
    using receiver(2) by auto
  have alone: "\<not> se_discovery SE" using serving_self [OF assms(1,3)] assms(2) by simp
  have step: "w_peers (nd_world (rn_node q')) = w_peers (nd_world (rn_node q))" if "process_step E SE q q'" for q q'
    using that alone by (induction rule: process_step.induct) auto
  from assms(4) have peers: "w_peers (nd_world (rn_node p)) = [fmempty]"
    by (induction rule: rtranclp_induct) (simp_all add: running_of_def node_of_def start step)
  then have none: "known_peers E (rn_node p) = fmempty"
    by (simp add: start Peers_def main_pm_def)
  then have "NumPeers (w_peers (nd_world (rn_node p))) (ClonePeerManager (ne_pm E) q) = 0" for q
    by (simp add: NumPeers_def none fcard_fempty)
  then have "case ask_dkg E net' proc hash (rn_node p) of (w, ds, reply) \<Rightarrow> list_all (\<lambda>d. dc_Threshold (dkg_config d) = 0) ds"
    by (auto simp: RpcService_RegisterDKG_def TssCaller_RegisterDKG_def NewDkgService_def Let_def split: sum.splits option.splits prod.splits)
  moreover have "RpcToPeer L net (w_peers (nd_world (rn_node p))) (ClonePeerManager (ne_pm E) proto) svc meth data = Some ([], None)"
    by (simp add: RpcToPeer_def PeerIDs_def none sorted_list_of_fmap_def sorted_list_of_fset.rep_eq)
  ultimately show ?thesis using none by simp
qed


text \<open>What the self service answers is what its primary node gives.\<close>

lemma self_sign_result:
  assumes "SelfService_SignMessage e A P discovery events proc ctx pick s (Some H) (Some req) cl = (cl', ss, Gives (Inr x))"
  shows "\<exists>pm call v v' s0. w_store v = cl_store cl \<and> TssCaller_SignMessage e A P H pm (self_request req 0) call proc v = (v', s0, Gives (Inr x))"
proof -
  from assms obtain hp pms where pms: "CreatePm discovery events s (ToHexHash e (bytes_of (sreq_Message req))) (cl_peers cl) = Some (hp, Inr pms)"
    by (auto simp: SelfService_SignMessage_def split: if_splits option.splits sum.splits)
  let ?cl = "cl\<lparr>cl_peers := hp\<rparr>"
  obtain w1 e1 r1 where n1: "TssCaller_SignMessage e A P H (pms ! 1) (self_request req 1) None proc (node_world ?cl 1) = (w1, e1, r1)"
    by (metis surj_pair)
  obtain w2 e2 r2 where n2: "TssCaller_SignMessage e A P H (pms ! 2) (self_request req 2) None proc (node_world (put_node 1 w1 ?cl) 2) = (w2, e2, r2)"
    by (metis surj_pair)
  let ?c = "select_case pick ctx (node_error '' signing failed'' 1 r1 @ node_error '' signing failed'' 2 r2)"
  let ?v = "node_world (put_node 2 w2 (put_node 1 w1 ?cl)) 0"
  obtain w0 e0 r0 where n0: "TssCaller_SignMessage e A P H (pms ! 0) (self_request req 0) (Some (Some ?c)) proc ?v = (w0, e0, r0)"
    by (metis surj_pair)
  have "with_crash [r1, r2] r0 = Gives (Inr x)"
    using assms pms n1 n2 n0 by (auto simp: SelfService_SignMessage_def Let_def split: if_splits)
  then have "r0 = Gives (Inr x)" by (rule with_crash_result)
  moreover have "w_store ?v = cl_store cl"
    using starts_store [OF any_SignMessage_starts [OF n1]] starts_store [OF any_SignMessage_starts [OF n2]] by simp
  ultimately show ?thesis using n0 by blast
qed

text \<open>C27: A peer can make the self service lose a key.  The nodes of the self service keep their shares in
  the store of the process under the name of the key with a dash and a number; a peer may ask the
  node for a key generation under such a name, and when that run is done, no request to the self
  service to sign with its key is answered with a signature any more.\<close>

theorem peer_can_take_self_key:
  assumes "eth_laws e" and "alice_laws A" and "badger_laws B" and "ne_handler E = badger_handler e A B"
    and "can_dkg E (node_key h 0) (rn_node p)"
    and "peer_serve E (peer_args ''TssPeerService'' ''RegisterDKG'' (bytes_of (node_key h 0)) a) (rn_node p) = (n1, reply)"
    and "Dkg_OnStateChanged (ne_handler E) (Inr r) StateDone (last (nd_dkgs n1), nd_world n1) = ((d, w), None)"
    and "storable r" and "snd (badger_SaveDKGResultData e A B (node_key h 0) r (w_store (nd_world n1))) = None"
    and "unmarshalRequestData decode_SignRequest data = Inr req" and "sreq_Hash req = h" and "sreq_Pubkey req \<noteq> pubkey_text e A r"
    and "RpcService_SelfSignMessage e A P discovery events proc pick self (Some (ne_handler E)) data
      (cluster_of (p\<lparr>rn_node := n1\<lparr>nd_world := w, nd_dkgs := butlast (nd_dkgs n1) @ [d]\<rparr>\<rparr>)) = (cl, ss, answer)"
  shows "reply = Gives (Inr ()) \<and> answer \<noteq> Gives (Inr sig)"
proof -
  have env: "eth_laws e \<and> alice_laws A \<and> badger_laws B" using assms(1-3) by simp
  note lost = peer_dkg_overwrites [OF env assms(4-9,12)]
  have "r0 \<noteq> Gives (Inr x)" if "SelfService_SignMessage e A P discovery events proc None pick s (Some (ne_handler E)) (Some req)
      (cluster_of (p\<lparr>rn_node := n1\<lparr>nd_world := w, nd_dkgs := butlast (nd_dkgs n1) @ [d]\<rparr>\<rparr>)) = (cl, ss, r0)" for s r0 x
  proof
    assume "r0 = Gives (Inr x)"
    from self_sign_result [OF that [unfolded this]] lost assms(11) show False
      by (auto simp: TssCaller_SignMessage_def self_request_def)
  qed
  then show ?thesis
    using lost assms(10,13)
    by (auto simp: RpcService_SelfSignMessage_def split: option.splits prod.splits dest!: sign_reply_result)
qed


section \<open>Witnesses\<close>

text \<open>A process started with the self service, after a key generation of the cluster.\<close>

lemma system0_self_serves:
  "\<exists>st receiver addr a b c x y z. main system0 e A ((flags0 1234)\<lparr>fl_selfHost := True\<rparr>) () = (st, Serves) \<and> pr_router st = Some (receiver, addr) \<and>
     rpcs_selfService receiver = Some \<lparr>ss_hosts = [Some a, Some b, Some c], ss_peerIDs = [x, y, z]\<rparr>"
proof -
  obtain host pid where host: "MakeBasicHost (sys_libp2p system0) (sys_base_mult system0) (app_Port config0) key0 = Inr (host, pid)"
    using system0_host by blast
  obtain s where s: "NewStoreHandler (sys_badger system0) (app_Store config0) (Some key0) = Inr s"
    using system0_store by blast
  obtain cl a b c x y z where self: "NewSelfService (sys_libp2p system0) = (cl, Inr \<lparr>ss_hosts = [Some a, Some b, Some c], ss_peerIDs = [x, y, z]\<rparr>)"
    using NewSelfService0 by (auto simp: system0_def prod_eq_iff)
  have "sys_rpc_Register system0 = None" "sys_RegisterService system0 = None" "sys_Listen system0 addr = None" for addr
    by (simp_all add: system0_def)
  then show ?thesis
    using system0_config system0_key host s self
    by (simp add: main_def flags0_def Let_def NewPeerManager_main start_peers_def start_servers_serves)
qed

definition self_env0 :: "string SelfService option \<Rightarrow> bool \<Rightarrow> string self_env" where
  "self_env0 s disc = \<lparr>se_self = s, se_addrs = (\<lambda>_. [''/ip4/127.0.0.1/tcp/11111'']), se_discovery = disc\<rparr>"

lemma self_started0:
  obtains st pm s p where "main system0 eth0 alice0 ((flags0 1234)\<lparr>fl_selfHost := True\<rparr>) () = (st, Serves)"
    "serves_as st pm (self_env0 s (pr_mdns st \<noteq> []))"
    "(process_step (env0 pm) (self_env0 s (pr_mdns st \<noteq> [])))\<^sup>*\<^sup>* (running_of st) p" "length (rn_dkgs p) = 3"
proof -
  obtain st receiver addr a b c x y z where st: "main system0 eth0 alice0 ((flags0 1234)\<lparr>fl_selfHost := True\<rparr>) () = (st, Serves)"
    "pr_router st = Some (receiver, addr)" "rpcs_selfService receiver = Some \<lparr>ss_hosts = [Some a, Some b, Some c], ss_peerIDs = [x, y, z]\<rparr>"
    using system0_self_serves [of eth0 alice0] by blast
  let ?SE = "self_env0 (rpcs_selfService receiver) (pr_mdns st \<noteq> [])" and ?E = "env0 (rpcs_pm receiver)"
  let ?h = "RandomHash eth0 ''now'' (Inr []) 0" and ?p = "running_of st :: (db0 store_state, unit, unit, unit) running"
  have h: "?h \<noteq> []" by (simp add: RandomHash_def ToHexHash_def ToHex_def)
  then obtain pms where pms: "CreatePm (\<lambda>_. None) (\<lambda>_. Tick connected0) \<lparr>ss_hosts = [Some a, Some b, Some c], ss_peerIDs = [x, y, z]\<rparr> ?h [] = Some (connected0, Inr pms)"
    using CreatePm1 [OF h, of a b c x y z] by blast
  have cl: "rn_peers ?p = []" by (simp add: running_of_def)
  have "\<exists>cl ds dr. RpcService_RegisterSelfDKG (ne_eth ?E) (ne_alice ?E) (ne_protocols ?E) (\<lambda>_. None) (\<lambda>_. Tick connected0) (se_addrs ?SE) (\<lambda>_. None) 0
      (se_self ?SE) (Some (ne_handler ?E)) (RandomHash (ne_eth ?E) ''now'' (Inr []) 0) (cluster_of ?p) = (cl, ds, dr) \<and> length ds = 3"
    using h pms by (simp add: RpcService_RegisterSelfDKG_def SelfService_RegisterDKG_def self_env0_def env0_def st(3) cl started0_defs node_error_def
        select_case_def select_ready_def)
  then obtain cl ds dr where run: "RpcService_RegisterSelfDKG (ne_eth ?E) (ne_alice ?E) (ne_protocols ?E) (\<lambda>_. None) (\<lambda>_. Tick connected0) (se_addrs ?SE)
      (\<lambda>_. None) 0 (se_self ?SE) (Some (ne_handler ?E)) (RandomHash (ne_eth ?E) ''now'' (Inr []) 0) (cluster_of ?p) = (cl, ds, dr)" "length ds = 3" by blast
  from process_step.self_dkg [OF run(1)] have "(process_step ?E ?SE)\<^sup>*\<^sup>* ?p ((put_cluster cl ?p)\<lparr>rn_dkgs := rn_dkgs ?p @ ds\<rparr>)" by blast
  moreover have "serves_as st (rpcs_pm receiver) ?SE" using st(2) by (auto simp: serves_as_def self_env0_def)
  moreover have "length (rn_dkgs ((put_cluster cl ?p)\<lparr>rn_dkgs := rn_dkgs ?p @ ds\<rparr>)) = 3" using run(2) by (simp add: running_of_def)
  ultimately show ?thesis using that st(1) by blast
qed

theorem reachable_process_ok_witness:
  "\<exists>st pm s p. main system0 eth0 alice0 ((flags0 1234)\<lparr>fl_selfHost := True\<rparr>) () = (st, Serves) \<and>
     (process_step (env0 pm) (self_env0 s (pr_mdns st \<noteq> [])))\<^sup>*\<^sup>* (running_of st) p \<and> length (rn_dkgs p) = 3 \<and>
     process_ok (env0 pm) (self_env0 s (pr_mdns st \<noteq> [])) p"
proof -
  obtain st pm s p where p: "main system0 eth0 alice0 ((flags0 1234)\<lparr>fl_selfHost := True\<rparr>) () = (st, Serves)"
    "serves_as st pm (self_env0 s (pr_mdns st \<noteq> []))"
    "(process_step (env0 pm) (self_env0 s (pr_mdns st \<noteq> [])))\<^sup>*\<^sup>* (running_of st) p" "length (rn_dkgs p) = 3"
    by (rule self_started0)
  have "sys_rpc_NewServer system0 q hs = fmupd q RpcHandle hs" for q hs by (simp add: system0_def)
  moreover have "ne_pm (env0 pm) = pm" by (simp add: env0_def)
  ultimately have "process_ok (env0 pm) (self_env0 s (pr_mdns st \<noteq> [])) p"
    using reachable_process_ok [OF p(1) _ _ p(3)] p(2) by simp
  with p show ?thesis by blast
qed

theorem self_host_node_stays_alone_witness:
  "\<exists>st pm s p. main system0 eth0 alice0 ((flags0 1234)\<lparr>fl_selfHost := True\<rparr>) () = (st, Serves) \<and>
     (process_step (env0 pm) (self_env0 s (pr_mdns st \<noteq> [])))\<^sup>*\<^sup>* (running_of st) p \<and> length (rn_dkgs p) = 3 \<and>
     known_peers (env0 pm) (rn_node p) = fmempty"
proof -
  obtain st pm s p where p: "main system0 eth0 alice0 ((flags0 1234)\<lparr>fl_selfHost := True\<rparr>) () = (st, Serves)"
    "serves_as st pm (self_env0 s (pr_mdns st \<noteq> []))"
    "(process_step (env0 pm) (self_env0 s (pr_mdns st \<noteq> [])))\<^sup>*\<^sup>* (running_of st) p" "length (rn_dkgs p) = 3"
    by (rule self_started0)
  have "fl_selfHost ((flags0 1234)\<lparr>fl_selfHost := True\<rparr>)" by simp
  moreover have "serves_as st (ne_pm (env0 pm)) (self_env0 s (pr_mdns st \<noteq> []))"
    using p(2) by (simp add: env0_def)
  ultimately have "known_peers (env0 pm) (rn_node p) = fmempty"
    by (rule conjunct1 [OF self_host_node_stays_alone [OF p(1) _ _ p(3)]])
  with p show ?thesis by blast
qed

text \<open>A process whose node holds a key and starts the generation of another.\<close>

definition running0 :: "(db0 store_state, unit, unit, unit) running" where
  "running0 = \<lparr>rn_node = nodes0 (\<lambda>_. holds0) ''QmA'', rn_peers = [], rn_handlers = replicate 3 fmempty, rn_dkgs = [], rn_signers = []\<rparr>"

theorem key_survives_other_services_witness:
  "\<exists>p'. (process_step (envs0 ''QmA'') (self_env0 None True))\<^sup>*\<^sup>* running0 p' \<and> services_named ''0xcc'' p' = 1 \<and>
     GetSignerConfig (store_db eth0 alice0 badger0) ''0xaa'' (pubkey_text eth0 alice0 result0) (rn_store p') = Inr (config_of alice0 result0)"
proof -
  let ?E = "envs0 ''QmA''" and ?n = "rn_node running0"
  have "\<exists>w d ur. TssPeerService_RegisterDKG (ne_protocols ?E) (ne_pm ?E) (ne_addrs ?E) (bytes_of ''0xcc'') (nd_world ?n) = (w, [d], ur) \<and> dkg_hash d = ''0xcc''"
    by (simp add: env0_def TssPeerService_RegisterDKG_def started0_defs)
  then obtain w d ur where
    run: "TssPeerService_RegisterDKG (ne_protocols ?E) (ne_pm ?E) (ne_addrs ?E) (bytes_of ''0xcc'') (nd_world ?n) = (w, [d], ur)" and d: "dkg_hash d = ''0xcc''" by blast
  have w: "w_peers w = w_peers (nd_world ?n)" using peer_starts(1) [OF run] by (simp add: starts_def)
  let ?p = "running0\<lparr>rn_node := started_dkg ?n w [d]\<rparr>"
  have steps: "(process_step ?E (self_env0 None True))\<^sup>*\<^sup>* running0 ?p"
    using process_step.node [where SE = "self_env0 None True", OF node_step.peer_dkg [OF run]] by (simp add: self_env0_def r_into_rtranclp)
  have names: "services_named ''0xaa'' ?p = services_named ''0xaa'' running0" "services_named ''0xcc'' ?p = 1" "idle ''0xaa'' running0"
    using d by (simp_all add: services_named_def node_named_def named_def idle_def node_idle_def all_finished_def running0_def nodes0_def)
  have "SaveDKGResultData (store_db eth0 alice0 badger0) ''0xaa'' result0 (MockStore NewMockDB) = (rn_store running0, None)"
    using save0 by (simp add: running0_def nodes0_def)
  from key_survives_other_services [OF eth0_laws alice0_laws badger0_laws _ storable_result0 this names(3) steps names(1)] steps names(2) show ?thesis
    by (auto simp: env0_def)
qed


definition running2 :: "(db0 FSM, unit, unit, unit) node \<Rightarrow> (db0 FSM, unit, unit, unit) running" where
  "running2 n = \<lparr>rn_node = n, rn_peers = [], rn_handlers = replicate 3 fmempty, rn_dkgs = [], rn_signers = []\<rparr>"

theorem peer_can_take_self_key_witness:
  "\<exists>n1 d w cl ss answer.
     peer_serve env2 (peer_args ''TssPeerService'' ''RegisterDKG'' (bytes_of (node_key ''0xaa'' 0)) ''/a'') (node2 fsm0) = (n1, Gives (Inr ())) \<and>
     RpcService_SelfSignMessage eth0 alice0 protocols0 (\<lambda>_. None) (\<lambda>_. Tick connected0) (\<lambda>_. Some (Inr \<lparr>sr_R = 17, sr_S = 18\<rparr>)) 0 (Some self0)
       (Some (ne_handler env2)) sign_data1 (cluster_of (running2 (n1\<lparr>nd_world := w, nd_dkgs := butlast (nd_dkgs n1) @ [d]\<rparr>))) = (cl, ss, answer) \<and>
     (\<forall>sig. answer \<noteq> Gives (Inr sig))"
proof -
  let ?k = "node_key ''0xaa'' 0"
  define old where "old = running2 (node2 fsm0)"
  obtain n1 d w where over: "peer_serve env2 (peer_args ''TssPeerService'' ''RegisterDKG'' (bytes_of ?k) ''/a'') (rn_node old) = (n1, Gives (Inr ()))"
    "Dkg_OnStateChanged (ne_handler env2) (Inr other0) StateDone (last (nd_dkgs n1), nd_world n1) = ((d, w), None)"
    "snd (badger_SaveDKGResultData eth0 alice0 badger0 ?k other0 (w_store (nd_world n1))) = None"
    by (rule overwriting0 [where h = ?k and s = fsm0]) (simp add: node_key_def, simp add: old_def running2_def)
  define new where "new = n1\<lparr>nd_world := w, nd_dkgs := butlast (nd_dkgs n1) @ [d]\<rparr>"
  obtain cl ss answer where sign: "RpcService_SelfSignMessage eth0 alice0 protocols0 (\<lambda>_. None) (\<lambda>_. Tick connected0) (\<lambda>_. Some (Inr \<lparr>sr_R = 17, sr_S = 18\<rparr>)) 0
      (Some self0) (Some (ne_handler env2)) sign_data1 (cluster_of (old\<lparr>rn_node := new\<rparr>)) = (cl, ss, answer)" by (metis surj_pair)
  have facts: "ne_handler env2 = badger_handler eth0 alice0 badger0" "sreq_Hash sign_req1 = ''0xaa''" "sreq_Pubkey sign_req1 \<noteq> pubkey_text eth0 alice0 other0"
    "can_dkg env2 ?k (rn_node old)"
    using other0_facts(2) by (simp_all add: env2_def sign_req1_def old_def running2_def can_dkg2 [unfolded env2_def])
  have "answer \<noteq> Gives (Inr sig)" for sig
    using peer_can_take_self_key [OF eth0_laws alice0_laws badger0_laws facts(1,4) over(1,2) other0_facts(1) over(3) unmarshal_sign_data1 facts(2,3)
        sign [unfolded new_def]] by blast
  moreover have "old\<lparr>rn_node := new\<rparr> = running2 new" "rn_node old = node2 fsm0" by (simp_all add: old_def running2_def)
  ultimately show ?thesis using over(1) sign unfolding new_def by metis
qed

end
