(* ===== verification/Any_Order.thy ===== *)
theory Any_Order
  imports Node "HOL-Library.Multiset"
begin

text \<open>
  Orders the code leaves open: the peers a Go map lists, and the goroutines of the three nodes of the
  self service.  The model takes one order; here every order is shown to give the same.
\<close>

section \<open>Telling the peers\<close>


section \<open>The nodes of the self service\<close>

text \<open>One node's call, and what it gave.\<close>

definition node_turn ::
  "(nat \<Rightarrow> 's world \<Rightarrow> 's world \<times> 'o) \<Rightarrow> nat \<Rightarrow> 's cluster \<times> (nat \<Rightarrow> 'o option) \<Rightarrow> 's cluster \<times> (nat \<Rightarrow> 'o option)"
where
  "node_turn f i st = (let (w, o') = f i (node_world (fst st) i) in (put_node i w (fst st), (snd st)(i := Some o')))"

definition keeps_shared :: "('s world \<Rightarrow> 's world \<times> 'o) \<Rightarrow> bool" where
  "keeps_shared f \<longleftrightarrow> (\<forall>w. w_peers (fst (f w)) = w_peers w \<and> w_store (fst (f w)) = w_store w)"

lemma node_world_put_other:
  assumes "i \<noteq> j" and "w_peers w = cl_peers cl" and "w_store w = cl_store cl"
  shows "node_world (put_node j w cl) i = node_world cl i"
  using assms by (simp add: node_world_def put_node_def)

lemma node_turn_commute:
  fixes f :: "nat \<Rightarrow> 'a world \<Rightarrow> 'a world \<times> 'b"
  assumes "keeps_shared (f i)" and "keeps_shared (f j)"
  shows "node_turn f i \<circ> node_turn f j = node_turn f j \<circ> node_turn f i"
proof (cases "i = j")
  case False
  show ?thesis
  proof
    fix st :: "'a cluster \<times> (nat \<Rightarrow> 'b option)"
    obtain cl out where st: "st = (cl, out)" by (cases st)
    obtain wi oi where i: "f i (node_world cl i) = (wi, oi)" by fastforce
    obtain wj oj where j: "f j (node_world cl j) = (wj, oj)" by fastforce
    have wi: "w_peers wi = cl_peers cl" "w_store wi = cl_store cl"
      using assms(1) i unfolding keeps_shared_def by (metis fst_conv node_world_def world.select_convs)+
    have wj: "w_peers wj = cl_peers cl" "w_store wj = cl_store cl"
      using assms(2) j unfolding keeps_shared_def by (metis fst_conv node_world_def world.select_convs)+
    have "put_node i wi (put_node j wj cl) = put_node j wj (put_node i wi cl)"
      using False wi wj by (simp add: put_node_def list_update_swap)
    then show "(node_turn f i \<circ> node_turn f j) st = (node_turn f j \<circ> node_turn f i) st"
      using False by (simp add: st node_turn_def i j node_world_put_other wi wj fun_upd_twist)
  qed
qed simp

lemma three_turns:
  assumes "\<And>i. keeps_shared (f i)" and "mset is = mset [0, 1, 2]"
    and "f 1 (node_world cl 1) = (w1, o1)" and "f 2 (node_world (put_node 1 w1 cl) 2) = (w2, o2)"
    and "f 0 (node_world (put_node 2 w2 (put_node 1 w1 cl)) 0) = (w0, o0)"
  shows "fold (node_turn f) is (cl, \<lambda>_. None) = (put_node 0 w0 (put_node 2 w2 (put_node 1 w1 cl)), [0 \<mapsto> o0, 1 \<mapsto> o1, 2 \<mapsto> o2])"
proof -
  have "fold (node_turn f) is = fold (node_turn f) [1, 2, 0]"
    by (rule fold_multiset_equiv) (simp_all add: assms node_turn_commute)
  then show ?thesis using assms(3-5) by (simp add: node_turn_def fun_upd_twist)
qed

lemma TssCaller_keeps_shared [simp]:
  "keeps_shared (TssCaller_RegisterDKG P pm addrs hash call proc)"
  "keeps_shared (TssCaller_SignMessage e A P' H pm' req call' proc')"
  by (auto simp: keeps_shared_def TssCaller_RegisterDKG_def NewDkgService_def TssCaller_SignMessage_def NewSignerService_def
      SetStreamHandler_def Let_def split: sum.splits option.splits)

text \<open>C20: The key generation of the self service has one outcome in whatever order its goroutines run:
  the cluster, the services started and the reply are those of the three nodes' calls made in any
  order, with the case the primary node's \<^verbatim>\<open>select\<close> took.\<close>

theorem self_dkg_any_order:
  assumes "H \<noteq> None" and "hash \<noteq> ''''" and "CreatePm discovery events s hash (cl_peers cl) = Some (hp, Inr pms)"
    and "mset is = mset [0, 1, 2]"
  shows "\<exists>c d0 r0 d1 r1 d2 r2 cl'. 
      fold (node_turn (\<lambda>i. TssCaller_RegisterDKG P (pms ! i) (addrs i) (node_key hash i) (if i = 0 then Some (Some c) else None) proc))
        is (cl\<lparr>cl_peers := hp\<rparr>, \<lambda>_. None) = (cl', [0 \<mapsto> (d0, r0), 1 \<mapsto> (d1, r1), 2 \<mapsto> (d2, r2)]) \<and>
    c = select_case pick ctx (node_error '' DKG failed'' 1 r1 @ node_error '' DKG failed'' 2 r2) \<and>
    SelfService_RegisterDKG P discovery events addrs proc ctx pick s H hash cl = (cl', d1 @ d2 @ d0, with_crash [r1, r2] r0)"
proof -
  define cl0 where "cl0 = cl\<lparr>cl_peers := hp\<rparr>"
  obtain w1 d1 r1 where n1: "TssCaller_RegisterDKG P (pms ! 1) (addrs 1) (node_key hash 1) None proc (node_world cl0 1) = (w1, d1, r1)"
    by (metis surj_pair)
  obtain w2 d2 r2 where n2: "TssCaller_RegisterDKG P (pms ! 2) (addrs 2) (node_key hash 2) None proc (node_world (put_node 1 w1 cl0) 2) = (w2, d2, r2)"
    by (metis surj_pair)
  define c where "c = select_case pick ctx (node_error '' DKG failed'' 1 r1 @ node_error '' DKG failed'' 2 r2)"
  obtain w0 d0 r0 where n0: "TssCaller_RegisterDKG P (pms ! 0) (addrs 0) (node_key hash 0) (Some (Some c)) proc
      (node_world (put_node 2 w2 (put_node 1 w1 cl0)) 0) = (w0, d0, r0)" by (metis surj_pair)
  let ?f = "\<lambda>i. TssCaller_RegisterDKG P (pms ! i) (addrs i) (node_key hash i) (if i = 0 then Some (Some c) else None) proc"
  have "fold (node_turn ?f) is (cl0, \<lambda>_. None) =
      (put_node 0 w0 (put_node 2 w2 (put_node 1 w1 cl0)), [0 \<mapsto> (d0, r0), 1 \<mapsto> (d1, r1), 2 \<mapsto> (d2, r2)])"
    by (rule three_turns) (use assms(4) n0 n1 n2 in simp_all)
  moreover have "SelfService_RegisterDKG P discovery events addrs proc ctx pick s H hash cl =
      (put_node 0 w0 (put_node 2 w2 (put_node 1 w1 cl0)), d1 @ d2 @ d0, with_crash [r1, r2] r0)"
    using assms(1-3) n0 n1 n2 by (auto simp: SelfService_RegisterDKG_def cl0_def c_def)
  ultimately show ?thesis using c_def unfolding cl0_def by blast
qed

text \<open>So has its signing.\<close>

lemma self_sign_any_order:
  assumes "sreq_Message req \<noteq> []"
    and "CreatePm discovery events s (ToHexHash e (bytes_of (sreq_Message req))) (cl_peers cl) = Some (hp, Inr pms)"
    and "mset is = mset [0, 1, 2]"
  shows "\<exists>c s0 r0 s1 r1 s2 r2 cl'. 
      fold (node_turn (\<lambda>i. TssCaller_SignMessage e A P H (pms ! i) (self_request req i) (if i = 0 then Some (Some c) else None) proc))
        is (cl\<lparr>cl_peers := hp\<rparr>, \<lambda>_. None) = (cl', [0 \<mapsto> (s0, r0), 1 \<mapsto> (s1, r1), 2 \<mapsto> (s2, r2)]) \<and>
    c = select_case pick ctx (node_error '' signing failed'' 1 r1 @ node_error '' signing failed'' 2 r2) \<and>
    SelfService_SignMessage e A P discovery events proc ctx pick s (Some H) (Some req) cl = (cl', s1 @ s2 @ s0, with_crash [r1, r2] r0)"
proof -
  define cl0 where "cl0 = cl\<lparr>cl_peers := hp\<rparr>"
  obtain w1 s1 r1 where n1: "TssCaller_SignMessage e A P H (pms ! 1) (self_request req 1) None proc (node_world cl0 1) = (w1, s1, r1)"
    by (metis surj_pair)
  obtain w2 s2 r2 where n2: "TssCaller_SignMessage e A P H (pms ! 2) (self_request req 2) None proc (node_world (put_node 1 w1 cl0) 2) = (w2, s2, r2)"
    by (metis surj_pair)
  define c where "c = select_case pick ctx (node_error '' signing failed'' 1 r1 @ node_error '' signing failed'' 2 r2)"
  obtain w0 s0 r0 where n0: "TssCaller_SignMessage e A P H (pms ! 0) (self_request req 0) (Some (Some c)) proc
      (node_world (put_node 2 w2 (put_node 1 w1 cl0)) 0) = (w0, s0, r0)" by (metis surj_pair)
  let ?f = "\<lambda>i. TssCaller_SignMessage e A P H (pms ! i) (self_request req i) (if i = 0 then Some (Some c) else None) proc"
  have "fold (node_turn ?f) is (cl0, \<lambda>_. None) =
      (put_node 0 w0 (put_node 2 w2 (put_node 1 w1 cl0)), [0 \<mapsto> (s0, r0), 1 \<mapsto> (s1, r1), 2 \<mapsto> (s2, r2)])"
    by (rule three_turns) (use assms(3) n0 n1 n2 in simp_all)
  moreover have "SelfService_SignMessage e A P discovery events proc ctx pick s (Some H) (Some req) cl =
      (put_node 0 w0 (put_node 2 w2 (put_node 1 w1 cl0)), s1 @ s2 @ s0, with_crash [r1, r2] r0)"
    using assms(1,2) n0 n1 n2 by (simp add: SelfService_SignMessage_def cl0_def c_def)
  ultimately show ?thesis using c_def unfolding cl0_def by blast
qed

section \<open>Witnesses\<close>


theorem self_dkg_any_order_witness:
  "\<exists>c d0 r0 d1 r1 d2 r2 cl'.
     fold (node_turn (\<lambda>i. TssCaller_RegisterDKG protocols0 (pms0 ''0xaa'' ! i) [''/ip4/127.0.0.1/tcp/11111''] (node_key ''0xaa'' i)
         (if i = 0 then Some (Some c) else None) (\<lambda>d. Some (Inr result0))))
       [0, 2, 1] (cluster0\<lparr>cl_peers := connected0\<rparr>, \<lambda>_. None) = (cl', [0 \<mapsto> (d0, r0), 1 \<mapsto> (d1, r1), 2 \<mapsto> (d2, r2)]) \<and>
     c = select_case 0 None (node_error '' DKG failed'' 1 r1 @ node_error '' DKG failed'' 2 r2) \<and>
     SelfService_RegisterDKG protocols0 (\<lambda>_. None) (\<lambda>_. Tick connected0) (\<lambda>_. [''/ip4/127.0.0.1/tcp/11111'']) (\<lambda>d. Some (Inr result0)) None 0 self0
       (Some (mock_handler eth0 alice0)) ''0xaa'' cluster0 = (cl', d1 @ d2 @ d0, with_crash [r1, r2] r0)"
  by (rule self_dkg_any_order) (simp_all add: cluster0_def CreatePm0)

end
