(* ===== verification/Spec2Isabelle.thy ===== *)
theory Spec2Isabelle
  imports Messages Router Grpc One_Process Any_Order
begin

text \<open>
  Verification of \<^verbatim>\<open>alice-tss\<close>, a node for threshold signatures.  Nodes find each other by mDNS,
  run the DKG, signing and resharing protocols of \<^verbatim>\<open>getamis/alice\<close> over libp2p streams, keep key
  shares encrypted in a badger database, and serve clients by JSON-RPC and gRPC.

  \<^bold>\<open>Parts and theories.\<close>  Each theory models one part; definitions carry the names of the Go
  functions, methods with the name of their type in front.

  \<^item> \<open>Prelude\<close>, \<open>GoStd\<close>, \<open>Json\<close>, \<open>Aes\<close>: Go bytes, strings, errors and panics; the parts of the
    standard library the program computes with (hex, \<^verbatim>\<open>math/big\<close>, \<^verbatim>\<open>encoding/json\<close>, AES).  Printing
    and parsing are shown inverse, and the fuel of the JSON parser (twice the length of the text)
    is shown to be enough: more never changes a result (\<open>p_fuel\<close>).
  \<^item> \<open>Lib\<close>: the third-party packages as records of functions (\<open>eth\<close> for go-ethereum, \<open>alice\<close>,
    \<open>badger\<close>) and the documented behaviour relied on as \<open>eth_laws\<close>, \<open>alice_laws\<close>, \<open>badger_laws\<close>.
    \<open>Instance\<close> gives one implementation of each that satisfies the laws.
  \<^item> \<open>Types\<close>: \<^verbatim>\<open>types/\<close> and the messages of \<^verbatim>\<open>pb/tss.pb.go\<close> as records with their JSON forms.
  \<^item> \<open>Encrypto\<close>: \<^verbatim>\<open>utils/encrypto.go\<close>.  Cipher feedback mode is verified for every block cipher
    (locale \<open>block_cipher\<close>), of which AES is an interpretation.
  \<^item> \<open>Utils\<close>: \<^verbatim>\<open>utils/utils.go\<close> and \<^verbatim>\<open>utils/ecdsa.go\<close>.
  \<^item> \<open>Fsm\<close>, \<open>Handler\<close>, \<open>Badger_Handler\<close>, \<open>Mock_Handler\<close>, \<open>Store\<close>: \<^verbatim>\<open>store/\<close>.  \<open>Handler\<close> has the
    interface \<^verbatim>\<open>HandlerData\<close> as a table of methods, an abstract store (a map from hashes to DKG
    results) and the contract as the locales \<open>store_handler\<close> and \<open>refining_store\<close>; the badger store
    interprets both, the mock store and the store \<^verbatim>\<open>NewStoreHandler\<close> chooses the first.
  \<^item> \<open>Retry\<close>, \<open>Peer\<close>: \<^verbatim>\<open>peer/\<close>.  Peer tables live on a heap because clones of a manager share
    them.  Endless retry loops are a partial function; returning is a theorem.
  \<^item> \<open>Service\<close>, \<open>Service_Run\<close>: \<^verbatim>\<open>service/\<close>.  The operations of the three services, and the step
    relation in which \<^verbatim>\<open>Process\<close> and the protocol's calls of \<^verbatim>\<open>OnStateChanged\<close> interleave; the
    locale \<open>listener\<close> is interpreted for all three.
  \<^item> \<open>Tss\<close>: \<^verbatim>\<open>server/tss.go\<close>, \<^verbatim>\<open>server/utils.go\<close>, \<^verbatim>\<open>server/rpc_peer.go\<close>.
  \<^item> \<open>Self_Service\<close>: \<^verbatim>\<open>server/self_service.go\<close>, three nodes in one process.
  \<^item> \<open>Rpc\<close>: the handlers of \<^verbatim>\<open>server/rpc_server.go\<close> and \<^verbatim>\<open>server/grpc_server.go\<close>.
  \<^item> \<open>Flags\<close>, \<open>Startup\<close>: \<^verbatim>\<open>main.go\<close>, with the parsing of its command line, and the start of the servers
    (\<^verbatim>\<open>NewRpcServer\<close>, \<^verbatim>\<open>InitRouter\<close>, \<^verbatim>\<open>StartGRPC\<close>).  The model ends where \<^verbatim>\<open>main\<close> calls \<^verbatim>\<open>log.Crit\<close>.
  \<^item> \<open>Node\<close>: all operations of one node as the steps of one relation, and what every state reachable
    from the one \<^verbatim>\<open>main\<close> leaves satisfies (\<open>node_ok\<close>).
  \<^item> \<open>Network\<close>: several nodes; the calls one node makes are handled by \<^verbatim>\<open>TssPeerService\<close> on the others.
    What signing, key generation and resharing have in common is the locale \<open>peer_request\<close>.
  \<^item> \<open>Messages\<close>: the messages of a running protocol, from \<^verbatim>\<open>MustSend\<close> on one node to \<^verbatim>\<open>Handle\<close> of a service on
    another; the locale \<open>protocol_run\<close> has what the three kinds of service share, \<open>run_request\<close> extends
    \<open>peer_request\<close> by the services a request leaves.
  \<^item> \<open>Keys\<close>: the life of a key on a node: a finished resharing, and a second generation of the same name.
  \<^item> \<open>Router\<close>: \<^verbatim>\<open>types/server.go\<close> and the way of a client's request through the router and its timeout.
  \<^item> \<open>Self_Cluster\<close>: the three nodes of the self service together: they hear each other, and a key they have
    generated signs.
  \<^item> \<open>Grpc\<close>: \<^verbatim>\<open>pb/tss_grpc.pb.go\<close> and \<^verbatim>\<open>pb/service_grpc.pb.go\<close>, the stubs between a gRPC client and the methods of
    \<^verbatim>\<open>server/grpc_server.go\<close>.  The locale \<open>unary_method\<close> has what the stubs of a method promise together and is
    interpreted for all five methods; the gRPC package is a parameter with \<open>grpc_laws\<close>.
  \<^item> \<open>One_Process\<close>: a whole process, the node and the self service on one store (\<open>running\<close>), with the steps of both
    in any order (\<open>process_step\<close>) and what every reachable state satisfies (\<open>process_ok\<close>).
  \<^item> \<open>Any_Order\<close>: the orders the code leaves open (Go maps, goroutines of the self service) do not matter.

  \<^bold>\<open>State.\<close>  A node (\<open>world\<close>) is its peer tables, the stream handlers of its host and its store; the
  self service (\<open>cluster\<close>) has three sets of handlers and one store.  Operations pass the state
  explicitly.  A returned error and a panic are values of \<open>go_error\<close>; a call that does not return
  is \<open>Blocked\<close> or \<open>None\<close>.  What the network, the random source and the scheduler's choice in a
  \<^verbatim>\<open>select\<close> do are arguments, so every theorem holds for all of them.

  \<^bold>\<open>What is shown.\<close>  Shares survive the way through encryption, JSON, badger and back to the signer;
  both stores keep the contract the services rely on, and the badger store refines the abstract one
  over all histories, failed operations included.  Every interleaving of a service ends after at
  most five steps with the effect of one sequential call.  A process serves only after every step of
  its start; from there on it stays well-formed whatever discovery, clients, peers, protocols and the
  self service do, and a saved key is lost only to a service of its own name.  A request to one
  node starts the same service on every node of its table or is never answered, peers decode the request the node works on, in JSON and in protobuf, and a generated key
  signs everywhere once its shares are saved.  The nodes of a started run get all messages they send
  each other, in whatever order those of different nodes arrive, no message gets into another run, and
  a reshared key signs with its new share.
  Clients decode from the text of a reply what the node stores; the client stubs of gRPC reach the method
  they name, and a signature is the same by gRPC and by JSON-RPC; the nodes of the self service use
  distinct keys and one protocol, find their own shares again, and may run in any order.  Where the
  code does something else than it seems to mean, that is stated and proved too:
  \<open>CheckSignature_never_valid\<close>, \<open>dkg_returns_before_saving\<close>, \<open>send_uses_last_of_ten\<close>,
  \<open>Encrypt_same_salt_leaks\<close>, \<open>refused_signing_times_out\<close>, \<open>repeated_dkg_loses_key\<close>,
  \<open>peer_can_take_self_key\<close>, \<open>self_host_node_stays_alone\<close>, \<open>peer_can_cut_off_a_signing\<close>,
  \<open>finished_signing_disconnects_other\<close>, \<open>main_never_closes_store\<close> and others.

  \<^bold>\<open>What is not modelled.\<close>  Logging and sleeping have no effect in the model.  Sockets, configuration
  files, the keystore format and mDNS are parameters of \<open>Startup\<close>; how the JSON-RPC package reads a
  request (\<open>codec\<close>), how protobuf writes and reads one (\<open>proto_laws\<close>) and how the gRPC package carries a
  call (\<open>grpc_laws\<close>) are parameters.  The descriptors protoc generates are tables for reflection, and the
  getters of the messages are called nowhere.  \<open>Router\<close> serves the two methods of the self service
  (\<open>call_self\<close>) apart from the others; \<open>One_Process\<close> has both kinds on one store.  The protocols of
  \<^verbatim>\<open>alice\<close> are parameters: what they compute, and that they end, is not claimed.  In \<open>Messages\<close> a handler
  belongs to the service with its hash that was started last.
  Iteration over a Go map is in ascending key order; where the order could matter, its irrelevance is
  a theorem (\<open>ConvertDKGResult_any_order\<close>, \<open>RpcToPeer_any_order\<close>).  The nesting limit of the JSON decoder
  (10000 levels) and the rounding of non-integer numbers by \<^verbatim>\<open>float64\<close> are not modelled: the program
  writes neither.  The configurations the mock store hands out are values here and pointers in the code; no caller
  writes through them.
\<close>

section \<open>From a DKG result to the signer and back\<close>

text \<open>C1: A DKG result saved in the badger store is what a later signing or resharing gets:
  whatever the store does under other keys meanwhile, the configuration read under the same hash
  and the result's public key converts back to the same public key point, share and Birkhoff
  parameters.\<close>

theorem saved_result_is_what_signer_gets:
  assumes "eth_laws e" and "alice_laws A" and "badger_laws B" and "storable r" and "0 \<le> r_Share r"
    and "NewECPoint A S256 (GetX A (r_PublicKey r)) (GetY A (r_PublicKey r)) = Inr (r_PublicKey r)"
    and "badger_SaveDKGResultData e A B h r d = (d', None)" and "\<forall>p \<in> set ps. op_key p \<noteq> h"
  shows "\<exists>c. badger_GetSignerConfig e B h (pubkey_text e A r)
        (fst (run_both (badger_handler e A B) ps (d', a))) = Inr c \<and>
      ConvertDKGResult A (sc_Pubkey c) (sc_Share c) (sc_BKs c) = Inr r"
proof -
  have "badger_GetSignerConfig e B h (pubkey_text e A r)
      (fst (run_both (badger_handler e A B) ps (d', a))) = Inr (config_of A r)"
    using badger.config_after_save [OF _ assms(4) _ assms(8), of e A B d d' a] assms(1-3,7)
    by (simp add: badger_handler_def)
  then show ?thesis using Convert_config [OF assms(2,5,6)] by blast
qed

theorem saved_result_is_what_signer_gets_witness:
  "\<exists>d' c. badger_SaveDKGResultData eth0 alice0 badger0 ''0xaa'' result0 fsm0 = (d', None) \<and>
     badger_GetSignerConfig eth0 badger0 ''0xaa'' (pubkey_text eth0 alice0 result0)
       (fst (run_both (badger_handler eth0 alice0 badger0) [SaveDKG ''0xbb'' (result0\<lparr>r_Share := 3\<rparr>)] (d', \<lambda>_. None))) = Inr c \<and>
     ConvertDKGResult alice0 (sc_Pubkey c) (sc_Share c) (sc_BKs c) = Inr result0"
proof -
  obtain d' where d': "badger_SaveDKGResultData eth0 alice0 badger0 ''0xaa'' result0 fsm0 = (d', None)"
    using badger0_save [of "''0xaa''"] by blast
  have "NewECPoint alice0 S256 (GetX alice0 (r_PublicKey result0)) (GetY alice0 (r_PublicKey result0)) =
      Inr (r_PublicKey result0)" "0 \<le> r_Share result0"
    by (simp_all add: alice0_def result0_def)
  from saved_result_is_what_signer_gets [OF eth0_laws alice0_laws badger0_laws storable_result0 this(2,1) d',
      of "[SaveDKG ''0xbb'' (result0\<lparr>r_Share := 3\<rparr>)]" "\<lambda>_. None"] d'
  show ?thesis by auto
qed

text \<open>C14: Both kinds of store keep the promise of the interface the services use: after a
  successful save, operations under other keys do not change the configuration a lookup with the
  result's public key returns.\<close>

theorem any_store_returns_what_was_saved:
  assumes "eth_laws e" and "alice_laws A" and "badger_laws B" and "storable r"
    and "SaveDKGResultData (store_db e A B) h r s = (s', None)" and "\<forall>p \<in> set ps. op_key p \<noteq> h"
  shows "GetSignerConfig (store_db e A B) h (pubkey_text e A r)
      (fst (run_both (store_db e A B) ps (s', a))) = Inr (config_of A r)"
  using store.config_after_save [OF _ assms(4-6)] assms(1-3) by blast

theorem any_store_returns_what_was_saved_witness:
  "\<exists>s s'. NewStoreHandler badger0 \<lparr>store_Type = ''mock'', store_Path = ''''\<rparr> None = Inr s \<and>
     SaveDKGResultData (store_db eth0 alice0 badger0) ''0xaa'' result0 s = (s', None) \<and>
     GetSignerConfig (store_db eth0 alice0 badger0) ''0xaa'' (pubkey_text eth0 alice0 result0)
       (fst (run_both (store_db eth0 alice0 badger0) [] (s', \<lambda>_. None))) = Inr (config_of alice0 result0)"
proof -
  have new: "NewStoreHandler badger0 \<lparr>store_Type = ''mock'', store_Path = ''''\<rparr> None = Inr (MockStore NewMockDB)"
    by (simp add: NewStoreHandler_def StoreTypeMock_def)
  obtain m where "mock_SaveDKGResultData eth0 alice0 ''0xaa'' result0 NewMockDB = (m, None)"
    by (simp add: mock_SaveDKGResultData_def Let_def NewMockDB_def)
  then have save: "SaveDKGResultData (store_db eth0 alice0 badger0) ''0xaa'' result0 (MockStore NewMockDB) = (MockStore m, None)"
    by (simp add: store_db_def Let_def dispatch_step_def mock_handler_def)
  from any_store_returns_what_was_saved [OF eth0_laws alice0_laws badger0_laws storable_result0 save,
      of "[]" "\<lambda>_. None"] new save
  show ?thesis by auto
qed

end
